(* ===== verification/Prelude.thy ===== *)
theory Prelude
  imports Main "HOL-Library.Word"
begin

text \<open>
  Shared vocabulary of the development.

  \<^item> machine integers: \<open>u32\<close>, \<open>u64\<close> are words (release builds of the workspace leave
    overflow checks off, so \<open>+\<close> wraps); \<open>i64\<close> values are \<open>int\<close> with \<open>wrap_i64\<close>
    written where an operation can leave the range;
  \<^item> \<open>std::collections::HashMap\<close> is an association list with distinct keys (\<open>hm_ok\<close>).
    Rust leaves the iteration order of a hash map open.  Here it is the order of the list, and
    every theorem is stated for all lists, that is for every iteration order;
  \<^item> the contract of a hash map is the locale \<open>finite_map\<close>; the association lists interpret it,
    and the pairing of two maps that are kept inverse to each other (\<open>session_map\<close> and
    \<open>reverse_map\<close> of an agent slot) is proved once in the locale \<open>inverse_maps\<close>.
\<close>

named_theorems hm_simps \<open>rewriting lookups in hash maps\<close>
named_theorems hm_intros \<open>well-formedness of hash maps\<close>

type_synonym u32 = "32 word"
type_synonym u64 = "64 word"

definition i64_min :: int where
  "i64_min = - (2 ^ 63)"

definition i64_max :: int where
  "i64_max = 2 ^ 63 - 1"

definition wrap_i64 :: "int \<Rightarrow> int" where
  "wrap_i64 x = (x + 2 ^ 63) mod 2 ^ 64 - 2 ^ 63"

lemma wrap_i64_range: "i64_min \<le> wrap_i64 x \<and> wrap_i64 x \<le> i64_max"
proof -
  have "0 \<le> (x + 2 ^ 63) mod 2 ^ 64" and "(x + 2 ^ 63) mod 2 ^ 64 < (2 :: int) ^ 64"
    by simp_all
  then show ?thesis by (simp add: wrap_i64_def i64_min_def i64_max_def)
qed

lemma wrap_i64_id: "i64_min \<le> x \<Longrightarrow> x \<le> i64_max \<Longrightarrow> wrap_i64 x = x"
  by (simp add: wrap_i64_def i64_min_def i64_max_def)

text \<open>\<open>Option::unwrap_or\<close> and \<open>Option::or\<close>.\<close>

definition unwrap_or :: "'a option \<Rightarrow> 'a \<Rightarrow> 'a" where
  "unwrap_or x d = (case x of None \<Rightarrow> d | Some a \<Rightarrow> a)"

definition opt_or :: "'a option \<Rightarrow> 'a option \<Rightarrow> 'a option" where
  "opt_or x y = (case x of None \<Rightarrow> y | Some a \<Rightarrow> Some a)"

lemma unwrap_or_simps [simp]: "unwrap_or None d = d" "unwrap_or (Some a) d = a"
  by (simp_all add: unwrap_or_def)

lemma opt_or_simps [simp]: "opt_or None y = y" "opt_or (Some a) y = Some a"
  by (simp_all add: opt_or_def)


text \<open>The operator \<open>?\<close> on a \<open>Result\<close> in code without state.\<close>

definition sum_bind :: "('e + 'a) \<Rightarrow> ('a \<Rightarrow> 'e + 'b) \<Rightarrow> 'e + 'b" where
  "sum_bind r k = (case r of Inl e \<Rightarrow> Inl e | Inr a \<Rightarrow> k a)"

lemma sum_bind_Inr_iff: "sum_bind r k = Inr b \<longleftrightarrow> (\<exists>a. r = Inr a \<and> k a = Inr b)"
  by (cases r) (simp_all add: sum_bind_def)

lemma sum_bind_simps [simp]: "sum_bind (Inl e) k = Inl e" "sum_bind (Inr a) k = k a"
  by (simp_all add: sum_bind_def)


section \<open>Hash maps\<close>

type_synonym ('k, 'v) hmap = "('k \<times> 'v) list"

definition hm_ok :: "('k, 'v) hmap \<Rightarrow> bool" where
  "hm_ok m \<longleftrightarrow> distinct (map fst m)"

definition hm_get :: "('k, 'v) hmap \<Rightarrow> 'k \<Rightarrow> 'v option" where
  "hm_get m k = map_of m k"

primrec hm_insert :: "'k \<Rightarrow> 'v \<Rightarrow> ('k, 'v) hmap \<Rightarrow> ('k, 'v) hmap" where
  "hm_insert k v [] = [(k, v)]"
| "hm_insert k v (p # m) = (if fst p = k then (k, v) # m else p # hm_insert k v m)"

definition hm_remove :: "'k \<Rightarrow> ('k, 'v) hmap \<Rightarrow> ('k, 'v) hmap" where
  "hm_remove k m = filter (\<lambda>p. fst p \<noteq> k) m"

definition hm_has :: "('k, 'v) hmap \<Rightarrow> 'k \<Rightarrow> bool" where
  "hm_has m k \<longleftrightarrow> hm_get m k \<noteq> None"

text \<open>\<open>entry(k).or_insert(v)\<close>: an existing entry wins.\<close>

definition hm_or_insert :: "'k \<Rightarrow> 'v \<Rightarrow> ('k, 'v) hmap \<Rightarrow> ('k, 'v) hmap" where
  "hm_or_insert k v m = (if hm_has m k then m else hm_insert k v m)"

text \<open>\<open>extend\<close> with the pairs of an iterator, in its order: a later pair wins.\<close>

definition hm_extend :: "('k, 'v) hmap \<Rightarrow> ('k \<times> 'v) list \<Rightarrow> ('k, 'v) hmap" where
  "hm_extend m ps = fold (\<lambda>p acc. hm_insert (fst p) (snd p) acc) ps m"

text \<open>\<open>for (k, v) in defaults { m.entry(k).or_insert(v) }\<close>.\<close>

definition hm_defaults :: "('k, 'v) hmap \<Rightarrow> ('k \<times> 'v) list \<Rightarrow> ('k, 'v) hmap" where
  "hm_defaults m ps = fold (\<lambda>p acc. hm_or_insert (fst p) (snd p) acc) ps m"

lemma hm_get_Nil [simp, hm_simps]: "hm_get [] k = None"
  by (simp add: hm_get_def)

lemma hm_get_insert [simp, hm_simps]:
  "hm_get (hm_insert k v m) k' = (if k' = k then Some v else hm_get m k')"
  by (induction m) (auto simp: hm_get_def)

lemma hm_get_remove [simp, hm_simps]:
  "hm_get (hm_remove k m) k' = (if k' = k then None else hm_get m k')"
  by (induction m) (auto simp: hm_get_def hm_remove_def)

lemma hm_keys_insert: "fst ` set (hm_insert k v m) = insert k (fst ` set m)"
  by (induction m) auto

lemma hm_ok_Nil [simp, hm_intros]: "hm_ok []"
  by (simp add: hm_ok_def)

lemma hm_ok_single [simp, hm_intros]: "hm_ok [p]"
  by (simp add: hm_ok_def)

lemma hm_ok_insert [simp, hm_intros]: "hm_ok m \<Longrightarrow> hm_ok (hm_insert k v m)"
proof (induction m)
  case Nil
  then show ?case by (simp add: hm_ok_def)
next
  case (Cons p m)
  have "fst p \<noteq> k \<Longrightarrow> fst p \<notin> fst ` set m \<Longrightarrow> fst p \<notin> fst ` set (hm_insert k v m)"
    by (simp add: hm_keys_insert)
  with Cons show ?case by (auto simp: hm_ok_def)
qed

lemma hm_ok_filter [simp, hm_intros]: "hm_ok m \<Longrightarrow> hm_ok (filter P m)"
  by (simp add: hm_ok_def distinct_map_filter)

lemma hm_ok_remove [simp, hm_intros]: "hm_ok m \<Longrightarrow> hm_ok (hm_remove k m)"
  by (simp add: hm_remove_def)

lemma hm_ok_or_insert [simp, hm_intros]: "hm_ok m \<Longrightarrow> hm_ok (hm_or_insert k v m)"
  by (simp add: hm_or_insert_def)

lemma hm_ok_extend [simp, hm_intros]: "hm_ok m \<Longrightarrow> hm_ok (hm_extend m ps)"
  unfolding hm_extend_def by (induction ps arbitrary: m) auto

lemma hm_has_iff [hm_simps]: "hm_has m k \<longleftrightarrow> (\<exists>v. hm_get m k = Some v)"
  by (auto simp: hm_has_def)

lemma hm_has_keys: "hm_has m k \<longleftrightarrow> k \<in> fst ` set m"
  by (force simp: hm_has_def hm_get_def map_of_eq_None_iff)

lemma hm_get_set: "hm_get m k = Some v \<Longrightarrow> (k, v) \<in> set m"
  by (simp add: hm_get_def map_of_SomeD)

lemma hm_get_iff: "hm_ok m \<Longrightarrow> hm_get m k = Some v \<longleftrightarrow> (k, v) \<in> set m"
  by (simp add: hm_get_def hm_ok_def)

lemma hm_get_filter:
  "hm_ok m \<Longrightarrow> hm_get (filter P m) k =
    (case hm_get m k of None \<Rightarrow> None | Some v \<Rightarrow> if P (k, v) then Some v else None)"
proof (induction m)
  case Nil
  then show ?case by simp
next
  case (Cons p m)
  then have ok: "hm_ok m" and fresh: "fst p \<notin> fst ` set m"
    by (auto simp: hm_ok_def)
  from fresh have "k = fst p \<Longrightarrow> hm_get m k = None"
    by (auto simp: hm_get_def map_of_eq_None_iff)
  with Cons.IH [OF ok] show ?case by (cases p) (auto simp: hm_get_def split: option.splits)
qed

lemma hm_get_or_insert [simp, hm_simps]:
  "hm_get (hm_or_insert k v m) k' =
    (if k' = k \<and> \<not> hm_has m k then Some v else hm_get m k')"
  by (auto simp: hm_or_insert_def)

lemma hm_get_defaults:
  "hm_get (hm_defaults m ps) k = (case hm_get m k of Some v \<Rightarrow> Some v | None \<Rightarrow> map_of ps k)"
proof (induction ps arbitrary: m)
  case Nil
  then show ?case by (simp add: hm_defaults_def split: option.split)
next
  case (Cons p ps)
  have "hm_defaults m (p # ps) = hm_defaults (hm_or_insert (fst p) (snd p) m) ps"
    by (simp add: hm_defaults_def)
  then show ?case
    by (cases p) (auto simp: Cons.IH hm_has_def split: option.splits)
qed

lemma hm_get_extend:
  "hm_get (hm_extend m ps) k =
    (case map_of (rev ps) k of Some v \<Rightarrow> Some v | None \<Rightarrow> hm_get m k)"
proof (induction ps arbitrary: m)
  case Nil
  then show ?case by (simp add: hm_extend_def)
next
  case (Cons p ps)
  have "hm_extend m (p # ps) = hm_extend (hm_insert (fst p) (snd p) m) ps"
    by (simp add: hm_extend_def)
  then show ?case
    by (cases p) (auto simp: Cons.IH map_add_def split: option.splits)
qed

lemma map_of_rev_ok: "hm_ok ps \<Longrightarrow> map_of (rev ps) k = hm_get ps k"
proof -
  assume ok: "hm_ok ps"
  have "map_of (rev ps) k = Some v \<longleftrightarrow> map_of ps k = Some v" for v
    using ok by (simp add: hm_ok_def rev_map [symmetric])
  then show ?thesis by (cases "map_of ps k") (auto simp: hm_get_def)
qed


lemma hm_insert_append: "k \<notin> fst ` set m \<Longrightarrow> hm_insert k v m = m @ [(k, v)]"
  by (induction m) auto

lemma hm_has_extend [simp, hm_simps]: "hm_has (hm_extend m ps) k \<longleftrightarrow> hm_has m k \<or> k \<in> fst ` set ps"
proof (induction ps arbitrary: m)
  case (Cons p ps)
  have "hm_extend m (p # ps) = hm_extend (hm_insert (fst p) (snd p) m) ps" by (simp add: hm_extend_def)
  with Cons show ?case by (auto simp: hm_has_def)
qed (simp add: hm_extend_def)

lemma hm_extend_Nil: "hm_ok ps \<Longrightarrow> hm_extend [] ps = ps"
proof (induction ps rule: rev_induct)
  case (snoc p ps)
  then show ?case by (auto simp: hm_extend_def hm_ok_def hm_insert_append)
qed (simp add: hm_extend_def)


section \<open>The contract of a hash map\<close>

locale finite_map =
  fixes empty :: "'m"
    and get :: "'m \<Rightarrow> 'k \<Rightarrow> 'v option"
    and ins :: "'k \<Rightarrow> 'v \<Rightarrow> 'm \<Rightarrow> 'm"
    and rem :: "'k \<Rightarrow> 'm \<Rightarrow> 'm"
    and ok :: "'m \<Rightarrow> bool"
  assumes get_empty: "get empty k = None"
    and get_ins: "ok m \<Longrightarrow> get (ins k v m) k' = (if k' = k then Some v else get m k')"
    and get_rem: "ok m \<Longrightarrow> get (rem k m) k' = (if k' = k then None else get m k')"
    and ok_empty: "ok empty"
    and ok_ins: "ok m \<Longrightarrow> ok (ins k v m)"
    and ok_rem: "ok m \<Longrightarrow> ok (rem k m)"

text \<open>
  Two maps kept inverse to each other, as \<open>AgentSlot\<close> keeps \<open>session_map\<close> (key to ACP
  id) and \<open>reverse_map\<close> (ACP id to key).  \<open>routed\<close> is the direction that routing needs:
  every id a key is mapped to leads back to that key.
\<close>

locale inverse_maps =
  fwd: finite_map fe fget fins frem fok +
  bwd: finite_map be bget bins brem bok
  for fe :: "'f" and fget :: "'f \<Rightarrow> 'k \<Rightarrow> 'i option" and fins frem fok
    and be :: "'b" and bget :: "'b \<Rightarrow> 'i \<Rightarrow> 'k option" and bins brem bok
begin

definition routed :: "'f \<Rightarrow> 'b \<Rightarrow> bool" where
  "routed f b \<longleftrightarrow> (\<forall>k i. fget f k = Some i \<longrightarrow> bget b i = Some k)"

lemma routed_empty: "routed fe be"
  by (simp add: routed_def fwd.get_empty)

lemma routed_inj:
  assumes "routed f b" "fget f k = Some i" "fget f k' = Some i"
  shows "k = k'"
proof -
  from assms have "bget b i = Some k" and "bget b i = Some k'"
    unfolding routed_def by blast+
  then show ?thesis by simp
qed

lemma routed_bind:
  assumes "routed f b" "fok f" "bok b" and fresh: "\<And>k'. fget f k' = Some i \<Longrightarrow> k' = k"
  shows "routed (fins k i f) (bins i k b)"
  using assms by (auto simp: routed_def fwd.get_ins bwd.get_ins)

lemma routed_unbind:
  assumes "routed f b" "fok f" "bok b" "fget f k = Some i"
  shows "routed (frem k f) (brem i b)"
  unfolding routed_def
proof (intro allI impI)
  fix k' i'
  assume "fget (frem k f) k' = Some i'"
  with assms(2) have k': "k' \<noteq> k" "fget f k' = Some i'"
    by (simp_all add: fwd.get_rem split: if_splits)
  with routed_inj [OF assms(1,4)] have "i' \<noteq> i" by blast
  with k' assms(1,3) show "bget (brem i b) i' = Some k'"
    by (simp add: bwd.get_rem routed_def)
qed

lemma routed_forget:
  assumes "routed f b" "fok f"
    and "\<And>i k'. bget b i = Some k' \<Longrightarrow> k' \<noteq> k \<Longrightarrow> bget b' i = Some k'"
  shows "routed (frem k f) b'"
  using assms by (auto simp: routed_def fwd.get_rem)

end

interpretation hm: finite_map "[]" hm_get hm_insert hm_remove hm_ok
  by unfold_locales simp_all

interpretation hm2: inverse_maps
  "[]" hm_get hm_insert hm_remove hm_ok "[]" hm_get hm_insert hm_remove hm_ok
  by unfold_locales

lemma hm2_routed_iff [hm_simps]:
  "hm2.routed f b \<longleftrightarrow> (\<forall>k i. hm_get f k = Some i \<longrightarrow> hm_get b i = Some k)"
  by (rule hm2.routed_def)


section \<open>Views of a history\<close>

text \<open>
  A state that many clients share, and what one client sees of it: when every step changes the
  view of a client in a way that depends on that view alone, the view after a history is the
  history replayed on the view.  \<open>ok\<close> holds the side conditions on the steps.
\<close>

locale local_view =
  fixes inv :: "'s \<Rightarrow> bool"
    and step :: "'op \<Rightarrow> 's \<Rightarrow> 's"
    and ok :: "'op \<Rightarrow> bool"
    and view :: "'k \<Rightarrow> 's \<Rightarrow> 'v"
    and vstep :: "'k \<Rightarrow> 'op \<Rightarrow> 'v \<Rightarrow> 'v"
  assumes inv_step: "inv s \<Longrightarrow> inv (step op s)"
    and view_step: "inv s \<Longrightarrow> ok op \<Longrightarrow> view k (step op s) = vstep k op (view k s)"
begin

lemma inv_run: "inv s \<Longrightarrow> inv (fold step ops s)"
  by (induction ops arbitrary: s) (simp_all add: inv_step)

lemma view_run:
  "inv s \<Longrightarrow> list_all ok ops \<Longrightarrow> view k (fold step ops s) = fold (vstep k) ops (view k s)"
  by (induction ops arbitrary: s) (simp_all add: inv_step view_step)

end

end
