(* ===== verification/Rust_Str.thy ===== *)
theory Rust_Str
  imports Prelude
begin

text \<open>
  The string and integer functions of Rust's standard library that the sources call.  A
  \<open>String\<close> is the list of its UTF-8 bytes; every separator searched for is ASCII, so searching
  bytes and searching characters agree.
\<close>

section \<open>Searching and splitting\<close>

text \<open>\<open>str::split_once\<close> with a one-character separator.\<close>

fun split_once :: "char \<Rightarrow> string \<Rightarrow> (string \<times> string) option" where
  "split_once c [] = None"
| "split_once c (x # xs) =
     (if x = c then Some ([], xs)
      else map_option (\<lambda>(a, b). (x # a, b)) (split_once c xs))"

text \<open>The first piece of \<open>str::split\<close>.\<close>

definition split_first :: "char \<Rightarrow> string \<Rightarrow> string" where
  "split_first c s = takeWhile (\<lambda>x. x \<noteq> c) s"

text \<open>\<open>str::splitn(n, c)\<close>: at most \<open>n\<close> pieces, the last one unsplit.\<close>

fun splitn :: "nat \<Rightarrow> char \<Rightarrow> string \<Rightarrow> string list" where
  "splitn 0 c s = []"
| "splitn (Suc 0) c s = [s]"
| "splitn (Suc (Suc n)) c s =
     (case split_once c s of None \<Rightarrow> [s] | Some (a, b) \<Rightarrow> a # splitn (Suc n) c b)"

definition strip_prefix :: "string \<Rightarrow> string \<Rightarrow> string option" where
  "strip_prefix p s = (if take (length p) s = p then Some (drop (length p) s) else None)"

definition strip_suffix :: "string \<Rightarrow> string \<Rightarrow> string option" where
  "strip_suffix p s = map_option rev (strip_prefix (rev p) (rev s))"

definition starts_with :: "string \<Rightarrow> string \<Rightarrow> bool" where
  "starts_with p s \<longleftrightarrow> take (length p) s = p"

definition ends_with :: "string \<Rightarrow> string \<Rightarrow> bool" where
  "ends_with p s \<longleftrightarrow> starts_with (rev p) (rev s)"

text \<open>\<open>str::split\<close> with a one-character separator.\<close>

fun str_split :: "char \<Rightarrow> string \<Rightarrow> string list" where
  "str_split c [] = [[]]"
| "str_split c (x # xs) =
     (if x = c then [] # str_split c xs
      else (case str_split c xs of [] \<Rightarrow> [[x]] | p # ps \<Rightarrow> (x # p) # ps))"

text \<open>\<open>str::trim\<close>: the UTF-8 forms of the characters with the property \<open>White_Space\<close>.\<close>

definition whitespace :: "string list" where
  "whitespace =
     map (\<lambda>n. [char_of (n :: nat)]) [9, 10, 11, 12, 13, 32]
       @ [[CHR 0xC2, CHR 0x85], [CHR 0xC2, CHR 0xA0], [CHR 0xE1, CHR 0x9A, CHR 0x80]]
       @ map (\<lambda>n. [CHR 0xE2, CHR 0x80, char_of (n :: nat)])
           [128, 129, 130, 131, 132, 133, 134, 135, 136, 137, 138, 168, 169, 175]
       @ [[CHR 0xE2, CHR 0x81, CHR 0x9F], [CHR 0xE3, CHR 0x80, CHR 0x80]]"

fun trim_prefixes :: "nat \<Rightarrow> string list \<Rightarrow> string \<Rightarrow> string" where
  "trim_prefixes 0 ws s = s"
| "trim_prefixes (Suc n) ws s =
     (case List.find (\<lambda>w. starts_with w s) ws of
        None \<Rightarrow> s
      | Some w \<Rightarrow> trim_prefixes n ws (drop (length w) s))"

definition trim_start :: "string \<Rightarrow> string" where
  "trim_start s = trim_prefixes (length s) whitespace s"

definition trim_end :: "string \<Rightarrow> string" where
  "trim_end s = rev (trim_prefixes (length s) (map rev whitespace) (rev s))"

definition str_trim :: "string \<Rightarrow> string" where
  "str_trim s = trim_end (trim_start s)"

fun str_contains :: "string \<Rightarrow> string \<Rightarrow> bool" where
  "str_contains p [] \<longleftrightarrow> p = []"
| "str_contains p (x # xs) \<longleftrightarrow> take (length p) (x # xs) = p \<or> str_contains p xs"

fun str_join :: "string \<Rightarrow> string list \<Rightarrow> string" where
  "str_join sep [] = []"
| "str_join sep [x] = x"
| "str_join sep (x # y # xs) = x @ sep @ str_join sep (y # xs)"

lemma split_once_None: "split_once c s = None \<longleftrightarrow> c \<notin> set s"
  by (induction s) auto

lemma split_once_Some:
  "split_once c s = Some (a, b) \<longleftrightarrow> s = a @ c # b \<and> c \<notin> set a"
proof (induction s arbitrary: a)
  case Nil
  then show ?case by simp
next
  case (Cons x xs)
  then show ?case by (cases a) auto
qed

lemma split_once_append [simp]:
  "c \<notin> set a \<Longrightarrow> split_once c (a @ c # b) = Some (a, b)"
  by (simp add: split_once_Some)

lemma split_first_append [simp]: "c \<notin> set a \<Longrightarrow> split_first c (a @ c # b) = a"
  by (simp add: split_first_def takeWhile_append)

lemma strip_prefix_Some: "strip_prefix p s = Some t \<longleftrightarrow> s = p @ t"
  by (auto simp: strip_prefix_def) (metis append_take_drop_id)

lemma count_list_split_once:
  "split_once c s = Some (a, b) \<Longrightarrow> count_list s c = Suc (count_list b c)"
  by (auto simp: split_once_Some count_list_append count_notin)


section \<open>Case\<close>

definition ascii_lower_char :: "char \<Rightarrow> char" where
  "ascii_lower_char c =
     (let n = of_char c :: nat in if 65 \<le> n \<and> n \<le> 90 then char_of (n + 32) else c)"

definition to_ascii_lowercase :: "string \<Rightarrow> string" where
  "to_ascii_lowercase s = map ascii_lower_char s"

definition eq_ignore_ascii_case :: "string \<Rightarrow> string \<Rightarrow> bool" where
  "eq_ignore_ascii_case a b \<longleftrightarrow> to_ascii_lowercase a = to_ascii_lowercase b"


section \<open>Decimal integers\<close>

fun digits_of :: "nat \<Rightarrow> string" where
  "digits_of n =
     (if n < 10 then [char_of (48 + n)] else digits_of (n div 10) @ [char_of (48 + n mod 10)])"

declare digits_of.simps [simp del]

definition show_int :: "int \<Rightarrow> string" where
  "show_int i = (if i < 0 then CHR ''-'' # digits_of (nat (- i)) else digits_of (nat i))"

definition digit_val :: "char \<Rightarrow> nat option" where
  "digit_val c =
     (let n = of_char c :: nat in if 48 \<le> n \<and> n \<le> 57 then Some (n - 48) else None)"

fun parse_digits :: "nat \<Rightarrow> string \<Rightarrow> nat option" where
  "parse_digits acc [] = Some acc"
| "parse_digits acc (c # cs) =
     (case digit_val c of None \<Rightarrow> None | Some d \<Rightarrow> parse_digits (10 * acc + d) cs)"

text \<open>\<open>str::parse::<i64>\<close>: an optional sign, at least one digit, in range.\<close>

definition parse_i64 :: "string \<Rightarrow> int option" where
  "parse_i64 s =
     (case s of
        [] \<Rightarrow> None
      | c # cs \<Rightarrow>
          (let (sgn, ds) = (if c = CHR ''-'' then (- 1, cs) else if c = CHR ''+'' then (1, cs)
                            else (1, s))
           in if ds = [] then None
              else (case parse_digits 0 ds of
                      None \<Rightarrow> None
                    | Some n \<Rightarrow> (let i = sgn * int n in
                        if i64_min \<le> i \<and> i \<le> i64_max then Some i else None))))"

lemma digit_val_char [simp]: "n < 10 \<Longrightarrow> digit_val (char_of (48 + n)) = Some n"
  by (simp add: digit_val_def Let_def)

lemma parse_digits_append:
  "parse_digits acc (xs @ ys) =
    (case parse_digits acc xs of None \<Rightarrow> None | Some n \<Rightarrow> parse_digits n ys)"
  by (induction xs arbitrary: acc) (auto split: option.split)

lemma parse_digits_show [simp]: "parse_digits 0 (digits_of n) = Some n"
proof (induction n rule: digits_of.induct)
  case (1 n)
  then show ?case
    by (subst digits_of.simps) (auto simp: parse_digits_append)
qed

lemma digits_of_nonempty [simp]: "digits_of n \<noteq> []"
  by (subst digits_of.simps) simp

lemma digits_of_digit: "c \<in> set (digits_of n) \<Longrightarrow> digit_val c \<noteq> None"
proof (induction n rule: digits_of.induct)
  case (1 n)
  then show ?case
    by (subst (asm) digits_of.simps) (auto split: if_splits)
qed

lemma hd_digits_of: "digits_of n = c # cs \<Longrightarrow> c \<noteq> CHR ''-'' \<and> c \<noteq> CHR ''+''"
  using digits_of_digit [of c n] by (auto simp: digit_val_def)

text \<open>Printing an \<open>i64\<close> and parsing it back gives the same number.\<close>

lemma parse_i64_show:
  assumes "i64_min \<le> i" "i \<le> i64_max"
  shows "parse_i64 (show_int i) = Some i"
proof (cases "i < 0")
  case True
  with assms show ?thesis by (simp add: parse_i64_def show_int_def Let_def)
next
  case False
  obtain c cs where d: "digits_of (nat i) = c # cs"
    by (metis digits_of_nonempty neq_Nil_conv)
  have "parse_digits 0 (c # cs) = Some (nat i)"
    using parse_digits_show [of "nat i"] d by simp
  with d hd_digits_of [OF d] False assms show ?thesis
    by (simp add: parse_i64_def show_int_def Let_def)
qed


section \<open>Trimming\<close>

text \<open>Printable ASCII characters are no white space, and a string between two of them is trimmed already.\<close>

definition graphic :: "char \<Rightarrow> bool" where
  "graphic c \<longleftrightarrow> 33 \<le> (of_char c :: nat) \<and> (of_char c :: nat) \<le> 126"

lemma whitespace_not_graphic: "w \<in> set whitespace \<Longrightarrow> w \<noteq> [] \<and> \<not> graphic (hd w) \<and> \<not> graphic (last w)"
  by (auto simp: whitespace_def graphic_def)

lemma trim_prefixes_id:
  assumes "\<And>w. w \<in> set ws \<Longrightarrow> w \<noteq> [] \<and> \<not> graphic (hd w)" "s \<noteq> []" "graphic (hd s)"
  shows "trim_prefixes n ws s = s"
proof (cases n)
  case (Suc m)
  have "\<not> starts_with w s" if "w \<in> set ws" for w
    using assms(1) [OF that] assms(2,3) by (cases w; cases s) (auto simp: starts_with_def)
  then have "List.find (\<lambda>w. starts_with w s) ws = None" by (simp add: find_None_iff)
  then show ?thesis using Suc by simp
qed simp

lemma trim_graphic:
  assumes "s \<noteq> []" "graphic (hd s)" "graphic (last s)"
  shows "str_trim s = s"
proof -
  have "trim_prefixes n whitespace s = s" for n
    by (rule trim_prefixes_id) (use assms whitespace_not_graphic in auto)
  moreover have "trim_prefixes n (map rev whitespace) (rev s) = rev s" for n
    by (rule trim_prefixes_id) (use assms whitespace_not_graphic in \<open>auto simp: hd_rev\<close>)
  ultimately show ?thesis by (simp add: str_trim_def trim_start_def trim_end_def)
qed

lemma graphic_digit: "digit_val c \<noteq> None \<Longrightarrow> graphic c"
  by (auto simp: digit_val_def graphic_def Let_def split: if_splits)

lemma graphic_digits: "graphic (hd (digits_of n))" "graphic (last (digits_of n))"
  using digits_of_digit [of "hd (digits_of n)" n] digits_of_digit [of "last (digits_of n)" n]
  by (simp_all add: graphic_digit)

lemma trim_digits [simp]: "str_trim (digits_of n) = digits_of n"
  by (simp add: trim_graphic graphic_digits)

lemma trim_show_int [simp]: "str_trim (show_int i) = show_int i"
  by (rule trim_graphic) (simp_all add: show_int_def graphic_digits graphic_def [of "CHR ''-''"])

end
