(* ===== verification/Json.thy ===== *)
theory Json
  imports Rust_Str
begin

text \<open>
  \<open>serde_json::Value\<close> as the sources use it, and the JSON-RPC 2.0 messages of
  \<open>crates/anyclaw-jsonrpc/src/types.rs\<close>.

  An object is a hash map from field names to values: no component depends on the order of the
  fields.  A number that is no integer is kept as its text (\<open>JFloat\<close>).  Turning bytes into
  values, and values into typed structures, is the work of serde; wherever a component does so,
  the function is a parameter of that component's definitions.
\<close>

datatype json =
    JNull
  | JBool bool
  | JInt int
  | JFloat string
  | JStr string
  | JArr "json list"
  | JObj "(string \<times> json) list"

section \<open>Accessors of \<open>Value\<close>\<close>

fun jget :: "json \<Rightarrow> string \<Rightarrow> json option" where
  "jget (JObj m) f = hm_get m f"
| "jget _ f = None"

text \<open>\<open>v["field"]\<close>: \<open>Null\<close> where there is no such field.\<close>

definition jidx :: "json \<Rightarrow> string \<Rightarrow> json" where
  "jidx v f = (case jget v f of Some x \<Rightarrow> x | None \<Rightarrow> JNull)"

fun as_str :: "json \<Rightarrow> string option" where
  "as_str (JStr s) = Some s"
| "as_str _ = None"

fun as_bool :: "json \<Rightarrow> bool option" where
  "as_bool (JBool b) = Some b"
| "as_bool _ = None"

fun as_i64 :: "json \<Rightarrow> int option" where
  "as_i64 (JInt i) = (if i64_min \<le> i \<and> i \<le> i64_max then Some i else None)"
| "as_i64 _ = None"

fun as_u64 :: "json \<Rightarrow> nat option" where
  "as_u64 (JInt i) = (if 0 \<le> i \<and> i < 2 ^ 64 then Some (nat i) else None)"
| "as_u64 _ = None"

fun as_array :: "json \<Rightarrow> json list option" where
  "as_array (JArr xs) = Some xs"
| "as_array _ = None"

fun as_object :: "json \<Rightarrow> (string \<times> json) list option" where
  "as_object (JObj m) = Some m"
| "as_object _ = None"

text \<open>Writing a field of an object through \<open>as_object_mut\<close>; other values stay as they are.\<close>

fun jset :: "string \<Rightarrow> json \<Rightarrow> json \<Rightarrow> json" where
  "jset f x (JObj m) = JObj (hm_insert f x m)"
| "jset f x v = v"

lemma jget_jset: "jget (jset f x (JObj m)) g = (if g = f then Some x else jget (JObj m) g)"
  by simp


section \<open>JSON-RPC messages\<close>

datatype request_id =
    Id_Number int
  | Id_String string

record json_rpc_request =
  req_jsonrpc :: string
  req_id :: "request_id option"
  req_method :: string
  req_params :: "json option"

record json_rpc_error =
  err_code :: int
  err_message :: string
  err_data :: "json option"

record json_rpc_response =
  resp_jsonrpc :: string
  resp_id :: "request_id option"
  resp_result :: "json option"
  resp_error :: "json_rpc_error option"

datatype json_rpc_message =
    Msg_Request json_rpc_request
  | Msg_Response json_rpc_response

definition request_new ::
  "string \<Rightarrow> request_id option \<Rightarrow> json option \<Rightarrow> json_rpc_request" where
  "request_new m i p = \<lparr>req_jsonrpc = ''2.0'', req_id = i, req_method = m, req_params = p\<rparr>"

definition is_notification :: "json_rpc_request \<Rightarrow> bool" where
  "is_notification r \<longleftrightarrow> req_id r = None"

definition response_success :: "request_id option \<Rightarrow> json \<Rightarrow> json_rpc_response" where
  "response_success i r =
     \<lparr>resp_jsonrpc = ''2.0'', resp_id = i, resp_result = Some r, resp_error = None\<rparr>"

definition response_error :: "request_id option \<Rightarrow> json_rpc_error \<Rightarrow> json_rpc_response" where
  "response_error i e =
     \<lparr>resp_jsonrpc = ''2.0'', resp_id = i, resp_result = None, resp_error = Some e\<rparr>"

end
