(* ===== verification/Access_Control.thy ===== *)
theory Access_Control
  imports Json
begin

text \<open>
  \<open>crates/anyclaw-channels/src/access_control.rs\<close>: who may talk to the agent, and whose quoted
  text reaches it.  \<open>lower\<close> stands for \<open>str::to_lowercase\<close> (full Unicode case mapping), which
  parsing an allowlist applies to user names.
\<close>

section \<open>Configuration\<close>

datatype allowlist_entry =
    Wildcard
  | UserId int
  | Username string

record sender_identity =
  user_id :: "int option"
  username :: "string option"

datatype group_policy = Policy_Open | Policy_Allowlist | Policy_Disabled

record group_config =
  gc_enabled :: bool
  gc_group_policy :: "group_policy option"
  gc_allowed_users :: "allowlist_entry list"
  gc_require_mention :: bool

record access_config =
  ac_group_policy :: group_policy
  ac_allowed_users :: "allowlist_entry list"
  ac_groups :: "(int, group_config) hmap"
  ac_default_require_mention :: bool

definition access_config_default :: access_config where
  "access_config_default =
     \<lparr>ac_group_policy = Policy_Open, ac_allowed_users = [Wildcard], ac_groups = [],
      ac_default_require_mention = False\<rparr>"

datatype deny_reason =
    GroupDisabled
  | GroupPolicyDisabled
  | GroupSenderNotAllowed
  | DmSenderNotAllowed

datatype access_decision =
    Allow
  | Deny deny_reason
  | SkipNoMention


section \<open>Decisions\<close>

fun sender_matches :: "sender_identity \<Rightarrow> allowlist_entry \<Rightarrow> bool" where
  "sender_matches s Wildcard \<longleftrightarrow> True"
| "sender_matches s (UserId i) \<longleftrightarrow> user_id s = Some i"
| "sender_matches s (Username n) \<longleftrightarrow>
     (case username s of None \<Rightarrow> False | Some u \<Rightarrow> eq_ignore_ascii_case u n)"

definition matches_any :: "sender_identity \<Rightarrow> allowlist_entry list \<Rightarrow> bool" where
  "matches_any s es \<longleftrightarrow> list_ex (sender_matches s) es"

definition evaluate_dm :: "access_config \<Rightarrow> sender_identity \<Rightarrow> access_decision" where
  "evaluate_dm cfg s =
     (if matches_any s (ac_allowed_users cfg) then Allow else Deny DmSenderNotAllowed)"

definition effective_policy :: "access_config \<Rightarrow> int \<Rightarrow> group_policy" where
  "effective_policy cfg chat =
     (case hm_get (ac_groups cfg) chat of
        None \<Rightarrow> ac_group_policy cfg
      | Some gc \<Rightarrow> (case gc_group_policy gc of None \<Rightarrow> ac_group_policy cfg | Some p \<Rightarrow> p))"

definition effective_users :: "access_config \<Rightarrow> int \<Rightarrow> allowlist_entry list" where
  "effective_users cfg chat =
     (case hm_get (ac_groups cfg) chat of
        None \<Rightarrow> ac_allowed_users cfg
      | Some gc \<Rightarrow> if gc_allowed_users gc = [] then ac_allowed_users cfg else gc_allowed_users gc)"

definition mention_check :: "access_config \<Rightarrow> int \<Rightarrow> bool \<Rightarrow> access_decision" where
  "mention_check cfg chat mentioned =
     (let require = (case hm_get (ac_groups cfg) chat of
                       None \<Rightarrow> ac_default_require_mention cfg
                     | Some gc \<Rightarrow> gc_require_mention gc)
      in if require \<and> \<not> mentioned then SkipNoMention else Allow)"

definition evaluate_group ::
  "access_config \<Rightarrow> int \<Rightarrow> sender_identity \<Rightarrow> bool \<Rightarrow> access_decision" where
  "evaluate_group cfg chat s mentioned =
     (if (case hm_get (ac_groups cfg) chat of None \<Rightarrow> False | Some gc \<Rightarrow> \<not> gc_enabled gc)
      then Deny GroupDisabled
      else (case effective_policy cfg chat of
              Policy_Disabled \<Rightarrow> Deny GroupPolicyDisabled
            | Policy_Allowlist \<Rightarrow>
                (if \<not> matches_any s (effective_users cfg chat) then Deny GroupSenderNotAllowed
                 else mention_check cfg chat mentioned)
            | Policy_Open \<Rightarrow> mention_check cfg chat mentioned))"

definition evaluate_access ::
  "access_config \<Rightarrow> int \<Rightarrow> sender_identity \<Rightarrow> bool \<Rightarrow> bool \<Rightarrow> access_decision" where
  "evaluate_access cfg chat s is_group mentioned =
     (if \<not> is_group then evaluate_dm cfg s else evaluate_group cfg chat s mentioned)"

definition should_suppress_reply_context ::
  "access_config \<Rightarrow> int \<Rightarrow> sender_identity \<Rightarrow> bool \<Rightarrow> bool" where
  "should_suppress_reply_context cfg chat s is_group =
     (if \<not> is_group then False
      else if effective_policy cfg chat \<noteq> Policy_Allowlist then False
      else \<not> matches_any s (effective_users cfg chat))"


section \<open>Parsing \<open>options.access_control\<close>\<close>

definition parse_group_policy :: "string \<Rightarrow> group_policy option" where
  "parse_group_policy s =
     (if s = ''open'' then Some Policy_Open
      else if s = ''allowlist'' then Some Policy_Allowlist
      else if s = ''disabled'' then Some Policy_Disabled
      else None)"

definition parse_allowlist_entry :: "(string \<Rightarrow> string) \<Rightarrow> json \<Rightarrow> allowlist_entry option" where
  "parse_allowlist_entry lower v =
     (case as_i64 v of
        Some n \<Rightarrow> Some (UserId n)
      | None \<Rightarrow>
          (case as_str v of
             None \<Rightarrow> None
           | Some s \<Rightarrow>
               if s = ''*'' then Some Wildcard
               else (case parse_i64 s of
                       Some n \<Rightarrow> Some (UserId n)
                     | None \<Rightarrow>
                         (let name = (case strip_prefix ''@'' s of Some r \<Rightarrow> r | None \<Rightarrow> s)
                          in if name \<noteq> [] then Some (Username (lower name)) else None))))"

definition parse_allowlist :: "(string \<Rightarrow> string) \<Rightarrow> json \<Rightarrow> allowlist_entry list" where
  "parse_allowlist lower v =
     (case as_array v of None \<Rightarrow> [] | Some xs \<Rightarrow> List.map_filter (parse_allowlist_entry lower) xs)"

definition opt_str :: "json \<Rightarrow> string \<Rightarrow> string option" where
  "opt_str v f = Option.bind (jget v f) as_str"

definition opt_bool :: "json \<Rightarrow> string \<Rightarrow> bool option" where
  "opt_bool v f = Option.bind (jget v f) as_bool"

definition parse_group :: "(string \<Rightarrow> string) \<Rightarrow> string \<times> json \<Rightarrow> (int \<times> group_config) option" where
  "parse_group lower kv =
     (case parse_i64 (fst kv) of
        None \<Rightarrow> None
      | Some chat \<Rightarrow> Some (chat,
          \<lparr>gc_enabled = unwrap_or (opt_bool (snd kv) ''enabled'') True,
           gc_group_policy = Option.bind (opt_str (snd kv) ''group_policy'') parse_group_policy,
           gc_allowed_users = unwrap_or
             (map_option (parse_allowlist lower) (jget (snd kv) ''allowed_users'')) [],
           gc_require_mention = unwrap_or (opt_bool (snd kv) ''require_mention'') False\<rparr>))"

definition from_options :: "(string \<Rightarrow> string) \<Rightarrow> json \<Rightarrow> access_config" where
  "from_options lower options =
     (case jget options ''access_control'' of
        None \<Rightarrow> access_config_default
      | Some ac \<Rightarrow>
          \<lparr>ac_group_policy =
             unwrap_or (Option.bind (opt_str ac ''group_policy'') parse_group_policy) Policy_Open,
           ac_allowed_users =
             unwrap_or (map_option (parse_allowlist lower) (jget ac ''allowed_users'')) [Wildcard],
           ac_groups =
             hm_extend [] (case Option.bind (jget ac ''groups'') as_object of
                             None \<Rightarrow> [] | Some obj \<Rightarrow> List.map_filter (parse_group lower) obj),
           ac_default_require_mention = unwrap_or (opt_bool ac ''require_mention'') False\<rparr>)"


section \<open>Specifications\<close>

text \<open>Who may speak, as one condition.\<close>

definition may_speak :: "access_config \<Rightarrow> int \<Rightarrow> sender_identity \<Rightarrow> bool \<Rightarrow> bool \<Rightarrow> bool" where
  "may_speak cfg chat s is_group mentioned \<longleftrightarrow>
     (if is_group
      then (case hm_get (ac_groups cfg) chat of Some gc \<Rightarrow> gc_enabled gc | None \<Rightarrow> True)
         \<and> effective_policy cfg chat \<noteq> Policy_Disabled
         \<and> (effective_policy cfg chat = Policy_Allowlist
              \<longrightarrow> matches_any s (effective_users cfg chat))
         \<and> ((case hm_get (ac_groups cfg) chat of
               Some gc \<Rightarrow> gc_require_mention gc | None \<Rightarrow> ac_default_require_mention cfg)
            \<longrightarrow> mentioned)
      else matches_any s (ac_allowed_users cfg))"

text \<open>Writing a configuration as the JSON a user would put under \<open>options\<close>.\<close>

fun entry_json :: "allowlist_entry \<Rightarrow> json" where
  "entry_json Wildcard = JStr ''*''"
| "entry_json (UserId n) = JInt n"
| "entry_json (Username n) = JStr (CHR ''@'' # n)"

fun policy_json :: "group_policy \<Rightarrow> json" where
  "policy_json Policy_Open = JStr ''open''"
| "policy_json Policy_Allowlist = JStr ''allowlist''"
| "policy_json Policy_Disabled = JStr ''disabled''"

definition group_json :: "group_config \<Rightarrow> json" where
  "group_json gc = JObj
     ([(''enabled'', JBool (gc_enabled gc)),
       (''allowed_users'', JArr (map entry_json (gc_allowed_users gc))),
       (''require_mention'', JBool (gc_require_mention gc))]
      @ (case gc_group_policy gc of None \<Rightarrow> [] | Some p \<Rightarrow> [(''group_policy'', policy_json p)]))"

definition access_json :: "access_config \<Rightarrow> json" where
  "access_json cfg = JObj [(''access_control'', JObj
     [(''group_policy'', policy_json (ac_group_policy cfg)),
      (''allowed_users'', JArr (map entry_json (ac_allowed_users cfg))),
      (''require_mention'', JBool (ac_default_require_mention cfg)),
      (''groups'', JObj (map (\<lambda>(c, gc). (show_int c, group_json gc)) (ac_groups cfg)))])]"

fun entry_ok :: "(string \<Rightarrow> string) \<Rightarrow> allowlist_entry \<Rightarrow> bool" where
  "entry_ok lower Wildcard \<longleftrightarrow> True"
| "entry_ok lower (UserId n) \<longleftrightarrow> i64_min \<le> n \<and> n \<le> i64_max"
| "entry_ok lower (Username n) \<longleftrightarrow> n \<noteq> [] \<and> lower n = n"

definition access_ok :: "(string \<Rightarrow> string) \<Rightarrow> access_config \<Rightarrow> bool" where
  "access_ok lower cfg \<longleftrightarrow> list_all (entry_ok lower) (ac_allowed_users cfg) \<and> hm_ok (ac_groups cfg)
     \<and> list_all (\<lambda>(c, gc). i64_min \<le> c \<and> c \<le> i64_max
          \<and> list_all (entry_ok lower) (gc_allowed_users gc)) (ac_groups cfg)"

lemma parse_entry_json:
  "entry_ok lower e \<Longrightarrow> parse_allowlist_entry lower (entry_json e) = Some e"
  by (cases e) (simp_all add: parse_allowlist_entry_def parse_i64_def digit_val_def strip_prefix_def)

lemma map_filter_map:
  "list_all (\<lambda>x. f (g x) = Some x) xs \<Longrightarrow> List.map_filter f (map g xs) = xs"
  by (induction xs) (simp_all add: map_filter_simps)

lemma parse_allowlist_json:
  "list_all (entry_ok lower) es \<Longrightarrow> parse_allowlist lower (JArr (map entry_json es)) = es"
  by (simp add: parse_allowlist_def map_filter_map list_all_length parse_entry_json)

lemma parse_policy_json:
  "Option.bind (as_str (policy_json p)) parse_group_policy = Some p"
  by (cases p) (simp_all add: parse_group_policy_def)

lemma parse_group_json:
  assumes "i64_min \<le> c" "c \<le> i64_max" "list_all (entry_ok lower) (gc_allowed_users gc)"
  shows "parse_group lower (show_int c, group_json gc) = Some (c, gc)"
  using assms parse_policy_json
  by (cases "gc_group_policy gc")
    (simp_all add: parse_group_def parse_i64_show group_json_def opt_bool_def opt_str_def
      unwrap_or_def hm_get_def parse_allowlist_json)


section \<open>Properties\<close>

lemmas access_defs =
  evaluate_access_def evaluate_dm_def evaluate_group_def mention_check_def

text \<open>
  A message is skipped for a missing mention exactly when it would have been allowed
  with one: a sender the access rules deny is never buffered as context, mentioned or not.
\<close>

lemma skip_only_if_mention_would_allow:
  "evaluate_access cfg chat s is_group mentioned = SkipNoMention
     \<longleftrightarrow> \<not> mentioned \<and> evaluate_access cfg chat s is_group True = Allow
         \<and> evaluate_access cfg chat s is_group False \<noteq> Allow"
  by (auto simp: access_defs Let_def split: group_policy.splits option.splits)

text \<open>
  Reply context in a group is suppressed for exactly the people whose own message
  would be denied for not being on the effective allowlist (where the group itself is enabled).
\<close>

lemma suppression_agrees_with_denial:
  assumes "\<And>gc. hm_get (ac_groups cfg) chat = Some gc \<Longrightarrow> gc_enabled gc"
  shows "should_suppress_reply_context cfg chat s True
     \<longleftrightarrow> evaluate_access cfg chat s True mentioned = Deny GroupSenderNotAllowed"
  using assms
  by (auto simp: should_suppress_reply_context_def access_defs Let_def
      split: group_policy.splits option.splits)

lemma suppression_agrees_with_denial_witness:
  "should_suppress_reply_context
     \<lparr>ac_group_policy = Policy_Allowlist, ac_allowed_users = [UserId 7], ac_groups = [],
      ac_default_require_mention = False\<rparr> (-100) \<lparr>user_id = Some 8, username = None\<rparr> True
   \<longleftrightarrow> evaluate_access
     \<lparr>ac_group_policy = Policy_Allowlist, ac_allowed_users = [UserId 7], ac_groups = [],
      ac_default_require_mention = False\<rparr> (-100) \<lparr>user_id = Some 8, username = None\<rparr> True False
     = Deny GroupSenderNotAllowed"
  by (rule suppression_agrees_with_denial) simp


text \<open>
  Every access configuration (user names already in lower case, ids in the range of
  \<open>i64\<close>) can be written as channel options, and \<open>from_options\<close> reads it back unchanged.
\<close>

lemma access_config_round_trip:
  assumes "access_ok lower cfg"
  shows "from_options lower (access_json cfg) = cfg"
proof -
  have "List.map_filter (parse_group lower)
      (map (\<lambda>(c, gc). (show_int c, group_json gc)) (ac_groups cfg)) = ac_groups cfg"
    using assms
    by (intro map_filter_map) (auto simp: access_ok_def list_all_iff parse_group_json)
  then show ?thesis
    using assms parse_policy_json [of "ac_group_policy cfg"]
    by (simp add: from_options_def access_json_def opt_str_def opt_bool_def unwrap_or_def hm_get_def
        parse_allowlist_json access_ok_def hm_extend_Nil)
qed

end
