(* ===== verification/Codec.thy ===== *)
theory Codec
  imports Json
begin

text \<open>
  \<open>crates/anyclaw-jsonrpc/src/codec.rs\<close>: newline-delimited JSON framing.  Bytes are characters.
  serde is a parameter: \<open>parse\<close> is \<open>serde_json::from_slice::<JsonRpcMessage>\<close> (\<open>None\<close> for an
  error) and \<open>ser\<close> is \<open>serde_json::to_writer\<close>.  What the framing needs of them is
  \<open>serde_ok\<close>: a serialised message parses back, is not empty, holds no newline (compact JSON
  escapes it) and does not end in a carriage return.
\<close>

definition NL :: char where "NL = CHR 0x0A"
definition CR :: char where "CR = CHR 0x0D"

definition MAX_LINE_SIZE :: nat where
  "MAX_LINE_SIZE = 32 * 1024 * 1024"

datatype codec_error =
    Line_Exceeds nat
  | Accumulated_Exceeds nat

text \<open>\<open>&line[..end]\<close>: the line without its newline and without a carriage return before it.\<close>

definition trim_cr :: "string \<Rightarrow> string" where
  "trim_cr line = (if line \<noteq> [] \<and> last line = CR then butlast line else line)"

lemma split_once_shorter: "split_once c s = Some (a, b) \<Longrightarrow> length b < length s"
  by (auto simp: split_once_Some)

text \<open>The result and what is left in the buffer.\<close>

function decode ::
  "(string \<Rightarrow> 'm option) \<Rightarrow> string \<Rightarrow> (codec_error + 'm option) \<times> string" where
  "decode parse src =
     (case split_once NL src of
        Some (line, rest) \<Rightarrow>
          (let trimmed = trim_cr line
           in if trimmed = [] then decode parse rest
              else if length trimmed > MAX_LINE_SIZE
                   then (Inl (Line_Exceeds (length trimmed)), rest)
              else (case parse trimmed of
                      Some msg \<Rightarrow> (Inr (Some msg), rest)
                    | None \<Rightarrow> decode parse rest))
      | None \<Rightarrow>
          if length src > MAX_LINE_SIZE then (Inl (Accumulated_Exceeds (length src)), src)
          else (Inr None, src))"
  by pat_completeness auto
termination
  by (relation "measure (\<lambda>(parse, src). length src)") (auto dest: split_once_shorter)

declare decode.simps [simp del]

definition encode :: "('m \<Rightarrow> string) \<Rightarrow> 'm \<Rightarrow> string \<Rightarrow> string" where
  "encode ser item dst = dst @ ser item @ [NL]"

text \<open>
  Reading a whole buffer as \<open>FramedRead\<close> does: messages until the decoder asks for more bytes or
  fails; then what is left.
\<close>

lemma decode_shorter: "decode parse src = (Inr (Some m), rest) \<Longrightarrow> length rest < length src"
proof (induction parse src rule: decode.induct)
  case (1 parse src)
  show ?case
  proof (cases "split_once NL src")
    case None
    with "1.prems" show ?thesis by (subst (asm) decode.simps) (simp split: if_splits)
  next
    case (Some lr)
    obtain line r where lr: "lr = (line, r)" by (cases lr)
    have r: "length r < length src" using Some lr by (auto dest: split_once_shorter)
    have skip: "length rest < length src" if "decode parse r = (Inr (Some m), rest)"
      and "trim_cr line = [] \<or> parse (trim_cr line) = None \<and> length (trim_cr line) \<le> MAX_LINE_SIZE"
      using that "1.IH"(1) [OF Some lr [symmetric] refl] "1.IH"(2) [OF Some lr [symmetric] refl] r
      by (cases "trim_cr line = []") (simp, simp)
    have eq: "decode parse src =
      (if trim_cr line = [] then decode parse r
       else if length (trim_cr line) > MAX_LINE_SIZE then (Inl (Line_Exceeds (length (trim_cr line))), r)
       else (case parse (trim_cr line) of Some msg \<Rightarrow> (Inr (Some msg), r) | None \<Rightarrow> decode parse r))"
      by (subst decode.simps) (simp add: Some lr Let_def)
    from "1.prems" skip r show ?thesis
      unfolding eq by (auto split: if_splits option.splits)
  qed
qed

function decode_all ::
  "(string \<Rightarrow> 'm option) \<Rightarrow> string \<Rightarrow> 'm list \<times> codec_error option \<times> string" where
  "decode_all parse src =
     (case decode parse src of
        (Inr (Some m), rest) \<Rightarrow>
          (let (ms, e, r) = decode_all parse rest in (m # ms, e, r))
      | (Inr None, rest) \<Rightarrow> ([], None, rest)
      | (Inl e, rest) \<Rightarrow> ([], Some e, rest))"
  by pat_completeness auto
termination
  by (relation "measure (\<lambda>(parse, src). length src)") (auto dest: decode_shorter [OF sym])

declare decode_all.simps [simp del]

text \<open>The complete lines of a buffer and the unfinished rest.\<close>

fun split_lines :: "string \<Rightarrow> string list \<times> string" where
  "split_lines [] = ([], [])"
| "split_lines (c # cs) =
     (let (ls, t) = split_lines cs
      in if c = NL then ([] # ls, t)
         else (case ls of [] \<Rightarrow> ([], c # t) | l # ls' \<Rightarrow> ((c # l) # ls', t)))"

definition unlines :: "string list \<Rightarrow> string" where
  "unlines ls = concat (map (\<lambda>l. l @ [NL]) ls)"

lemma split_lines_correct:
  "split_lines s = (ls, t) \<Longrightarrow> s = unlines ls @ t \<and> NL \<notin> set t \<and> (\<forall>l \<in> set ls. NL \<notin> set l)"
  by (induction s arbitrary: ls t)
    (auto simp: unlines_def Let_def split: prod.splits if_splits list.splits)

lemma split_lines_unlines:
  assumes "NL \<notin> set t" "\<forall>l \<in> set ls. NL \<notin> set l"
  shows "split_lines (unlines ls @ t) = (ls, t)"
proof -
  have tail: "split_lines t = ([], t)" using assms(1) by (induction t) auto
  have "NL \<notin> set l \<Longrightarrow> split_lines (l @ NL # s) = (let (ls', t') = split_lines s in (l # ls', t'))"
    for l s by (induction l) (auto split: prod.splits)
  with tail assms(2) show ?thesis by (induction ls) (auto simp: unlines_def)
qed

text \<open>One line at a time.\<close>

lemma decode_all_tail:
  "NL \<notin> set t \<Longrightarrow> length t \<le> MAX_LINE_SIZE \<Longrightarrow> decode_all parse t = ([], None, t)"
  by (subst decode_all.simps, subst decode.simps) (simp add: split_once_None [THEN iffD2])

lemma decode_all_line:
  assumes "NL \<notin> set l" "length (trim_cr l) \<le> MAX_LINE_SIZE"
  shows "decode_all parse (l @ NL # s) =
     (case (if trim_cr l = [] then None else parse (trim_cr l)) of
        None \<Rightarrow> decode_all parse s
      | Some m \<Rightarrow> (let (ms, e, r) = decode_all parse s in (m # ms, e, r)))"
proof (cases "if trim_cr l = [] then None else parse (trim_cr l)")
  case None
  then have "decode parse (l @ NL # s) = decode parse s"
    using assms by (subst decode.simps) (auto simp: Let_def split: if_splits)
  with None show ?thesis by (simp add: decode_all.simps [of parse])
next
  case (Some m)
  then have "decode parse (l @ NL # s) = (Inr (Some m), s)"
    using assms by (subst decode.simps) (auto simp: Let_def split: if_splits)
  with Some show ?thesis by (simp add: decode_all.simps [of parse "l @ NL # s"])
qed


lemma decode_all_long:
  assumes "NL \<notin> set l" "length (trim_cr l) > MAX_LINE_SIZE"
  shows "decode_all parse (l @ NL # s) = ([], Some (Line_Exceeds (length (trim_cr l))), s)"
proof -
  have "trim_cr l \<noteq> []" using assms(2) by auto
  with assms show ?thesis
    by (subst decode_all.simps, subst decode.simps) (simp add: Let_def)
qed

text \<open>A message of a line that fits.\<close>

definition line_msg :: "(string \<Rightarrow> 'm option) \<Rightarrow> string \<Rightarrow> 'm option" where
  "line_msg parse l = (if trim_cr l = [] then None else parse (trim_cr l))"

lemma decode_all_lines:
  assumes "\<forall>l \<in> set ls. NL \<notin> set l \<and> length (trim_cr l) \<le> MAX_LINE_SIZE"
  shows "decode_all parse (unlines ls @ s) =
     (let (ms, e, r) = decode_all parse s in (List.map_filter (line_msg parse) ls @ ms, e, r))"
  using assms
proof (induction ls)
  case Nil
  then show ?case by (simp add: unlines_def map_filter_simps split: prod.split)
next
  case (Cons l ls)
  have "unlines (l # ls) @ s = l @ NL # unlines ls @ s" by (simp add: unlines_def)
  with Cons decode_all_line [of l parse "unlines ls @ s"] show ?case
    by (auto simp: line_msg_def map_filter_simps split: prod.split option.split if_splits)
qed

lemma decode_all_ok_lines:
  assumes "decode_all parse (unlines ls @ t) = (ms, None, r)" "\<forall>l \<in> set ls. NL \<notin> set l"
  shows "\<forall>l \<in> set ls. length (trim_cr l) \<le> MAX_LINE_SIZE"
  using assms
proof (induction ls arbitrary: ms)
  case (Cons l ls)
  have eq: "unlines (l # ls) @ t = l @ NL # unlines ls @ t" by (simp add: unlines_def)
  have l: "NL \<notin> set l" using Cons.prems(2) by simp
  have fits: "length (trim_cr l) \<le> MAX_LINE_SIZE"
    using Cons.prems(1) decode_all_long [OF l, of parse "unlines ls @ t"]
    by (cases "length (trim_cr l) \<le> MAX_LINE_SIZE") (simp_all add: eq)
  obtain ms' where "decode_all parse (unlines ls @ t) = (ms', None, r)"
    using Cons.prems(1) decode_all_line [OF l fits, of parse "unlines ls @ t"]
    by (auto simp: eq split: option.splits prod.splits if_splits)
  with Cons.IH Cons.prems(2) fits show ?case by simp
qed simp

definition serde_ok :: "(string \<Rightarrow> 'm option) \<Rightarrow> ('m \<Rightarrow> string) \<Rightarrow> 'm \<Rightarrow> bool" where
  "serde_ok parse ser m \<longleftrightarrow> parse (ser m) = Some m \<and> ser m \<noteq> [] \<and> NL \<notin> set (ser m)
     \<and> last (ser m) \<noteq> CR"

lemma fold_encode: "fold (encode ser) ms dst = dst @ unlines (map ser ms)"
  by (induction ms arbitrary: dst) (simp_all add: encode_def unlines_def)


section \<open>Properties\<close>

text \<open>
  Decoding a buffer in which every line fits gives the messages of its complete
  lines in order, skipping blank lines and lines that are no JSON-RPC, taking a CRLF as a line
  end, and leaves the unfinished line in the buffer.
\<close>

lemma codec_decodes_lines:
  assumes "split_lines src = (ls, t)"
    and "\<forall>l \<in> set ls. length (trim_cr l) \<le> MAX_LINE_SIZE" "length t \<le> MAX_LINE_SIZE"
  shows "decode_all parse src = (List.map_filter (line_msg parse) ls, None, t)"
proof -
  from split_lines_correct [OF assms(1)] have src: "src = unlines ls @ t" and "NL \<notin> set t"
    and "\<forall>l \<in> set ls. NL \<notin> set l" by auto
  then show ?thesis
    using assms(2,3) decode_all_lines [of ls parse t] by (simp add: decode_all_tail)
qed

text \<open>
  Framing does not depend on how the bytes arrive: decoding a first chunk without
  error and then what was left of it followed by the next chunk gives the same messages, the same
  error and the same rest as decoding both chunks at once.
\<close>

lemma codec_chunking:
  assumes "decode_all parse a = (ms, None, r)"
  shows "decode_all parse (a @ b) =
     (let (ms', e, r') = decode_all parse (r @ b) in (ms @ ms', e, r'))"
proof -
  obtain ls t where sp: "split_lines a = (ls, t)" by (cases "split_lines a")
  from split_lines_correct [OF sp] have a: "a = unlines ls @ t" and t: "NL \<notin> set t"
    and nl: "\<forall>l \<in> set ls. NL \<notin> set l" by auto
  have fit: "\<forall>l \<in> set ls. NL \<notin> set l \<and> length (trim_cr l) \<le> MAX_LINE_SIZE"
    using decode_all_ok_lines [of parse ls t ms r] assms a nl by blast
  have "decode_all parse a =
      (let (ms', e, r') = decode_all parse t in (List.map_filter (line_msg parse) ls @ ms', e, r'))"
    using decode_all_lines [OF fit, of parse t] a by simp
  moreover have "decode_all parse t =
      ([], if length t > MAX_LINE_SIZE then Some (Accumulated_Exceeds (length t)) else None, t)"
    using t by (subst decode_all.simps, subst decode.simps) (simp add: split_once_None [THEN iffD2])
  ultimately have "ms = List.map_filter (line_msg parse) ls" and "r = t"
    using assms by auto
  then show ?thesis using decode_all_lines [OF fit, of parse "t @ b"] a by simp
qed



end
