(* ===== verification/Backoff.thy ===== *)
theory Backoff
  imports Prelude
begin

text \<open>
  Crash recovery of a supervised subprocess: \<open>crates/anyclaw-core/src/backoff.rs\<close>,
  \<open>slot_lifecycle.rs\<close> and the default values of \<open>constants.rs\<close>.

  A \<open>Duration\<close> and an \<open>Instant\<close> are nanoseconds.  A \<open>Duration\<close> holds at most
  \<open>duration_max\<close>; multiplying beyond it panics, which is the value \<open>None\<close> of
  \<open>next_delay\<close>.  \<open>Instant::duration_since\<close> saturates at zero, as subtraction on \<open>nat\<close>
  does.  Every call of \<open>Instant::now()\<close> is an argument.
\<close>

section \<open>Durations and constants\<close>

type_synonym duration = nat
type_synonym instant = nat

definition duration_max :: duration where
  "duration_max = 2 ^ 64 * 10 ^ 9 - 1"

definition from_millis :: "u64 \<Rightarrow> duration" where
  "from_millis ms = unat ms * 10 ^ 6"

definition from_secs :: "u64 \<Rightarrow> duration" where
  "from_secs s = unat s * 10 ^ 9"

definition duration_since :: "instant \<Rightarrow> instant \<Rightarrow> duration" where
  "duration_since now t = now - t"

definition DEFAULT_BACKOFF_BASE_MS :: u64 where "DEFAULT_BACKOFF_BASE_MS = 100"
definition DEFAULT_BACKOFF_MAX_SECS :: u64 where "DEFAULT_BACKOFF_MAX_SECS = 30"
definition DEFAULT_CRASH_MAX :: u32 where "DEFAULT_CRASH_MAX = 5"
definition DEFAULT_CRASH_WINDOW_SECS :: u64 where "DEFAULT_CRASH_WINDOW_SECS = 60"
definition DEFAULT_CRASH_LONG_MAX :: u32 where "DEFAULT_CRASH_LONG_MAX = 10"
definition DEFAULT_CRASH_LONG_WINDOW_SECS :: u64 where "DEFAULT_CRASH_LONG_WINDOW_SECS = 3600"

lemmas core_constants =
  DEFAULT_BACKOFF_BASE_MS_def DEFAULT_BACKOFF_MAX_SECS_def DEFAULT_CRASH_MAX_def
  DEFAULT_CRASH_WINDOW_SECS_def DEFAULT_CRASH_LONG_MAX_def DEFAULT_CRASH_LONG_WINDOW_SECS_def


section \<open>ExponentialBackoff\<close>

record exponential_backoff =
  current :: duration
  max_delay :: duration
  base :: duration
  attempts :: u32

definition backoff_new :: "duration \<Rightarrow> duration \<Rightarrow> exponential_backoff" where
  "backoff_new b m = \<lparr>current = b, max_delay = m, base = b, attempts = 0\<rparr>"

definition duration_mul2 :: "duration \<Rightarrow> duration option" where
  "duration_mul2 d = (if d * 2 \<le> duration_max then Some (d * 2) else None)"

definition next_delay :: "exponential_backoff \<Rightarrow> (duration \<times> exponential_backoff) option" where
  "next_delay b =
     (case duration_mul2 (current b) of
        None \<Rightarrow> None
      | Some d \<Rightarrow> Some (current b,
          b\<lparr>current := min d (max_delay b), attempts := attempts b + 1\<rparr>))"

definition backoff_reset :: "exponential_backoff \<Rightarrow> exponential_backoff" where
  "backoff_reset b = b\<lparr>current := base b, attempts := 0\<rparr>"

definition backoff_default :: exponential_backoff where
  "backoff_default =
     backoff_new (from_millis DEFAULT_BACKOFF_BASE_MS) (from_secs DEFAULT_BACKOFF_MAX_SECS)"

text \<open>A run of \<open>n\<close> calls of \<open>next_delay\<close>: the delays handed out and the final state.\<close>

fun next_delays :: "nat \<Rightarrow> exponential_backoff \<Rightarrow> (duration list \<times> exponential_backoff) option" where
  "next_delays 0 b = Some ([], b)"
| "next_delays (Suc n) b =
     (case next_delay b of
        None \<Rightarrow> None
      | Some (d, b') \<Rightarrow> map_option (\<lambda>(ds, b''). (d # ds, b'')) (next_delays n b'))"

lemma next_delay_Some:
  "current b * 2 \<le> duration_max \<Longrightarrow>
    next_delay b = Some (current b,
      b\<lparr>current := min (current b * 2) (max_delay b), attempts := attempts b + 1\<rparr>)"
  by (simp add: next_delay_def duration_mul2_def)

lemma next_delays_closed:
  assumes "current b \<le> max_delay b" "max_delay b * 2 \<le> duration_max"
  shows "next_delays n b = Some
     (map (\<lambda>i. min (current b * 2 ^ i) (max_delay b)) [0..<n],
      b\<lparr>current := min (current b * 2 ^ n) (max_delay b), attempts := attempts b + of_nat n\<rparr>)"
  using assms
proof (induction n arbitrary: b)
  case 0
  then show ?case by simp
next
  case (Suc n)
  let ?b = "b\<lparr>current := min (current b * 2) (max_delay b), attempts := attempts b + 1\<rparr>"
  have step: "next_delay b = Some (current b, ?b)"
    using Suc.prems by (simp add: next_delay_Some)
  have fold_min: "min (min (current b * 2) m * 2 ^ i) m = min (current b * 2 ^ Suc i) m" for m i
  proof -
    have "min (current b * 2) m * 2 ^ i = min (current b * 2 * 2 ^ i) (m * 2 ^ i)"
      by (simp add: min_mult_distrib_right nat_mult_min_left)
    moreover have "m \<le> m * 2 ^ i" by simp
    ultimately show ?thesis by (simp add: min.absorb2 min.assoc mult.assoc)
  qed
  have "map (\<lambda>i. min (current b * 2 ^ i) (max_delay b)) [0..<Suc n]
      = current b # map (\<lambda>i. min (current ?b * 2 ^ i) (max_delay b)) [0..<n]"
    using Suc.prems by (simp add: upt_conv_Cons map_Suc_upt [symmetric] fold_min del: upt_Suc)
  with step Suc.IH [of ?b] Suc.prems show ?case
    by (simp add: fold_min add.assoc add.commute)
qed


section \<open>CrashTracker\<close>

record crash_tracker =
  timestamps :: "instant list"
  max_crashes :: u32
  window :: duration
  long_max_crashes :: u32
  long_window :: duration
  total_crashes :: u32

definition tracker_new :: "u32 \<Rightarrow> duration \<Rightarrow> crash_tracker" where
  "tracker_new mc w =
     \<lparr>timestamps = [], max_crashes = mc, window = w,
      long_max_crashes = DEFAULT_CRASH_LONG_MAX,
      long_window = from_secs DEFAULT_CRASH_LONG_WINDOW_SECS, total_crashes = 0\<rparr>"

definition with_long_horizon :: "u32 \<Rightarrow> duration \<Rightarrow> crash_tracker \<Rightarrow> crash_tracker" where
  "with_long_horizon mc w t = t\<lparr>long_max_crashes := mc, long_window := w\<rparr>"

definition record_crash :: "instant \<Rightarrow> crash_tracker \<Rightarrow> crash_tracker" where
  "record_crash now t =
     t\<lparr>timestamps :=
          filter (\<lambda>s. duration_since now s < long_window t) (timestamps t) @ [now],
       total_crashes := total_crashes t + 1\<rparr>"

definition recent :: "instant \<Rightarrow> duration \<Rightarrow> instant list \<Rightarrow> nat" where
  "recent now w ts = length (filter (\<lambda>s. duration_since now s < w) ts)"

definition is_crash_loop :: "instant \<Rightarrow> crash_tracker \<Rightarrow> bool" where
  "is_crash_loop now t =
     (if recent now (window t) (timestamps t) \<ge> unat (max_crashes t) then True
      else recent now (long_window t) (timestamps t) \<ge> unat (long_max_crashes t))"

definition tracker_reset :: "crash_tracker \<Rightarrow> crash_tracker" where
  "tracker_reset t = t\<lparr>timestamps := [], total_crashes := 0\<rparr>"

definition tracker_default :: crash_tracker where
  "tracker_default = tracker_new DEFAULT_CRASH_MAX (from_secs DEFAULT_CRASH_WINDOW_SECS)"

definition record_crashes :: "instant list \<Rightarrow> crash_tracker \<Rightarrow> crash_tracker" where
  "record_crashes hist t = fold record_crash hist t"

text \<open>
  The reference: look at the whole history of crashes, nothing pruned.
\<close>

definition crash_loop_spec :: "crash_tracker \<Rightarrow> instant list \<Rightarrow> instant \<Rightarrow> bool" where
  "crash_loop_spec t hist now \<longleftrightarrow>
     recent now (window t) hist \<ge> unat (max_crashes t) \<or>
     recent now (long_window t) hist \<ge> unat (long_max_crashes t)"

lemma record_crash_frame [simp]:
  "max_crashes (record_crash now t) = max_crashes t"
  "window (record_crash now t) = window t"
  "long_max_crashes (record_crash now t) = long_max_crashes t"
  "long_window (record_crash now t) = long_window t"
  by (simp_all add: record_crash_def)

lemma record_crashes_snoc [simp]:
  "record_crashes (hist @ [now]) t = record_crash now (record_crashes hist t)"
  by (simp add: record_crashes_def)

lemma record_crashes_frame [simp]:
  "max_crashes (record_crashes hist t) = max_crashes t"
  "window (record_crashes hist t) = window t"
  "long_max_crashes (record_crashes hist t) = long_max_crashes t"
  "long_window (record_crashes hist t) = long_window t"
  by (induction hist rule: rev_induct) (simp_all, simp_all add: record_crashes_def)

lemma filter_recent_prune:
  assumes "u \<le> now" "w \<le> l"
  shows "filter (\<lambda>s. duration_since now s < w) (filter (\<lambda>s. duration_since u s < l) ts)
       = filter (\<lambda>s. duration_since now s < w) ts"
proof -
  have "duration_since now s < w \<Longrightarrow> duration_since u s < l" for s
    using assms by (simp add: duration_since_def)
  then show ?thesis by (auto simp: filter_filter intro!: filter_cong)
qed

text \<open>Pruning loses nothing that a later look through a window no longer than
  \<open>long_window\<close> could see.\<close>

lemma recent_record_crashes:
  assumes "sorted (hist @ [now])" "w \<le> long_window t" "timestamps t = []"
  shows "recent now w (timestamps (record_crashes hist t)) = recent now w hist"
  using assms(1)
proof (induction hist arbitrary: now rule: rev_induct)
  case Nil
  then show ?case using assms(3) by (simp add: record_crashes_def)
next
  case (snoc u hist)
  then have "u \<le> now" by (simp add: sorted_append)
  moreover have "sorted (hist @ [now])"
    using snoc.prems by (simp add: sorted_append)
  ultimately show ?case
    using snoc.IH [of now] assms(2)
    by (simp add: recent_def record_crash_def filter_recent_prune del: filter_filter)
qed

lemma is_crash_loop_record_crashes:
  assumes "sorted (hist @ [now])" "window t \<le> long_window t" "timestamps t = []"
  shows "is_crash_loop now (record_crashes hist t) \<longleftrightarrow> crash_loop_spec t hist now"
  using assms
  by (simp add: is_crash_loop_def crash_loop_spec_def recent_record_crashes)


section \<open>SlotLifecycle\<close>

text \<open>
  \<open>cancel_token\<close> is whether the slot's \<open>CancellationToken\<close> has fired.
\<close>

record slot_lifecycle =
  cancel_token :: bool
  backoff :: exponential_backoff
  crash_tracker :: crash_tracker
  disabled :: bool

datatype crash_action =
    Crash_Disabled
  | RestartAfter duration

definition slot_lifecycle_new ::
  "bool \<Rightarrow> exponential_backoff \<Rightarrow> crash_tracker \<Rightarrow> slot_lifecycle" where
  "slot_lifecycle_new parent_cancel b t =
     \<lparr>cancel_token = parent_cancel, backoff = b, crash_tracker = t, disabled = False\<rparr>"

text \<open>\<open>now\<close> is the clock in \<open>record_crash\<close>, \<open>now'\<close> the one in \<open>is_crash_loop\<close>;
  \<open>None\<close> is the panic of \<open>next_delay\<close>.\<close>

definition record_crash_and_check ::
  "instant \<Rightarrow> instant \<Rightarrow> slot_lifecycle \<Rightarrow> (crash_action \<times> slot_lifecycle) option" where
  "record_crash_and_check now now' s =
     (let s1 = s\<lparr>crash_tracker := record_crash now (crash_tracker s)\<rparr>
      in if is_crash_loop now' (crash_tracker s1)
         then Some (Crash_Disabled, s1\<lparr>disabled := True\<rparr>)
         else (case next_delay (backoff s1) of
                 None \<Rightarrow> None
               | Some (d, b) \<Rightarrow> Some (RestartAfter d, s1\<lparr>backoff := b\<rparr>)))"

lemma record_crash_and_check_disabled:
  "record_crash_and_check now now' s = Some (a, s') \<Longrightarrow>
    disabled s' = (disabled s \<or> a = Crash_Disabled)"
  by (auto simp: record_crash_and_check_def Let_def split: if_splits option.splits)

lemma record_crash_and_check_total:
  assumes "current (backoff s) * 2 \<le> duration_max"
  shows "\<exists>a s'. record_crash_and_check now now' s = Some (a, s')"
  using assms
  by (auto simp: record_crash_and_check_def Let_def next_delay_Some)


section \<open>Properties\<close>



text \<open>
  With any configuration in which the short window is not longer than the long one,
  \<open>record_crash_and_check\<close> on a slot that has seen the crashes \<open>hist\<close> disables the slot
  exactly when the whole history of crashes, pruned of nothing, holds too many crashes in one of
  the two windows; otherwise it restarts after the current backoff delay.
\<close>

lemma crash_check_agrees_with_history:
  assumes "sorted (hist @ [now, now'])"
    and "timestamps t = []" "window t \<le> long_window t"
    and "crash_tracker s = record_crashes hist t"
    and "current (backoff s) * 2 \<le> duration_max"
  shows "\<exists>s'. record_crash_and_check now now' s =
     Some (if crash_loop_spec t (hist @ [now]) now' then Crash_Disabled
           else RestartAfter (current (backoff s)), s')
     \<and> disabled s' = (disabled s \<or> crash_loop_spec t (hist @ [now]) now')"
proof -
  have loop: "is_crash_loop now' (record_crash now (crash_tracker s))
      \<longleftrightarrow> crash_loop_spec t (hist @ [now]) now'"
    using assms(1-4) is_crash_loop_record_crashes [of "hist @ [now]" now' t] by simp
  show ?thesis
    using assms(5) loop
    by (simp add: record_crash_and_check_def Let_def next_delay_Some)
qed

text \<open>
  A crash-tracker window longer than the one-hour long horizon is not honoured:
  \<open>record_crash\<close> prunes by \<open>long_window\<close>, so two crashes that lie within a configured window
  of two hours are not counted together, although the history shows a crash loop.
\<close>

lemma crash_window_beyond_horizon_missed:
  "let t = tracker_new 2 (from_secs 7200); hist = [0, 4000 * 10 ^ 9]
   in crash_loop_spec t hist (4000 * 10 ^ 9)
      \<and> \<not> is_crash_loop (4000 * 10 ^ 9) (record_crashes hist t)"
  by (simp add: Let_def crash_loop_spec_def is_crash_loop_def recent_def duration_since_def
      record_crashes_def record_crash_def tracker_new_def from_secs_def core_constants)

text \<open>
  The cap is not applied to the first delay: with a base above the cap the first
  restart waits for the base, and only the following ones for the cap.
\<close>

lemma first_delay_uncapped:
  assumes "m < b" "b * 2 \<le> duration_max"
  shows "map_option fst (next_delays (Suc n) (backoff_new b m)) = Some (b # replicate n m)"
proof -
  let ?b = "\<lparr>current = m, max_delay = m, base = b, attempts = 1\<rparr>"
  have "next_delay (backoff_new b m) = Some (b, ?b)"
    using assms by (simp add: backoff_new_def next_delay_Some)
  moreover have "map (\<lambda>i. min (m * 2 ^ i) m) [0..<n] = replicate n m"
    by (rule replicate_eqI) (auto simp: min_absorb2)
  ultimately show ?thesis
    using assms next_delays_closed [of ?b n] by simp
qed

lemma first_delay_uncapped_witness:
  "map_option fst (next_delays (Suc 2) (backoff_new (from_millis 60000) (from_secs 30)))
     = Some (60 * 10 ^ 9 # replicate 2 (30 * 10 ^ 9))"
  using first_delay_uncapped [of "from_secs 30" "from_millis 60000" 2]
  by (simp add: from_millis_def from_secs_def duration_max_def del: next_delays.simps)

end
