(* ===== verification/Config_Types.thy ===== *)
theory Config_Types
  imports Json Backoff
begin

text \<open>
  The configuration structures of \<open>crates/anyclaw-config/src/types.rs\<close> and their serde
  defaults.  A \<open>PathBuf\<close> is its string; a \<open>HashMap\<close> is an association list with distinct
  keys.  \<open>record\<close> fields carry a prefix per structure, since Rust's field names repeat.
\<close>

section \<open>Scalars and defaults\<close>

type_synonym u16 = "16 word"
type_synonym path = string

definition default_ttl_days :: u32 where "default_ttl_days = 7"
definition default_log_level :: string where
  "default_log_level = ''info,hyper=warn,reqwest=warn,h2=warn,hyper_util=warn,tower=warn''"
definition default_extensions_dir :: string where "default_extensions_dir = ''/usr/local/bin''"
definition default_agent :: string where "default_agent = ''default''"
definition default_reaction_emoji :: string where
  "default_reaction_emoji = [CHR 0xF0, CHR 0x9F, CHR 0x91, CHR 0x80]"
definition default_tools_server_host :: string where "default_tools_server_host = ''127.0.0.1''"
definition default_fuel_limit :: u64 where "default_fuel_limit = 1000000"
definition default_epoch_timeout :: u64 where "default_epoch_timeout = 30"
definition default_memory_limit :: u64 where "default_memory_limit = 67108864"
definition default_shutdown_timeout :: u64 where "default_shutdown_timeout = 30"
definition default_health_interval :: u64 where "default_health_interval = 5"
definition default_max_restarts :: u32 where "default_max_restarts = 5"
definition default_restart_window :: u64 where "default_restart_window = 60"
definition default_admin_port :: u16 where "default_admin_port = 3000"
definition default_acp_timeout_secs :: u64 where "default_acp_timeout_secs = 30"
definition default_prompt_idle_timeout_secs :: u64 where "default_prompt_idle_timeout_secs = 120"
definition default_keepalive_interval_secs :: u64 where "default_keepalive_interval_secs = 300"
definition default_init_timeout_secs :: u64 where "default_init_timeout_secs = 10"
definition default_exit_timeout_secs :: u64 where "default_exit_timeout_secs = 5"
definition default_shutdown_grace_ms :: u64 where "default_shutdown_grace_ms = 100"
definition default_backoff_base_ms :: u64 where "default_backoff_base_ms = 100"
definition default_backoff_max_secs :: u64 where "default_backoff_max_secs = 30"
definition default_crash_max :: u32 where "default_crash_max = 5"
definition default_crash_window_secs :: u64 where "default_crash_window_secs = 60"

text \<open>\<open>StringOrArray\<close>; \<open>command_and_args\<close> panics (\<open>None\<close>) on the empty array.\<close>

datatype string_or_array = StringOrArray (soa_list: "string list")

definition soa_first :: "string_or_array \<Rightarrow> string option" where
  "soa_first s = (case soa_list s of [] \<Rightarrow> None | x # _ \<Rightarrow> Some x)"

definition command_and_args :: "string_or_array \<Rightarrow> (string \<times> string list) option" where
  "command_and_args s = (case soa_list s of [] \<Rightarrow> None | x # xs \<Rightarrow> Some (x, xs))"

definition soa_from :: "string \<Rightarrow> string_or_array" where
  "soa_from s = StringOrArray [s]"

definition soa_display :: "string_or_array \<Rightarrow> string" where
  "soa_display s = str_join '' '' (soa_list s)"

text \<open>Serializing and deserializing a \<open>StringOrArray\<close>.\<close>

definition soa_serialize :: "string_or_array \<Rightarrow> json" where
  "soa_serialize s =
     (case soa_list s of [x] \<Rightarrow> JStr x | xs \<Rightarrow> JArr (map JStr xs))"

fun json_strings :: "json list \<Rightarrow> string list option" where
  "json_strings [] = Some []"
| "json_strings (JStr s # js) = map_option ((#) s) (json_strings js)"
| "json_strings (_ # js) = None"

fun soa_deserialize :: "json \<Rightarrow> string_or_array option" where
  "soa_deserialize (JStr s) = Some (StringOrArray [s])"
| "soa_deserialize (JArr js) = map_option StringOrArray (json_strings js)"
| "soa_deserialize _ = None"

datatype log_format = Log_Pretty | Log_Json
datatype reaction_lifecycle = Reaction_Remove | Reaction_ReplaceDone
datatype tool_type = Tool_Mcp | Tool_Wasm
datatype pull_policy = Pull_Always | Pull_IfNotPresent | Pull_Never

text \<open>\<open>impl Deserialize for PullPolicy\<close>, after the optional string has been read.\<close>

definition pull_policy_parse :: "string option \<Rightarrow> string + pull_policy" where
  "pull_policy_parse opt =
     (case opt of
        None \<Rightarrow> Inr Pull_IfNotPresent
      | Some s \<Rightarrow>
          if s = '''' then Inr Pull_IfNotPresent
          else if s = ''always'' then Inr Pull_Always
          else if s = ''never'' then Inr Pull_Never
          else if s = ''if_not_present'' then Inr Pull_IfNotPresent
          else Inl s)"

definition reaction_lifecycle_display :: "reaction_lifecycle \<Rightarrow> string" where
  "reaction_lifecycle_display r =
     (case r of Reaction_Remove \<Rightarrow> ''remove'' | Reaction_ReplaceDone \<Rightarrow> ''replace_done'')"


section \<open>Structures\<close>

record sqlite_store_config =
  ssc_path :: "string option"
  ssc_ttl_days :: u32

datatype session_store_config =
    Store_None
  | Store_Sqlite sqlite_store_config

record backoff_config =
  bc_base_delay_ms :: u64
  bc_max_delay_secs :: u64

record crash_tracker_config =
  ctc_max_crashes :: u32
  ctc_window_secs :: u64

record local_workspace_config =
  lw_binary :: string_or_array
  lw_working_dir :: "path option"
  lw_env :: "(string, string) hmap"

record docker_workspace_config =
  dw_image :: string
  dw_entrypoint :: "string_or_array option"
  dw_volumes :: "string list"
  dw_env :: "(string, string) hmap"
  dw_memory_limit :: "string option"
  dw_cpu_limit :: "string option"
  dw_docker_host :: "string option"
  dw_network :: "string option"
  dw_pull_policy :: pull_policy
  dw_working_dir :: "path option"
  dw_extra_hosts :: "string list"

datatype workspace_config =
    Ws_Local local_workspace_config
  | Ws_Docker docker_workspace_config

definition is_docker :: "workspace_config \<Rightarrow> bool" where
  "is_docker w = (case w of Ws_Docker _ \<Rightarrow> True | Ws_Local _ \<Rightarrow> False)"

record agent_config =
  ac_workspace :: workspace_config
  ac_enabled :: bool
  ac_tools :: "string list"
  ac_acp_timeout_secs :: "u64 option"
  ac_backoff :: "backoff_config option"
  ac_crash_tracker :: "crash_tracker_config option"
  ac_options :: "(string, json) hmap"

record agents_manager_config =
  amc_acp_timeout_secs :: u64
  amc_prompt_idle_timeout_secs :: u64
  amc_keepalive_interval_secs :: u64
  amc_shutdown_grace_ms :: u64
  amc_agents :: "(string, agent_config) hmap"

record channel_config =
  chc_binary :: string
  chc_args :: "string list"
  chc_enabled :: bool
  chc_agent :: string
  chc_init_timeout_secs :: "u64 option"
  chc_exit_timeout_secs :: "u64 option"
  chc_backoff :: "backoff_config option"
  chc_crash_tracker :: "crash_tracker_config option"
  chc_options :: "(string, json) hmap"

record channels_manager_config =
  cmc_init_timeout_secs :: u64
  cmc_exit_timeout_secs :: u64
  cmc_channels :: "(string, channel_config) hmap"

record ack_config =
  ack_reaction :: bool
  ack_typing :: bool
  ack_reaction_emoji :: string
  ack_reaction_lifecycle :: reaction_lifecycle

record preopened_dir =
  pd_host :: path
  pd_guest :: string
  pd_readonly :: bool

record wasm_sandbox_config =
  wsc_fuel_limit :: u64
  wsc_epoch_timeout_secs :: u64
  wsc_memory_limit_bytes :: u64
  wsc_preopened_dirs :: "preopened_dir list"

record tool_config =
  tc_tool_type :: tool_type
  tc_binary :: "string option"
  tc_args :: "string list"
  tc_enabled :: bool
  tc_module :: "path option"
  tc_description :: string
  tc_input_schema :: "string option"
  tc_sandbox :: wasm_sandbox_config
  tc_options :: "(string, json) hmap"
  tc_call_timeout_secs :: "u64 option"

record tools_manager_config =
  tmc_tools :: "(string, tool_config) hmap"
  tmc_tools_server_host :: string

record supervisor_config =
  sc_shutdown_timeout_secs :: u64
  sc_health_check_interval_secs :: u64
  sc_max_restarts :: u32
  sc_restart_window_secs :: u64
  sc_admin_port :: u16
  sc_permission_timeout_secs :: "u64 option"

record anyclaw_config =
  cfg_log_level :: string
  cfg_log_format :: log_format
  cfg_extensions_dir :: string
  cfg_agents_manager :: agents_manager_config
  cfg_channels_manager :: channels_manager_config
  cfg_tools_manager :: tools_manager_config
  cfg_supervisor :: supervisor_config
  cfg_session_store :: session_store_config


section \<open>\<open>Default\<close> implementations\<close>

definition sqlite_store_config_default :: sqlite_store_config where
  "sqlite_store_config_default = \<lparr>ssc_path = None, ssc_ttl_days = default_ttl_days\<rparr>"

definition backoff_config_default :: backoff_config where
  "backoff_config_default =
     \<lparr>bc_base_delay_ms = default_backoff_base_ms, bc_max_delay_secs = default_backoff_max_secs\<rparr>"

definition crash_tracker_config_default :: crash_tracker_config where
  "crash_tracker_config_default =
     \<lparr>ctc_max_crashes = default_crash_max, ctc_window_secs = default_crash_window_secs\<rparr>"

definition agents_manager_config_default :: agents_manager_config where
  "agents_manager_config_default =
     \<lparr>amc_acp_timeout_secs = default_acp_timeout_secs,
      amc_prompt_idle_timeout_secs = default_prompt_idle_timeout_secs,
      amc_keepalive_interval_secs = default_keepalive_interval_secs,
      amc_shutdown_grace_ms = default_shutdown_grace_ms, amc_agents = []\<rparr>"

definition channels_manager_config_default :: channels_manager_config where
  "channels_manager_config_default =
     \<lparr>cmc_init_timeout_secs = default_init_timeout_secs,
      cmc_exit_timeout_secs = default_exit_timeout_secs, cmc_channels = []\<rparr>"

definition tools_manager_config_default :: tools_manager_config where
  "tools_manager_config_default =
     \<lparr>tmc_tools = [], tmc_tools_server_host = default_tools_server_host\<rparr>"

definition ack_config_default :: ack_config where
  "ack_config_default =
     \<lparr>ack_reaction = False, ack_typing = False, ack_reaction_emoji = default_reaction_emoji,
      ack_reaction_lifecycle = Reaction_Remove\<rparr>"

definition wasm_sandbox_config_default :: wasm_sandbox_config where
  "wasm_sandbox_config_default =
     \<lparr>wsc_fuel_limit = default_fuel_limit, wsc_epoch_timeout_secs = default_epoch_timeout,
      wsc_memory_limit_bytes = default_memory_limit, wsc_preopened_dirs = []\<rparr>"

definition supervisor_config_default :: supervisor_config where
  "supervisor_config_default =
     \<lparr>sc_shutdown_timeout_secs = default_shutdown_timeout,
      sc_health_check_interval_secs = default_health_interval,
      sc_max_restarts = default_max_restarts, sc_restart_window_secs = default_restart_window,
      sc_admin_port = default_admin_port, sc_permission_timeout_secs = None\<rparr>"

text \<open>\<open>From<AckConfig> for ChannelAckConfig\<close>.\<close>

record channel_ack_config =
  cac_reaction :: bool
  cac_typing :: bool
  cac_reaction_emoji :: string
  cac_reaction_lifecycle :: string

definition channel_ack_config_from :: "ack_config \<Rightarrow> channel_ack_config" where
  "channel_ack_config_from a =
     \<lparr>cac_reaction = ack_reaction a, cac_typing = ack_typing a,
      cac_reaction_emoji = ack_reaction_emoji a,
      cac_reaction_lifecycle = reaction_lifecycle_display (ack_reaction_lifecycle a)\<rparr>"

definition default_agent_name :: "anyclaw_config \<Rightarrow> string option" where
  "default_agent_name c =
     map_option fst (List.find (\<lambda>p. ac_enabled (snd p)) (amc_agents (cfg_agents_manager c)))"


section \<open>Lemmas\<close>

lemma json_strings_map [simp]: "json_strings (map JStr xs) = Some xs"
  by (induction xs) simp_all

text \<open>A command written out and read again is the same command, also the empty one.\<close>

lemma soa_round_trip: "soa_deserialize (soa_serialize s) = Some s"
proof (cases s)
  case (StringOrArray xs)
  then show ?thesis
    by (cases xs; cases "tl xs") (simp_all add: soa_serialize_def split: list.split)
qed

text \<open>The subprocess defaults of the configuration are those of the core crate.\<close>

lemma config_defaults_match_core:
  "default_backoff_base_ms = DEFAULT_BACKOFF_BASE_MS \<and>
   default_backoff_max_secs = DEFAULT_BACKOFF_MAX_SECS \<and>
   default_crash_max = DEFAULT_CRASH_MAX \<and>
   default_crash_window_secs = DEFAULT_CRASH_WINDOW_SECS"
  by (simp add: default_backoff_base_ms_def default_backoff_max_secs_def default_crash_max_def
      default_crash_window_secs_def core_constants)

end
