(* ===== verification/Session_Key.thy ===== *)
theory Session_Key
  imports Rust_Str
begin

text \<open>
  \<open>crates/anyclaw-sdk-types/src/session_key.rs\<close>: the identity \<open>channel:kind:peer\<close> under
  which every component routes a conversation.
\<close>

datatype session_key = SessionKey (key_str: string)

definition session_key_new :: "string \<Rightarrow> string \<Rightarrow> string \<Rightarrow> session_key" where
  "session_key_new channel_name kind peer_id =
     SessionKey (channel_name @ '':'' @ kind @ '':'' @ peer_id)"

definition channel_name :: "session_key \<Rightarrow> string" where
  "channel_name k = split_first (CHR '':'') (key_str k)"

text \<open>\<open>Display\<close> and \<open>AsRef<str>\<close>.\<close>

definition key_to_string :: "session_key \<Rightarrow> string" where
  "key_to_string k = key_str k"

definition key_parse_error :: "string \<Rightarrow> string" where
  "key_parse_error s =
     ''invalid session key: expected '' @ [CHR 0x27] @ ''channel:kind:peer'' @ [CHR 0x27]
       @ '', got '' @ [CHR 0x27] @ s @ [CHR 0x27]"

text \<open>\<open>FromStr\<close>.\<close>

definition key_from_str :: "string \<Rightarrow> string + session_key" where
  "key_from_str s =
     (if count_list s (CHR '':'') < 2 then Inl (key_parse_error s) else Inr (SessionKey s))"

text \<open>\<open>From<String>\<close> and \<open>From<&str>\<close>: no check.\<close>

definition key_from :: "string \<Rightarrow> session_key" where
  "key_from s = SessionKey s"

lemma key_parts:
  assumes "CHR '':'' \<notin> set c" "CHR '':'' \<notin> set k"
  shows "splitn 3 (CHR '':'') (key_str (session_key_new c k p)) = [c, k, p]"
  using assms by (simp add: session_key_new_def numeral_3_eq_3)


section \<open>Properties\<close>

text \<open>
  A key built from a channel name and a kind without colons (the peer may hold
  any) parses back from its printed form, names its channel, and determines all three parts.
\<close>

lemma session_key_round_trip:
  assumes "CHR '':'' \<notin> set c" "CHR '':'' \<notin> set k"
  shows "key_from_str (key_to_string (session_key_new c k p)) = Inr (session_key_new c k p)
    \<and> channel_name (session_key_new c k p) = c
    \<and> (\<forall>c' k' p'. CHR '':'' \<notin> set c' \<and> CHR '':'' \<notin> set k'
         \<and> session_key_new c k p = session_key_new c' k' p'
         \<longrightarrow> c' = c \<and> k' = k \<and> p' = p)"
proof (intro conjI)
  show "key_from_str (key_to_string (session_key_new c k p)) = Inr (session_key_new c k p)"
    by (simp add: key_from_str_def key_to_string_def session_key_new_def count_list_append)
  show "channel_name (session_key_new c k p) = c"
    using assms by (simp add: channel_name_def session_key_new_def)
  have "c' = c \<and> k' = k \<and> p' = p"
    if "CHR '':'' \<notin> set c'" "CHR '':'' \<notin> set k'"
      "session_key_new c k p = session_key_new c' k' p'" for c' k' p'
  proof -
    have "[c, k, p] = [c', k', p']"
      by (rule key_parts [OF assms, of p, symmetric, THEN trans])
        (simp only: that(3) key_parts [OF that(1,2)])
    then show ?thesis by simp
  qed
  then show "\<forall>c' k' p'. CHR '':'' \<notin> set c' \<and> CHR '':'' \<notin> set k'
      \<and> session_key_new c k p = session_key_new c' k' p' \<longrightarrow> c' = c \<and> k' = k \<and> p' = p"
    by blast
qed

end
