(* ===== verification/Acp.thy ===== *)
theory Acp
  imports Config_Types Session_Key
begin

text \<open>
  The wire types shared by the managers: \<open>crates/anyclaw-sdk-types/src/acp.rs\<close>,
  \<open>channel_event.rs\<close>, \<open>permission.rs\<close> and the message types of \<open>channel.rs\<close>.

  \<open>ContentBlock\<close>, \<open>AgentCapabilities\<close> and \<open>StopReason\<close> come from the crate
  \<open>agent_client_protocol_schema\<close>: they are given here with the constructors and fields the
  sources read or write, and with a last constructor where the crate declares them
  \<open>non_exhaustive\<close>.  For the structures declared in the sources, the \<open>*_json\<close> functions are
  what their serde attributes say.
\<close>

section \<open>Content\<close>

datatype content_part =
    Part_Text string
  | Part_Image string
  | Part_File string "string option" "string option"
  | Part_Audio string "string option"

datatype embedded_resource =
    Res_Text string "string option"
  | Res_Blob string "string option"
  | Res_Other

datatype content_block =
    Block_Text string
  | Block_Image string string "string option"
  | Block_Audio string string
  | Block_Resource embedded_resource
  | Block_ResourceLink string string "string option"
  | Block_Other

definition part_text :: "string \<Rightarrow> content_part" where
  "part_text s = Part_Text s"

definition content_part_default :: content_part where
  "content_part_default = Part_Text ''''"

fun content_part_to_block :: "content_part \<Rightarrow> content_block" where
  "content_part_to_block (Part_Text t) = Block_Text t"
| "content_part_to_block (Part_Image url) =
     (case strip_prefix ''data:'' url of
        Some rest \<Rightarrow>
          (case split_once (CHR '','') rest of
             Some (mime_and_enc, dat) \<Rightarrow>
               Block_Image dat
                 (unwrap_or (strip_suffix '';base64'' mime_and_enc) mime_and_enc) None
           | None \<Rightarrow> Block_Image '''' ''image/png'' (Some url))
      | None \<Rightarrow> Block_Image '''' ''image/png'' (Some url))"
| "content_part_to_block (Part_File url filename mime_type) =
     Block_ResourceLink (unwrap_or filename ''file'') url mime_type"
| "content_part_to_block (Part_Audio url mime_type) =
     Block_Audio url (unwrap_or mime_type ''audio/mpeg'')"

fun content_block_to_part :: "content_block \<Rightarrow> content_part" where
  "content_block_to_part (Block_Text t) = Part_Text t"
| "content_block_to_part (Block_Image dat mime uri) = Part_Image (unwrap_or uri '''')"
| "content_block_to_part (Block_Audio dat mime) = Part_Audio dat (Some mime)"
| "content_block_to_part (Block_Resource r) =
     (case r of
        Res_Text uri mime \<Rightarrow> Part_File uri None mime
      | Res_Blob uri mime \<Rightarrow> Part_File uri None mime
      | Res_Other \<Rightarrow> Part_Text '''')"
| "content_block_to_part (Block_ResourceLink name uri mime) = Part_File uri (Some name) mime"
| "content_block_to_part Block_Other = Part_Text ''''"

definition content_parts_to_blocks :: "content_part list \<Rightarrow> content_block list" where
  "content_parts_to_blocks ps = map content_part_to_block ps"

definition content_blocks_to_parts :: "content_block list \<Rightarrow> content_part list" where
  "content_blocks_to_parts bs = map content_block_to_part bs"

text \<open>\<open>skip_serializing_if = "Option::is_none"\<close>.\<close>

definition skip_none :: "string \<Rightarrow> json option \<Rightarrow> (string \<times> json) list" where
  "skip_none f v = (case v of None \<Rightarrow> [] | Some x \<Rightarrow> [(f, x)])"

fun content_part_json :: "content_part \<Rightarrow> json" where
  "content_part_json (Part_Text t) = JObj [(''type'', JStr ''text''), (''text'', JStr t)]"
| "content_part_json (Part_Image u) = JObj [(''type'', JStr ''image''), (''url'', JStr u)]"
| "content_part_json (Part_File u fn mt) =
     JObj ([(''type'', JStr ''file''), (''url'', JStr u)]
       @ skip_none ''filename'' (map_option JStr fn) @ skip_none ''mimeType'' (map_option JStr mt))"
| "content_part_json (Part_Audio u mt) =
     JObj ([(''type'', JStr ''audio''), (''url'', JStr u)]
       @ skip_none ''mimeType'' (map_option JStr mt))"


section \<open>Requests and results\<close>

record session_capabilities =
  cap_fork :: bool
  cap_list :: bool
  cap_resume :: bool

record agent_caps =
  cap_load_session :: bool
  cap_session :: session_capabilities

record initialize_result =
  ir_protocol_version :: u32
  ir_agent_capabilities :: "agent_caps option"
  ir_defaults :: "(string, json) hmap option"

record mcp_server_info =
  msi_name :: string
  msi_server_type :: string
  msi_url :: string
  msi_command :: string
  msi_args :: "string list"
  msi_env :: "string list"
  msi_headers :: "string list list"

datatype stop_reason =
    EndTurn
  | MaxTokens
  | MaxTurnRequests
  | Refusal
  | Cancelled
  | Stop_Other

definition u32_json :: "u32 \<Rightarrow> json" where
  "u32_json n = JInt (uint n)"

definition u64_json :: "u64 \<Rightarrow> json" where
  "u64_json n = JInt (uint n)"

definition initialize_params_json :: "u32 \<Rightarrow> (string, json) hmap option \<Rightarrow> json" where
  "initialize_params_json version opts =
     JObj ([(''protocolVersion'', u32_json version), (''capabilities'', JObj [])]
       @ skip_none ''options'' (map_option JObj opts))"

definition mcp_server_info_json :: "mcp_server_info \<Rightarrow> json" where
  "mcp_server_info_json s =
     JObj [(''name'', JStr (msi_name s)), (''type'', JStr (msi_server_type s)),
           (''url'', JStr (msi_url s)), (''command'', JStr (msi_command s)),
           (''args'', JArr (map JStr (msi_args s))), (''env'', JArr (map JStr (msi_env s))),
           (''headers'', JArr (map (\<lambda>h. JArr (map JStr h)) (msi_headers s)))]"

definition session_new_params_json ::
  "string option \<Rightarrow> string \<Rightarrow> mcp_server_info list \<Rightarrow> json" where
  "session_new_params_json sid cwd servers =
     JObj (skip_none ''sessionId'' (map_option JStr sid)
       @ [(''cwd'', JStr cwd), (''mcpServers'', JArr (map mcp_server_info_json servers))])"

definition session_load_params_json ::
  "string \<Rightarrow> string option \<Rightarrow> mcp_server_info list option \<Rightarrow> json" where
  "session_load_params_json sid cwd servers =
     JObj ([(''sessionId'', JStr sid)] @ skip_none ''cwd'' (map_option JStr cwd)
       @ skip_none ''mcpServers'' (map_option (\<lambda>ss. JArr (map mcp_server_info_json ss)) servers))"

text \<open>\<open>block_json\<close> is the \<open>Serialize\<close> instance of the schema crate.\<close>

definition session_prompt_params_json ::
  "(content_block \<Rightarrow> json) \<Rightarrow> string \<Rightarrow> content_block list \<Rightarrow> json" where
  "session_prompt_params_json block_json sid blocks =
     JObj [(''sessionId'', JStr sid), (''prompt'', JArr (map block_json blocks))]"

text \<open>\<open>SessionCancelParams\<close> and \<open>SessionForkParams\<close> have the same shape.\<close>

definition session_id_params_json :: "string \<Rightarrow> json" where
  "session_id_params_json sid = JObj [(''sessionId'', JStr sid)]"

definition session_list_params_json :: json where
  "session_list_params_json = JObj []"

record session_push_params =
  spp_session_id :: string
  spp_content :: "content_block list"


section \<open>Updates\<close>

datatype tool_call_status = Status_Pending | Status_InProgress | Status_Completed | Status_Failed

datatype session_update_type =
    AgentMessageChunk content_part "string option"
  | AgentThoughtChunk content_part "string option"
  | ToolCall "string option" "string option" "(string \<times> json) list option"
  | ToolCallUpdate string "string option" "tool_call_status option"
      "(string \<times> json) list option" "string option"
  | Plan content_part
  | UsageUpdate "nat option" "nat option" "nat option" "nat option"
  | Update_Result "string option" bool
  | UserMessageChunk content_part "string option"
  | AvailableCommandsUpdate "json list"
  | CurrentModeUpdate "string option"
  | ConfigOptionUpdate "(string \<times> json) list"
  | SessionInfoUpdate "(string \<times> json) list"

record session_update_event =
  sue_session_id :: string
  sue_update :: session_update_type


section \<open>Permissions, metadata and events\<close>

record permission_option =
  po_option_id :: string
  po_label :: string

record message_metadata =
  reply_to_message_id :: "string option"
  reply_to_text :: "string option"
  reply_to_sender :: "string option"
  reply_to_sender_id :: "string option"
  reply_to_is_quote :: "bool option"
  reply_to_media_type :: "string option"
  thread_id :: "string option"

definition message_metadata_default :: message_metadata where
  "message_metadata_default =
     \<lparr>reply_to_message_id = None, reply_to_text = None, reply_to_sender = None,
      reply_to_sender_id = None, reply_to_is_quote = None, reply_to_media_type = None,
      thread_id = None\<rparr>"

datatype channel_event =
    DeliverMessage session_key json
  | SessionComplete session_key stop_reason
  | RoutePermission session_key string string "permission_option list"
  | AckMessage session_key string string "string option"
  | DispatchStarted session_key

fun event_key :: "channel_event \<Rightarrow> session_key" where
  "event_key (DeliverMessage k c) = k"
| "event_key (SessionComplete k r) = k"
| "event_key (RoutePermission k i d os) = k"
| "event_key (AckMessage k c p m) = k"
| "event_key (DispatchStarted k) = k"


section \<open>Lemmas\<close>

text \<open>
  The parts that survive the trip to the agent's wire format and back unchanged: an image that is
  not inlined, a file with a name, audio with a type.
\<close>

fun wire_stable :: "content_part \<Rightarrow> bool" where
  "wire_stable (Part_Text t) \<longleftrightarrow> True"
| "wire_stable (Part_Image u) \<longleftrightarrow>
     (case strip_prefix ''data:'' u of Some r \<Rightarrow> CHR '','' \<notin> set r | None \<Rightarrow> True)"
| "wire_stable (Part_File u fn mt) \<longleftrightarrow> fn \<noteq> None"
| "wire_stable (Part_Audio u mt) \<longleftrightarrow> mt \<noteq> None"

lemma content_part_round_trip:
  "content_block_to_part (content_part_to_block p) = p \<longleftrightarrow> wire_stable p"
proof (cases p)
  case (Part_Image u)
  show ?thesis
  proof (cases "strip_prefix ''data:'' u")
    case (Some r)
    then have "u \<noteq> ''''" by (auto simp: strip_prefix_Some)
    with Part_Image Some show ?thesis
      by (cases "split_once (CHR '','') r") (auto simp: split_once_None [symmetric])
  qed (use Part_Image in simp)
qed (auto simp: unwrap_or_def split: option.split)


section \<open>Properties\<close>

text \<open>
  Content sent to the agent and read back is unchanged exactly when every image is
  referenced by a URL that is not inline data, every file has a name and every audio part a media
  type; in particular the conversion never drops, adds or reorders parts.
\<close>

lemma content_blocks_round_trip:
  "length (content_blocks_to_parts (content_parts_to_blocks ps)) = length ps \<and>
   (content_blocks_to_parts (content_parts_to_blocks ps) = ps \<longleftrightarrow> list_all wire_stable ps)"
proof -
  have "map (content_block_to_part \<circ> content_part_to_block) ps = ps \<longleftrightarrow> list_all wire_stable ps"
    by (induction ps) (simp_all add: content_part_round_trip)
  then show ?thesis by (simp add: content_blocks_to_parts_def content_parts_to_blocks_def)
qed

end
