(* ===== verification/Agent_Text.thy ===== *)
theory Agent_Text
  imports Acp
begin

text \<open>
  The pure functions of the agents crate: \<open>platform_commands.rs\<close>, the text helpers at the end of
  \<open>commands.rs\<close>, and the content normalisation of \<open>incoming.rs\<close>.
\<close>

section \<open>Platform commands\<close>

record platform_command =
  pc_name :: string
  pc_description :: string

definition PLATFORM_COMMANDS :: "platform_command list" where
  "PLATFORM_COMMANDS =
     [\<lparr>pc_name = ''new'', pc_description = ''Start a new conversation''\<rparr>,
      \<lparr>pc_name = ''cancel'', pc_description = ''Cancel the current operation''\<rparr>]"

definition match_platform_command :: "string \<Rightarrow> platform_command option" where
  "match_platform_command s =
     (let command = (case split_once (CHR ''@'') s of Some (cmd, _) \<Rightarrow> cmd | None \<Rightarrow> s)
      in case strip_prefix ''/'' command of
           None \<Rightarrow> None
         | Some name \<Rightarrow> List.find (\<lambda>c. pc_name c = name) PLATFORM_COMMANDS)"

definition platform_commands_json :: "json list" where
  "platform_commands_json =
     map (\<lambda>c. JObj [(''name'', JStr (pc_name c)), (''description'', JStr (pc_description c))])
       PLATFORM_COMMANDS"

fun extract_command_text :: "content_part list \<Rightarrow> string option" where
  "extract_command_text [Part_Text t] = Some t"
| "extract_command_text _ = None"

definition platform_command_of :: "content_part list \<Rightarrow> platform_command option" where
  "platform_command_of content = Option.bind (extract_command_text content) match_platform_command"


section \<open>Reply context\<close>

definition NEWLINE :: string where "NEWLINE = [CHR 0x0A]"
definition DQUOTE :: string where "DQUOTE = [CHR 0x22]"

definition build_reply_context :: "message_metadata \<Rightarrow> string option" where
  "build_reply_context meta =
     (let has_reply = reply_to_message_id meta \<noteq> None \<or> reply_to_text meta \<noteq> None
                        \<or> reply_to_media_type meta \<noteq> None
      in if \<not> has_reply \<and> thread_id meta = None then None
         else
           (let thread_part = (case thread_id meta of
                  None \<Rightarrow> ''''
                | Some t \<Rightarrow> ''[Context: thread '' @ t @ '']'' @ NEWLINE);
                is_quote = unwrap_or (reply_to_is_quote meta) False;
                tag = (if is_quote then ''Quoting'' else ''Replying to'');
                sender = unwrap_or (reply_to_sender meta) ''unknown sender'';
                id_part = (case reply_to_message_id meta of
                  None \<Rightarrow> '''' | Some i \<Rightarrow> '' id:'' @ i);
                body = (case reply_to_text meta of
                  Some t \<Rightarrow> (if is_quote then DQUOTE @ t @ DQUOTE @ NEWLINE else t @ NEWLINE)
                | None \<Rightarrow> (case reply_to_media_type meta of
                    Some m \<Rightarrow> ''<media:'' @ m @ ''>'' @ NEWLINE
                  | None \<Rightarrow> ''''));
                end_tag = (if is_quote then ''Quoting'' else ''Replying'')
            in Some (str_trim (thread_part @
                 (if has_reply
                  then ''['' @ tag @ '' '' @ sender @ id_part @ '']'' @ NEWLINE @ body
                         @ ''[/'' @ end_tag @ '']''
                  else '''')))))"


section \<open>Updates\<close>

fun session_update_type_name :: "session_update_type \<Rightarrow> string" where
  "session_update_type_name (AgentThoughtChunk c m) = ''agent_thought_chunk''"
| "session_update_type_name (AgentMessageChunk c m) = ''agent_message_chunk''"
| "session_update_type_name (Update_Result c e) = ''result''"
| "session_update_type_name (ToolCall i n inp) = ''tool_call''"
| "session_update_type_name (ToolCallUpdate i n s inp out) = ''tool_call_update''"
| "session_update_type_name (Plan c) = ''plan''"
| "session_update_type_name (UsageUpdate a b c d) = ''usage_update''"
| "session_update_type_name (UserMessageChunk c m) = ''user_message_chunk''"
| "session_update_type_name (AvailableCommandsUpdate cs) = ''available_commands_update''"
| "session_update_type_name (CurrentModeUpdate m) = ''extension:current_mode''"
| "session_update_type_name (ConfigOptionUpdate e) = ''extension:config_option''"
| "session_update_type_name (SessionInfoUpdate e) = ''extension:session_info''"

text \<open>\<open>now_ms\<close> is the wall clock in milliseconds (0 before the epoch).\<close>

definition add_received_timestamp :: "u64 \<Rightarrow> json \<Rightarrow> json" where
  "add_received_timestamp now_ms content = jset ''_received_at_ms'' (u64_json now_ms) content"

definition normalize_name :: "(string, json) hmap \<Rightarrow> (string, json) hmap" where
  "normalize_name u =
     (if hm_has u ''name'' then u
      else (case hm_get u ''title'' of
              None \<Rightarrow> u
            | Some t \<Rightarrow> hm_insert ''name'' t (hm_remove ''title'' u)))"

definition normalize_input :: "(string, json) hmap \<Rightarrow> (string, json) hmap" where
  "normalize_input u =
     (if hm_has u ''input'' then u
      else (case hm_get u ''rawInput'' of
              Some (JObj m) \<Rightarrow> if m = [] then u else hm_insert ''input'' (JObj m) u
            | _ \<Rightarrow> u))"

definition normalize_output :: "string \<Rightarrow> (string, json) hmap \<Rightarrow> (string, json) hmap" where
  "normalize_output update_type u =
     (if update_type = ''tool_call_update'' \<and> \<not> hm_has u ''output''
      then (case Option.bind (hm_get u ''rawOutput'') (\<lambda>r. jget r ''output'') of
              Some raw \<Rightarrow> hm_insert ''output'' raw u
            | None \<Rightarrow> u)
      else u)"

definition normalize_tool_event_fields :: "string \<Rightarrow> json \<Rightarrow> json" where
  "normalize_tool_event_fields update_type content =
     (if update_type \<noteq> ''tool_call'' \<and> update_type \<noteq> ''tool_call_update'' then content
      else (case jget content ''update'' of
              Some (JObj u) \<Rightarrow>
                jset ''update''
                  (JObj (normalize_output update_type (normalize_input (normalize_name u)))) content
            | _ \<Rightarrow> content))"

text \<open>\<open>content.pointer_mut("/update/availableCommands")\<close>, extended with the platform commands.\<close>

definition merge_platform_commands :: "json \<Rightarrow> json" where
  "merge_platform_commands content =
     (case jget content ''update'' of
        Some (JObj u) \<Rightarrow>
          (case hm_get u ''availableCommands'' of
             Some (JArr cmds) \<Rightarrow>
               jset ''update''
                 (JObj (hm_insert ''availableCommands'' (JArr (cmds @ platform_commands_json)) u))
                 content
           | _ \<Rightarrow> content)
      | _ \<Rightarrow> content)"

definition stop_reason_str :: "stop_reason \<Rightarrow> string" where
  "stop_reason_str r =
     (case r of EndTurn \<Rightarrow> ''end_turn'' | MaxTokens \<Rightarrow> ''max_tokens''
      | MaxTurnRequests \<Rightarrow> ''max_turn_requests'' | Refusal \<Rightarrow> ''refusal''
      | Cancelled \<Rightarrow> ''cancelled'' | Stop_Other \<Rightarrow> ''unknown'')"

text \<open>The error result that several handlers send to a channel.\<close>

definition error_result :: "string \<Rightarrow> json" where
  "error_result msg =
     JObj [(''update'', JObj [(''sessionUpdate'', JStr ''result''), (''isError'', JBool True),
        (''content'', JStr msg)])]"


section \<open>Lemmas\<close>

lemma find_distinct_key:
  "distinct (map f xs) \<Longrightarrow> List.find (\<lambda>c. f c = n) xs = Some c \<longleftrightarrow> c \<in> set xs \<and> f c = n"
  by (induction xs) auto

lemma platform_commands_distinct: "distinct (map pc_name PLATFORM_COMMANDS)"
  by (simp add: PLATFORM_COMMANDS_def)

lemma platform_commands_no_at: "c \<in> set PLATFORM_COMMANDS \<Longrightarrow> CHR ''@'' \<notin> set (pc_name c)"
  by (auto simp: PLATFORM_COMMANDS_def)

text \<open>The part before an optional \<open>@mention\<close>.\<close>

lemma before_at_iff:
  assumes "CHR ''@'' \<notin> set w"
  shows "(case split_once (CHR ''@'') s of Some (cmd, _) \<Rightarrow> cmd | None \<Rightarrow> s) = w \<longleftrightarrow>
    s = w \<or> (\<exists>m. s = w @ CHR ''@'' # m)"
proof (cases "split_once (CHR ''@'') s")
  case None
  then have "CHR ''@'' \<notin> set s" by (simp add: split_once_None)
  then have "\<nexists>m. s = w @ CHR ''@'' # m" by auto
  with None show ?thesis by simp
next
  case (Some p)
  obtain a b where p: "p = (a, b)" by (cases p)
  then have s: "s = a @ CHR ''@'' # b" "CHR ''@'' \<notin> set a"
    using Some by (auto simp: split_once_Some)
  have "a = w" if "s = w @ CHR ''@'' # m" for m
    using split_once_append [OF assms, of m] that Some p by simp
  moreover have "s \<noteq> w" using s assms by auto
  ultimately show ?thesis using Some p s by auto
qed

lemma match_platform_command_iff:
  "match_platform_command s = Some c \<longleftrightarrow>
     c \<in> set PLATFORM_COMMANDS \<and>
     (s = ''/'' @ pc_name c \<or> (\<exists>m. s = (''/'' @ pc_name c) @ CHR ''@'' # m))"
proof -
  define body where "body = (case split_once (CHR ''@'') s of Some (cmd, _) \<Rightarrow> cmd | None \<Rightarrow> s)"
  have "match_platform_command s = Some c \<longleftrightarrow>
      c \<in> set PLATFORM_COMMANDS \<and> strip_prefix ''/'' body = Some (pc_name c)"
    unfolding match_platform_command_def Let_def body_def [symmetric]
    by (cases "strip_prefix ''/'' body")
      (auto simp: find_distinct_key [OF platform_commands_distinct])
  also have "\<dots> \<longleftrightarrow> c \<in> set PLATFORM_COMMANDS \<and> body = ''/'' @ pc_name c"
    by (simp add: strip_prefix_Some)
  also have "\<dots> \<longleftrightarrow> c \<in> set PLATFORM_COMMANDS \<and>
     (s = ''/'' @ pc_name c \<or> (\<exists>m. s = (''/'' @ pc_name c) @ CHR ''@'' # m))"
    using platform_commands_no_at before_at_iff [of "''/'' @ pc_name c" s]
    unfolding body_def by (intro conj_cong refl) simp
  finally show ?thesis .
qed

lemma normalize_name_get:
  "hm_get (normalize_name u) f =
     (if hm_has u ''name'' \<or> \<not> hm_has u ''title'' then hm_get u f
      else if f = ''name'' then hm_get u ''title''
      else if f = ''title'' then None else hm_get u f)"
  by (auto simp: normalize_name_def hm_has_def split: option.split)

lemma normalize_input_frame: "f \<noteq> ''input'' \<Longrightarrow> hm_get (normalize_input u) f = hm_get u f"
  by (auto simp: normalize_input_def split: option.split json.split)

lemma normalize_output_frame: "f \<noteq> ''output'' \<Longrightarrow> hm_get (normalize_output ty u) f = hm_get u f"
  by (auto simp: normalize_output_def split: option.split)

definition input_done :: "(string, json) hmap \<Rightarrow> bool" where
  "input_done u \<longleftrightarrow> hm_has u ''input'' \<or> \<not> (\<exists>m. hm_get u ''rawInput'' = Some (JObj m) \<and> m \<noteq> [])"

lemma normalize_input_done: "input_done u \<Longrightarrow> normalize_input u = u"
  by (auto simp: input_done_def normalize_input_def split: option.split json.split)

lemma input_done_normalize: "input_done (normalize_input u)"
  by (auto simp: input_done_def normalize_input_def hm_has_def split: option.split json.split)

lemma input_done_output: "input_done u \<Longrightarrow> input_done (normalize_output ty u)"
  by (simp add: input_done_def hm_has_def normalize_output_frame)

lemma normalize_output_idem: "normalize_output ty (normalize_output ty u) = normalize_output ty u"
  by (auto simp: normalize_output_def hm_has_def split: option.split)


lemma hm_insert_idem: "hm_insert k v (hm_insert k w m) = hm_insert k v m"
  by (induction m) auto

lemma normalize_update_idem:
  fixes ty u
  defines "n \<equiv> (\<lambda>u. normalize_output ty (normalize_input (normalize_name u)))"
  shows "n (n u) = n u"
proof -
  have "hm_has u' ''name'' \<or> \<not> hm_has u' ''title''" if "u' = n u" for u'
    unfolding that n_def
    by (auto simp: hm_has_def normalize_output_frame normalize_input_frame normalize_name_get)
  then have "normalize_name (n u) = n u"
    by (auto simp: normalize_name_def hm_has_def split: option.split)
  moreover have "normalize_input (n u) = n u"
    unfolding n_def
    by (intro normalize_input_done input_done_output input_done_normalize)
  ultimately show ?thesis
    by (simp add: n_def) (simp only: normalize_output_idem)
qed

lemma normalize_update_keeps:
  assumes "f \<in> {''name'', ''input'', ''output''}" "hm_has u f"
  shows "hm_get (normalize_output ty (normalize_input (normalize_name u))) f = hm_get u f"
proof -
  have nm: "hm_get (normalize_name u) f = hm_get u f"
    using assms by (auto simp: normalize_name_get)
  have inp: "hm_get (normalize_input v) f = hm_get v f" if "hm_get v f \<noteq> None" for v
    using that by (auto simp: normalize_input_def hm_has_def split: option.split json.split)
  have out: "hm_get (normalize_output ty v) f = hm_get v f" if "hm_get v f \<noteq> None" for v
    using that by (auto simp: normalize_output_def hm_has_def split: option.split)
  have "hm_get u f \<noteq> None" using assms(2) by (simp add: hm_has_def)
  then show ?thesis using nm inp out by simp
qed


section \<open>Properties\<close>

text \<open>
  A message is treated as a platform command exactly when it is one text part that is
  \<open>/new\<close> or \<open>/cancel\<close>, alone or followed by an \<open>@mention\<close>; any other message reaches the
  agent.
\<close>

lemma platform_command_iff:
  "platform_command_of content = Some c \<longleftrightarrow>
     (\<exists>s. content = [Part_Text s] \<and> c \<in> set PLATFORM_COMMANDS \<and>
        (s = ''/'' @ pc_name c \<or> (\<exists>m. s = (''/'' @ pc_name c) @ CHR ''@'' # m)))"
proof -
  have "extract_command_text content = Some s \<longleftrightarrow> content = [Part_Text s]" for s
    by (cases content rule: extract_command_text.cases) auto
  then show ?thesis
    by (auto simp: platform_command_of_def Option.bind_eq_Some_conv match_platform_command_iff)
qed

text \<open>
  Normalising a tool event is idempotent, keeps whatever the agent sent under
  \<open>name\<close>, \<open>input\<close> and \<open>output\<close>, and leaves every other update alone.
\<close>

lemma normalize_tool_event:
  "normalize_tool_event_fields ty (normalize_tool_event_fields ty c) =
     normalize_tool_event_fields ty c
   \<and> (\<forall>u f. jget c ''update'' = Some (JObj u) \<and> f \<in> {''name'', ''input'', ''output''} \<and> hm_has u f
        \<longrightarrow> jget (jidx (normalize_tool_event_fields ty c) ''update'') f = hm_get u f)
   \<and> (ty \<notin> {''tool_call'', ''tool_call_update''} \<longrightarrow> normalize_tool_event_fields ty c = c)"
proof (intro conjI allI impI)
  show "normalize_tool_event_fields ty (normalize_tool_event_fields ty c) =
      normalize_tool_event_fields ty c"
    by (cases c) (auto simp: normalize_tool_event_fields_def normalize_update_idem hm_insert_idem
        split: option.split json.split)
next
  fix u f
  assume "jget c ''update'' = Some (JObj u) \<and> f \<in> {''name'', ''input'', ''output''} \<and> hm_has u f"
  then show "jget (jidx (normalize_tool_event_fields ty c) ''update'') f = hm_get u f"
    by (cases c) (auto simp: normalize_tool_event_fields_def jidx_def normalize_update_keeps)
qed (simp add: normalize_tool_event_fields_def)

lemma normalize_tool_event_witness:
  "jget (jidx (normalize_tool_event_fields ''tool_call''
     (JObj [(''update'', JObj [(''title'', JStr ''t''), (''name'', JStr ''n'')])])) ''update'') ''name''
   = Some (JStr ''n'')"
  using normalize_tool_event [of "''tool_call''"
      "JObj [(''update'', JObj [(''title'', JStr ''t''), (''name'', JStr ''n'')])]"]
  by (auto simp: hm_has_def hm_get_def)

end
