(* ===== verification/Connections.thy ===== *)
theory Connections
  imports Acp
begin

text \<open>
  The stdio connections to the subprocesses: \<open>crates/anyclaw-agents/src/connection.rs\<close> and
  \<open>crates/anyclaw-channels/src/connection.rs\<close>.

  A connection is the state its methods and its reader task share: the next request id, the ids in
  \<open>pending_requests\<close> (each stands for a \<open>oneshot\<close> sender), and what was handed to the writer
  task, in order.  \<open>stdin_tx.send\<close> fails when the writer task is gone; the argument \<open>ok\<close> says
  whether it succeeded.  The locale \<open>rpc_correlation\<close> is the contract of request ids that both
  connections offer.
\<close>

section \<open>Errors\<close>

datatype acp_error =
    ProtocolMismatch u32 u32
  | SessionNotFound string
  | MethodNotSupported string
  | Transport string
  | Acp_JsonRpc int string

datatype agents_error =
    SpawnFailed string
  | ProcessExited string
  | Protocol acp_error
  | Timeout duration
  | ConnectionClosed
  | Io string
  | Json_Error string
  | AgentNotFound string
  | CapabilityNotSupported string
  | DockerError string
  | ImagePullFailed string string

definition acp_error_display :: "acp_error \<Rightarrow> string" where
  "acp_error_display e =
     (case e of
        ProtocolMismatch expected got \<Rightarrow>
          ''protocol version mismatch: expected '' @ show_int (uint expected) @ '', got ''
            @ show_int (uint got)
      | SessionNotFound s \<Rightarrow> ''session not found: '' @ s
      | MethodNotSupported s \<Rightarrow> ''method not supported: '' @ s
      | Transport s \<Rightarrow> ''transport error: '' @ s
      | Acp_JsonRpc code msg \<Rightarrow> ''JSON-RPC error '' @ show_int code @ '': '' @ msg)"

text \<open>\<open>show_duration\<close> is the \<open>Debug\<close> form of a \<open>Duration\<close>.\<close>

definition agents_error_display :: "(duration \<Rightarrow> string) \<Rightarrow> agents_error \<Rightarrow> string" where
  "agents_error_display show_duration e =
     (case e of
        SpawnFailed s \<Rightarrow> ''Failed to spawn agent process: '' @ s
      | ProcessExited s \<Rightarrow> ''Agent process exited unexpectedly: '' @ s
      | Protocol a \<Rightarrow> ''ACP protocol error: '' @ acp_error_display a
      | Timeout d \<Rightarrow> ''Request timed out after '' @ show_duration d
      | ConnectionClosed \<Rightarrow> ''Agent connection closed''
      | Io s \<Rightarrow> ''IO error: '' @ s
      | Json_Error s \<Rightarrow> ''JSON error: '' @ s
      | AgentNotFound s \<Rightarrow> ''Agent not found: '' @ s
      | CapabilityNotSupported s \<Rightarrow> ''Agent does not support capability: '' @ s
      | DockerError s \<Rightarrow> ''Docker error: '' @ s
      | ImagePullFailed img reason \<Rightarrow> ''Failed to pull image '' @ img @ '': '' @ reason)"


section \<open>Request ids\<close>

text \<open>\<open>id as i64\<close> on the way out, \<open>n as u64\<close> on the way back.\<close>

definition wire_id :: "u64 \<Rightarrow> request_id" where
  "wire_id i = Id_Number (sint i)"

definition response_slot :: "request_id option \<Rightarrow> u64" where
  "response_slot i = (case i of Some (Id_Number n) \<Rightarrow> word_of_int n | _ \<Rightarrow> 0)"

lemma response_slot_wire_id [simp]: "response_slot (Some (wire_id i)) = i"
  by (simp add: response_slot_def wire_id_def)


section \<open>AgentConnection\<close>

record agent_connection =
  ag_next_id :: u64
  ag_pending :: "u64 list"
  ag_out :: "json_rpc_message list"

definition agent_conn_new :: agent_connection where
  "agent_conn_new = \<lparr>ag_next_id = 1, ag_pending = [], ag_out = []\<rparr>"

text \<open>The value is the id under which the \<open>oneshot\<close> receiver waits.\<close>

definition agent_send_request ::
  "bool \<Rightarrow> string \<Rightarrow> json \<Rightarrow> agent_connection \<Rightarrow> (agents_error + u64) \<times> agent_connection" where
  "agent_send_request ok m params c =
     (let i = ag_next_id c;
          c1 = c\<lparr>ag_next_id := i + 1, ag_pending := ag_pending c @ [i]\<rparr>;
          request = request_new m (Some (wire_id i)) (Some params)
      in if ok then (Inr i, c1\<lparr>ag_out := ag_out c1 @ [Msg_Request request]\<rparr>)
         else (Inl ConnectionClosed, c1))"

definition agent_send_notification ::
  "bool \<Rightarrow> string \<Rightarrow> json \<Rightarrow> agent_connection \<Rightarrow> (agents_error + unit) \<times> agent_connection" where
  "agent_send_notification ok m params c =
     (let request = request_new m None (Some params)
      in if ok then (Inr (), c\<lparr>ag_out := ag_out c @ [Msg_Request request]\<rparr>)
         else (Inl ConnectionClosed, c))"

definition agent_send_raw ::
  "bool \<Rightarrow> json_rpc_response \<Rightarrow> agent_connection \<Rightarrow> (agents_error + unit) \<times> agent_connection" where
  "agent_send_raw ok msg c =
     (if ok then (Inr (), c\<lparr>ag_out := ag_out c @ [Msg_Response msg]\<rparr>)
      else (Inl ConnectionClosed, c))"

text \<open>\<open>handle_pending_response\<close>: the id of the waiter that gets the response, if any.\<close>

definition agent_handle_pending_response ::
  "json_rpc_response \<Rightarrow> agent_connection \<Rightarrow> u64 option \<times> agent_connection" where
  "agent_handle_pending_response r c =
     (let i = response_slot (resp_id r)
      in if i \<in> set (ag_pending c)
         then (Some i, c\<lparr>ag_pending := filter (\<lambda>j. j \<noteq> i) (ag_pending c)\<rparr>)
         else (None, c))"

datatype incoming_message =
    AgentRequest json_rpc_request
  | AgentNotification json_rpc_request

record slot_incoming =
  si_slot_idx :: nat
  si_msg :: "incoming_message option"

definition incoming_of :: "json_rpc_request \<Rightarrow> incoming_message" where
  "incoming_of r = (if req_id r \<noteq> None then AgentRequest r else AgentNotification r)"

text \<open>
  The reader task on the frames of the agent's output; \<open>None\<close> is a malformed line.  The second
  component of each frame says whether handing it to the manager succeeds
  (\<open>route_incoming_message\<close>); the value is what was resolved and what went over the bridge.
\<close>

fun agent_reader_task ::
  "nat \<Rightarrow> (json_rpc_message option \<times> bool) list \<Rightarrow> agent_connection
    \<Rightarrow> (u64 \<times> json_rpc_response) list \<times> slot_incoming list \<times> agent_connection" where
  "agent_reader_task idx [] c = ([], [\<lparr>si_slot_idx = idx, si_msg = None\<rparr>], c)"
| "agent_reader_task idx ((None, ok) # fs) c = agent_reader_task idx fs c"
| "agent_reader_task idx ((Some (Msg_Response r), ok) # fs) c =
     (let (w, c') = agent_handle_pending_response r c;
          (rs, ins, c'') = agent_reader_task idx fs c'
      in ((case w of Some i \<Rightarrow> [(i, r)] | None \<Rightarrow> []) @ rs, ins, c''))"
| "agent_reader_task idx ((Some (Msg_Request q), ok) # fs) c =
     (if ok
      then (let (rs, ins, c') = agent_reader_task idx fs c
            in (rs, \<lparr>si_slot_idx = idx, si_msg = Some (incoming_of q)\<rparr> # ins, c'))
      else ([], [\<lparr>si_slot_idx = idx, si_msg = None\<rparr>], c))"

text \<open>The writer task: frames are written in order until a write fails.\<close>

definition writer_task :: "('m \<times> bool) list \<Rightarrow> 'm list" where
  "writer_task ms = map fst (takeWhile snd ms)"


section \<open>ChannelConnection\<close>

datatype channels_error =
    Ch_SpawnFailed string
  | Ch_ConnectionClosed
  | Ch_Timeout duration
  | Ch_Io string
  | Ch_Json string
  | Ch_InitializeFailed string
  | Ch_BindFailed string
  | Ch_AgentCommand string

record channel_capabilities =
  ccap_streaming :: bool
  ccap_rich_text :: bool
  ccap_media :: bool

record channel_connection =
  cn_channel_id :: string
  cn_next_id :: u64
  cn_pending :: "u64 list"
  cn_out :: "json_rpc_request list"
  cn_capabilities :: "channel_capabilities option"
  cn_port :: u16

definition channel_conn_new :: "string \<Rightarrow> channel_connection" where
  "channel_conn_new cid =
     \<lparr>cn_channel_id = cid, cn_next_id = 1, cn_pending = [], cn_out = [], cn_capabilities = None,
      cn_port = 0\<rparr>"

definition channel_send_request ::
  "bool \<Rightarrow> string \<Rightarrow> json \<Rightarrow> channel_connection \<Rightarrow> (channels_error + u64) \<times> channel_connection" where
  "channel_send_request ok m params c =
     (let i = cn_next_id c;
          c1 = c\<lparr>cn_next_id := i + 1, cn_pending := cn_pending c @ [i]\<rparr>;
          req = request_new m (Some (wire_id i)) (Some params)
      in if ok then (Inr i, c1\<lparr>cn_out := cn_out c1 @ [req]\<rparr>) else (Inl Ch_ConnectionClosed, c1))"

definition channel_send_notification ::
  "bool \<Rightarrow> string \<Rightarrow> json \<Rightarrow> channel_connection \<Rightarrow> (channels_error + unit) \<times> channel_connection" where
  "channel_send_notification ok m params c =
     (let req = request_new m None (Some params)
      in if ok then (Inr (), c\<lparr>cn_out := cn_out c @ [req]\<rparr>) else (Inl Ch_ConnectionClosed, c))"

definition set_capabilities :: "channel_capabilities \<Rightarrow> channel_connection \<Rightarrow> channel_connection" where
  "set_capabilities caps c = c\<lparr>cn_capabilities := Some caps\<rparr>"

datatype incoming_channel_message =
    ChannelRequest json_rpc_request
  | ChannelNotification json_rpc_request

definition channel_resolve ::
  "json_rpc_response \<Rightarrow> channel_connection \<Rightarrow> u64 option \<times> channel_connection" where
  "channel_resolve r c =
     (let i = response_slot (resp_id r)
      in if i \<in> set (cn_pending c)
         then (Some i, c\<lparr>cn_pending := filter (\<lambda>j. j \<noteq> i) (cn_pending c)\<rparr>)
         else (None, c))"

definition channel_incoming_of :: "json_rpc_request \<Rightarrow> incoming_channel_message" where
  "channel_incoming_of r = (if req_id r \<noteq> None then ChannelRequest r else ChannelNotification r)"

text \<open>
  The reader task of a channel: \<open>while let Some(Ok(msg))\<close>, so that the first malformed line ends
  it.  A failed \<open>incoming_tx.send\<close> is ignored.
\<close>

fun channel_reader_task ::
  "json_rpc_message option list \<Rightarrow> channel_connection
    \<Rightarrow> (u64 \<times> json_rpc_response) list \<times> incoming_channel_message list \<times> channel_connection" where
  "channel_reader_task [] c = ([], [], c)"
| "channel_reader_task (None # fs) c = ([], [], c)"
| "channel_reader_task (Some (Msg_Response r) # fs) c =
     (let (w, c') = channel_resolve r c;
          (rs, ins, c'') = channel_reader_task fs c'
      in ((case w of Some i \<Rightarrow> [(i, r)] | None \<Rightarrow> []) @ rs, ins, c''))"
| "channel_reader_task (Some (Msg_Request q) # fs) c =
     (let (rs, ins, c') = channel_reader_task fs c in (rs, channel_incoming_of q # ins, c'))"

text \<open>\<open>str::parse::<u16>\<close>: an optional \<open>+\<close>, at least one digit, in range.\<close>

definition parse_u16 :: "string \<Rightarrow> u16 option" where
  "parse_u16 s =
     (let ds = (case s of c # cs \<Rightarrow> if c = CHR ''+'' then cs else s | [] \<Rightarrow> s)
      in if ds = [] then None
         else (case parse_digits 0 ds of
                 Some n \<Rightarrow> if n < 2 ^ 16 then Some (of_nat n) else None
               | None \<Rightarrow> None))"

text \<open>The stderr task: the last well-formed \<open>PORT:{port}\<close> line wins.\<close>

definition stderr_line :: "string \<Rightarrow> channel_connection \<Rightarrow> channel_connection" where
  "stderr_line line c =
     (case strip_prefix ''PORT:'' line of
        Some p \<Rightarrow> (case parse_u16 (str_trim p) of Some port \<Rightarrow> c\<lparr>cn_port := port\<rparr> | None \<Rightarrow> c)
      | None \<Rightarrow> c)"


section \<open>Correlation of requests and responses\<close>

datatype rpc_op =
    Op_Send bool string json
  | Op_Receive json_rpc_response

datatype rpc_event =
    Sent u64
  | Resolved u64 json_rpc_response

fun sent_ids :: "rpc_event list \<Rightarrow> u64 list" where
  "sent_ids [] = []"
| "sent_ids (Sent i # es) = i # sent_ids es"
| "sent_ids (Resolved i r # es) = sent_ids es"

fun resolved_ids :: "rpc_event list \<Rightarrow> u64 list" where
  "resolved_ids [] = []"
| "resolved_ids (Sent i # es) = resolved_ids es"
| "resolved_ids (Resolved i r # es) = i # resolved_ids es"

lemma sent_ids_append [simp]: "sent_ids (es @ fs) = sent_ids es @ sent_ids fs"
  by (induction es rule: sent_ids.induct) auto

lemma resolved_ids_append [simp]: "resolved_ids (es @ fs) = resolved_ids es @ resolved_ids fs"
  by (induction es rule: resolved_ids.induct) auto

text \<open>The ids of the first \<open>n\<close> requests.\<close>

definition issued :: "nat \<Rightarrow> u64 list" where
  "issued n = map of_nat [1..<Suc n]"

lemma issued_0 [simp]: "issued 0 = []"
  by (simp add: issued_def)

lemma issued_Suc: "issued (Suc n) = issued n @ [of_nat (Suc n)]"
  by (simp add: issued_def)

lemma issued_fresh:
  assumes "Suc n < 2 ^ 64"
  shows "of_nat (Suc n) \<notin> set (issued n)"
proof
  assume "of_nat (Suc n) \<in> set (issued n)"
  then obtain k where k: "k < Suc n" "(of_nat (Suc n) :: u64) = of_nat k"
    by (auto simp: issued_def simp del: of_nat_Suc upt_Suc)
  have un: "unat (of_nat j :: u64) = j" if "j < 2 ^ 64" for j
    using that by (simp add: unat_of_nat)
  have "k = Suc n"
    using un [of k] un [OF assms] k assms by (metis less_trans)
  with k(1) show False by simp
qed

fun is_send :: "rpc_op \<Rightarrow> bool" where
  "is_send (Op_Send ok m p) = True"
| "is_send (Op_Receive r) = False"

text \<open>Running operations, with the events they cause.\<close>

fun rpc_step ::
  "('c \<Rightarrow> u64) \<Rightarrow> (bool \<Rightarrow> string \<Rightarrow> json \<Rightarrow> 'c \<Rightarrow> 'c) \<Rightarrow> (json_rpc_response \<Rightarrow> 'c \<Rightarrow> u64 option \<times> 'c)
    \<Rightarrow> rpc_op \<Rightarrow> 'c \<Rightarrow> rpc_event list \<times> 'c" where
  "rpc_step nxt snd_req res (Op_Send ok m p) c = ([Sent (nxt c)], snd_req ok m p c)"
| "rpc_step nxt snd_req res (Op_Receive r) c =
     (case res r c of (Some i, c') \<Rightarrow> ([Resolved i r], c') | (None, c') \<Rightarrow> ([], c'))"

fun rpc_run ::
  "('c \<Rightarrow> u64) \<Rightarrow> (bool \<Rightarrow> string \<Rightarrow> json \<Rightarrow> 'c \<Rightarrow> 'c) \<Rightarrow> (json_rpc_response \<Rightarrow> 'c \<Rightarrow> u64 option \<times> 'c)
    \<Rightarrow> rpc_op list \<Rightarrow> 'c \<Rightarrow> rpc_event list \<times> 'c" where
  "rpc_run nxt snd_req res [] c = ([], c)"
| "rpc_run nxt snd_req res (op # ops) c =
     (let (es, c') = rpc_step nxt snd_req res op c; (fs, c'') = rpc_run nxt snd_req res ops c'
      in (es @ fs, c''))"

definition agent_request :: "bool \<Rightarrow> string \<Rightarrow> json \<Rightarrow> agent_connection \<Rightarrow> agent_connection" where
  "agent_request ok m p c = snd (agent_send_request ok m p c)"

definition channel_request :: "bool \<Rightarrow> string \<Rightarrow> json \<Rightarrow> channel_connection \<Rightarrow> channel_connection" where
  "channel_request ok m p c = snd (channel_send_request ok m p c)"

text \<open>What both connections promise: where a request waits, and which waiter a response wakes.\<close>

locale rpc_correlation =
  fixes next_id :: "'c \<Rightarrow> u64"
    and pending :: "'c \<Rightarrow> u64 list"
    and send :: "bool \<Rightarrow> string \<Rightarrow> json \<Rightarrow> 'c \<Rightarrow> 'c"
    and resolve :: "json_rpc_response \<Rightarrow> 'c \<Rightarrow> u64 option \<times> 'c"
  assumes next_send: "next_id (send ok m p c) = next_id c + 1"
    and pending_send: "pending (send ok m p c) = pending c @ [next_id c]"
    and resolve_result: "fst (resolve r c) =
       (if response_slot (resp_id r) \<in> set (pending c) then Some (response_slot (resp_id r)) else None)"
    and next_resolve: "next_id (snd (resolve r c)) = next_id c"
    and pending_resolve: "set (pending (snd (resolve r c))) =
       set (pending c) - {response_slot (resp_id r)}"
begin

abbreviation "stp \<equiv> rpc_step next_id send resolve"
abbreviation "rn \<equiv> rpc_run next_id send resolve"

lemma rpc_run_snoc:
  "rn (ops @ [op]) c = (let (es, c') = rn ops c; (fs, c'') = stp op c' in (es @ fs, c''))"
  by (induction ops arbitrary: c) (simp_all add: case_prod_unfold Let_def)

definition good :: "nat \<Rightarrow> rpc_event list \<times> 'c \<Rightarrow> bool" where
  "good n tc \<longleftrightarrow> (case tc of (es, c) \<Rightarrow>
     next_id c = of_nat (Suc n) \<and> sent_ids es = issued n \<and>
     distinct (resolved_ids es) \<and> set (resolved_ids es) \<subseteq> set (issued n) \<and>
     set (pending c) \<subseteq> set (issued n) - set (resolved_ids es) \<and>
     (\<forall>i r. Resolved i r \<in> set es \<longrightarrow> response_slot (resp_id r) = i))"

lemma good_send:
  assumes "good n (es, c)" "Suc n < 2 ^ 64"
  shows "good (Suc n) (es @ [Sent (next_id c)], send ok m p c)"
  using assms(1) issued_fresh [OF assms(2)]
  by (auto simp: good_def next_send pending_send issued_Suc simp del: of_nat_Suc)
    (simp_all add: add.commute)

lemma good_receive:
  assumes "good n (es, c)"
  shows "good n (es @ fst (stp (Op_Receive r) c), snd (stp (Op_Receive r) c))"
proof (cases "response_slot (resp_id r) \<in> set (pending c)")
  case True
  then obtain c' where "resolve r c = (Some (response_slot (resp_id r)), c')"
    using resolve_result [of r c] by (cases "resolve r c") auto
  with assms True show ?thesis
    using next_resolve [of r c] pending_resolve [of r c] by (auto simp: good_def)
next
  case False
  then obtain c' where "resolve r c = (None, c')"
    using resolve_result [of r c] by (cases "resolve r c") auto
  with assms False show ?thesis
    using next_resolve [of r c] pending_resolve [of r c] by (auto simp: good_def)
qed

lemma rpc_run_good:
  assumes "next_id c0 = 1" "pending c0 = []" "length (filter is_send ops) < 2 ^ 64 - 1"
  shows "good (length (filter is_send ops)) (rn ops c0)"
  using assms(3)
proof (induction ops rule: rev_induct)
  case Nil
  then show ?case using assms(1,2) by (simp add: good_def)
next
  case (snoc op ops)
  obtain es c where run: "rn ops c0 = (es, c)" by (cases "rn ops c0")
  with snoc have IH: "good (length (filter is_send ops)) (es, c)" by (cases op) simp_all
  have "rn (ops @ [op]) c0 = (es @ fst (stp op c), snd (stp op c))"
    by (simp add: rpc_run_snoc run case_prod_unfold Let_def)
  with IH snoc.prems show ?case
    using good_send [OF IH] good_receive [OF IH] by (cases op) auto
qed

end

interpretation agent_rpc: rpc_correlation ag_next_id ag_pending
  agent_request agent_handle_pending_response
  by unfold_locales (auto simp: agent_request_def agent_send_request_def agent_handle_pending_response_def Let_def)

interpretation channel_rpc: rpc_correlation cn_next_id cn_pending
  channel_request channel_resolve
  by unfold_locales (auto simp: channel_request_def channel_send_request_def channel_resolve_def Let_def)



section \<open>The reader tasks\<close>

definition frame_requests :: "json_rpc_message option list \<Rightarrow> json_rpc_request list" where
  "frame_requests fs =
     concat (map (\<lambda>f. case f of Some (Msg_Request q) \<Rightarrow> [q] | _ \<Rightarrow> []) fs)"

definition frame_responses :: "json_rpc_message option list \<Rightarrow> json_rpc_response list" where
  "frame_responses fs =
     concat (map (\<lambda>f. case f of Some (Msg_Response r) \<Rightarrow> [r] | _ \<Rightarrow> []) fs)"

lemma agent_reader_incoming:
  "list_all snd fs \<Longrightarrow> fst (snd (agent_reader_task idx fs c)) =
     map (\<lambda>q. \<lparr>si_slot_idx = idx, si_msg = Some (incoming_of q)\<rparr>) (frame_requests (map fst fs))
       @ [\<lparr>si_slot_idx = idx, si_msg = None\<rparr>]"
proof (induction fs arbitrary: c)
  case (Cons f fs)
  obtain m ok where f: "f = (m, ok)" by (cases f)
  with Cons show ?case
    by (cases m; cases "the m") (auto simp: frame_requests_def case_prod_unfold Let_def)
qed (simp add: frame_requests_def)

lemma channel_reader_incoming:
  "fst (snd (channel_reader_task fs c)) =
     map channel_incoming_of (frame_requests (takeWhile (\<lambda>f. f \<noteq> None) fs))"
proof (induction fs arbitrary: c)
  case (Cons f fs)
  then show ?case
    by (cases f; cases "the f") (auto simp: frame_requests_def case_prod_unfold Let_def)
qed (simp add: frame_requests_def)


section \<open>Properties\<close>



text \<open>
  A malformed line costs an agent one message and a channel its connection: the agent's
  reader task skips it and hands over every request and notification of the whole output, in order,
  followed by the end-of-stream mark, while the channel's reader task hands over only what precedes
  the first malformed line.
\<close>

lemma malformed_line_handling:
  "fst (snd (agent_reader_task idx (map (\<lambda>f. (f, True)) fs) ac)) =
     map (\<lambda>q. \<lparr>si_slot_idx = idx, si_msg = Some (incoming_of q)\<rparr>) (frame_requests fs)
       @ [\<lparr>si_slot_idx = idx, si_msg = None\<rparr>]
   \<and> fst (snd (channel_reader_task fs cc)) =
     map channel_incoming_of (frame_requests (takeWhile (\<lambda>f. f \<noteq> None) fs))"
  using agent_reader_incoming [of "map (\<lambda>f. (f, True)) fs" idx ac] channel_reader_incoming
  by (simp add: list_all_iff comp_def)

end
