(* ===== verification/Fs_Sandbox.thy ===== *)
theory Fs_Sandbox
  imports Connections
begin

text \<open>
  \<open>crates/anyclaw-agents/src/fs_sandbox.rs\<close>: the file requests of an agent are confined to its
  working directory.

  A \<open>Path\<close> is the list of its components, as \<open>Path::components\<close> gives them and as
  \<open>Path::starts_with\<close>, \<open>parent\<close>, \<open>file_name\<close> and equality of paths use them.
  \<open>canonicalize\<close> asks the file system: it is the parameter \<open>canon\<close>, whose documented
  behaviour (an absolute result without \<open>..\<close>, stable under a second call) is \<open>canon_ok\<close>.
\<close>

section \<open>Paths\<close>

datatype path_component =
    RootDir
  | CurDir
  | ParentDir
  | Normal string

type_synonym fs_path = "path_component list"

definition piece_component :: "string \<Rightarrow> path_component" where
  "piece_component s = (if s = ''..'' then ParentDir else Normal s)"

definition path_of :: "string \<Rightarrow> fs_path" where
  "path_of s =
     (let pieces = str_split (CHR ''/'') s;
          body = map piece_component (filter (\<lambda>p. p \<noteq> '''' \<and> p \<noteq> ''.'') pieces)
      in if starts_with ''/'' s then RootDir # body
         else if hd pieces = ''.'' then CurDir # body
         else body)"

definition is_absolute :: "fs_path \<Rightarrow> bool" where
  "is_absolute p \<longleftrightarrow> p \<noteq> [] \<and> hd p = RootDir"

definition path_join :: "fs_path \<Rightarrow> fs_path \<Rightarrow> fs_path" where
  "path_join p q =
     (if is_absolute q then q
      else if p = [] then q
      else p @ (case q of CurDir # r \<Rightarrow> r | _ \<Rightarrow> q))"

definition path_parent :: "fs_path \<Rightarrow> fs_path option" where
  "path_parent p =
     (if p = [] then None
      else (case last p of RootDir \<Rightarrow> None | _ \<Rightarrow> Some (butlast p)))"

definition file_name :: "fs_path \<Rightarrow> string option" where
  "file_name p =
     (if p = [] then None else (case last p of Normal s \<Rightarrow> Some s | _ \<Rightarrow> None))"

definition path_starts_with :: "fs_path \<Rightarrow> fs_path \<Rightarrow> bool" where
  "path_starts_with p root \<longleftrightarrow> take (length root) p = root"

lemma path_starts_with_iff: "path_starts_with p root \<longleftrightarrow> (\<exists>r. p = root @ r)"
  by (auto simp: path_starts_with_def) (metis append_take_drop_id)


section \<open>Validation\<close>

text \<open>\<open>current_dir\<close> is \<open>std::env::current_dir().ok()\<close>.\<close>

definition resolve_agent_cwd :: "path option \<Rightarrow> workspace_config \<Rightarrow> path" where
  "resolve_agent_cwd current_dir w =
     (case w of
        Ws_Local l \<Rightarrow> unwrap_or (lw_working_dir l) (unwrap_or current_dir ''/'')
      | Ws_Docker d \<Rightarrow> unwrap_or (dw_working_dir d) (unwrap_or current_dir ''/''))"

type_synonym canonicalizer = "fs_path \<Rightarrow> string + fs_path"

definition validate_fs_path :: "canonicalizer \<Rightarrow> fs_path \<Rightarrow> string \<Rightarrow> string + fs_path" where
  "validate_fs_path canon sandbox_root requested =
     (let requested_path = path_of requested;
          resolved = (if is_absolute requested_path then requested_path
                      else path_join sandbox_root requested_path)
      in case canon resolved of
           Inl e \<Rightarrow> Inl (''path resolution failed: '' @ e)
         | Inr canonical \<Rightarrow>
             (case canon sandbox_root of
                Inl e \<Rightarrow> Inl (''sandbox root resolution failed: '' @ e)
              | Inr canonical_root \<Rightarrow>
                  if \<not> path_starts_with canonical canonical_root
                  then Inl ''path outside allowed directory''
                  else Inr canonical))"

definition validate_fs_write_path :: "canonicalizer \<Rightarrow> fs_path \<Rightarrow> string \<Rightarrow> string + fs_path" where
  "validate_fs_write_path canon sandbox_root requested =
     (let requested_path = path_of requested;
          resolved = (if is_absolute requested_path then requested_path
                      else path_join sandbox_root requested_path)
      in case path_parent resolved of
           None \<Rightarrow> Inl ''invalid path: no parent directory''
         | Some parent \<Rightarrow>
             (case file_name resolved of
                None \<Rightarrow> Inl ''invalid path: no filename''
              | Some filename \<Rightarrow>
                  (case canon parent of
                     Inl e \<Rightarrow> Inl (''parent directory resolution failed: '' @ e)
                   | Inr canonical_parent \<Rightarrow>
                       (case canon sandbox_root of
                          Inl e \<Rightarrow> Inl (''sandbox root resolution failed: '' @ e)
                        | Inr canonical_root \<Rightarrow>
                            if \<not> path_starts_with canonical_parent canonical_root
                            then Inl ''path outside allowed directory''
                            else Inr (path_join canonical_parent [Normal filename])))))"


section \<open>Requests\<close>

definition str_param :: "json_rpc_request \<Rightarrow> string \<Rightarrow> string" where
  "str_param r f = unwrap_or (Option.bind (req_params r) (\<lambda>p. as_str (jidx p f))) ''''"

definition success_response :: "json_rpc_request \<Rightarrow> json \<Rightarrow> json_rpc_response" where
  "success_response r result = response_success (req_id r) result"

definition error_response :: "json_rpc_request \<Rightarrow> int \<Rightarrow> string \<Rightarrow> json_rpc_response" where
  "error_response r code msg =
     response_error (req_id r) \<lparr>err_code = code, err_message = msg, err_data = None\<rparr>"

text \<open>\<open>read\<close> is \<open>tokio::fs::read_to_string\<close>.\<close>

definition fs_read_response ::
  "canonicalizer \<Rightarrow> (fs_path \<Rightarrow> string + string) \<Rightarrow> fs_path \<Rightarrow> json_rpc_request
    \<Rightarrow> json_rpc_response" where
  "fs_read_response canon read sandbox_root r =
     (case validate_fs_path canon sandbox_root (str_param r ''path'') of
        Inl msg \<Rightarrow> error_response r (- 32000) msg
      | Inr resolved \<Rightarrow>
          (case read resolved of
             Inr content \<Rightarrow> success_response r (JObj [(''content'', JStr content)])
           | Inl e \<Rightarrow> error_response r (- 32000) e))"

text \<open>
  \<open>write\<close> is \<open>tokio::fs::write\<close>; the value also says what was written, and where the call was
  made.
\<close>

definition fs_write_response ::
  "canonicalizer \<Rightarrow> (fs_path \<Rightarrow> string \<Rightarrow> string + unit) \<Rightarrow> fs_path \<Rightarrow> json_rpc_request
    \<Rightarrow> (fs_path \<times> string) option \<times> json_rpc_response" where
  "fs_write_response canon write sandbox_root r =
     (let content = str_param r ''content''
      in case validate_fs_write_path canon sandbox_root (str_param r ''path'') of
           Inl msg \<Rightarrow> (None, error_response r (- 32000) msg)
         | Inr resolved \<Rightarrow>
             (case write resolved content of
                Inr _ \<Rightarrow> (Some (resolved, content), success_response r (JObj []))
              | Inl e \<Rightarrow> (None, error_response r (- 32000) e)))"


section \<open>Lemmas\<close>

fun is_normal :: "path_component \<Rightarrow> bool" where
  "is_normal (Normal s) = True"
| "is_normal _ = False"

definition is_canonical :: "fs_path \<Rightarrow> bool" where
  "is_canonical p \<longleftrightarrow> is_absolute p \<and> list_all is_normal (tl p)"

definition canon_ok :: "canonicalizer \<Rightarrow> bool" where
  "canon_ok canon \<longleftrightarrow> (\<forall>p q. canon p = Inr q \<longrightarrow> is_canonical q \<and> canon q = Inr q)"

lemma canon_okD: "canon_ok canon \<Longrightarrow> canon p = Inr q \<Longrightarrow> is_canonical q \<and> canon q = Inr q"
  unfolding canon_ok_def by blast

lemma canonical_suffix:
  "is_canonical (root @ r) \<Longrightarrow> is_canonical root \<Longrightarrow> list_all is_normal r"
  by (cases root) (auto simp: is_canonical_def is_absolute_def)

lemma validate_fs_path_accepts:
  assumes "validate_fs_path canon root requested = Inr p"
  obtains croot r q where "canon root = Inr croot" "p = croot @ r" "canon q = Inr p"
  using assms
  by (auto simp: validate_fs_path_def Let_def path_starts_with_iff split: sum.splits if_splits)

lemma validate_fs_write_path_accepts:
  assumes "validate_fs_write_path canon root requested = Inr p" "canon_ok canon"
  obtains croot r q f where "canon root = Inr croot" "canon q = Inr (croot @ r)"
    "p = croot @ r @ [Normal f]"
proof -
  from assms(1) obtain cp croot f q where *: "canon root = Inr croot" "path_starts_with cp croot"
      "p = path_join cp [Normal f]" "canon q = Inr cp"
    by (auto simp: validate_fs_write_path_def Let_def split: sum.splits option.splits if_splits)
  moreover from * have "cp \<noteq> []"
    using canon_okD [OF assms(2)] by (auto simp: is_canonical_def is_absolute_def)
  ultimately show thesis
    using that by (auto simp: path_starts_with_iff path_join_def is_absolute_def)
qed

text \<open>A file system where \<open>/box/link\<close> is a symbolic link to \<open>/etc/passwd\<close>.\<close>

definition link_canon :: canonicalizer where
  "link_canon p =
     (if p = [RootDir, Normal ''box'', Normal ''link''] then Inr [RootDir, Normal ''etc'', Normal ''passwd'']
      else if p \<in> {[RootDir], [RootDir, Normal ''box''], [RootDir, Normal ''etc''],
                   [RootDir, Normal ''etc'', Normal ''passwd'']} then Inr p
      else Inl ''No such file or directory'')"

lemma link_canon_ok: "canon_ok link_canon"
  by (auto simp: canon_ok_def link_canon_def is_canonical_def is_absolute_def split: if_splits)


section \<open>Properties\<close>

text \<open>
  Property C38.  A path accepted for reading is canonical and lies inside the canonical sandbox root:
  neither \<open>..\<close> components nor symbolic links lead a read outside.  A path accepted for writing
  names a file directly below a canonical directory inside the root.
\<close>

theorem fs_paths_confined:
  assumes "canon_ok canon"
  shows "(validate_fs_path canon root requested = Inr p \<longrightarrow>
            canon p = Inr p \<and>
            (\<exists>croot r. canon root = Inr croot \<and> p = croot @ r \<and> list_all is_normal r))
    \<and> (validate_fs_write_path canon root requested = Inr p \<longrightarrow>
            canon (butlast p) = Inr (butlast p) \<and>
            (\<exists>croot r. canon root = Inr croot \<and> r \<noteq> [] \<and> p = croot @ r \<and> list_all is_normal r))"
proof (intro conjI impI)
  assume "validate_fs_path canon root requested = Inr p"
  then obtain croot r q where acc: "canon root = Inr croot" "p = croot @ r" "canon q = Inr p"
    by (rule validate_fs_path_accepts)
  then show "canon p = Inr p" using canon_okD [OF assms] by blast
  show "\<exists>croot r. canon root = Inr croot \<and> p = croot @ r \<and> list_all is_normal r"
    using acc canonical_suffix [of croot r] canon_okD [OF assms acc(3)] canon_okD [OF assms acc(1)]
    by auto
next
  assume acc: "validate_fs_write_path canon root requested = Inr p"
  obtain croot r q f where *: "canon root = Inr croot" "canon q = Inr (croot @ r)"
      "p = croot @ r @ [Normal f]"
    by (rule validate_fs_write_path_accepts [OF acc assms])
  then have "butlast p = croot @ r" by (simp add: butlast_append)
  then show "canon (butlast p) = Inr (butlast p)" using canon_okD [OF assms *(2)] by simp
  have "list_all is_normal (r @ [Normal f])"
    using canonical_suffix canon_okD [OF assms *(2)] canon_okD [OF assms *(1)] by auto
  then show "\<exists>croot r. canon root = Inr croot \<and> r \<noteq> [] \<and> p = croot @ r \<and> list_all is_normal r"
    using * by (intro exI [of _ croot] exI [of _ "r @ [Normal f]"]) simp
qed

theorem fs_paths_confined_witness:
  "validate_fs_path link_canon (path_of ''/box'') ''../etc/passwd'' \<noteq> Inr (path_of ''/etc/passwd'')
   \<and> validate_fs_path link_canon (path_of ''/box'') ''link'' = Inl ''path outside allowed directory''
   \<and> (\<exists>croot r. link_canon (path_of ''/'') = Inr croot
        \<and> path_of ''/etc/passwd'' = croot @ r \<and> list_all is_normal r)"
proof -
  have "validate_fs_path link_canon (path_of ''/'') ''/etc/passwd'' = Inr (path_of ''/etc/passwd'')"
    by (simp add: validate_fs_path_def path_of_def piece_component_def starts_with_def
        is_absolute_def link_canon_def path_starts_with_def)
  with fs_paths_confined [OF link_canon_ok, of "path_of ''/''" "''/etc/passwd''" "path_of ''/etc/passwd''"]
  have "\<exists>croot r. link_canon (path_of ''/'') = Inr croot
        \<and> path_of ''/etc/passwd'' = croot @ r \<and> list_all is_normal r" by blast
  moreover have "validate_fs_path link_canon (path_of ''/box'') ''link'' =
      Inl ''path outside allowed directory''"
    by (simp add: validate_fs_path_def path_of_def piece_component_def starts_with_def path_join_def
        is_absolute_def link_canon_def path_starts_with_def)
  moreover have "validate_fs_path link_canon (path_of ''/box'') ''../etc/passwd'' \<noteq>
      Inr (path_of ''/etc/passwd'')"
    by (simp add: validate_fs_path_def path_of_def piece_component_def starts_with_def path_join_def
        is_absolute_def link_canon_def)
  ultimately show ?thesis by blast
qed

text \<open>
  A write is not confined by symbolic links: the last component of an accepted write
  path is not resolved, so a link inside the sandbox to a file outside is accepted and the write goes
  to that file.
\<close>

lemma fs_write_follows_link:
  "\<exists>canon root requested p croot.
     canon_ok canon \<and> validate_fs_write_path canon root requested = Inr p \<and> canon root = Inr croot \<and>
     (\<exists>target. canon p = Inr target \<and> \<not> path_starts_with target croot)"
proof -
  have "validate_fs_write_path link_canon (path_of ''/box'') ''link'' =
      Inr [RootDir, Normal ''box'', Normal ''link'']"
    by (simp add: validate_fs_write_path_def path_of_def piece_component_def starts_with_def
        path_join_def is_absolute_def link_canon_def path_starts_with_def path_parent_def file_name_def)
  moreover have "link_canon (path_of ''/box'') = Inr [RootDir, Normal ''box'']"
    by (simp add: path_of_def piece_component_def starts_with_def link_canon_def)
  moreover have "link_canon [RootDir, Normal ''box'', Normal ''link''] =
      Inr [RootDir, Normal ''etc'', Normal ''passwd'']"
    by (simp add: link_canon_def)
  moreover have "\<not> path_starts_with [RootDir, Normal ''etc'', Normal ''passwd''] [RootDir, Normal ''box'']"
    by (simp add: path_starts_with_def)
  ultimately show ?thesis using link_canon_ok by blast
qed

end
