(* ===== verification/Session_Queue.thy ===== *)
theory Session_Queue
  imports Session_Key
begin

text \<open>
  \<open>crates/anyclaw-agents/src/session_queue.rs\<close>: per-session FIFO queues with at most one prompt
  in flight per session, and the two ways the agents manager uses them: on
  \<open>AgentsCommand::EnqueueMessage\<close> (\<open>commands.rs\<close>) and on a finished prompt
  (\<open>handle_prompt_completion\<close> in \<open>incoming.rs\<close>).

  The locale \<open>session_fifo\<close> is the contract the manager relies on.  Its lemmas, that no message
  is lost, duplicated or reordered, are proved once and interpreted on the queue.
\<close>

section \<open>The queue\<close>

type_synonym ('c, 'm) rich_payload = "'c list \<times> 'm option"

datatype ('c, 'm) queue_action =
    Dispatch "('c, 'm) rich_payload"
  | Enqueued

record ('c, 'm) session_queue =
  queues :: "(session_key, ('c, 'm) rich_payload list) hmap"
  active :: "session_key set"

definition queue_new :: "('c, 'm) session_queue" where
  "queue_new = \<lparr>queues = [], active = {}\<rparr>"

text \<open>\<open>entry(k).or_default().push_back(x)\<close>.\<close>

definition push_back ::
  "session_key \<Rightarrow> 'x \<Rightarrow> (session_key, 'x list) hmap \<Rightarrow> (session_key, 'x list) hmap" where
  "push_back k x m = hm_insert k ((case hm_get m k of None \<Rightarrow> [] | Some q \<Rightarrow> q) @ [x]) m"

definition queue_push ::
  "session_key \<Rightarrow> 'c list \<Rightarrow> 'm option \<Rightarrow> ('c, 'm) session_queue
    \<Rightarrow> ('c, 'm) queue_action \<times> ('c, 'm) session_queue" where
  "queue_push k c m q =
     (if k \<in> active q then (Enqueued, q\<lparr>queues := push_back k (c, m) (queues q)\<rparr>)
      else (Dispatch (c, m), q\<lparr>active := insert k (active q)\<rparr>))"

definition mark_idle ::
  "session_key \<Rightarrow> ('c, 'm) session_queue
    \<Rightarrow> ('c, 'm) rich_payload option \<times> ('c, 'm) session_queue" where
  "mark_idle k q =
     (case hm_get (queues q) k of
        Some (x # xs) \<Rightarrow>
          (Some x, q\<lparr>queues :=
             (if xs = [] then hm_remove k (queues q) else hm_insert k xs (queues q))\<rparr>)
      | Some [] \<Rightarrow>
          (None, q\<lparr>queues := hm_remove k (queues q), active := active q - {k}\<rparr>)
      | None \<Rightarrow> (None, q\<lparr>active := active q - {k}\<rparr>))"

definition is_active :: "session_key \<Rightarrow> ('c, 'm) session_queue \<Rightarrow> bool" where
  "is_active k q \<longleftrightarrow> k \<in> active q"

definition push_only ::
  "session_key \<Rightarrow> 'c list \<Rightarrow> 'm option \<Rightarrow> ('c, 'm) session_queue
    \<Rightarrow> bool \<times> ('c, 'm) session_queue" where
  "push_only k c m q = (k \<notin> active q, q\<lparr>queues := push_back k (c, m) (queues q)\<rparr>)"

text \<open>The loop of \<open>flush_pending\<close>: contents are joined, the first metadata present wins.\<close>

fun merge_first :: "('c, 'm) rich_payload list \<Rightarrow> 'c list \<times> 'm option \<Rightarrow> 'c list \<times> 'm option" where
  "merge_first [] acc = acc"
| "merge_first ((c, m) # ps) (cs, fm) =
     merge_first ps (cs @ c, if fm = None \<and> m \<noteq> None then m else fm)"

definition flush_pending ::
  "session_key \<Rightarrow> ('c, 'm) session_queue
    \<Rightarrow> ('c, 'm) rich_payload option \<times> ('c, 'm) session_queue" where
  "flush_pending k q =
     (if k \<in> active q then (None, q)
      else (case hm_get (queues q) k of
              None \<Rightarrow> (None, q)
            | Some ps \<Rightarrow>
                (let q1 = q\<lparr>queues := hm_remove k (queues q)\<rparr>
                 in if ps = [] then (None, q1)
                    else (Some (merge_first ps ([], None)), q1\<lparr>active := insert k (active q1)\<rparr>))))"

definition drain_queued ::
  "session_key \<Rightarrow> ('c, 'm) session_queue
    \<Rightarrow> ('c, 'm) rich_payload list \<times> ('c, 'm) session_queue" where
  "drain_queued k q =
     (case hm_get (queues q) k of
        Some ps \<Rightarrow> (ps, q\<lparr>queues := hm_remove k (queues q)\<rparr>)
      | None \<Rightarrow> ([], q))"


section \<open>How the agents manager drives it\<close>

text \<open>The queue part of \<open>EnqueueMessage\<close>: queue behind a running prompt, or flush at once.\<close>

definition queue_enqueue ::
  "session_key \<Rightarrow> 'c list \<Rightarrow> 'm option \<Rightarrow> ('c, 'm) session_queue
    \<Rightarrow> ('c, 'm) rich_payload option \<times> ('c, 'm) session_queue" where
  "queue_enqueue k c m q =
     (if is_active k q then (None, snd (queue_push k c m q))
      else flush_pending k (snd (push_only k c m q)))"

text \<open>The loop of \<open>handle_prompt_completion\<close>: contents are joined, the last metadata wins.\<close>

fun merge_last :: "('c, 'm) rich_payload list \<Rightarrow> 'c list \<times> 'm option \<Rightarrow> 'c list \<times> 'm option" where
  "merge_last [] acc = acc"
| "merge_last ((c, m) # ps) (cs, mm) = merge_last ps (cs @ c, if m \<noteq> None then m else mm)"

definition queue_complete ::
  "session_key \<Rightarrow> ('c, 'm) session_queue
    \<Rightarrow> ('c, 'm) rich_payload option \<times> ('c, 'm) session_queue" where
  "queue_complete k q =
     (case mark_idle k q of
        (None, q1) \<Rightarrow> (None, q1)
      | (Some p, q1) \<Rightarrow>
          (let (rest, q2) = drain_queued k q1 in (Some (merge_last rest p), q2)))"


section \<open>Invariant\<close>

text \<open>Between two commands a session has a queue only while it is active, and never an empty one.\<close>

definition queue_inv :: "('c, 'm) session_queue \<Rightarrow> bool" where
  "queue_inv q \<longleftrightarrow> hm_ok (queues q)
     \<and> (\<forall>k ps. hm_get (queues q) k = Some ps \<longrightarrow> ps \<noteq> [] \<and> k \<in> active q)"

definition waiting :: "('c, 'm) session_queue \<Rightarrow> session_key \<Rightarrow> 'c list" where
  "waiting q k = (case hm_get (queues q) k of None \<Rightarrow> [] | Some ps \<Rightarrow> concat (map fst ps))"

lemmas queue_defs =
  queue_push_def mark_idle_def is_active_def push_only_def flush_pending_def drain_queued_def
  queue_enqueue_def queue_complete_def push_back_def

lemma merge_first_content: "fst (merge_first ps acc) = fst acc @ concat (map fst ps)"
  by (induction ps acc rule: merge_first.induct) auto

lemma merge_last_content: "fst (merge_last ps acc) = fst acc @ concat (map fst ps)"
  by (induction ps acc rule: merge_last.induct) auto

lemma queue_inv_new: "queue_inv queue_new"
  by (simp add: queue_inv_def queue_new_def)

lemma waiting_new: "waiting queue_new k = []"
  by (simp add: waiting_def queue_new_def)

lemma queue_inv_idle: "queue_inv q \<Longrightarrow> k \<notin> active q \<Longrightarrow> hm_get (queues q) k = None"
  by (cases "hm_get (queues q) k") (auto simp: queue_inv_def)

lemma queue_inv_enqueue: "queue_inv q \<Longrightarrow> queue_inv (snd (queue_enqueue k c m q))"
  by (auto simp: queue_defs queue_inv_def Let_def split: option.splits)

lemma queue_inv_mark_idle: "queue_inv q \<Longrightarrow> queue_inv (snd (mark_idle k q))"
  by (auto simp: queue_defs queue_inv_def split: option.splits list.splits)

lemma queue_inv_drain: "queue_inv q \<Longrightarrow> queue_inv (snd (drain_queued k q))"
  by (auto simp: queue_defs queue_inv_def split: option.splits)

lemma queue_inv_complete: "queue_inv q \<Longrightarrow> queue_inv (snd (queue_complete k q))"
  using queue_inv_mark_idle [of q k] queue_inv_drain [of _ k]
  by (force simp: queue_complete_def split: option.splits prod.splits)


section \<open>The contract of the queue\<close>

datatype ('k, 'c, 'm) fifo_event =
    Ev_Enqueue 'k "'c list" "'m option"
  | Ev_Complete 'k

type_synonym ('c, 'm, 'q) dispatcher = "'q \<Rightarrow> ('c list \<times> 'm option) option \<times> 'q"

fun fifo_step ::
  "('k \<Rightarrow> 'c list \<Rightarrow> 'm option \<Rightarrow> ('c, 'm, 'q) dispatcher) \<Rightarrow> ('k \<Rightarrow> ('c, 'm, 'q) dispatcher)
    \<Rightarrow> ('k, 'c, 'm) fifo_event \<Rightarrow> ('c, 'm, 'q) dispatcher" where
  "fifo_step enq fin (Ev_Enqueue k c m) q = enq k c m q"
| "fifo_step enq fin (Ev_Complete k) q = fin k q"

fun fifo_key :: "('k, 'c, 'm) fifo_event \<Rightarrow> 'k" where
  "fifo_key (Ev_Enqueue k c m) = k"
| "fifo_key (Ev_Complete k) = k"

text \<open>What was sent to session \<open>k\<close>, in order.\<close>

fun fifo_pushed :: "'k \<Rightarrow> ('k, 'c, 'm) fifo_event list \<Rightarrow> 'c list" where
  "fifo_pushed k [] = []"
| "fifo_pushed k (Ev_Enqueue k' c m # es) = (if k' = k then c else []) @ fifo_pushed k es"
| "fifo_pushed k (Ev_Complete k' # es) = fifo_pushed k es"

definition fifo_out ::
  "'k \<Rightarrow> ('k, 'c, 'm) fifo_event \<Rightarrow> ('c list \<times> 'm option) option \<Rightarrow> 'c list" where
  "fifo_out k e r = (case r of Some (c, m) \<Rightarrow> if fifo_key e = k then c else [] | None \<Rightarrow> [])"

text \<open>Running events: what was handed to the agent for session \<open>k\<close>, and the final queue.\<close>

fun fifo_run ::
  "('k \<Rightarrow> 'c list \<Rightarrow> 'm option \<Rightarrow> ('c, 'm, 'q) dispatcher) \<Rightarrow> ('k \<Rightarrow> ('c, 'm, 'q) dispatcher)
    \<Rightarrow> ('k, 'c, 'm) fifo_event list \<Rightarrow> 'q \<Rightarrow> 'k \<Rightarrow> 'c list \<times> 'q" where
  "fifo_run enq fin [] q k = ([], q)"
| "fifo_run enq fin (e # es) q k =
     (let (r, q') = fifo_step enq fin e q; (d, q'') = fifo_run enq fin es q' k
      in (fifo_out k e r @ d, q''))"

lemma fifo_pushed_Cons: "fifo_pushed k (e # es) = fifo_pushed k [e] @ fifo_pushed k es"
  by (cases e) simp_all

lemma fifo_pushed_complete: "fifo_pushed k (es @ [Ev_Complete k']) = fifo_pushed k es"
proof (induction es)
  case (Cons e es)
  then show ?case using fifo_pushed_Cons [of k e] by (metis append_Cons)
qed simp

lemma fifo_run_append:
  "fifo_run enq fin (es @ fs) q k =
    (let (d, q') = fifo_run enq fin es q k; (d', q'') = fifo_run enq fin fs q' k
     in (d @ d', q''))"
  by (induction es arbitrary: q) (simp_all add: case_prod_unfold Let_def)

locale session_fifo =
  fixes enq :: "'k \<Rightarrow> 'c list \<Rightarrow> 'm option \<Rightarrow> 'q \<Rightarrow> ('c list \<times> 'm option) option \<times> 'q"
    and fin :: "'k \<Rightarrow> 'q \<Rightarrow> ('c list \<times> 'm option) option \<times> 'q"
    and wait :: "'q \<Rightarrow> 'k \<Rightarrow> 'c list"
    and busy :: "'q \<Rightarrow> 'k \<Rightarrow> bool"
    and inv :: "'q \<Rightarrow> bool"
  assumes inv_enq: "inv q \<Longrightarrow> inv (snd (enq k c m q))"
    and inv_fin: "inv q \<Longrightarrow> inv (snd (fin k q))"
    and idle_empty: "inv q \<Longrightarrow> \<not> busy q k \<Longrightarrow> wait q k = []"
    and enq_idle: "inv q \<Longrightarrow> \<not> busy q k \<Longrightarrow>
       fst (enq k c m q) = Some (c, m) \<and> wait (snd (enq k c m q)) k = []"
    and enq_busy: "inv q \<Longrightarrow> busy q k \<Longrightarrow>
       fst (enq k c m q) = None \<and> wait (snd (enq k c m q)) k = wait q k @ c"
    and busy_enq: "inv q \<Longrightarrow> busy (snd (enq k c m q)) k"
    and fin_none: "inv q \<Longrightarrow> fst (fin k q) = None \<Longrightarrow>
       wait q k = [] \<and> \<not> busy (snd (fin k q)) k"
    and fin_some: "inv q \<Longrightarrow> fst (fin k q) = Some (c, m) \<Longrightarrow>
       c = wait q k \<and> busy (snd (fin k q)) k"
    and wait_fin: "inv q \<Longrightarrow> wait (snd (fin k q)) k = []"
    and enq_frame: "inv q \<Longrightarrow> k' \<noteq> k \<Longrightarrow> wait (snd (enq k c m q)) k' = wait q k'"
    and fin_frame: "inv q \<Longrightarrow> k' \<noteq> k \<Longrightarrow> wait (snd (fin k q)) k' = wait q k'"
begin

lemma inv_step: "inv q \<Longrightarrow> inv (snd (fifo_step enq fin e q))"
  by (cases e) (simp_all add: inv_enq inv_fin)

lemma conserve_step:
  assumes "inv q"
  shows "wait q k @ fifo_pushed k [e] = fifo_out k e (fst (fifo_step enq fin e q)) @ wait (snd (fifo_step enq fin e q)) k"
proof (cases e)
  case (Ev_Enqueue k' c m)
  show ?thesis
  proof (cases "k' = k")
    case True
    with Ev_Enqueue assms show ?thesis
      by (cases "busy q k") (simp_all add: fifo_out_def enq_idle enq_busy idle_empty)
  next
    case False
    with Ev_Enqueue assms show ?thesis
      by (auto simp: fifo_out_def enq_frame split: option.split)
  qed
next
  case (Ev_Complete k')
  show ?thesis
  proof (cases "k' = k")
    case True
    with Ev_Complete assms show ?thesis
      by (cases "fst (fin k q)") (auto simp: fifo_out_def wait_fin dest: fin_none fin_some)
  next
    case False
    with Ev_Complete assms show ?thesis
      by (auto simp: fifo_out_def fin_frame split: option.split)
  qed
qed

text \<open>Nothing is lost, duplicated or reordered over any run of commands.\<close>

lemma conservation:
  assumes "inv q"
  shows "wait q k @ fifo_pushed k es = fst (fifo_run enq fin es q k) @ wait (snd (fifo_run enq fin es q k)) k"
  using assms
proof (induction es arbitrary: q)
  case Nil
  then show ?case by simp
next
  case (Cons e es)
  obtain r q' where st: "fifo_step enq fin e q = (r, q')" by (cases "fifo_step enq fin e q")
  obtain d q'' where rn: "fifo_run enq fin es q' k = (d, q'')" by (cases "fifo_run enq fin es q' k")
  have "inv q'" using inv_step [OF Cons.prems, of e] st by simp
  then have "wait q' k @ fifo_pushed k es = d @ wait q'' k" using Cons.IH rn by force
  moreover have "wait q k @ fifo_pushed k [e] = fifo_out k e r @ wait q' k"
    using conserve_step [OF Cons.prems, of k e] st by simp
  ultimately have "wait q k @ fifo_pushed k (e # es) = fifo_out k e r @ d @ wait q'' k"
    by (metis append.assoc fifo_pushed_Cons)
  then show ?case by (simp add: st rn)
qed

lemma inv_run: "inv q \<Longrightarrow> inv (snd (fifo_run enq fin es q k))"
proof (induction es arbitrary: q)
  case Nil
  then show ?case by simp
next
  case (Cons e es)
  then show ?case using inv_step [of q e] by (simp add: case_prod_unfold Let_def)
qed

text \<open>When the running prompt of a session completes, everything sent before is delivered.\<close>

lemma delivered_by_completion:
  assumes "inv q" "wait q k = []"
  shows "fst (fifo_run enq fin (es @ [Ev_Complete k]) q k) = fifo_pushed k es"
proof -
  let ?q = "snd (fifo_run enq fin (es @ [Ev_Complete k]) q k)"
  have "?q = snd (fin k (snd (fifo_run enq fin es q k)))"
    by (simp add: fifo_run_append case_prod_unfold Let_def)
  then have "wait ?q k = []" using assms(1) by (simp add: wait_fin inv_run)
  moreover have "fifo_pushed k (es @ [Ev_Complete k]) = fifo_pushed k es"
    by (rule fifo_pushed_complete)
  ultimately show ?thesis using conservation [OF assms(1), of k "es @ [Ev_Complete k]"] assms(2)
    by simp
qed

end

lemma waiting_enqueue_other:
  "k' \<noteq> k \<Longrightarrow> waiting (snd (queue_enqueue k c m q)) k' = waiting q k'"
  by (auto simp: queue_defs waiting_def Let_def split: option.splits)

lemma waiting_complete_other:
  "k' \<noteq> k \<Longrightarrow> waiting (snd (queue_complete k q)) k' = waiting q k'"
  by (auto simp: queue_defs waiting_def Let_def split: option.splits list.splits prod.splits)

lemma enqueue_idle:
  assumes "queue_inv q" "k \<notin> active q"
  shows "queue_enqueue k c m q = (Some (c, m), q\<lparr>queues := hm_remove k
     (hm_insert k [(c, m)] (queues q)), active := insert k (active q)\<rparr>)"
  using assms by (cases m) (simp_all add: queue_defs queue_inv_idle Let_def)

lemma enqueue_busy:
  assumes "k \<in> active q"
  shows "queue_enqueue k c m q = (None, q\<lparr>queues := push_back k (c, m) (queues q)\<rparr>)"
  using assms by (simp add: queue_enqueue_def is_active_def queue_push_def)

lemma waiting_push_back:
  "waiting (q\<lparr>queues := push_back k (c, m) (queues q)\<rparr>) k = waiting q k @ c"
  by (simp add: waiting_def push_back_def split: option.split)

lemma complete_none:
  assumes "queue_inv q" "fst (queue_complete k q) = None"
  shows "hm_get (queues q) k = None" "k \<notin> active (snd (queue_complete k q))"
  using assms
  by (auto simp: queue_complete_def mark_idle_def queue_inv_def
      split: option.splits list.splits prod.splits)

lemma complete_some:
  assumes "queue_inv q" "fst (queue_complete k q) = Some p"
  obtains x xs where "hm_get (queues q) k = Some (x # xs)" "p = merge_last xs x"
    "k \<in> active (snd (queue_complete k q))"
  using assms
  by (force simp: queue_complete_def mark_idle_def drain_queued_def queue_inv_def
      split: option.splits list.splits prod.splits if_splits)

lemma waiting_complete:
  "queue_inv q \<Longrightarrow> waiting (snd (queue_complete k q)) k = []"
  by (auto simp: queue_complete_def mark_idle_def drain_queued_def waiting_def
      split: option.splits list.splits prod.splits)

interpretation sq: session_fifo
  queue_enqueue queue_complete waiting "\<lambda>q k. k \<in> active q" queue_inv
proof unfold_locales
  fix q :: "('c, 'm) session_queue" and k c m
  assume inv: "queue_inv q"
  show "queue_inv (snd (queue_enqueue k c m q))" using inv by (rule queue_inv_enqueue)
  show "queue_inv (snd (queue_complete k q))" using inv by (rule queue_inv_complete)
  show "k \<in> active (snd (queue_enqueue k c m q))"
    using inv by (cases "k \<in> active q") (simp_all add: enqueue_idle enqueue_busy)
  show "waiting (snd (queue_complete k q)) k = []" using inv by (rule waiting_complete)
  show "k \<notin> active q \<Longrightarrow> waiting q k = []"
    using inv by (simp add: waiting_def queue_inv_idle)
  show "k \<notin> active q \<Longrightarrow> fst (queue_enqueue k c m q) = Some (c, m)
      \<and> waiting (snd (queue_enqueue k c m q)) k = []"
    using inv by (simp add: enqueue_idle waiting_def)
  show "k \<in> active q \<Longrightarrow> fst (queue_enqueue k c m q) = None
      \<and> waiting (snd (queue_enqueue k c m q)) k = waiting q k @ c"
    by (simp add: enqueue_busy waiting_push_back)
  show "fst (queue_complete k q) = None \<Longrightarrow>
      waiting q k = [] \<and> k \<notin> active (snd (queue_complete k q))"
    using complete_none [OF inv] by (simp add: waiting_def)
  show "c = waiting q k \<and> k \<in> active (snd (queue_complete k q))"
    if "fst (queue_complete k q) = Some (c, m)" for c m
    using complete_some [OF inv that] merge_last_content
    by (metis (no_types, lifting) concat.simps(2) fst_conv list.simps(9) option.simps(5) waiting_def)
qed (simp_all add: waiting_enqueue_other waiting_complete_other)


section \<open>Specification: one backlog per busy session\<close>

type_synonym ('c, 'm) backlog = "session_key \<Rightarrow> ('c, 'm) rich_payload list option"

definition queue_abs :: "('c, 'm) session_queue \<Rightarrow> ('c, 'm) backlog" where
  "queue_abs q k =
     (if k \<in> active q then Some (case hm_get (queues q) k of None \<Rightarrow> [] | Some ps \<Rightarrow> ps) else None)"

definition spec_enqueue ::
  "session_key \<Rightarrow> 'c list \<Rightarrow> 'm option \<Rightarrow> ('c, 'm) backlog
    \<Rightarrow> ('c, 'm) rich_payload option \<times> ('c, 'm) backlog" where
  "spec_enqueue k c m a =
     (case a k of
        None \<Rightarrow> (Some (c, m), a(k := Some []))
      | Some b \<Rightarrow> (None, a(k := Some (b @ [(c, m)]))))"

definition spec_complete ::
  "session_key \<Rightarrow> ('c, 'm) backlog \<Rightarrow> ('c, 'm) rich_payload option \<times> ('c, 'm) backlog" where
  "spec_complete k a =
     (case a k of
        Some (p # ps) \<Rightarrow> (Some (merge_last ps p), a(k := Some []))
      | _ \<Rightarrow> (None, a(k := None)))"


section \<open>Properties\<close>

text \<open>
  Property C33.  The session queue refines a machine with one backlog per busy session: sending to
  an idle session hands the message over at once, sending to a busy one appends it, and finishing
  a prompt hands over the whole backlog as one batch (contents joined in order, the last metadata
  kept) or makes the session idle.  The invariant is kept.
\<close>

theorem queue_refines_spec:
  assumes "queue_inv q"
  shows "spec_enqueue k c m (queue_abs q) = map_prod id queue_abs (queue_enqueue k c m q)
    \<and> spec_complete k (queue_abs q) = map_prod id queue_abs (queue_complete k q)
    \<and> queue_inv (snd (queue_enqueue k c m q)) \<and> queue_inv (snd (queue_complete k q))"
proof (intro conjI)
  show "spec_enqueue k c m (queue_abs q) = map_prod id queue_abs (queue_enqueue k c m q)"
    using assms
    by (cases "k \<in> active q")
      (auto simp: enqueue_idle enqueue_busy spec_enqueue_def queue_abs_def push_back_def
        fun_eq_iff)
  have "queue_abs (snd (queue_complete k q)) = snd (spec_complete k (queue_abs q))"
    using assms
    by (auto simp: spec_complete_def queue_abs_def queue_complete_def mark_idle_def
        drain_queued_def queue_inv_def fun_eq_iff split: option.splits list.splits prod.splits)
  moreover have "fst (queue_complete k q) = fst (spec_complete k (queue_abs q))"
    using assms
    by (auto simp: spec_complete_def queue_abs_def queue_complete_def mark_idle_def
        drain_queued_def queue_inv_def split: option.splits list.splits prod.splits)
  ultimately show "spec_complete k (queue_abs q) = map_prod id queue_abs (queue_complete k q)"
    by (simp add: prod_eq_iff)
qed (use assms in \<open>simp_all add: queue_inv_enqueue queue_inv_complete\<close>)

theorem queue_refines_spec_witness:
  "spec_complete (SessionKey ''k'')
      (queue_abs \<lparr>queues = [(SessionKey ''k'', [([1 :: nat], None), ([2, 3], Some True)])],
                  active = {SessionKey ''k''}\<rparr>)
    = (Some ([1, 2, 3], Some True),
       queue_abs \<lparr>queues = [], active = {SessionKey ''k''}\<rparr>)"
proof -
  let ?k = "SessionKey ''k''"
  let ?q = "\<lparr>queues = [(?k, [([1 :: nat], None), ([2, 3], Some True)])], active = {?k}\<rparr>"
  have "queue_inv ?q" by (simp add: queue_inv_def hm_ok_def hm_get_def)
  from queue_refines_spec [OF this, of ?k "[]" None] show ?thesis
    by (simp add: queue_complete_def mark_idle_def drain_queued_def hm_get_def hm_remove_def)
qed

text \<open>
  Property C32.  Over every sequence of sends and completions, starting from an empty queue, what
  was handed to the agent for a session followed by what still waits is exactly what was sent to
  that session, in order: no message is lost, duplicated or reordered; and once the prompt
  running for the session completes, everything sent before has been handed over.
\<close>

theorem queue_conservation:
  "fst (fifo_run queue_enqueue queue_complete es queue_new k)
       @ waiting (snd (fifo_run queue_enqueue queue_complete es queue_new k)) k
     = fifo_pushed k es
   \<and> fst (fifo_run queue_enqueue queue_complete (es @ [Ev_Complete k]) queue_new k)
     = fifo_pushed k es"
  using sq.conservation [OF queue_inv_new, of k es]
    sq.delivered_by_completion [OF queue_inv_new, of k es]
  by (simp add: waiting_new)

text \<open>
  At most one prompt is in flight per session: whatever was done before, a message
  sent to a session is handed over at once only if the session was idle, and from then on the
  session is busy until a completion finds its queue empty.
\<close>

lemma queue_single_flight:
  "let q = snd (fifo_run queue_enqueue queue_complete es queue_new k0) in
     (fst (queue_enqueue k c m q) \<noteq> None \<longleftrightarrow> k \<notin> active q)
     \<and> k \<in> active (snd (queue_enqueue k c m q))
     \<and> (k \<in> active (snd (queue_complete k q)) \<longleftrightarrow> fst (queue_complete k q) \<noteq> None)"
proof -
  let ?q = "snd (fifo_run queue_enqueue queue_complete es queue_new k0)"
  have inv: "queue_inv ?q" by (rule sq.inv_run [OF queue_inv_new])
  have "fst (queue_enqueue k c m ?q) \<noteq> None \<longleftrightarrow> k \<notin> active ?q"
    using inv by (cases "k \<in> active ?q") (simp_all add: enqueue_idle enqueue_busy)
  moreover have "k \<in> active (snd (queue_complete k ?q)) \<longleftrightarrow> fst (queue_complete k ?q) \<noteq> None"
    using sq.fin_none [OF inv, of k] sq.fin_some [OF inv, of k]
    by (cases "fst (queue_complete k ?q)") auto
  ultimately show ?thesis by (simp add: Let_def sq.busy_enq [OF inv])
qed

end
