(* ===== verification/Session_Store.thy ===== *)
theory Session_Store
  imports Rust_Str
begin

text \<open>
  Persistence: the traits of \<open>crates/anyclaw-core/src/session_store.rs\<close> and
  \<open>context_store.rs\<close>, their no-op implementations, and the SQLite one of
  \<open>sqlite_session_store.rs\<close>.

  A table is the list of its rows in rowid order, and each operation does what its SQL statement
  says.  Locking, preparing, executing, reading rows and joining the blocking task can fail; the
  argument \<open>fault\<close> is the message of such a failure (\<open>None\<close>: no failure).  The two statements
  of \<open>store_context\<close> and of \<open>take_context\<close> run outside a transaction, so each has a fault
  of its own.
\<close>

section \<open>Rows and errors\<close>

record persisted_session =
  ps_session_key :: string
  ps_agent_name :: string
  ps_acp_session_id :: string
  ps_created_at :: int
  ps_last_active_at :: int
  ps_closed :: bool

datatype session_store_error =
    Backend string
  | Serialization string

record context_message =
  cm_group_key :: string
  cm_sender :: string
  cm_content :: string
  cm_timestamp :: int

record sqlite_db =
  sessions :: "persisted_session list"
  context_rows :: "(nat \<times> context_message) list"
  next_row_id :: nat

type_synonym fault = "string option"

definition sqlite_open_in_memory :: sqlite_db where
  "sqlite_open_in_memory = \<lparr>sessions = [], context_rows = [], next_row_id = 1\<rparr>"


section \<open>Sessions\<close>

definition load_open_sessions ::
  "fault \<Rightarrow> sqlite_db \<Rightarrow> session_store_error + persisted_session list" where
  "load_open_sessions f db =
     (case f of Some e \<Rightarrow> Inl (Backend e) | None \<Rightarrow> Inr (filter (\<lambda>s. \<not> ps_closed s) (sessions db)))"

definition upsert_session ::
  "fault \<Rightarrow> persisted_session \<Rightarrow> sqlite_db \<Rightarrow> (session_store_error + unit) \<times> sqlite_db" where
  "upsert_session f s db =
     (case f of
        Some e \<Rightarrow> (Inl (Backend e), db)
      | None \<Rightarrow> (Inr (), db\<lparr>sessions :=
          filter (\<lambda>r. ps_session_key r \<noteq> ps_session_key s) (sessions db) @ [s]\<rparr>))"

definition update_row ::
  "string \<Rightarrow> (persisted_session \<Rightarrow> persisted_session) \<Rightarrow> sqlite_db \<Rightarrow> sqlite_db" where
  "update_row k g db =
     db\<lparr>sessions := map (\<lambda>r. if ps_session_key r = k then g r else r) (sessions db)\<rparr>"

definition mark_closed ::
  "fault \<Rightarrow> string \<Rightarrow> sqlite_db \<Rightarrow> (session_store_error + unit) \<times> sqlite_db" where
  "mark_closed f k db =
     (case f of
        Some e \<Rightarrow> (Inl (Backend e), db)
      | None \<Rightarrow> (Inr (), update_row k (\<lambda>r. r\<lparr>ps_closed := True\<rparr>) db))"

definition update_last_active ::
  "fault \<Rightarrow> string \<Rightarrow> int \<Rightarrow> sqlite_db \<Rightarrow> (session_store_error + unit) \<times> sqlite_db" where
  "update_last_active f k ts db =
     (case f of
        Some e \<Rightarrow> (Inl (Backend e), db)
      | None \<Rightarrow> (Inr (), update_row k (\<lambda>r. r\<lparr>ps_last_active_at := ts\<rparr>) db))"

text \<open>\<open>now\<close> is the Unix time in seconds.\<close>

definition delete_expired ::
  "fault \<Rightarrow> int \<Rightarrow> int \<Rightarrow> sqlite_db \<Rightarrow> (session_store_error + nat) \<times> sqlite_db" where
  "delete_expired f now max_age_secs db =
     (case f of
        Some e \<Rightarrow> (Inl (Backend e), db)
      | None \<Rightarrow>
          (let cutoff = wrap_i64 (now - max_age_secs);
               expired = (\<lambda>r. ps_last_active_at r < cutoff)
           in (Inr (length (filter expired (sessions db))),
               db\<lparr>sessions := filter (\<lambda>r. \<not> expired r) (sessions db)\<rparr>)))"


section \<open>Context messages\<close>

text \<open>\<open>LIMIT n\<close>: a negative bound is no bound.\<close>

definition sql_limit :: "int \<Rightarrow> 'a list \<Rightarrow> 'a list" where
  "sql_limit n xs = (if n < 0 then xs else take (nat n) xs)"

definition group_rows :: "string \<Rightarrow> sqlite_db \<Rightarrow> (nat \<times> context_message) list" where
  "group_rows g db = filter (\<lambda>r. cm_group_key (snd r) = g) (context_rows db)"

definition insert_context :: "context_message \<Rightarrow> sqlite_db \<Rightarrow> sqlite_db" where
  "insert_context msg db =
     db\<lparr>context_rows := context_rows db @ [(next_row_id db, msg)],
        next_row_id := Suc (next_row_id db)\<rparr>"

definition trim_context :: "string \<Rightarrow> int \<Rightarrow> sqlite_db \<Rightarrow> sqlite_db" where
  "trim_context g limit db =
     (let keep = sql_limit limit (rev (sort (map fst (group_rows g db))))
      in db\<lparr>context_rows :=
           filter (\<lambda>r. \<not> (cm_group_key (snd r) = g \<and> fst r \<notin> set keep)) (context_rows db)\<rparr>)"

definition store_context ::
  "fault \<Rightarrow> fault \<Rightarrow> context_message \<Rightarrow> nat \<Rightarrow> sqlite_db
    \<Rightarrow> (session_store_error + unit) \<times> sqlite_db" where
  "store_context f_insert f_trim msg limit db =
     (if limit = 0 then (Inr (), db)
      else (case f_insert of
              Some e \<Rightarrow> (Inl (Backend e), db)
            | None \<Rightarrow>
                (let db1 = insert_context msg db
                 in case f_trim of
                      Some e \<Rightarrow> (Inl (Backend e), db1)
                    | None \<Rightarrow> (Inr (),
                        trim_context (cm_group_key msg) (wrap_i64 (int limit)) db1))))"

definition take_context ::
  "fault \<Rightarrow> fault \<Rightarrow> string \<Rightarrow> sqlite_db
    \<Rightarrow> (session_store_error + context_message list) \<times> sqlite_db" where
  "take_context f_select f_delete g db =
     (case f_select of
        Some e \<Rightarrow> (Inl (Backend e), db)
      | None \<Rightarrow>
          (let messages = map snd (sort_key fst (group_rows g db))
           in case f_delete of
                Some e \<Rightarrow> (Inl (Backend e), db)
              | None \<Rightarrow> (Inr messages,
                  db\<lparr>context_rows := filter (\<lambda>r. cm_group_key (snd r) \<noteq> g) (context_rows db)\<rparr>)))"


section \<open>Dynamic dispatch\<close>

text \<open>
  \<open>Arc<dyn DynSessionStore>\<close> and \<open>Arc<dyn DynContextStore>\<close>: the no-op stores discard writes
  and read nothing.
\<close>

datatype dyn_store =
    Noop_Store
  | Sqlite_Store sqlite_db

fun on_store :: "(sqlite_db \<Rightarrow> ('e + 'a) \<times> sqlite_db) \<Rightarrow> 'a \<Rightarrow> dyn_store \<Rightarrow> ('e + 'a) \<times> dyn_store" where
  "on_store g d Noop_Store = (Inr d, Noop_Store)"
| "on_store g d (Sqlite_Store db) = (let (r, db') = g db in (r, Sqlite_Store db'))"

definition dyn_load_open_sessions ::
  "fault \<Rightarrow> dyn_store \<Rightarrow> session_store_error + persisted_session list" where
  "dyn_load_open_sessions f st =
     (case st of Noop_Store \<Rightarrow> Inr [] | Sqlite_Store db \<Rightarrow> load_open_sessions f db)"

definition dyn_upsert_session ::
  "fault \<Rightarrow> persisted_session \<Rightarrow> dyn_store \<Rightarrow> (session_store_error + unit) \<times> dyn_store" where
  "dyn_upsert_session f s = on_store (upsert_session f s) ()"

definition dyn_mark_closed ::
  "fault \<Rightarrow> string \<Rightarrow> dyn_store \<Rightarrow> (session_store_error + unit) \<times> dyn_store" where
  "dyn_mark_closed f k = on_store (mark_closed f k) ()"

definition dyn_update_last_active ::
  "fault \<Rightarrow> string \<Rightarrow> int \<Rightarrow> dyn_store \<Rightarrow> (session_store_error + unit) \<times> dyn_store" where
  "dyn_update_last_active f k ts = on_store (update_last_active f k ts) ()"

definition dyn_delete_expired ::
  "fault \<Rightarrow> int \<Rightarrow> int \<Rightarrow> dyn_store \<Rightarrow> (session_store_error + nat) \<times> dyn_store" where
  "dyn_delete_expired f now age = on_store (delete_expired f now age) 0"

definition dyn_store_context ::
  "fault \<Rightarrow> fault \<Rightarrow> context_message \<Rightarrow> nat \<Rightarrow> dyn_store
    \<Rightarrow> (session_store_error + unit) \<times> dyn_store" where
  "dyn_store_context f f' msg limit = on_store (store_context f f' msg limit) ()"

definition dyn_take_context ::
  "fault \<Rightarrow> fault \<Rightarrow> string \<Rightarrow> dyn_store
    \<Rightarrow> (session_store_error + context_message list) \<times> dyn_store" where
  "dyn_take_context f f' g = on_store (take_context f f' g) []"


section \<open>Histories\<close>

text \<open>The writing operations, as a caller issues them, and their effect on the database.\<close>

datatype store_op =
    Op_Upsert fault persisted_session
  | Op_Close fault string
  | Op_Touch fault string int
  | Op_Expire fault int int
  | Op_Store_Context fault fault context_message nat
  | Op_Take_Context fault fault string

fun store_step :: "store_op \<Rightarrow> sqlite_db \<Rightarrow> sqlite_db" where
  "store_step (Op_Upsert f s) db = snd (upsert_session f s db)"
| "store_step (Op_Close f k) db = snd (mark_closed f k db)"
| "store_step (Op_Touch f k ts) db = snd (update_last_active f k ts db)"
| "store_step (Op_Expire f now age) db = snd (delete_expired f now age db)"
| "store_step (Op_Store_Context f f' m n) db = snd (store_context f f' m n db)"
| "store_step (Op_Take_Context f f' g) db = snd (take_context f f' g db)"

text \<open>What one operation does to the row of one key, and to the buffer of one group.\<close>

fun row_step :: "string \<Rightarrow> store_op \<Rightarrow> persisted_session option \<Rightarrow> persisted_session option" where
  "row_step k (Op_Upsert None s) r = (if ps_session_key s = k then Some s else r)"
| "row_step k (Op_Close None k') r =
     (if k' = k then map_option (\<lambda>x. x\<lparr>ps_closed := True\<rparr>) r else r)"
| "row_step k (Op_Touch None k' ts) r =
     (if k' = k then map_option (\<lambda>x. x\<lparr>ps_last_active_at := ts\<rparr>) r else r)"
| "row_step k (Op_Expire None now age) r =
     (case r of None \<Rightarrow> None
      | Some x \<Rightarrow> if ps_last_active_at x < wrap_i64 (now - age) then None else Some x)"
| "row_step k _ r = r"

definition last_n :: "nat \<Rightarrow> 'a list \<Rightarrow> 'a list" where
  "last_n n xs = drop (length xs - n) xs"

fun buffer_step :: "string \<Rightarrow> store_op \<Rightarrow> context_message list \<Rightarrow> context_message list" where
  "buffer_step g (Op_Store_Context None None m n) b =
     (if cm_group_key m = g \<and> n \<noteq> 0 then last_n n (b @ [m]) else b)"
| "buffer_step g (Op_Store_Context None (Some e) m n) b =
     (if cm_group_key m = g \<and> n \<noteq> 0 then b @ [m] else b)"
| "buffer_step g (Op_Take_Context None None g') b = (if g' = g then [] else b)"
| "buffer_step g _ b = b"

definition row_of :: "string \<Rightarrow> sqlite_db \<Rightarrow> persisted_session option" where
  "row_of k db = List.find (\<lambda>s. ps_session_key s = k) (sessions db)"

definition buffer_of :: "string \<Rightarrow> sqlite_db \<Rightarrow> context_message list" where
  "buffer_of g db = map snd (group_rows g db)"

text \<open>Limits are \<open>usize\<close>; the cast to \<open>i64\<close> keeps those up to \<open>i64::MAX\<close>.\<close>

fun op_limit_ok :: "store_op \<Rightarrow> bool" where
  "op_limit_ok (Op_Store_Context f f' m n) \<longleftrightarrow> int n \<le> i64_max"
| "op_limit_ok _ \<longleftrightarrow> True"

definition db_inv :: "sqlite_db \<Rightarrow> bool" where
  "db_inv db \<longleftrightarrow>
     distinct (map ps_session_key (sessions db)) \<and>
     sorted_wrt (<) (map fst (context_rows db)) \<and>
     (\<forall>r \<in> set (context_rows db). fst r < next_row_id db)"

named_theorems store_defs \<open>the statements of the SQLite store\<close>
declare upsert_session_def [store_defs] update_row_def [store_defs] mark_closed_def [store_defs]
  update_last_active_def [store_defs] delete_expired_def [store_defs]
  store_context_def [store_defs] insert_context_def [store_defs] trim_context_def [store_defs]
  take_context_def [store_defs]


section \<open>The invariant\<close>

lemma keys_update_row:
  assumes "\<And>r. ps_session_key (g r) = ps_session_key r"
  shows "map ps_session_key (sessions (update_row k g db)) = map ps_session_key (sessions db)"
  using assms by (simp add: update_row_def)

lemma sorted_ids_filter:
  "sorted_wrt (<) (map fst xs) \<Longrightarrow> sorted_wrt (<) (map fst (filter P xs))"
  by (induction xs) auto

lemma db_inv_open: "db_inv sqlite_open_in_memory"
  by (simp add: db_inv_def sqlite_open_in_memory_def)

lemma db_inv_insert_context: "db_inv db \<Longrightarrow> db_inv (insert_context m db)"
  by (fastforce simp: db_inv_def insert_context_def sorted_wrt_append)

lemma db_inv_trim_context: "db_inv db \<Longrightarrow> db_inv (trim_context g n db)"
  by (auto simp: db_inv_def trim_context_def Let_def sorted_ids_filter)

lemma db_inv_update_row:
  assumes "\<And>r. ps_session_key (g r) = ps_session_key r" "db_inv db"
  shows "db_inv (update_row k g db)"
  using assms keys_update_row [of g k db] by (simp add: db_inv_def) (simp add: update_row_def)

lemma db_inv_step: "db_inv db \<Longrightarrow> db_inv (store_step op db)"
proof (induction op db rule: store_step.induct)
  case (1 f s db)
  then show ?case
    by (cases f) (auto simp: upsert_session_def db_inv_def distinct_map_filter)
next
  case (2 f k db)
  then show ?case by (cases f) (simp_all add: mark_closed_def db_inv_update_row)
next
  case (3 f k ts db)
  then show ?case by (cases f) (simp_all add: update_last_active_def db_inv_update_row)
next
  case (4 f now age db)
  then show ?case
    by (cases f) (simp_all add: delete_expired_def Let_def db_inv_def distinct_map_filter)
next
  case (5 f f' m n db)
  then show ?case
    by (simp add: store_context_def Let_def db_inv_insert_context db_inv_trim_context
        split: option.split)
next
  case (6 f f' g db)
  then show ?case
    by (simp add: take_context_def Let_def db_inv_def sorted_ids_filter split: option.split)
qed


section \<open>Rows of sessions\<close>

lemma row_of_iff:
  assumes "db_inv db"
  shows "row_of k db = Some r \<longleftrightarrow> r \<in> set (sessions db) \<and> ps_session_key r = k"
proof -
  have "distinct (map ps_session_key xs) \<Longrightarrow>
      List.find (\<lambda>s. ps_session_key s = k) xs = Some r \<longleftrightarrow> r \<in> set xs \<and> ps_session_key r = k" for xs
    by (induction xs) auto
  with assms show ?thesis by (simp add: row_of_def db_inv_def)
qed

lemma option_eqI: "(\<And>x. a = Some x \<longleftrightarrow> b = Some x) \<Longrightarrow> a = b"
  by (cases a; cases b) auto

lemma row_of_None: "row_of k db = None \<longleftrightarrow> k \<notin> ps_session_key ` set (sessions db)"
  by (auto simp: row_of_def find_None_iff)

lemma find_map_key:
  assumes "\<And>r. ps_session_key (g r) = ps_session_key r"
  shows "List.find (\<lambda>s. ps_session_key s = k) (map (\<lambda>r. if ps_session_key r = k' then g r else r) xs)
    = (if k' = k then map_option g else id) (List.find (\<lambda>s. ps_session_key s = k) xs)"
  using assms by (induction xs) auto

lemma row_of_update_row:
  assumes "\<And>r. ps_session_key (g r) = ps_session_key r"
  shows "row_of k (update_row k' g db) =
    (if k' = k then map_option g (row_of k db) else row_of k db)"
  using assms by (simp add: row_of_def update_row_def find_map_key)

lemma row_of_upsert:
  assumes "db_inv db"
  shows "row_of k (snd (upsert_session None s db)) =
    (if ps_session_key s = k then Some s else row_of k db)"
proof (rule option_eqI)
  fix r
  have inv: "db_inv (snd (upsert_session None s db))"
    using db_inv_step [OF assms, of "Op_Upsert None s"] by simp
  show "row_of k (snd (upsert_session None s db)) = Some r \<longleftrightarrow>
      (if ps_session_key s = k then Some s else row_of k db) = Some r"
    unfolding row_of_iff [OF inv] by (auto simp: upsert_session_def row_of_iff [OF assms])
qed

lemma row_of_expire:
  assumes "db_inv db"
  shows "row_of k (snd (delete_expired None now age db)) =
    (case row_of k db of None \<Rightarrow> None
     | Some x \<Rightarrow> if ps_last_active_at x < wrap_i64 (now - age) then None else Some x)"
proof -
  have inv: "db_inv (snd (delete_expired None now age db))"
    using db_inv_step [OF assms, of "Op_Expire None now age"] by simp
  have "row_of k (snd (delete_expired None now age db)) = Some r \<longleftrightarrow>
      row_of k db = Some r \<and> \<not> ps_last_active_at r < wrap_i64 (now - age)" for r
    unfolding row_of_iff [OF inv] row_of_iff [OF assms]
    by (auto simp: delete_expired_def Let_def)
  then have "row_of k (snd (delete_expired None now age db)) = Some r \<longleftrightarrow>
      (case row_of k db of None \<Rightarrow> None
       | Some x \<Rightarrow> if ps_last_active_at x < wrap_i64 (now - age) then None else Some x) = Some r" for r
    by (cases "row_of k db") auto
  then show ?thesis by (rule option_eqI)
qed

lemma row_of_step:
  assumes "db_inv db"
  shows "row_of k (store_step op db) = row_step k op (row_of k db)"
proof (cases op)
  case (Op_Upsert f s)
  then show ?thesis by (cases f) (simp add: row_of_upsert [OF assms], simp add: upsert_session_def)
next
  case (Op_Close f k')
  then show ?thesis by (cases f) (simp_all add: mark_closed_def row_of_update_row)
next
  case (Op_Touch f k' ts)
  then show ?thesis by (cases f) (simp_all add: update_last_active_def row_of_update_row)
next
  case (Op_Expire f now age)
  with assms show ?thesis
    by (cases f) (simp add: row_of_expire, simp add: delete_expired_def)
next
  case (Op_Store_Context f f' m n)
  then show ?thesis
    by (auto simp: store_defs Let_def row_of_def split: option.split)
next
  case (Op_Take_Context f f' g)
  then show ?thesis
    by (auto simp: store_defs Let_def row_of_def split: option.split)
qed


section \<open>Buffers of context messages\<close>

lemma last_n_all: "length xs \<le> n \<Longrightarrow> last_n n xs = xs"
  by (simp add: last_n_def)

lemma length_last_n: "length (last_n n xs) = min n (length xs)"
  by (simp add: last_n_def)

lemma sorted_ids_less:
  "sorted_wrt (<) (map fst xs) \<Longrightarrow> sort (map fst xs) = map fst (xs :: (nat \<times> 'a) list)"
  by (rule sorted_sort_id) (simp add: strict_sorted_iff)

text \<open>Keeping the rows whose id is among the last \<open>n\<close> ids is keeping the last \<open>n\<close> rows.\<close>

lemma filter_last_ids:
  fixes xs :: "(nat \<times> 'a) list"
  assumes "sorted_wrt (<) (map fst xs)"
  shows "filter (\<lambda>r. fst r \<in> set (take n (rev (map fst xs)))) xs = last_n n xs"
proof -
  define d where "d = length xs - n"
  have split: "xs = take d xs @ last_n n xs"
    by (simp add: last_n_def d_def)
  have ids: "set (take n (rev (map fst xs))) = fst ` set (last_n n xs)"
    by (simp add: last_n_def take_rev drop_map)
  have "distinct (map fst xs)"
    using assms by (simp add: strict_sorted_iff)
  then have disj: "fst ` set (take d xs) \<inter> fst ` set (last_n n xs) = {}"
    by (subst (asm) split) auto
  have "filter (\<lambda>r. fst r \<in> fst ` set (last_n n xs)) (take d xs @ last_n n xs) = last_n n xs"
    using disj by (auto simp: filter_empty_conv intro!: filter_True)
  with split ids show ?thesis by simp
qed

lemma group_rows_sorted: "db_inv db \<Longrightarrow> sorted_wrt (<) (map fst (group_rows g db))"
  by (simp add: db_inv_def group_rows_def sorted_ids_filter)

lemma group_rows_trim:
  assumes "db_inv db" "0 \<le> n"
  shows "group_rows g (trim_context g n db) = last_n (nat n) (group_rows g db)"
proof -
  let ?keep = "take (nat n) (rev (map fst (group_rows g db)))"
  have "group_rows g (trim_context g n db) = filter (\<lambda>r. fst r \<in> set ?keep) (group_rows g db)"
    using assms sorted_ids_less [OF group_rows_sorted [OF assms(1)], of g]
    by (auto simp: group_rows_def trim_context_def Let_def sql_limit_def intro!: filter_cong)
  also have "\<dots> = last_n (nat n) (group_rows g db)"
    by (rule filter_last_ids) (rule group_rows_sorted [OF assms(1)])
  finally show ?thesis .
qed

lemma group_rows_trim_other:
  "g' \<noteq> g \<Longrightarrow> group_rows g' (trim_context g n db) = group_rows g' db"
  by (auto simp: group_rows_def trim_context_def Let_def intro!: filter_cong)

lemma group_rows_insert:
  "group_rows g (insert_context m db) =
    group_rows g db @ (if cm_group_key m = g then [(next_row_id db, m)] else [])"
  by (simp add: group_rows_def insert_context_def)

lemma take_context_result:
  assumes "db_inv db"
  shows "fst (take_context None None g db) = Inr (buffer_of g db)"
proof -
  have "sorted (map fst (group_rows g db))"
    using group_rows_sorted [OF assms, of g] by (simp add: strict_sorted_iff)
  then show ?thesis
    by (simp add: take_context_def Let_def buffer_of_def sort_key_id_if_sorted)
qed

lemma buffer_of_step:
  assumes inv: "db_inv db" and lim: "op_limit_ok op"
  shows "buffer_of g (store_step op db) = buffer_step g op (buffer_of g db)"
proof (cases op)
  case (Op_Store_Context f f' m n)
  let ?db1 = "insert_context m db"
  show ?thesis
  proof (cases "f = None \<and> n \<noteq> 0")
    case False
    with Op_Store_Context show ?thesis
      by (cases f; cases f') (auto simp: store_context_def)
  next
    case ins: True
    show ?thesis
    proof (cases f')
      case None
      from lim Op_Store_Context have w: "wrap_i64 (int n) = int n"
        by (simp add: wrap_i64_id i64_min_def)
      have "group_rows g (trim_context (cm_group_key m) (int n) ?db1) =
          (if cm_group_key m = g then last_n n (group_rows g ?db1) else group_rows g ?db1)"
        using group_rows_trim [OF db_inv_insert_context [OF inv]] group_rows_trim_other by simp
      with ins None w Op_Store_Context show ?thesis
        by (simp add: store_context_def buffer_of_def group_rows_insert last_n_def drop_map)
    next
      case (Some e)
      with ins Op_Store_Context show ?thesis
        by (simp add: store_context_def buffer_of_def group_rows_insert)
    qed
  qed
next
  case (Op_Take_Context f f' g')
  have "filter (\<lambda>r. cm_group_key (snd r) = g) (filter (\<lambda>r. cm_group_key (snd r) \<noteq> g') rows) =
      (if g' = g then [] else filter (\<lambda>r. cm_group_key (snd r) = g) rows)"
    for rows :: "(nat \<times> context_message) list"
    by (induction rows) auto
  with Op_Take_Context show ?thesis
    by (cases f; cases f') (simp_all add: take_context_def buffer_of_def group_rows_def)
qed (auto simp: store_defs Let_def buffer_of_def group_rows_def split: option.split)


section \<open>Histories of the store\<close>

interpretation rows: local_view db_inv store_step "\<lambda>_. True" row_of row_step
  by unfold_locales (simp_all add: db_inv_step row_of_step)

interpretation buffers: local_view db_inv store_step op_limit_ok buffer_of buffer_step
  by unfold_locales (simp_all add: db_inv_step buffer_of_step)

lemma row_of_history: "row_of k (fold store_step ops sqlite_open_in_memory) = fold (row_step k) ops None"
proof -
  have "row_of k sqlite_open_in_memory = None"
    by (simp add: row_of_def sqlite_open_in_memory_def)
  then show ?thesis
    using rows.view_run [OF db_inv_open, of ops k] by (simp add: list_all_iff)
qed

lemma buffer_step_bound:
  assumes "length b \<le> n" "op_limit_ok op"
    "case op of Op_Store_Context f f' m l \<Rightarrow> f' = None \<and> l \<le> n | _ \<Rightarrow> True"
  shows "length (buffer_step g op b) \<le> n"
  using assms by (cases "(g, op, b)" rule: buffer_step.cases) (auto simp: length_last_n)


section \<open>Properties\<close>

text \<open>
  After any history of writes, expiries and failed statements on a fresh database,
  \<open>load_open_sessions\<close> returns one row per session key, and the row it returns under a key is the
  result of replaying the history on that key alone: the last upsert, with the later touches, and
  neither closed nor expired since.
\<close>

lemma open_sessions_history:
  "\<exists>xs. load_open_sessions None (fold store_step ops sqlite_open_in_memory) = Inr xs \<and>
     distinct (map ps_session_key xs) \<and>
     (\<forall>r. r \<in> set xs \<longleftrightarrow> fold (row_step (ps_session_key r)) ops None = Some r \<and> \<not> ps_closed r)"
proof -
  let ?db = "fold store_step ops sqlite_open_in_memory"
  have inv: "db_inv ?db" by (rule rows.inv_run [OF db_inv_open])
  then show ?thesis
    unfolding row_of_history [symmetric] row_of_iff [OF inv]
    by (auto simp: load_open_sessions_def db_inv_def distinct_map_filter)
qed

text \<open>
  After any history on a fresh database, \<open>take_context\<close> returns the replay of the
  history on that group alone, oldest message first: each stored message is appended, only the last
  \<open>limit\<close> messages are kept, a take empties the buffer, and the other groups do not interfere.
\<close>

lemma context_history:
  assumes "list_all op_limit_ok ops"
  shows "fst (take_context None None g (fold store_step ops sqlite_open_in_memory)) =
    Inr (fold (buffer_step g) ops [])"
proof -
  have "buffer_of g sqlite_open_in_memory = []"
    by (simp add: buffer_of_def group_rows_def sqlite_open_in_memory_def)
  then show ?thesis
    using take_context_result [OF buffers.inv_run [OF db_inv_open]]
      buffers.view_run [OF db_inv_open assms] by simp
qed

text \<open>
  The buffer of a group never holds more than \<open>n\<close> messages as long as every
  message is stored with a limit of at most \<open>n\<close> and no trimming statement fails.
\<close>

lemma context_bounded:
  assumes "list_all op_limit_ok ops"
    and "list_all (\<lambda>op. case op of Op_Store_Context f f' m l \<Rightarrow> f' = None \<and> l \<le> n | _ \<Rightarrow> True) ops"
  shows "length (buffer_of g (fold store_step ops sqlite_open_in_memory)) \<le> n"
proof -
  have "length b \<le> n \<Longrightarrow> length (fold (buffer_step g) ops b) \<le> n" for b
    using assms by (induction ops arbitrary: b) (simp_all add: buffer_step_bound)
  moreover have "buffer_of g sqlite_open_in_memory = []"
    by (simp add: buffer_of_def group_rows_def sqlite_open_in_memory_def)
  ultimately show ?thesis
    using buffers.view_run [OF db_inv_open assms(1), of g] by simp
qed

lemma context_bounded_witness:
  "length (buffer_of ''g'' (fold store_step
     [Op_Store_Context None None (\<lparr>cm_group_key = ''g'', cm_sender = ''a'', cm_content = ''1'', cm_timestamp = 1\<rparr>) 1,
      Op_Store_Context None None (\<lparr>cm_group_key = ''g'', cm_sender = ''a'', cm_content = ''2'', cm_timestamp = 2\<rparr>) 1]
     sqlite_open_in_memory)) \<le> 1"
  by (rule context_bounded) (simp_all add: i64_max_def)

end
