(* ===== verification/Effect.thy ===== *)
theory Effect
  imports Main "HOL-Library.State_Monad"
begin

text \<open>
  Stateful code.  The methods of the managers are programs of the state monad of the library; a
  method that returns \<open>Result\<close> has a sum as its value, and \<open>try_then\<close> is Rust's \<open>?\<close>.

  Two ways to reason about such programs:
  \<^item> \<open>wp m Q s\<close>: run from \<open>s\<close>, \<open>m\<close> ends in a value and a state that satisfy \<open>Q\<close>; the
    collection \<open>wp_simps\<close> computes it;
  \<^item> \<open>keeps R m\<close>: every run of \<open>m\<close> relates the states before and after by \<open>R\<close>, for a
    reflexive and transitive \<open>R\<close>.  Which relations qualify is the locale \<open>step_rel\<close>; its rules
    go through a program construct by construct.
\<close>

named_theorems wp_simps \<open>computing weakest preconditions\<close>

section \<open>Programs\<close>

abbreviation ret :: "'a \<Rightarrow> ('s, 'a) state" where
  "ret \<equiv> State_Monad.return"

abbreviation bind_st :: "('s, 'a) state \<Rightarrow> ('a \<Rightarrow> ('s, 'b) state) \<Rightarrow> ('s, 'b) state" where
  "bind_st \<equiv> State_Monad.bind"

definition gets :: "('s \<Rightarrow> 'a) \<Rightarrow> ('s, 'a) state" where
  "gets f = State (\<lambda>s. (f s, s))"

definition modify :: "('s \<Rightarrow> 's) \<Rightarrow> ('s, unit) state" where
  "modify f = State (\<lambda>s. ((), f s))"

text \<open>The operator \<open>?\<close> on a \<open>Result\<close>.\<close>

definition try_then ::
  "('s, 'e + 'a) state \<Rightarrow> ('a \<Rightarrow> ('s, 'e + 'b) state) \<Rightarrow> ('s, 'e + 'b) state" where
  "try_then m k = bind_st m (\<lambda>r. case r of Inl e \<Rightarrow> ret (Inl e) | Inr a \<Rightarrow> k a)"

text \<open>\<open>Option::ok_or\<close> followed by \<open>?\<close>.\<close>

definition some_or :: "'e \<Rightarrow> 'a option \<Rightarrow> ('a \<Rightarrow> ('s, 'e + 'b) state) \<Rightarrow> ('s, 'e + 'b) state" where
  "some_or e x k = (case x of None \<Rightarrow> ret (Inl e) | Some a \<Rightarrow> k a)"

text \<open>\<open>for x in xs { f(x).await }\<close>.\<close>

primrec for_each :: "'a list \<Rightarrow> ('a \<Rightarrow> ('s, unit) state) \<Rightarrow> ('s, unit) state" where
  "for_each [] f = ret ()"
| "for_each (x # xs) f = bind_st (f x) (\<lambda>_. for_each xs f)"

lemma run_gets [simp]: "run_state (gets f) s = (f s, s)"
  by (simp add: gets_def)

lemma run_modify [simp]: "run_state (modify f) s = ((), f s)"
  by (simp add: modify_def)


section \<open>Weakest preconditions\<close>

definition wp :: "('s, 'a) state \<Rightarrow> ('a \<Rightarrow> 's \<Rightarrow> bool) \<Rightarrow> 's \<Rightarrow> bool" where
  "wp m Q s = (case run_state m s of (a, s') \<Rightarrow> Q a s')"

lemma wp_ret [wp_simps]: "wp (ret a) Q s \<longleftrightarrow> Q a s"
  by (simp add: wp_def)

lemma wp_bind [wp_simps]: "wp (bind_st m k) Q s \<longleftrightarrow> wp m (\<lambda>a. wp (k a) Q) s"
  by (simp add: wp_def split: prod.split)

lemma wp_gets [wp_simps]: "wp (gets f) Q s \<longleftrightarrow> Q (f s) s"
  by (simp add: wp_def)

lemma wp_modify [wp_simps]: "wp (modify f) Q s \<longleftrightarrow> Q () (f s)"
  by (simp add: wp_def)

lemma wp_try_then [wp_simps]:
  "wp (try_then m k) Q s \<longleftrightarrow>
     wp m (\<lambda>r s'. case r of Inl e \<Rightarrow> Q (Inl e) s' | Inr a \<Rightarrow> wp (k a) Q s') s"
  by (auto simp: wp_def try_then_def split: prod.split sum.split)

lemma wp_some_or [wp_simps]:
  "wp (some_or e x k) Q s \<longleftrightarrow> (case x of None \<Rightarrow> Q (Inl e) s | Some a \<Rightarrow> wp (k a) Q s)"
  by (simp add: some_or_def wp_ret split: option.split)

lemma wp_if [wp_simps]:
  "wp (if b then m else n) Q s \<longleftrightarrow> (if b then wp m Q s else wp n Q s)"
  by simp

lemma wp_option [wp_simps]:
  "wp (case x of None \<Rightarrow> m | Some a \<Rightarrow> k a) Q s \<longleftrightarrow>
     (case x of None \<Rightarrow> wp m Q s | Some a \<Rightarrow> wp (k a) Q s)"
  by (simp split: option.split)

lemma wp_sum [wp_simps]:
  "wp (case x of Inl a \<Rightarrow> m a | Inr b \<Rightarrow> k b) Q s \<longleftrightarrow>
     (case x of Inl a \<Rightarrow> wp (m a) Q s | Inr b \<Rightarrow> wp (k b) Q s)"
  by (simp split: sum.split)

lemma wp_prod [wp_simps]:
  "wp (case x of (a, b) \<Rightarrow> m a b) Q s \<longleftrightarrow> (case x of (a, b) \<Rightarrow> wp (m a b) Q s)"
  by (simp split: prod.split)

lemma wp_Let [wp_simps]: "wp (Let x f) Q s \<longleftrightarrow> wp (f x) Q s"
  by (simp add: Let_def)

text \<open>The same for a program under a binder, where the state is not yet applied.\<close>

lemma wp_ret_fun: "wp (ret a) Q = Q a"
  by (simp add: fun_eq_iff wp_ret)

lemma wp_bind_fun: "wp (bind_st m k) Q = wp m (\<lambda>a. wp (k a) Q)"
  by (simp add: fun_eq_iff wp_bind)

lemmas wp_funs = wp_ret_fun wp_bind_fun

lemma wp_mono: "wp m Q s \<Longrightarrow> (\<And>a s'. Q a s' \<Longrightarrow> R a s') \<Longrightarrow> wp m R s"
  by (auto simp: wp_def split: prod.splits)

lemma wp_conj: "wp m (\<lambda>a s'. Q a s' \<and> R a s') s \<longleftrightarrow> wp m Q s \<and> wp m R s"
  by (auto simp: wp_def split: prod.splits)

lemma wp_run: "wp m Q s \<Longrightarrow> run_state m s = (a, s') \<Longrightarrow> Q a s'"
  by (simp add: wp_def)

lemma wp_runI: "(\<And>a s'. run_state m s = (a, s') \<Longrightarrow> Q a s') \<Longrightarrow> wp m Q s"
  by (simp add: wp_def split: prod.split)

lemma wp_snd: "wp m (\<lambda>_. P) s \<longleftrightarrow> P (snd (run_state m s))"
  by (simp add: wp_def split: prod.split)


section \<open>Relations kept by a program\<close>

definition keeps :: "('s \<Rightarrow> 's \<Rightarrow> bool) \<Rightarrow> ('s, 'a) state \<Rightarrow> bool" where
  "keeps R m \<longleftrightarrow> (\<forall>s. R s (snd (run_state m s)))"

lemma keepsI: "(\<And>s. wp m (\<lambda>_ s'. R s s') s) \<Longrightarrow> keeps R m"
  by (auto simp: keeps_def wp_snd)

lemma keepsD: "keeps R m \<Longrightarrow> wp m (\<lambda>_ s'. R s s') s"
  by (simp add: keeps_def wp_snd)

locale step_rel =
  fixes R :: "'s \<Rightarrow> 's \<Rightarrow> bool"
  assumes refl: "R s s"
    and trans: "R s t \<Longrightarrow> R t u \<Longrightarrow> R s u"
begin

lemma k_ret: "keeps R (ret a)"
  by (simp add: keeps_def refl)

lemma k_gets: "keeps R (gets f)"
  by (simp add: keeps_def refl)

lemma k_modify: "(\<And>s. R s (f s)) \<Longrightarrow> keeps R (modify f)"
  by (simp add: keeps_def)

lemma k_bind: "keeps R m \<Longrightarrow> (\<And>a. keeps R (k a)) \<Longrightarrow> keeps R (bind_st m k)"
  by (auto simp: keeps_def split: prod.split intro: trans)

lemma k_if: "(b \<Longrightarrow> keeps R m) \<Longrightarrow> (\<not> b \<Longrightarrow> keeps R n) \<Longrightarrow> keeps R (if b then m else n)"
  by simp

lemma k_option:
  "(x = None \<Longrightarrow> keeps R m) \<Longrightarrow> (\<And>a. x = Some a \<Longrightarrow> keeps R (k a)) \<Longrightarrow>
    keeps R (case x of None \<Rightarrow> m | Some a \<Rightarrow> k a)"
  by (cases x) simp_all

lemma k_sum:
  "(\<And>a. x = Inl a \<Longrightarrow> keeps R (m a)) \<Longrightarrow> (\<And>b. x = Inr b \<Longrightarrow> keeps R (k b)) \<Longrightarrow>
    keeps R (case x of Inl a \<Rightarrow> m a | Inr b \<Rightarrow> k b)"
  by (cases x) simp_all

lemma k_list:
  "(x = [] \<Longrightarrow> keeps R m) \<Longrightarrow> (\<And>a as. x = a # as \<Longrightarrow> keeps R (k a as)) \<Longrightarrow>
    keeps R (case x of [] \<Rightarrow> m | a # as \<Rightarrow> k a as)"
  by (cases x) simp_all

lemma k_prod: "(\<And>a b. x = (a, b) \<Longrightarrow> keeps R (m a b)) \<Longrightarrow> keeps R (case x of (a, b) \<Rightarrow> m a b)"
  by (cases x) simp

lemma k_Let: "(\<And>y. y = x \<Longrightarrow> keeps R (f y)) \<Longrightarrow> keeps R (Let x f)"
  by simp

lemma k_try: "keeps R m \<Longrightarrow> (\<And>a. keeps R (k a)) \<Longrightarrow> keeps R (try_then m k)"
  unfolding try_then_def by (intro k_bind k_sum k_ret)

lemma k_some: "(\<And>a. x = Some a \<Longrightarrow> keeps R (k a)) \<Longrightarrow> keeps R (some_or e x k)"
  unfolding some_or_def by (intro k_option k_ret)

lemma k_for: "(\<And>x. x \<in> set xs \<Longrightarrow> keeps R (f x)) \<Longrightarrow> keeps R (for_each xs f)"
  by (induction xs) (auto intro!: k_ret k_bind)

lemmas k_rules = k_ret k_gets k_bind k_if k_option k_sum k_list k_prod k_Let k_try k_some k_for

end

text \<open>Going through a program with a relation known for its first part.\<close>

lemma wp_keeps: "keeps R m \<Longrightarrow> (\<And>a s'. R s s' \<Longrightarrow> Q a s') \<Longrightarrow> wp m Q s"
  by (simp add: keeps_def wp_def split: prod.split) (metis prod.exhaust_sel snd_conv)

lemma wp_seq:
  "keeps R m \<Longrightarrow> (\<And>a s'. R s s' \<Longrightarrow> wp (k a) Q s') \<Longrightarrow> wp (bind_st m k) Q s"
  unfolding wp_bind by (rule wp_keeps)

lemma wp_try_seq:
  "keeps R m \<Longrightarrow> (\<And>e s'. R s s' \<Longrightarrow> Q (Inl e) s') \<Longrightarrow>
    (\<And>a s'. R s s' \<Longrightarrow> wp (k a) Q s') \<Longrightarrow> wp (try_then m k) Q s"
  unfolding wp_try_then by (erule wp_keeps) (auto split: sum.split)

text \<open>An invariant \<open>I\<close> is kept when the states are related by \<open>I s \<longrightarrow> I s'\<close>.\<close>

definition inv_rel :: "('s \<Rightarrow> bool) \<Rightarrow> 's \<Rightarrow> 's \<Rightarrow> bool" where
  "inv_rel I s s' \<longleftrightarrow> (I s \<longrightarrow> I s')"

interpretation ir: step_rel "inv_rel I" for I
  by unfold_locales (auto simp: inv_rel_def)

text \<open>A component \<open>f\<close> of the state is left alone.\<close>

definition same :: "('s \<Rightarrow> 'v) \<Rightarrow> 's \<Rightarrow> 's \<Rightarrow> bool" where
  "same f s s' \<longleftrightarrow> f s' = f s"

interpretation sm: step_rel "same f" for f
  by unfold_locales (auto simp: same_def)

lemma keeps_same: "keeps (same f) m \<Longrightarrow> run_state m s = (a, s') \<Longrightarrow> f s' = f s"
  by (metis keeps_def same_def snd_conv)

lemma keeps_inv: "keeps (inv_rel I) m \<Longrightarrow> I s \<Longrightarrow> run_state m s = (a, s') \<Longrightarrow> I s'"
  by (metis keeps_def inv_rel_def snd_conv)

lemma keeps_inv_wp: "keeps (inv_rel I) m \<Longrightarrow> I s \<Longrightarrow> wp m (\<lambda>_. I) s"
  by (simp add: keeps_def inv_rel_def wp_snd)

end
