(* ===== verification/Agents_State.thy ===== *)
theory Agents_State
  imports Agent_Text Fs_Sandbox Session_Queue Session_Store Effect
begin

text \<open>
  The state of the agents manager and its surroundings: \<open>slot.rs\<close>, the structures of
  \<open>manager.rs\<close> and \<open>agents_command.rs\<close>.

  The manager is one task: between two events of its \<open>select!\<close> loop nothing else touches its
  state, and while a handler awaits, other tasks only put messages into its inbox.  So each method is
  a program of the state monad over the record \<open>agents_manager\<close>.  What other tasks and processes
  answer is asked from the environment \<open>agent_env\<close>, whose functions take a tick that grows with
  every question: an arbitrary environment is an arbitrary sequence of answers.

  Fields that Rust does not have record what leaves the manager: the events sent to the channels
  manager, the prompt tasks that are running, the store updates that were spawned, the files written.
\<close>

section \<open>Slots\<close>

record pending_permission =
  pp_request :: json_rpc_request
  pp_description :: string
  pp_options :: "permission_option list"
  pp_received_at :: instant

text \<open>An \<open>Arc<Notify>\<close> is a number that identifies it.\<close>

record agent_slot =
  sl_name :: string
  sl_config :: agent_config
  sl_connection :: "agent_connection option"
  sl_lifecycle :: slot_lifecycle
  sl_agent_capabilities :: "initialize_result option"
  sl_protocol_version :: u32
  sl_session_map :: "(session_key, string) hmap"
  sl_reverse_map :: "(string, session_key) hmap"
  sl_pending_permissions :: "(string, pending_permission) hmap"
  sl_stale_sessions :: "(session_key, string) hmap"
  sl_awaiting_first_prompt :: "string set"
  sl_last_available_commands :: "json option"
  sl_tool_context :: "string option"
  sl_tool_context_sent :: "string set"
  sl_active_prompts :: "(string, nat) hmap"

definition agent_backoff :: "agent_config \<Rightarrow> exponential_backoff" where
  "agent_backoff c =
     (case ac_backoff c of
        Some b \<Rightarrow> backoff_new (from_millis (bc_base_delay_ms b)) (from_secs (bc_max_delay_secs b))
      | None \<Rightarrow> backoff_default)"

definition agent_crash_tracker :: "agent_config \<Rightarrow> crash_tracker" where
  "agent_crash_tracker c =
     (case ac_crash_tracker c of
        Some t \<Rightarrow> tracker_new (ctc_max_crashes t) (from_secs (ctc_window_secs t))
      | None \<Rightarrow> tracker_default)"

definition agent_slot_new :: "string \<Rightarrow> agent_config \<Rightarrow> bool \<Rightarrow> agent_slot" where
  "agent_slot_new name config parent_cancel =
     \<lparr>sl_name = name, sl_config = config, sl_connection = None,
      sl_lifecycle = (slot_lifecycle_new parent_cancel (agent_backoff config)
        (agent_crash_tracker config))\<lparr>disabled := \<not> ac_enabled config\<rparr>,
      sl_agent_capabilities = None, sl_protocol_version = 0, sl_session_map = [],
      sl_reverse_map = [], sl_pending_permissions = [], sl_stale_sessions = [],
      sl_awaiting_first_prompt = {}, sl_last_available_commands = None, sl_tool_context = None,
      sl_tool_context_sent = {}, sl_active_prompts = []\<rparr>"

definition has_session_capability :: "agent_slot \<Rightarrow> (session_capabilities \<Rightarrow> bool) \<Rightarrow> bool" where
  "has_session_capability s check =
     (case Option.bind (sl_agent_capabilities s) ir_agent_capabilities of
        Some c \<Rightarrow> check (cap_session c)
      | None \<Rightarrow> False)"

definition supports_load :: "agent_slot \<Rightarrow> bool" where
  "supports_load s =
     (case Option.bind (sl_agent_capabilities s) ir_agent_capabilities of
        Some c \<Rightarrow> cap_load_session c
      | None \<Rightarrow> False)"

fun find_slot_by_name :: "agent_slot list \<Rightarrow> string \<Rightarrow> nat option" where
  "find_slot_by_name [] name = None"
| "find_slot_by_name (s # ss) name =
     (if sl_name s = name then Some 0 else map_option Suc (find_slot_by_name ss name))"


section \<open>The manager\<close>

datatype manager_error =
    NotStarted
  | AlreadyRunning
  | HealthCheckFailed string
  | SendFailed string
  | Internal string

record prompt_completion =
  pcm_session_key :: session_key
  pcm_session_expired :: bool
  pcm_idle_timed_out :: bool
  pcm_error_message :: "string option"
  pcm_stop_reason :: stop_reason

record prompt_task =
  pt_session_key :: session_key
  pt_acp_id :: string
  pt_request :: u64
  pt_notify :: nat

record agents_manager =
  am_agent_configs :: "(string \<times> agent_config) list"
  am_config :: agents_manager_config
  am_slots :: "agent_slot list"
  am_channels_sender :: bool
  am_streaming_completed :: "session_key set"
  am_update_seq :: u64
  am_session_store :: dyn_store
  am_session_ttl_secs :: int
  am_queue :: "(content_part, message_metadata) session_queue"
  am_events :: "channel_event list"
  am_tasks :: "prompt_task list"
  am_touches :: "(string \<times> int) list"
  am_activity :: "nat list"
  am_fs_writes :: "(fs_path \<times> string) list"
  am_panicked :: bool
  am_tick :: nat

text \<open>\<open>new\<close>; \<open>agents.drain()\<close> leaves the map of the manager's configuration empty.\<close>

definition agents_manager_new :: "agents_manager_config \<Rightarrow> agents_manager" where
  "agents_manager_new cfg =
     \<lparr>am_agent_configs = amc_agents cfg, am_config = cfg\<lparr>amc_agents := []\<rparr>, am_slots = [],
      am_channels_sender = False, am_streaming_completed = {}, am_update_seq = 0,
      am_session_store = Noop_Store, am_session_ttl_secs = 7 * 24 * 3600, am_queue = queue_new,
      am_events = [], am_tasks = [], am_touches = [], am_activity = [], am_fs_writes = [],
      am_panicked = False, am_tick = 0\<rparr>"

definition with_channels_sender :: "agents_manager \<Rightarrow> agents_manager" where
  "with_channels_sender m = m\<lparr>am_channels_sender := True\<rparr>"

definition with_session_store :: "dyn_store \<Rightarrow> agents_manager \<Rightarrow> agents_manager" where
  "with_session_store st m = m\<lparr>am_session_store := st\<rparr>"

definition with_session_ttl_secs :: "int \<Rightarrow> agents_manager \<Rightarrow> agents_manager" where
  "with_session_ttl_secs ttl m = m\<lparr>am_session_ttl_secs := ttl\<rparr>"

definition acp_timeout_for :: "agent_config \<Rightarrow> agents_manager_config \<Rightarrow> duration" where
  "acp_timeout_for ac mc = from_secs (unwrap_or (ac_acp_timeout_secs ac) (amc_acp_timeout_secs mc))"

definition apply_agent_defaults :: "(string, json) hmap \<Rightarrow> (string, json) hmap \<Rightarrow> (string, json) hmap" where
  "apply_agent_defaults options defaults = hm_defaults options defaults"


section \<open>The environment\<close>

datatype 'a tools_reply =
    Tools_SendFailed string
  | Tools_Dropped
  | Tools_Reply 'a

record mcp_server_url =
  msu_name :: string
  msu_url :: string

record tool_description =
  td_name :: string
  td_description :: string

text \<open>How awaiting a response ends: the timeout fires, the connection goes away, or it arrives.\<close>

datatype rpc_outcome =
    Rpc_Timeout
  | Rpc_Dropped
  | Rpc_Response json_rpc_response

record agent_env =
  env_spawn :: "nat \<Rightarrow> agent_config \<Rightarrow> string \<Rightarrow> agents_error + unit"
  env_stdin_ok :: "nat \<Rightarrow> bool"
  env_reply :: "nat \<Rightarrow> string \<Rightarrow> string \<Rightarrow> json \<Rightarrow> rpc_outcome"
  env_mcp_urls :: "nat \<Rightarrow> string list option \<Rightarrow> mcp_server_url list tools_reply"
  env_tool_descriptions :: "nat \<Rightarrow> string list option \<Rightarrow> tool_description list tools_reply"
  env_event_ok :: "nat \<Rightarrow> bool"
  env_now_secs :: "nat \<Rightarrow> int"
  env_now_ms :: "nat \<Rightarrow> u64"
  env_instant :: "nat \<Rightarrow> instant"
  env_store_fault :: "nat \<Rightarrow> fault"
  env_current_dir :: "path option"
  env_canon :: "nat \<Rightarrow> canonicalizer"
  env_read :: "nat \<Rightarrow> fs_path \<Rightarrow> string + string"
  env_write :: "nat \<Rightarrow> fs_path \<Rightarrow> string \<Rightarrow> string + unit"
  env_block_json :: "content_block \<Rightarrow> json"
  env_show_duration :: "duration \<Rightarrow> string"
  env_lower :: "string \<Rightarrow> string"
  env_json_string :: "json \<Rightarrow> string"
  dec_initialize :: "json \<Rightarrow> string + initialize_result"
  dec_session_id :: "json \<Rightarrow> string + string"
  dec_session_list :: "json \<Rightarrow> string + json list"
  dec_update :: "json \<Rightarrow> string + session_update_event"
  dec_push :: "json \<Rightarrow> string + session_push_params"
  dec_options :: "json \<Rightarrow> permission_option list option"
  dec_stop_reason :: "json \<Rightarrow> stop_reason option"

type_synonym 'a am = "(agents_manager, 'a) state"

definition ask :: "(nat \<Rightarrow> 'a) \<Rightarrow> 'a am" where
  "ask f = State (\<lambda>m. (f (am_tick m), m\<lparr>am_tick := Suc (am_tick m)\<rparr>))"

lemma run_ask [simp]: "run_state (ask f) m = (f (am_tick m), m\<lparr>am_tick := Suc (am_tick m)\<rparr>)"
  by (simp add: ask_def)

lemma wp_ask [wp_simps]: "wp (ask f) Q m \<longleftrightarrow> Q (f (am_tick m)) (m\<lparr>am_tick := Suc (am_tick m)\<rparr>)"
  by (simp add: wp_def)

text \<open>
  \<open>self.slots[i]\<close>.  Every index comes from \<open>find_slot_by_name\<close> or from the bridge of a slot
  that was pushed, so it is in range; the event loop checks this.
\<close>

definition get_slot :: "nat \<Rightarrow> agent_slot am" where
  "get_slot i = gets (\<lambda>m. am_slots m ! i)"

definition put_slot :: "nat \<Rightarrow> agent_slot \<Rightarrow> unit am" where
  "put_slot i s = modify (\<lambda>m. m\<lparr>am_slots := (am_slots m)[i := s]\<rparr>)"

definition upd_slot :: "nat \<Rightarrow> (agent_slot \<Rightarrow> agent_slot) \<Rightarrow> unit am" where
  "upd_slot i f = modify (\<lambda>m. m\<lparr>am_slots := (am_slots m)[i := f (am_slots m ! i)]\<rparr>)"

definition on_slot :: "nat \<Rightarrow> (agent_slot \<Rightarrow> ('a \<times> agent_slot) am) \<Rightarrow> 'a am" where
  "on_slot i f = do { s \<leftarrow> get_slot i; (r, s') \<leftarrow> f s; put_slot i s'; ret r }"

text \<open>\<open>channels_sender.send(event).await.is_ok()\<close>, and \<open>false\<close> without a sender.\<close>

definition send_event :: "agent_env \<Rightarrow> channel_event \<Rightarrow> bool am" where
  "send_event E ev = do {
     present \<leftarrow> gets am_channels_sender;
     if present then do {
       ok \<leftarrow> ask (env_event_ok E);
       if ok then do { modify (\<lambda>m. m\<lparr>am_events := am_events m @ [ev]\<rparr>); ret True } else ret False
     } else ret False
   }"

definition emit :: "agent_env \<Rightarrow> channel_event \<Rightarrow> unit am" where
  "emit E ev = do { _ \<leftarrow> send_event E ev; ret () }"


section \<open>Requests on a slot\<close>

definition slot_request ::
  "agent_env \<Rightarrow> string \<Rightarrow> json \<Rightarrow> agent_slot \<Rightarrow> ((agents_error + u64) \<times> agent_slot) am" where
  "slot_request E m p s =
     (case sl_connection s of
        None \<Rightarrow> ret (Inl ConnectionClosed, s)
      | Some c \<Rightarrow> do {
          ok \<leftarrow> ask (env_stdin_ok E);
          let (r, c') = agent_send_request ok m p c;
          ret (r, s\<lparr>sl_connection := Some c'\<rparr>) })"

text \<open>\<open>send_request\<close>, then \<open>timeout(acp_timeout, rx)\<close>.\<close>

definition slot_call ::
  "agent_env \<Rightarrow> duration \<Rightarrow> string \<Rightarrow> json \<Rightarrow> agent_slot
    \<Rightarrow> ((agents_error + json_rpc_response) \<times> agent_slot) am" where
  "slot_call E acp_timeout m p s = do {
     (r, s1) \<leftarrow> slot_request E m p s;
     case r of
       Inl e \<Rightarrow> ret (Inl e, s1)
     | Inr i \<Rightarrow> do {
         outcome \<leftarrow> ask (\<lambda>t. env_reply E t (sl_name s) m p);
         case outcome of
           Rpc_Timeout \<Rightarrow> ret (Inl (Timeout acp_timeout), s1)
         | Rpc_Dropped \<Rightarrow> ret (Inl ConnectionClosed, s1)
         | Rpc_Response resp \<Rightarrow>
             ret (Inr resp, s1\<lparr>sl_connection := map_option
               (\<lambda>c. c\<lparr>ag_pending := filter (\<lambda>j. j \<noteq> i) (ag_pending c)\<rparr>) (sl_connection s1)\<rparr>)
       }
   }"

definition slot_notify :: "agent_env \<Rightarrow> string \<Rightarrow> json \<Rightarrow> agent_slot \<Rightarrow> ((agents_error + unit) \<times> agent_slot) am" where
  "slot_notify E m p s =
     (case sl_connection s of
        None \<Rightarrow> ret (Inl ConnectionClosed, s)
      | Some c \<Rightarrow> do {
          ok \<leftarrow> ask (env_stdin_ok E);
          let (r, c') = agent_send_notification ok m p c;
          ret (r, s\<lparr>sl_connection := Some c'\<rparr>) })"

definition slot_send_raw :: "agent_env \<Rightarrow> json_rpc_response \<Rightarrow> agent_slot \<Rightarrow> ((agents_error + unit) \<times> agent_slot) am" where
  "slot_send_raw E msg s =
     (case sl_connection s of
        None \<Rightarrow> ret (Inl ConnectionClosed, s)
      | Some c \<Rightarrow> do {
          ok \<leftarrow> ask (env_stdin_ok E);
          let (r, c') = agent_send_raw ok msg c;
          ret (r, s\<lparr>sl_connection := Some c'\<rparr>) })"

text \<open>\<open>send_error_response\<close> and \<open>send_success_response\<close>: nothing without a connection.\<close>

definition send_response :: "agent_env \<Rightarrow> nat \<Rightarrow> json_rpc_response \<Rightarrow> unit am" where
  "send_response E i msg = do { _ \<leftarrow> on_slot i (slot_send_raw E msg); ret () }"

end
