(* ===== verification/Agents_Sessions.thy ===== *)
theory Agents_Sessions
  imports Agents_State
begin

text \<open>
  Sessions of the agents manager: handshake and session creation (\<open>manager.rs\<close>), recovery after a
  crash (\<open>session_recovery.rs\<close>), and dispatching prompts (\<open>commands.rs\<close>).
\<close>

section \<open>Handshake and new sessions\<close>

definition response_value :: "json_rpc_response \<Rightarrow> json" where
  "response_value r = unwrap_or (resp_result r) JNull"

definition initialize_agent ::
  "agent_env \<Rightarrow> duration \<Rightarrow> agent_slot \<Rightarrow> ((agents_error + unit) \<times> agent_slot) am" where
  "initialize_agent E acp_timeout s =
     (if sl_connection s = None then ret (Inl ConnectionClosed, s)
      else do {
        let options = (if ac_options (sl_config s) = [] then None else Some (ac_options (sl_config s)));
        (r, s1) \<leftarrow> slot_call E acp_timeout ''initialize'' (initialize_params_json 2 options) s;
        case r of
          Inl e \<Rightarrow> ret (Inl e, s1)
        | Inr resp \<Rightarrow>
            (case dec_initialize E (response_value resp) of
               Inl e \<Rightarrow> ret (Inl (Json_Error e), s1)
             | Inr result \<Rightarrow>
                 if ir_protocol_version result \<noteq> 1 \<and> ir_protocol_version result \<noteq> 2
                 then ret (Inl (Protocol (ProtocolMismatch 2 (ir_protocol_version result))), s1)
                 else
                   (let s2 = (case ir_defaults result of
                                None \<Rightarrow> s1
                              | Some defaults \<Rightarrow> s1\<lparr>sl_config := (sl_config s1)\<lparr>ac_options :=
                                  apply_agent_defaults (ac_options (sl_config s1)) defaults\<rparr>\<rparr>)
                    in ret (Inr (), s2\<lparr>sl_protocol_version := ir_protocol_version result,
                          sl_agent_capabilities := Some result\<rparr>))) })"

definition tool_names :: "agent_slot \<Rightarrow> string list option" where
  "tool_names s = (if ac_tools (sl_config s) = [] then None else Some (ac_tools (sl_config s)))"

definition mcp_server_of :: "mcp_server_url \<Rightarrow> mcp_server_info" where
  "mcp_server_of u =
     \<lparr>msi_name = msu_name u, msi_server_type = ''http'', msi_url = msu_url u, msi_command = '''',
      msi_args = [], msi_env = [], msi_headers = []\<rparr>"

definition start_session ::
  "agent_env \<Rightarrow> duration \<Rightarrow> agent_slot \<Rightarrow> ((agents_error + string) \<times> agent_slot) am" where
  "start_session E acp_timeout s = do {
     reply \<leftarrow> ask (\<lambda>t. env_mcp_urls E t (tool_names s));
     case reply of
       Tools_SendFailed e \<Rightarrow> ret (Inl (SpawnFailed (''tools handle: '' @ e)), s)
     | _ \<Rightarrow> do {
         let urls = (case reply of Tools_Reply us \<Rightarrow> us | _ \<Rightarrow> []);
         let cwd = resolve_agent_cwd (env_current_dir E) (ac_workspace (sl_config s));
         (r, s1) \<leftarrow> slot_call E acp_timeout ''session/new''
           (session_new_params_json None cwd (map mcp_server_of urls)) s;
         case r of
           Inl e \<Rightarrow> ret (Inl e, s1)
         | Inr resp \<Rightarrow>
             (case dec_session_id E (response_value resp) of
                Inl e \<Rightarrow> ret (Inl (Json_Error e), s1)
              | Inr sid \<Rightarrow> ret (Inr sid, s1))
       }
   }"

definition fetch_mcp_servers :: "agent_env \<Rightarrow> nat \<Rightarrow> mcp_server_info list am" where
  "fetch_mcp_servers E i = do {
     s \<leftarrow> get_slot i;
     reply \<leftarrow> ask (\<lambda>t. env_mcp_urls E t (tool_names s));
     ret (case reply of Tools_Reply us \<Rightarrow> map mcp_server_of us | _ \<Rightarrow> [])
   }"

definition tool_line :: "tool_description \<Rightarrow> string" where
  "tool_line d =
     ''- '' @ td_name d @ (if td_description d = '''' then '''' else '': '' @ td_description d) @ NEWLINE"

definition fetch_tool_context :: "agent_env \<Rightarrow> nat \<Rightarrow> string option am" where
  "fetch_tool_context E i = do {
     s \<leftarrow> get_slot i;
     reply \<leftarrow> ask (\<lambda>t. env_tool_descriptions E t (tool_names s));
     ret (case reply of
            Tools_Reply (d # ds) \<Rightarrow>
              Some (''[Platform context: You have the following MCP tools available. ''
                @ ''Use them when relevant instead of approximating with built-in tools.'' @ NEWLINE
                @ concat (map tool_line (d # ds)) @ '']'')
          | _ \<Rightarrow> None)
   }"

definition register_default_session :: "string \<Rightarrow> string \<Rightarrow> agent_slot \<Rightarrow> agent_slot" where
  "register_default_session name session_id s =
     (let default_key = session_key_new name ''default'' ''default''
      in s\<lparr>sl_session_map := hm_insert default_key session_id (sl_session_map s),
           sl_reverse_map := hm_insert session_id default_key (sl_reverse_map s)\<rparr>)"

definition bind_session :: "session_key \<Rightarrow> string \<Rightarrow> agent_slot \<Rightarrow> agent_slot" where
  "bind_session k acp s =
     s\<lparr>sl_session_map := hm_insert k acp (sl_session_map s),
       sl_reverse_map := hm_insert acp k (sl_reverse_map s)\<rparr>"

text \<open>The store write of \<open>create_session\<close> and of \<open>update_session_store\<close>; a fault is logged.\<close>

definition update_session_store :: "agent_env \<Rightarrow> string \<Rightarrow> session_key \<Rightarrow> string \<Rightarrow> unit am" where
  "update_session_store E agent_name k acp = do {
     now \<leftarrow> ask (env_now_secs E);
     f \<leftarrow> ask (env_store_fault E);
     let row = \<lparr>ps_session_key = key_to_string k, ps_agent_name = agent_name,
                ps_acp_session_id = acp, ps_created_at = now, ps_last_active_at = now,
                ps_closed = False\<rparr>;
     modify (\<lambda>m. m\<lparr>am_session_store := snd (dyn_upsert_session f row (am_session_store m))\<rparr>)
   }"

definition create_session :: "agent_env \<Rightarrow> string \<Rightarrow> session_key \<Rightarrow> (agents_error + string) am" where
  "create_session E agent_name k = do {
     m \<leftarrow> gets id;
     some_or (AgentNotFound agent_name) (find_slot_by_name (am_slots m) agent_name) (\<lambda>i.
       case hm_get (sl_session_map (am_slots m ! i)) k of
         Some acp \<Rightarrow> ret (Inr acp)
       | None \<Rightarrow>
           try_then (on_slot i (start_session E
               (acp_timeout_for (sl_config (am_slots m ! i)) (am_config m)))) (\<lambda>acp. do {
             s \<leftarrow> get_slot i;
             (if sl_tool_context s = None then do {
               ctx \<leftarrow> fetch_tool_context E i;
               upd_slot i (\<lambda>s. s\<lparr>sl_tool_context := ctx\<rparr>)
             } else ret ());
             upd_slot i (bind_session k acp);
             update_session_store E agent_name k acp;
             ret (Inr acp)
           }))
   }"


section \<open>Healing one session\<close>

definition returned_session_id :: "json_rpc_response \<Rightarrow> string option" where
  "returned_session_id r = Option.bind (Option.bind (resp_result r) (\<lambda>v. jget v ''sessionId'')) as_str"

definition resume_params_json :: "string \<Rightarrow> string \<Rightarrow> mcp_server_info list \<Rightarrow> json" where
  "resume_params_json acp cwd servers =
     JObj [(''sessionId'', JStr acp), (''cwd'', JStr cwd),
           (''mcpServers'', JArr (map mcp_server_info_json servers))]"

text \<open>\<open>session/resume\<close> or \<open>session/load\<close>: the id the agent returns, if it accepts.\<close>

definition restore_call ::
  "agent_env \<Rightarrow> duration \<Rightarrow> bool \<Rightarrow> nat \<Rightarrow> string \<Rightarrow> string option am" where
  "restore_call E acp_timeout resume i acp = do {
     s \<leftarrow> get_slot i;
     let cwd = resolve_agent_cwd (env_current_dir E) (ac_workspace (sl_config s));
     servers \<leftarrow> fetch_mcp_servers E i;
     r \<leftarrow> on_slot i (if resume
            then slot_call E acp_timeout ''session/resume'' (resume_params_json acp cwd servers)
            else slot_call E acp_timeout ''session/load''
                   (session_load_params_json acp (Some cwd) (Some servers)));
     ret (case r of Inl e \<Rightarrow> None | Inr resp \<Rightarrow> returned_session_id resp)
   }"

text \<open>
  \<open>heal_session\<close>.  Without a connection the attempt to restore fails with \<open>ConnectionClosed\<close>
  after the tools manager has been asked.
\<close>

definition heal_session :: "agent_env \<Rightarrow> nat \<Rightarrow> string \<Rightarrow> session_key \<Rightarrow> (agents_error + unit) am" where
  "heal_session E i agent_name k = do {
     m \<leftarrow> gets id;
     let s = am_slots m ! i;
     let acp_timeout = acp_timeout_for (sl_config s) (am_config m);
     let stale = hm_get (sl_stale_sessions s) k;
     let resume = has_session_capability s cap_resume;
     let attempt = (case stale of
                      Some acp \<Rightarrow> if resume \<or> supports_load s then Some acp else None
                    | None \<Rightarrow> None);
     restored \<leftarrow> (case attempt of
        None \<Rightarrow> ret (Inr None)
      | Some acp \<Rightarrow>
          if sl_connection s = None
          then do { _ \<leftarrow> fetch_mcp_servers E i; ret (Inl ConnectionClosed) }
          else do { r \<leftarrow> restore_call E acp_timeout resume i acp; ret (Inr r) });
     case restored of
       Inl e \<Rightarrow> ret (Inl e)
     | Inr (Some returned) \<Rightarrow> do {
         upd_slot i (\<lambda>s. bind_session k returned
           (s\<lparr>sl_stale_sessions := hm_remove k (sl_stale_sessions s)\<rparr>));
         (if resume then ret ()
          else upd_slot i (\<lambda>s. s\<lparr>sl_awaiting_first_prompt :=
                 insert returned (sl_awaiting_first_prompt s)\<rparr>));
         update_session_store E agent_name k returned;
         ret (Inr ())
       }
     | Inr None \<Rightarrow> do {
         upd_slot i (\<lambda>s. s\<lparr>sl_stale_sessions := hm_remove k (sl_stale_sessions s)\<rparr>);
         try_then (create_session E agent_name k) (\<lambda>_. ret (Inr ()))
       }
   }"


section \<open>Crash recovery\<close>

text \<open>\<open>prepare_restart\<close>; the panic of the backoff ends the task.\<close>

definition prepare_restart :: "agent_env \<Rightarrow> nat \<Rightarrow> bool am" where
  "prepare_restart E i = do {
     now \<leftarrow> ask (env_instant E);
     now' \<leftarrow> ask (env_instant E);
     s \<leftarrow> get_slot i;
     case record_crash_and_check now now' (sl_lifecycle s) of
       None \<Rightarrow> do { modify (\<lambda>m. m\<lparr>am_panicked := True\<rparr>); ret False }
     | Some (action, lc) \<Rightarrow> do {
         upd_slot i (\<lambda>s. s\<lparr>sl_lifecycle := lc, sl_connection := None\<rparr>);
         ret (case action of Crash_Disabled \<Rightarrow> False | RestartAfter d \<Rightarrow> True)
       }
   }"

definition crash_text :: "string \<Rightarrow> string" where
  "crash_text agent_name =
     ''Agent crashed '' @ [CHR 0xE2, CHR 0x80, CHR 0x94] @ '' restarting ('' @ agent_name @ '')''"

definition notify_crash_to_channels :: "agent_env \<Rightarrow> nat \<Rightarrow> string \<Rightarrow> unit am" where
  "notify_crash_to_channels E i agent_name = do {
     s \<leftarrow> get_slot i;
     for_each (sl_session_map s) (\<lambda>(k, acp).
       if hm_has (sl_active_prompts s) acp then ret ()
       else emit E (DeliverMessage k (error_result (crash_text agent_name))));
     upd_slot i (\<lambda>s. s\<lparr>sl_active_prompts := []\<rparr>)
   }"

definition respawn_and_initialize :: "agent_env \<Rightarrow> nat \<Rightarrow> string \<Rightarrow> bool am" where
  "respawn_and_initialize E i agent_name = do {
     m \<leftarrow> gets id;
     let config = sl_config (am_slots m ! i);
     r \<leftarrow> ask (\<lambda>t. env_spawn E t config agent_name);
     case r of
       Inl e \<Rightarrow> ret False
     | Inr _ \<Rightarrow> do {
         upd_slot i (\<lambda>s. s\<lparr>sl_connection := Some agent_conn_new\<rparr>);
         q \<leftarrow> on_slot i (initialize_agent E (acp_timeout_for config (am_config m)));
         case q of
           Inl e \<Rightarrow> do { upd_slot i (\<lambda>s. s\<lparr>sl_connection := None\<rparr>); ret False }
         | Inr _ \<Rightarrow> ret True
       }
   }"

text \<open>The loop over \<open>stale_sessions.drain()\<close>.\<close>

definition restored_map ::
  "string \<Rightarrow> string \<Rightarrow> (session_key, string) hmap \<Rightarrow> (session_key, string) hmap \<Rightarrow> (session_key, string) hmap" where
  "restored_map first returned stale sm =
     hm_extend sm (map (\<lambda>(k, v). (k, if v = first then returned else v)) stale)"

definition try_restore_session :: "agent_env \<Rightarrow> nat \<Rightarrow> duration \<Rightarrow> bool am" where
  "try_restore_session E i acp_timeout = do {
     s \<leftarrow> get_slot i;
     case sl_stale_sessions s of
       [] \<Rightarrow> ret False
     | (_, first) # _ \<Rightarrow>
         if \<not> has_session_capability s cap_resume \<and> \<not> supports_load s then ret False
         else do {
           let resume = has_session_capability s cap_resume;
           r \<leftarrow> restore_call E acp_timeout resume i first;
           case r of
             None \<Rightarrow> ret False
           | Some returned \<Rightarrow> do {
               upd_slot i (\<lambda>s. s\<lparr>sl_session_map :=
                   restored_map first returned (sl_stale_sessions s) (sl_session_map s),
                 sl_stale_sessions := []\<rparr>);
               (if resume then ret ()
                else upd_slot i (\<lambda>s. s\<lparr>sl_awaiting_first_prompt :=
                   sl_awaiting_first_prompt s \<union> snd ` set (sl_session_map s)\<rparr>));
               upd_slot i (\<lambda>s. s\<lparr>sl_lifecycle := (sl_lifecycle s)\<lparr>backoff :=
                   backoff_reset (backoff (sl_lifecycle s))\<rparr>\<rparr>);
               ret True
             }
         }
   }"

definition restore_or_start_session :: "agent_env \<Rightarrow> nat \<Rightarrow> string \<Rightarrow> unit am" where
  "restore_or_start_session E i agent_name = do {
     upd_slot i (\<lambda>s. s\<lparr>sl_stale_sessions := hm_extend (sl_stale_sessions s) (sl_session_map s),
       sl_session_map := [], sl_awaiting_first_prompt := {}, sl_tool_context_sent := {}\<rparr>);
     m \<leftarrow> gets id;
     let acp_timeout = acp_timeout_for (sl_config (am_slots m ! i)) (am_config m);
     restored \<leftarrow> try_restore_session E i acp_timeout;
     if restored then ret ()
     else do {
       r \<leftarrow> on_slot i (start_session E acp_timeout);
       case r of
         Inr session_id \<Rightarrow>
           upd_slot i (\<lambda>s. register_default_session agent_name session_id
             (s\<lparr>sl_reverse_map := [], sl_lifecycle := (sl_lifecycle s)\<lparr>backoff :=
                backoff_reset (backoff (sl_lifecycle s))\<rparr>\<rparr>))
       | Inl e \<Rightarrow> upd_slot i (\<lambda>s. s\<lparr>sl_connection := None\<rparr>)
     }
   }"

definition handle_crash :: "agent_env \<Rightarrow> nat \<Rightarrow> unit am" where
  "handle_crash E i = do {
     s \<leftarrow> get_slot i;
     let agent_name = sl_name s;
     restart \<leftarrow> prepare_restart E i;
     if \<not> restart then ret ()
     else do {
       notify_crash_to_channels E i agent_name;
       up \<leftarrow> respawn_and_initialize E i agent_name;
       if \<not> up then ret () else restore_or_start_session E i agent_name
     }
   }"

end
