(* ===== verification/Agents_Commands.thy ===== *)
theory Agents_Commands
  imports Agents_Sessions
begin

text \<open>
  \<open>crates/anyclaw-agents/src/commands.rs\<close>: prompts and the task that waits for each of them,
  platform commands, and \<open>handle_command\<close>.
\<close>

section \<open>The task that waits for a prompt\<close>

datatype task_input =
    In_Response json_rpc_response
  | In_Dropped
  | In_Activity

datatype task_outcome =
    Task_Response json_rpc_response
  | Task_Lost
  | Task_Idle

text \<open>
  What the task sees, with the time of each input: the loop over \<open>select!\<close> with a deadline that
  every activity moves (an input at the very instant of the deadline wins).  \<open>None\<close>: with the
  timeout disabled (\<open>idle = 0\<close>) and no response the task waits for ever.
\<close>

fun prompt_wait :: "nat \<Rightarrow> nat \<Rightarrow> (nat \<times> task_input) list \<Rightarrow> task_outcome option" where
  "prompt_wait idle deadline [] = (if idle = 0 then None else Some Task_Idle)"
| "prompt_wait idle deadline ((t, x) # xs) =
     (if idle \<noteq> 0 \<and> deadline < t then Some Task_Idle
      else (case x of
              In_Response r \<Rightarrow> Some (Task_Response r)
            | In_Dropped \<Rightarrow> Some Task_Lost
            | In_Activity \<Rightarrow> prompt_wait idle (t + idle) xs))"

text \<open>\<open>send_prompt_error\<close>.\<close>

definition prompt_error :: "session_key \<Rightarrow> string \<Rightarrow> bool \<Rightarrow> prompt_completion" where
  "prompt_error k msg idle_timed_out =
     \<lparr>pcm_session_key = k, pcm_session_expired = False, pcm_idle_timed_out = idle_timed_out,
      pcm_error_message = Some msg, pcm_stop_reason = Refusal\<rparr>"

definition response_completion :: "agent_env \<Rightarrow> session_key \<Rightarrow> json_rpc_response \<Rightarrow> prompt_completion" where
  "response_completion E k r =
     (case resp_error r of
        Some err \<Rightarrow>
          (let combined = err_message err @ '' ''
                 @ (case err_data err of None \<Rightarrow> '''' | Some d \<Rightarrow> env_json_string E d)
           in \<lparr>pcm_session_key = k,
               pcm_session_expired = str_contains ''session not found'' (env_lower E combined),
               pcm_idle_timed_out = False, pcm_error_message = Some (err_message err),
               pcm_stop_reason = Refusal\<rparr>)
      | None \<Rightarrow>
          \<lparr>pcm_session_key = k, pcm_session_expired = False, pcm_idle_timed_out = False,
           pcm_error_message = None,
           pcm_stop_reason = unwrap_or (dec_stop_reason E (response_value r)) EndTurn\<rparr>)"

definition idle_text :: "u64 \<Rightarrow> string" where
  "idle_text secs =
     ''Agent idle timeout after '' @ show_int (uint secs) @ ''s with no activity''"

definition task_completion :: "agent_env \<Rightarrow> u64 \<Rightarrow> prompt_task \<Rightarrow> task_outcome \<Rightarrow> prompt_completion" where
  "task_completion E idle_secs task outcome =
     (case outcome of
        Task_Response r \<Rightarrow> response_completion E (pt_session_key task) r
      | Task_Lost \<Rightarrow> prompt_error (pt_session_key task) ''Agent connection lost'' False
      | Task_Idle \<Rightarrow> prompt_error (pt_session_key task) (idle_text idle_secs) True)"


section \<open>Cancelling, forking, listing\<close>

definition cancel_session :: "agent_env \<Rightarrow> string \<Rightarrow> session_key \<Rightarrow> (agents_error + unit) am" where
  "cancel_session E agent_name k = do {
     m \<leftarrow> gets id;
     some_or (AgentNotFound agent_name) (find_slot_by_name (am_slots m) agent_name) (\<lambda>i.
       some_or ConnectionClosed (hm_get (sl_session_map (am_slots m ! i)) k) (\<lambda>acp.
         on_slot i (slot_notify E ''session/cancel'' (session_id_params_json acp))))
   }"

text \<open>The first slot that knows the session.\<close>

fun find_session :: "agent_slot list \<Rightarrow> session_key \<Rightarrow> (nat \<times> string) option" where
  "find_session [] k = None"
| "find_session (s # ss) k =
     (case hm_get (sl_session_map s) k of
        Some acp \<Rightarrow> Some (0, acp)
      | None \<Rightarrow> map_option (\<lambda>(i, acp). (Suc i, acp)) (find_session ss k))"

definition cancel_session_by_key :: "agent_env \<Rightarrow> session_key \<Rightarrow> (agents_error + unit) am" where
  "cancel_session_by_key E k = do {
     m \<leftarrow> gets id;
     some_or ConnectionClosed (find_session (am_slots m) k) (\<lambda>(i, acp).
       on_slot i (slot_notify E ''session/cancel'' (session_id_params_json acp)))
   }"

definition fork_session :: "agent_env \<Rightarrow> string \<Rightarrow> session_key \<Rightarrow> (agents_error + string) am" where
  "fork_session E agent_name k = do {
     m \<leftarrow> gets id;
     some_or (AgentNotFound agent_name) (find_slot_by_name (am_slots m) agent_name) (\<lambda>i.
       if \<not> has_session_capability (am_slots m ! i) cap_fork
       then ret (Inl (CapabilityNotSupported ''fork''))
       else some_or ConnectionClosed (hm_get (sl_session_map (am_slots m ! i)) k) (\<lambda>acp.
         try_then (on_slot i (slot_call E
             (acp_timeout_for (sl_config (am_slots m ! i)) (am_config m))
             ''session/fork'' (session_id_params_json acp))) (\<lambda>resp.
           case dec_session_id E (response_value resp) of
             Inl e \<Rightarrow> ret (Inl (Json_Error e))
           | Inr sid \<Rightarrow> do {
               upd_slot i (bind_session (session_key_new (channel_name k) ''fork'' sid) sid);
               ret (Inr sid)
             })))
   }"

definition list_sessions :: "agent_env \<Rightarrow> string \<Rightarrow> (agents_error + json list) am" where
  "list_sessions E agent_name = do {
     m \<leftarrow> gets id;
     some_or (AgentNotFound agent_name) (find_slot_by_name (am_slots m) agent_name) (\<lambda>i.
       if \<not> has_session_capability (am_slots m ! i) cap_list
       then ret (Inl (CapabilityNotSupported ''list''))
       else try_then (on_slot i (slot_call E
             (acp_timeout_for (sl_config (am_slots m ! i)) (am_config m))
             ''session/list'' session_list_params_json)) (\<lambda>resp.
           ret (case dec_session_list E (response_value resp) of
                  Inl e \<Rightarrow> Inl (Json_Error e)
                | Inr infos \<Rightarrow> Inr infos)))
   }"


section \<open>Platform commands\<close>

definition chunk_content :: "string \<Rightarrow> json" where
  "chunk_content msg =
     JObj [(''update'', JObj [(''sessionUpdate'', JStr ''agent_message_chunk''), (''content'', JStr msg)])]"

definition send_synthetic_chunk :: "agent_env \<Rightarrow> session_key \<Rightarrow> string \<Rightarrow> unit am" where
  "send_synthetic_chunk E k msg = do {
     emit E (DispatchStarted k);
     emit E (DeliverMessage k (chunk_content msg))
   }"

definition send_synthetic_response :: "agent_env \<Rightarrow> session_key \<Rightarrow> string \<Rightarrow> stop_reason \<Rightarrow> unit am" where
  "send_synthetic_response E k msg reason = do {
     send_synthetic_chunk E k msg;
     emit E (DeliverMessage k
       (JObj [(''update'', JObj [(''sessionUpdate'', JStr ''result''), (''content'', JStr '''')])]));
     emit E (SessionComplete k reason)
   }"

text \<open>\<open>self.queue.mark_idle(session_key);\<close> with its result dropped.\<close>

definition queue_mark_idle :: "session_key \<Rightarrow> unit am" where
  "queue_mark_idle k = modify (\<lambda>m. m\<lparr>am_queue := snd (mark_idle k (am_queue m))\<rparr>)"

definition handle_platform_command ::
  "agent_env \<Rightarrow> string \<Rightarrow> nat \<Rightarrow> string \<Rightarrow> session_key \<Rightarrow> (agents_error + unit) am" where
  "handle_platform_command E command i agent_name k =
     (if command = ''new'' then do {
        upd_slot i (\<lambda>s. s\<lparr>sl_session_map := hm_remove k (sl_session_map s),
          sl_reverse_map := filter (\<lambda>(a, v). v \<noteq> k) (sl_reverse_map s)\<rparr>);
        try_then (create_session E agent_name k) (\<lambda>acp. do {
          send_synthetic_chunk E k ''New conversation started.'';
          queue_mark_idle k;
          ret (Inr ())
        })
      }
      else if command = ''cancel'' then do {
        r \<leftarrow> cancel_session E agent_name k;
        case r of
          Inr _ \<Rightarrow> do {
            send_synthetic_chunk E k ''Operation cancelled.'';
            queue_mark_idle k;
            ret (Inr ())
          }
        | Inl e \<Rightarrow> do {
            send_synthetic_response E k ''No active operation to cancel.'' Cancelled;
            ret (Inr ())
          }
      }
      else ret (Inr ()))"


section \<open>Prompts\<close>

text \<open>The parts of a prompt: tool context once per session, reply context, the content.\<close>

definition prompt_parts :: "agent_slot \<Rightarrow> string \<Rightarrow> content_part list \<Rightarrow> message_metadata option \<Rightarrow> content_part list" where
  "prompt_parts s acp content metadata =
     (case sl_tool_context s of
        Some ctx \<Rightarrow> if acp \<in> sl_tool_context_sent s then [] else [part_text ctx]
      | None \<Rightarrow> [])
     @ (case Option.bind metadata build_reply_context of Some c \<Rightarrow> [part_text c] | None \<Rightarrow> [])
     @ content"

definition mark_prompted :: "string \<Rightarrow> agent_slot \<Rightarrow> agent_slot" where
  "mark_prompted acp s =
     s\<lparr>sl_awaiting_first_prompt := sl_awaiting_first_prompt s - {acp},
       sl_tool_context_sent :=
         (if sl_tool_context s = None then sl_tool_context_sent s
          else insert acp (sl_tool_context_sent s))\<rparr>"

definition send_prompt ::
  "agent_env \<Rightarrow> nat \<Rightarrow> session_key \<Rightarrow> string \<Rightarrow> content_part list \<Rightarrow> message_metadata option
    \<Rightarrow> (agents_error + unit) am" where
  "send_prompt E i k acp content metadata = do {
     s \<leftarrow> get_slot i;
     let parts = prompt_parts s acp content metadata;
     upd_slot i (mark_prompted acp);
     try_then (on_slot i (slot_request E ''session/prompt''
         (session_prompt_params_json (env_block_json E) acp (content_parts_to_blocks parts)))) (\<lambda>rid. do {
       now \<leftarrow> ask (env_now_secs E);
       notify \<leftarrow> ask (\<lambda>t. t);
       modify (\<lambda>m. m\<lparr>am_touches := am_touches m @ [(key_to_string k, now)]\<rparr>);
       upd_slot i (\<lambda>s. s\<lparr>sl_active_prompts := hm_insert acp notify (sl_active_prompts s)\<rparr>);
       modify (\<lambda>m. m\<lparr>am_tasks := am_tasks m @
         [\<lparr>pt_session_key = k, pt_acp_id = acp, pt_request = rid, pt_notify = notify\<rparr>]\<rparr>);
       ret (Inr ())
     })
   }"

definition prompt_session ::
  "agent_env \<Rightarrow> string \<Rightarrow> session_key \<Rightarrow> content_part list \<Rightarrow> message_metadata option
    \<Rightarrow> (agents_error + unit) am" where
  "prompt_session E agent_name k content metadata = do {
     m \<leftarrow> gets id;
     some_or (AgentNotFound agent_name) (find_slot_by_name (am_slots m) agent_name) (\<lambda>i.
       case platform_command_of content of
         Some cmd \<Rightarrow> handle_platform_command E (pc_name cmd) i agent_name k
       | None \<Rightarrow>
           try_then (if hm_has (sl_session_map (am_slots m ! i)) k then ret (Inr ())
                     else heal_session E i agent_name k) (\<lambda>_. do {
             s \<leftarrow> get_slot i;
             some_or ConnectionClosed (hm_get (sl_session_map s) k) (\<lambda>acp.
               send_prompt E i k acp content metadata)
           }))
   }"

definition flush_and_dispatch :: "agent_env \<Rightarrow> string \<Rightarrow> session_key \<Rightarrow> (agents_error + unit) am" where
  "flush_and_dispatch E agent_name k = do {
     m \<leftarrow> gets id;
     let (batch, q) = flush_pending k (am_queue m);
     modify (\<lambda>m. m\<lparr>am_queue := q\<rparr>);
     case batch of
       None \<Rightarrow> ret (Inr ())
     | Some (content, metadata) \<Rightarrow> do {
         emit E (DispatchStarted k);
         prompt_session E agent_name k content metadata
       }
   }"

definition send_prompt_to_slot :: "agent_env \<Rightarrow> nat \<Rightarrow> string \<Rightarrow> (agents_error + unit) am" where
  "send_prompt_to_slot E i message = do {
     s \<leftarrow> get_slot i;
     if sl_connection s = None then ret (Inl ConnectionClosed)
     else (case sl_session_map s of
             [] \<Rightarrow> ret (Inl ConnectionClosed)
           | (_, acp) # _ \<Rightarrow>
               try_then (on_slot i (slot_request E ''session/prompt''
                 (session_prompt_params_json (env_block_json E) acp
                   (content_parts_to_blocks [part_text message])))) (\<lambda>_. ret (Inr ())))
   }"


section \<open>Commands\<close>

datatype agents_command =
    SendPrompt string
  | CancelOperation
  | RespondPermission string string
  | GetPendingPermissions
  | Shutdown
  | GetStatus
  | CreateSession string session_key
  | EnqueueMessage string session_key "content_part list" "message_metadata option"
  | ForkSession string session_key
  | ListSessions string
  | CancelSession string session_key

record agent_status_info =
  asi_name :: string
  asi_connected :: bool
  asi_session_count :: nat

datatype agents_reply =
    No_Reply
  | Reply_Unit "string + unit"
  | Reply_Session "string + string"
  | Reply_List "string + json list"
  | Reply_Permissions "(string \<times> string \<times> permission_option list) list"
  | Reply_Status "agent_status_info list"

definition map_err :: "agent_env \<Rightarrow> agents_error + 'a \<Rightarrow> string + 'a" where
  "map_err E r = map_sum (agents_error_display (env_show_duration E)) id r"

definition shutdown_all :: "unit am" where
  "shutdown_all = modify (\<lambda>m. m\<lparr>am_slots := map (\<lambda>s. s\<lparr>sl_connection := None\<rparr>) (am_slots m)\<rparr>)"

text \<open>The answer that \<open>RespondPermission\<close> writes to the agent.\<close>

definition permission_answer :: "pending_permission \<Rightarrow> string \<Rightarrow> json_rpc_response" where
  "permission_answer perm option_id =
     response_success (req_id (pp_request perm))
       (JObj [(''outcome'', JObj [(''outcome'', JStr ''selected''), (''optionId'', JStr option_id)])])"

fun find_permission :: "agent_slot list \<Rightarrow> string \<Rightarrow> (nat \<times> pending_permission) option" where
  "find_permission [] rid = None"
| "find_permission (s # ss) rid =
     (case hm_get (sl_pending_permissions s) rid of
        Some p \<Rightarrow> Some (0, p)
      | None \<Rightarrow> map_option (\<lambda>(i, p). (Suc i, p)) (find_permission ss rid))"

definition respond_permission :: "agent_env \<Rightarrow> string \<Rightarrow> string \<Rightarrow> unit am" where
  "respond_permission E request_id option_id = do {
     slots \<leftarrow> gets am_slots;
     case find_permission slots request_id of
       None \<Rightarrow> ret ()
     | Some (i, perm) \<Rightarrow> do {
         upd_slot i (\<lambda>s. s\<lparr>sl_pending_permissions := hm_remove request_id (sl_pending_permissions s)\<rparr>);
         send_response E i (permission_answer perm option_id)
       }
   }"

definition cancel_operation :: "agent_env \<Rightarrow> unit am" where
  "cancel_operation E = do {
     slots \<leftarrow> gets am_slots;
     for_each [0..<length slots] (\<lambda>i.
       if sl_connection (slots ! i) = None then ret ()
       else for_each (sl_session_map (slots ! i)) (\<lambda>(k, acp). do {
         _ \<leftarrow> on_slot i (slot_notify E ''session/cancel'' (session_id_params_json acp));
         ret ()
       }))
   }"

definition enqueue_message ::
  "agent_env \<Rightarrow> string \<Rightarrow> session_key \<Rightarrow> content_part list \<Rightarrow> message_metadata option
    \<Rightarrow> (agents_error + unit) am" where
  "enqueue_message E agent_name k content metadata =
     (case platform_command_of content of
        Some cmd \<Rightarrow> do {
          slots \<leftarrow> gets am_slots;
          case find_slot_by_name slots agent_name of
            Some i \<Rightarrow> handle_platform_command E (pc_name cmd) i agent_name k
          | None \<Rightarrow> ret (Inl (AgentNotFound agent_name))
        }
      | None \<Rightarrow> do {
          q \<leftarrow> gets am_queue;
          if is_active k q then do {
            modify (\<lambda>m. m\<lparr>am_queue := snd (queue_push k content metadata (am_queue m))\<rparr>);
            ret (Inr ())
          }
          else do {
            modify (\<lambda>m. m\<lparr>am_queue := snd (push_only k content metadata (am_queue m))\<rparr>);
            flush_and_dispatch E agent_name k
          }
        })"

text \<open>\<open>handle_command\<close>; the second value is whether the loop ends.\<close>

fun handle_command :: "agent_env \<Rightarrow> agents_command \<Rightarrow> (agents_reply \<times> bool) am" where
  "handle_command E (SendPrompt message) = do {
     slots \<leftarrow> gets am_slots;
     r \<leftarrow> (if slots = [] then ret (Inl ConnectionClosed) else send_prompt_to_slot E 0 message);
     ret (Reply_Unit (map_err E r), False)
   }"
| "handle_command E CancelOperation = do { cancel_operation E; ret (No_Reply, False) }"
| "handle_command E (RespondPermission rid oid) = do {
     respond_permission E rid oid; ret (No_Reply, False) }"
| "handle_command E GetPendingPermissions = do {
     slots \<leftarrow> gets am_slots;
     ret (Reply_Permissions (concat (map (\<lambda>s. map (\<lambda>(i, p). (i, pp_description p, pp_options p))
       (sl_pending_permissions s)) slots)), False)
   }"
| "handle_command E Shutdown = do { shutdown_all; ret (No_Reply, True) }"
| "handle_command E GetStatus = do {
     slots \<leftarrow> gets am_slots;
     ret (Reply_Status (map (\<lambda>s. \<lparr>asi_name = sl_name s, asi_connected = (sl_connection s \<noteq> None),
       asi_session_count = length (sl_session_map s)\<rparr>) slots), False)
   }"
| "handle_command E (CreateSession agent_name k) = do {
     slots \<leftarrow> gets am_slots;
     r \<leftarrow> (case find_slot_by_name slots agent_name of
            Some i \<Rightarrow>
              if hm_has (sl_stale_sessions (slots ! i)) k
              then try_then (heal_session E i agent_name k) (\<lambda>_. do {
                     s \<leftarrow> get_slot i;
                     some_or ConnectionClosed (hm_get (sl_session_map s) k) (\<lambda>acp. ret (Inr acp))
                   })
              else create_session E agent_name k
          | None \<Rightarrow> create_session E agent_name k);
     ret (Reply_Session (map_err E r), False)
   }"
| "handle_command E (EnqueueMessage agent_name k content metadata) = do {
     r \<leftarrow> enqueue_message E agent_name k content metadata;
     ret (Reply_Unit (map_err E r), False)
   }"
| "handle_command E (ForkSession agent_name k) = do {
     r \<leftarrow> fork_session E agent_name k;
     ret (Reply_Session (map_err E r), False)
   }"
| "handle_command E (ListSessions agent_name) = do {
     r \<leftarrow> list_sessions E agent_name;
     ret (Reply_List (map_err E r), False)
   }"
| "handle_command E (CancelSession agent_name k) = do {
     r \<leftarrow> cancel_session E agent_name k;
     ret (Reply_Unit (map_err E r), False)
   }"

end
