(* ===== verification/Agents_Manager.thy ===== *)
theory Agents_Manager
  imports Agents_Commands
begin

text \<open>
  \<open>crates/anyclaw-agents/src/incoming.rs\<close>: what agents send and what finished prompts cause; and
  the life cycle in \<open>manager.rs\<close>: \<open>start\<close>, the event loop of \<open>run\<close>, \<open>health_check\<close>.
\<close>

section \<open>Session updates\<close>

definition is_result_update :: "session_update_type \<Rightarrow> bool" where
  "is_result_update u = (case u of Update_Result c e \<Rightarrow> True | _ \<Rightarrow> False)"

text \<open>The content that is forwarded: timestamp, normalised tool fields, platform commands.\<close>

definition update_content :: "u64 \<Rightarrow> string \<Rightarrow> json \<Rightarrow> json" where
  "update_content now_ms update_type content =
     (let c = normalize_tool_event_fields update_type (add_received_timestamp now_ms content)
      in if update_type = ''available_commands_update'' then merge_platform_commands c else c)"

definition forward_session_update :: "agent_env \<Rightarrow> nat \<Rightarrow> session_update_event \<Rightarrow> json \<Rightarrow> unit am" where
  "forward_session_update E i ev content = do {
     let update_type = session_update_type_name (sue_update ev);
     now_ms \<leftarrow> ask (env_now_ms E);
     let c = update_content now_ms update_type content;
     (if update_type = ''available_commands_update''
      then upd_slot i (\<lambda>s. s\<lparr>sl_last_available_commands := Some c\<rparr>) else ret ());
     s \<leftarrow> get_slot i;
     if sue_session_id ev \<in> sl_awaiting_first_prompt s then ret ()
     else do {
       (case hm_get (sl_active_prompts s) (sue_session_id ev) of
          Some n \<Rightarrow> modify (\<lambda>m. m\<lparr>am_activity := am_activity m @ [n]\<rparr>)
        | None \<Rightarrow> ret ());
       sender \<leftarrow> gets am_channels_sender;
       case hm_get (sl_reverse_map s) (sue_session_id ev) of
         Some k \<Rightarrow>
           if sender then do {
             emit E (DeliverMessage k c);
             if is_result_update (sue_update ev)
             then modify (\<lambda>m. m\<lparr>am_streaming_completed := insert k (am_streaming_completed m)\<rparr>)
             else ret ()
           }
           else ret ()
       | None \<Rightarrow> ret ()
     }
   }"

definition forward_malformed_update_error :: "agent_env \<Rightarrow> nat \<Rightarrow> json \<Rightarrow> string \<Rightarrow> unit am" where
  "forward_malformed_update_error E i params err = do {
     s \<leftarrow> get_slot i;
     case Option.bind (Option.bind (jget params ''sessionId'') as_str) (hm_get (sl_reverse_map s)) of
       Some k \<Rightarrow> emit E (DeliverMessage k (error_result (''Agent sent malformed update: '' @ err)))
     | None \<Rightarrow> ret ()
   }"

definition handle_session_update :: "agent_env \<Rightarrow> nat \<Rightarrow> json \<Rightarrow> unit am" where
  "handle_session_update E i params = do {
     modify (\<lambda>m. m\<lparr>am_update_seq := am_update_seq m + 1\<rparr>);
     case dec_update E params of
       Inr ev \<Rightarrow> forward_session_update E i ev params
     | Inl err \<Rightarrow> forward_malformed_update_error E i params err
   }"


section \<open>Permissions\<close>

definition nonempty :: "string option \<Rightarrow> string option" where
  "nonempty x = (case x of Some s \<Rightarrow> if s = '''' then None else Some s | None \<Rightarrow> None)"

definition permission_request_id :: "json_rpc_request \<Rightarrow> string" where
  "permission_request_id r =
     (case nonempty (Option.bind (req_params r) (\<lambda>p. as_str (jidx p ''requestId''))) of
        Some s \<Rightarrow> s
      | None \<Rightarrow>
          (case req_id r of
             Some (Id_Number n) \<Rightarrow> show_int n
           | Some (Id_String s) \<Rightarrow> s
           | None \<Rightarrow> ''''))"

definition permission_description :: "json_rpc_request \<Rightarrow> string" where
  "permission_description r =
     unwrap_or (Option.bind (req_params r) (\<lambda>p.
       opt_or (nonempty (as_str (jidx p ''description'')))
              (as_str (jidx (jidx p ''toolCall'') ''title'')))) ''Permission requested''"

definition permission_options :: "agent_env \<Rightarrow> json_rpc_request \<Rightarrow> permission_option list" where
  "permission_options E r =
     unwrap_or (Option.bind (Option.bind (req_params r) (\<lambda>p. jget p ''options'')) (dec_options E)) []"

definition permission_session :: "json_rpc_request \<Rightarrow> string" where
  "permission_session r = unwrap_or (Option.bind (req_params r) (\<lambda>p. as_str (jidx p ''sessionId''))) ''''"

definition auto_approval :: "agent_env \<Rightarrow> json_rpc_request \<Rightarrow> json_rpc_response" where
  "auto_approval E r =
     response_success (req_id r)
       (JObj [(''requestId'', JStr (permission_request_id r)),
              (''optionId'', JStr (case permission_options E r of
                 o1 # _ \<Rightarrow> po_option_id o1 | [] \<Rightarrow> ''once''))])"

definition handle_permission_request :: "agent_env \<Rightarrow> nat \<Rightarrow> json_rpc_request \<Rightarrow> unit am" where
  "handle_permission_request E i r = do {
     s \<leftarrow> get_slot i;
     routed \<leftarrow> (case hm_get (sl_reverse_map s) (permission_session r) of
        Some k \<Rightarrow> send_event E (RoutePermission k (permission_request_id r)
                    (permission_description r) (permission_options E r))
      | None \<Rightarrow> ret False);
     if routed then do {
       now \<leftarrow> ask (env_instant E);
       upd_slot i (\<lambda>s. s\<lparr>sl_pending_permissions := hm_insert (permission_request_id r)
         \<lparr>pp_request = r, pp_description = permission_description r,
          pp_options = permission_options E r, pp_received_at = now\<rparr> (sl_pending_permissions s)\<rparr>)
     }
     else send_response E i (auto_approval E r)
   }"


section \<open>Pushes and file requests\<close>

definition push_content :: "content_block \<Rightarrow> json" where
  "push_content b =
     JObj [(''update'', JObj [(''sessionUpdate'', JStr ''agent_message_chunk''),
        (''content'', content_part_json (content_block_to_part b))])]"

definition handle_session_push :: "agent_env \<Rightarrow> nat \<Rightarrow> json_rpc_request \<Rightarrow> unit am" where
  "handle_session_push E i r =
     (case req_params r of
        None \<Rightarrow> send_response E i (error_response r (- 32602) ''Missing params'')
      | Some p \<Rightarrow>
          (case dec_push E p of
             Inl e \<Rightarrow> send_response E i (error_response r (- 32602) ''Invalid params'')
           | Inr push \<Rightarrow> do {
               s \<leftarrow> get_slot i;
               case hm_get (sl_reverse_map s) (spp_session_id push) of
                 None \<Rightarrow> send_response E i (error_response r (- 32001) ''Unknown session'')
               | Some k \<Rightarrow> do {
                   sender \<leftarrow> gets am_channels_sender;
                   if \<not> sender
                   then send_response E i (error_response r (- 32603) ''Channels not available'')
                   else do {
                     for_each (spp_content push) (\<lambda>b. emit E (DeliverMessage k (push_content b)));
                     send_response E i (success_response r (JObj []))
                   }
                 }
             }))"

definition slot_sandbox :: "agent_env \<Rightarrow> agent_slot \<Rightarrow> fs_path" where
  "slot_sandbox E s = path_of (resolve_agent_cwd (env_current_dir E) (ac_workspace (sl_config s)))"

definition handle_fs_read :: "agent_env \<Rightarrow> nat \<Rightarrow> json_rpc_request \<Rightarrow> unit am" where
  "handle_fs_read E i r = do {
     s \<leftarrow> get_slot i;
     resp \<leftarrow> ask (\<lambda>t. fs_read_response (env_canon E t) (env_read E t) (slot_sandbox E s) r);
     send_response E i resp
   }"

definition handle_fs_write :: "agent_env \<Rightarrow> nat \<Rightarrow> json_rpc_request \<Rightarrow> unit am" where
  "handle_fs_write E i r = do {
     s \<leftarrow> get_slot i;
     (written, resp) \<leftarrow> ask (\<lambda>t. fs_write_response (env_canon E t) (env_write E t) (slot_sandbox E s) r);
     modify (\<lambda>m. m\<lparr>am_fs_writes := am_fs_writes m @ (case written of None \<Rightarrow> [] | Some w \<Rightarrow> [w])\<rparr>);
     send_response E i resp
   }"

definition incoming_request :: "incoming_message \<Rightarrow> json_rpc_request" where
  "incoming_request msg = (case msg of AgentNotification r \<Rightarrow> r | AgentRequest r \<Rightarrow> r)"

definition handle_incoming :: "agent_env \<Rightarrow> nat \<Rightarrow> incoming_message \<Rightarrow> unit am" where
  "handle_incoming E i msg =
     (let r = incoming_request msg; m = req_method r
      in if m = ''session/update'' then handle_session_update E i (unwrap_or (req_params r) JNull)
         else if m = ''session/request_permission'' then handle_permission_request E i r
         else if m = ''session/push'' \<or> m = ''_session/push'' then handle_session_push E i r
         else if m = ''fs/read_text_file'' then handle_fs_read E i r
         else if m = ''fs/write_text_file'' then handle_fs_write E i r
         else send_response E i (error_response r (- 32601) ''Method not found''))"


section \<open>Finished prompts\<close>

text \<open>The drain of \<open>incoming_rx\<close>: \<open>drained\<close> is what \<open>try_recv\<close> yields.\<close>

definition drain_incoming :: "agent_env \<Rightarrow> slot_incoming list \<Rightarrow> unit am" where
  "drain_incoming E drained =
     for_each drained (\<lambda>d. case si_msg d of
       Some msg \<Rightarrow> handle_incoming E (si_slot_idx d) msg
     | None \<Rightarrow> handle_crash E (si_slot_idx d))"

definition expire_session :: "session_key \<Rightarrow> agent_slot \<Rightarrow> agent_slot" where
  "expire_session k s =
     (case hm_get (sl_session_map s) k of
        None \<Rightarrow> s
      | Some acp \<Rightarrow>
          s\<lparr>sl_session_map := hm_remove k (sl_session_map s),
            sl_stale_sessions := hm_insert k acp (sl_stale_sessions s),
            sl_reverse_map := hm_remove acp (sl_reverse_map s),
            sl_tool_context_sent := sl_tool_context_sent s - {acp}\<rparr>)"

definition synthetic_result :: "string \<Rightarrow> stop_reason \<Rightarrow> json" where
  "synthetic_result acp reason =
     JObj [(''sessionId'', JStr acp),
           (''update'', JObj [(''sessionUpdate'', JStr ''result''),
              (''stopReason'', JStr (stop_reason_str reason))])]"

definition completion_result :: "agent_slot list \<Rightarrow> prompt_completion \<Rightarrow> json" where
  "completion_result slots c =
     (case pcm_error_message c of
        Some msg \<Rightarrow> error_result msg
      | None \<Rightarrow> synthetic_result
          (case find_session slots (pcm_session_key c) of Some (_, acp) \<Rightarrow> acp | None \<Rightarrow> '''')
          (pcm_stop_reason c))"

definition session_agent :: "agent_slot list \<Rightarrow> session_key \<Rightarrow> string" where
  "session_agent slots k =
     (case List.find (\<lambda>s. hm_has (sl_session_map s) k) slots of Some s \<Rightarrow> sl_name s | None \<Rightarrow> '''')"

text \<open>The last part of \<open>handle_prompt_completion\<close>: the next batch of the session.\<close>

definition dispatch_next :: "agent_env \<Rightarrow> session_key \<Rightarrow> unit am" where
  "dispatch_next E k = do {
     m \<leftarrow> gets id;
     let (batch, q) = queue_complete k (am_queue m);
     modify (\<lambda>m. m\<lparr>am_queue := q\<rparr>);
     case batch of
       None \<Rightarrow> ret ()
     | Some (content, metadata) \<Rightarrow>
         (let agent_name = session_agent (am_slots m) k
          in if agent_name = '''' then ret ()
             else do {
               emit E (DispatchStarted k);
               _ \<leftarrow> prompt_session E agent_name k content metadata;
               ret ()
             })
   }"

definition handle_prompt_completion :: "agent_env \<Rightarrow> prompt_completion \<Rightarrow> slot_incoming list \<Rightarrow> unit am" where
  "handle_prompt_completion E c drained = do {
     drain_incoming E drained;
     let k = pcm_session_key c;
     done_set \<leftarrow> gets am_streaming_completed;
     modify (\<lambda>m. m\<lparr>am_streaming_completed := am_streaming_completed m - {k}\<rparr>);
     (if pcm_idle_timed_out c then do { _ \<leftarrow> cancel_session_by_key E k; ret () } else ret ());
     (if pcm_session_expired c
      then modify (\<lambda>m. m\<lparr>am_slots := map (expire_session k) (am_slots m)\<rparr>) else ret ());
     slots \<leftarrow> gets am_slots;
     (if k \<in> done_set then ret () else emit E (DeliverMessage k (completion_result slots c)));
     emit E (SessionComplete k (pcm_stop_reason c));
     dispatch_next E k
   }"


section \<open>Life cycle\<close>

definition internal_error :: "agent_env \<Rightarrow> string \<Rightarrow> agents_error \<Rightarrow> manager_error" where
  "internal_error E name e = Internal (name @ '': '' @ agents_error_display (env_show_duration E) e)"

definition build_started_slot :: "agent_env \<Rightarrow> string \<Rightarrow> agent_config \<Rightarrow> (manager_error + agent_slot) am" where
  "build_started_slot E name config = do {
     m \<leftarrow> gets id;
     r \<leftarrow> ask (\<lambda>t. env_spawn E t config name);
     case r of
       Inl e \<Rightarrow> ret (Inl (internal_error E name e))
     | Inr _ \<Rightarrow> do {
         let acp_timeout = acp_timeout_for config (am_config m);
         (q, s) \<leftarrow> initialize_agent E acp_timeout
           ((agent_slot_new name config False)\<lparr>sl_connection := Some agent_conn_new\<rparr>);
         case q of
           Inl e \<Rightarrow> ret (Inl (internal_error E name e))
         | Inr _ \<Rightarrow> do {
             (q', s') \<leftarrow> start_session E acp_timeout s;
             ret (case q' of
                    Inl e \<Rightarrow> Inl (internal_error E name e)
                  | Inr sid \<Rightarrow> Inr (register_default_session name sid s'))
           }
       }
   }"

fun start_slots :: "agent_env \<Rightarrow> (string \<times> agent_config) list \<Rightarrow> (manager_error + unit) am" where
  "start_slots E [] = ret (Inr ())"
| "start_slots E ((name, config) # cs) =
     (if \<not> ac_enabled config then start_slots E cs
      else try_then (build_started_slot E name config) (\<lambda>s. do {
        modify (\<lambda>m. m\<lparr>am_slots := am_slots m @ [s]\<rparr>);
        start_slots E cs
      }))"

definition restored_key :: "persisted_session \<Rightarrow> session_key" where
  "restored_key p =
     (case key_from_str (ps_session_key p) of
        Inr k \<Rightarrow> k
      | Inl e \<Rightarrow> session_key_new (ps_agent_name p) ''restored'' (ps_acp_session_id p))"

definition restore_stale :: "persisted_session \<Rightarrow> agent_slot list \<Rightarrow> agent_slot list" where
  "restore_stale p slots =
     (case find_slot_by_name slots (ps_agent_name p) of
        None \<Rightarrow> slots
      | Some i \<Rightarrow> slots[i := (slots ! i)\<lparr>sl_stale_sessions :=
          hm_or_insert (restored_key p) (ps_acp_session_id p) (sl_stale_sessions (slots ! i))\<rparr>])"

text \<open>\<open>start\<close>, after the clean-up of stale Docker containers, which leaves the state alone.\<close>

definition agents_start :: "agent_env \<Rightarrow> (manager_error + unit) am" where
  "agents_start E = do {
     configs \<leftarrow> gets am_agent_configs;
     try_then (start_slots E configs) (\<lambda>_. do {
       f \<leftarrow> ask (env_store_fault E);
       now \<leftarrow> ask (env_now_secs E);
       modify (\<lambda>m. m\<lparr>am_session_store :=
         snd (dyn_delete_expired f now (am_session_ttl_secs m) (am_session_store m))\<rparr>);
       f' \<leftarrow> ask (env_store_fault E);
       st \<leftarrow> gets am_session_store;
       let open_sessions = (case dyn_load_open_sessions f' st of Inl e \<Rightarrow> [] | Inr ps \<Rightarrow> ps);
       modify (\<lambda>m. m\<lparr>am_slots := fold restore_stale open_sessions (am_slots m)\<rparr>);
       ret (Inr ())
     })
   }"

definition send_keepalive :: "agent_env \<Rightarrow> unit am" where
  "send_keepalive E = do {
     slots \<leftarrow> gets am_slots;
     for_each [0..<length slots] (\<lambda>i.
       if disabled (sl_lifecycle (slots ! i)) \<or> \<not> is_docker (ac_workspace (sl_config (slots ! i)))
       then ret ()
       else do { _ \<leftarrow> on_slot i (slot_notify E ''keepalive'' (JObj [])); ret () })
   }"

definition agents_health_check :: "agents_manager \<Rightarrow> bool" where
  "agents_health_check m =
     (let enabled_slots = filter (\<lambda>s. \<not> disabled (sl_lifecycle s)) (am_slots m)
      in if enabled_slots = [] then list_all (\<lambda>(n, c). \<not> ac_enabled c) (am_agent_configs m)
         else list_all (\<lambda>s. sl_connection s \<noteq> None) enabled_slots)"


section \<open>The event loop\<close>

text \<open>
  One turn of \<open>run\<close>.  \<open>Ev_Done i\<close> is the arrival of the completion of the \<open>i\<close>-th running
  prompt task, \<open>Ev_Touch i\<close> the run of a spawned store update.  The value is whether the loop ends.
\<close>

datatype agent_event =
    Ev_Command agents_command
  | Ev_Incoming slot_incoming
  | Ev_Done nat task_outcome "slot_incoming list"
  | Ev_Keepalive
  | Ev_Touch nat
  | Ev_Cancelled

fun agents_turn :: "agent_env \<Rightarrow> agent_event \<Rightarrow> bool am" where
  "agents_turn E (Ev_Command cmd) = do { (_, stop) \<leftarrow> handle_command E cmd; ret stop }"
| "agents_turn E (Ev_Incoming d) = do {
     (case si_msg d of
        Some msg \<Rightarrow> handle_incoming E (si_slot_idx d) msg
      | None \<Rightarrow> do {
          s \<leftarrow> get_slot (si_slot_idx d);
          if disabled (sl_lifecycle s) then ret () else handle_crash E (si_slot_idx d)
        });
     ret False
   }"
| "agents_turn E (Ev_Done i outcome drained) = do {
     m \<leftarrow> gets id;
     let task = am_tasks m ! i;
     modify (\<lambda>m. m\<lparr>am_tasks := take i (am_tasks m) @ drop (Suc i) (am_tasks m)\<rparr>);
     handle_prompt_completion E
       (task_completion E (amc_prompt_idle_timeout_secs (am_config m)) task outcome) drained;
     ret False
   }"
| "agents_turn E Ev_Keepalive = do { send_keepalive E; ret False }"
| "agents_turn E (Ev_Touch i) = do {
     m \<leftarrow> gets id;
     let (k, now) = am_touches m ! i;
     f \<leftarrow> ask (env_store_fault E);
     modify (\<lambda>m. m\<lparr>am_touches := take i (am_touches m) @ drop (Suc i) (am_touches m),
       am_session_store := snd (dyn_update_last_active f k now (am_session_store m))\<rparr>);
     ret False
   }"
| "agents_turn E Ev_Cancelled = do { shutdown_all; ret True }"

fun event_enabled :: "agents_manager \<Rightarrow> agent_event \<Rightarrow> bool" where
  "event_enabled m (Ev_Incoming d) \<longleftrightarrow> si_slot_idx d < length (am_slots m)"
| "event_enabled m (Ev_Done i outcome drained) \<longleftrightarrow>
     i < length (am_tasks m) \<and> list_all (\<lambda>d. si_slot_idx d < length (am_slots m)) drained"
| "event_enabled m (Ev_Touch i) \<longleftrightarrow> i < length (am_touches m)"
| "event_enabled m _ \<longleftrightarrow> True"

text \<open>The runs of the manager, with the events handled, latest last.\<close>

inductive agents_run :: "agent_env \<Rightarrow> agents_manager \<Rightarrow> agent_event list \<Rightarrow> agents_manager \<Rightarrow> bool"
  for E m0 where
  run_start: "agents_run E m0 [] m0"
| run_turn: "agents_run E m0 evs m \<Longrightarrow> \<not> am_panicked m \<Longrightarrow>
    list_all (\<lambda>e. e \<noteq> Ev_Cancelled \<and> e \<noteq> Ev_Command Shutdown) evs \<Longrightarrow> event_enabled m ev \<Longrightarrow>
    run_state (agents_turn E ev) m = (stop, m') \<Longrightarrow> agents_run E m0 (evs @ [ev]) m'"

end
