(* ===== verification/Agents_Frames.thy ===== *)
theory Agents_Frames
  imports Agents_Manager
begin

text \<open>
  What the methods of the agents manager leave alone.

  The locales \<open>crash_rel\<close> and \<open>agent_rel\<close> collect, once, the steps out of which the methods are built: a relation
  \<open>R\<close> on managers and a relation \<open>G\<close> on slots that allow each of these steps are kept by every
  method that neither dispatches a prompt nor touches the queue.  It is interpreted for the
  components of the state that those methods do not change, and for the well-formedness of the slots.
\<close>

section \<open>Programs on a detached slot\<close>

text \<open>They change the connection of the slot and advance the tick.\<close>

definition conn_only :: "(agent_slot \<Rightarrow> ('a \<times> agent_slot) am) \<Rightarrow> bool" where
  "conn_only f \<longleftrightarrow>
     (\<forall>s m. \<exists>r c t. run_state (f s) m = ((r, s\<lparr>sl_connection := c\<rparr>), m\<lparr>am_tick := t\<rparr>))"

lemma conn_onlyI:
  "(\<And>s m. \<exists>r c t. run_state (f s) m = ((r, s\<lparr>sl_connection := c\<rparr>), m\<lparr>am_tick := t\<rparr>)) \<Longrightarrow> conn_only f"
  by (simp add: conn_only_def)

lemma conn_onlyE:
  assumes "conn_only f"
  obtains r c t where "run_state (f s) m = ((r, s\<lparr>sl_connection := c\<rparr>), m\<lparr>am_tick := t\<rparr>)"
  using assms unfolding conn_only_def by blast

lemma slot_same: "s\<lparr>sl_connection := sl_connection s\<rparr> = (s :: agent_slot)"
  by simp

lemma tick_same: "m\<lparr>am_tick := am_tick m\<rparr> = (m :: agents_manager)"
  by simp

lemma conn_only_request: "conn_only (slot_request E me p)"
proof (rule conn_onlyI)
  fix s :: agent_slot and m :: agents_manager
  show "\<exists>r c t. run_state (slot_request E me p s) m = ((r, s\<lparr>sl_connection := c\<rparr>), m\<lparr>am_tick := t\<rparr>)"
  proof (cases "sl_connection s")
    case None
    then show ?thesis by (metis slot_request_def run_state_return option.simps(4) slot_same tick_same)
  qed (simp add: slot_request_def case_prod_unfold Let_def, blast)
qed

lemma conn_only_notify: "conn_only (slot_notify E me p)"
proof (rule conn_onlyI)
  fix s :: agent_slot and m :: agents_manager
  show "\<exists>r c t. run_state (slot_notify E me p s) m = ((r, s\<lparr>sl_connection := c\<rparr>), m\<lparr>am_tick := t\<rparr>)"
  proof (cases "sl_connection s")
    case None
    then show ?thesis by (metis slot_notify_def run_state_return option.simps(4) slot_same tick_same)
  qed (simp add: slot_notify_def case_prod_unfold Let_def, blast)
qed

lemma conn_only_raw: "conn_only (slot_send_raw E msg)"
proof (rule conn_onlyI)
  fix s :: agent_slot and m :: agents_manager
  show "\<exists>r c t. run_state (slot_send_raw E msg s) m = ((r, s\<lparr>sl_connection := c\<rparr>), m\<lparr>am_tick := t\<rparr>)"
  proof (cases "sl_connection s")
    case None
    then show ?thesis by (metis slot_send_raw_def run_state_return option.simps(4) slot_same tick_same)
  qed (simp add: slot_send_raw_def case_prod_unfold Let_def, blast)
qed

lemma conn_only_call: "conn_only (slot_call E d me p)"
proof (rule conn_onlyI)
  fix s :: agent_slot and m :: agents_manager
  obtain r c t where "run_state (slot_request E me p s) m = ((r, s\<lparr>sl_connection := c\<rparr>), m\<lparr>am_tick := t\<rparr>)"
    by (rule conn_onlyE [OF conn_only_request])
  then show "\<exists>r c t. run_state (slot_call E d me p s) m = ((r, s\<lparr>sl_connection := c\<rparr>), m\<lparr>am_tick := t\<rparr>)"
    by (auto simp: slot_call_def split: sum.split rpc_outcome.split)
qed

lemma conn_only_start_session: "conn_only (start_session E d)"
proof (rule conn_onlyI)
  fix s :: agent_slot and m :: agents_manager
  let ?m = "m\<lparr>am_tick := Suc (am_tick m)\<rparr>"
  have call: "\<exists>r c t. run_state (slot_call E d me p s) ?m = ((r, s\<lparr>sl_connection := c\<rparr>), m\<lparr>am_tick := t\<rparr>)" for me p
    using conn_onlyE [OF conn_only_call, of E d me p s ?m] by fastforce
  have fail: "\<exists>r c t. (x, s) = (r, s\<lparr>sl_connection := c\<rparr>) \<and> ?m = m\<lparr>am_tick := t\<rparr>" for x :: "agents_error + string"
    by (metis slot_same)
  show "\<exists>r c t. run_state (start_session E d s) m = ((r, s\<lparr>sl_connection := c\<rparr>), m\<lparr>am_tick := t\<rparr>)"
  proof (cases "env_mcp_urls E (am_tick m) (tool_names s)")
    case (Tools_SendFailed e)
    then show ?thesis using fail by (simp add: start_session_def)
  next
    case Tools_Dropped
    obtain r c t where "run_state (slot_call E d ''session/new'' (session_new_params_json None
        (resolve_agent_cwd (env_current_dir E) (ac_workspace (sl_config s))) []) s) ?m =
      ((r, s\<lparr>sl_connection := c\<rparr>), m\<lparr>am_tick := t\<rparr>)" using call by blast
    with Tools_Dropped show ?thesis
      by (auto simp: start_session_def split: sum.split)
  next
    case (Tools_Reply us)
    obtain r c t where "run_state (slot_call E d ''session/new'' (session_new_params_json None
        (resolve_agent_cwd (env_current_dir E) (ac_workspace (sl_config s))) (map mcp_server_of us)) s) ?m =
      ((r, s\<lparr>sl_connection := c\<rparr>), m\<lparr>am_tick := t\<rparr>)" using call by blast
    with Tools_Reply show ?thesis
      by (auto simp: start_session_def split: sum.split)
  qed
qed

text \<open>The handshake also records the agent's capabilities and default options.\<close>

definition init_upd :: "agent_slot \<Rightarrow> agent_slot \<Rightarrow> agent_slot" where
  "init_upd s' s = s\<lparr>sl_connection := sl_connection s', sl_config := sl_config s',
     sl_protocol_version := sl_protocol_version s', sl_agent_capabilities := sl_agent_capabilities s'\<rparr>"

lemma initialize_agent_form:
  obtains r s' t where "run_state (initialize_agent E d s) m = ((r, s'), m\<lparr>am_tick := t\<rparr>)"
    "s' = init_upd s' s"
proof (cases "sl_connection s = None")
  case True
  then have "run_state (initialize_agent E d s) m = ((Inl ConnectionClosed, s), m\<lparr>am_tick := am_tick m\<rparr>)"
    by (simp add: initialize_agent_def)
  moreover have "s = init_upd s s" by (simp add: init_upd_def)
  ultimately show thesis by (rule that)
next
  case False
  let ?o = "if ac_options (sl_config s) = [] then None else Some (ac_options (sl_config s))"
  obtain r c t where call: "run_state (slot_call E d ''initialize'' (initialize_params_json 2 ?o) s) m =
      ((r, s\<lparr>sl_connection := c\<rparr>), m\<lparr>am_tick := t\<rparr>)"
    by (rule conn_onlyE [OF conn_only_call])
  let ?s1 = "s\<lparr>sl_connection := c\<rparr>"
  let ?ok = "\<lambda>result. (case ir_defaults result of None \<Rightarrow> ?s1
      | Some df \<Rightarrow> ?s1\<lparr>sl_config := (sl_config ?s1)\<lparr>ac_options :=
          apply_agent_defaults (ac_options (sl_config ?s1)) df\<rparr>\<rparr>)
      \<lparr>sl_protocol_version := ir_protocol_version result, sl_agent_capabilities := Some result\<rparr>"
  have "run_state (initialize_agent E d s) m =
    (case r of
       Inl e \<Rightarrow> ((Inl e, ?s1), m\<lparr>am_tick := t\<rparr>)
     | Inr resp \<Rightarrow>
         (case dec_initialize E (response_value resp) of
            Inl e \<Rightarrow> ((Inl (Json_Error e), ?s1), m\<lparr>am_tick := t\<rparr>)
          | Inr result \<Rightarrow>
              if ir_protocol_version result \<noteq> 1 \<and> ir_protocol_version result \<noteq> 2
              then ((Inl (Protocol (ProtocolMismatch 2 (ir_protocol_version result))), ?s1), m\<lparr>am_tick := t\<rparr>)
              else ((Inr (), ?ok result), m\<lparr>am_tick := t\<rparr>)))"
    unfolding initialize_agent_def using False call
    by (auto simp: Let_def split: sum.split)
  moreover have "?ok result = init_upd (?ok result) s" for result
    by (simp add: init_upd_def split: option.split)
  moreover have "?s1 = init_upd ?s1 s" by (simp add: init_upd_def)
  ultimately show thesis
    by (cases r; cases "dec_initialize E (response_value (projr r))")
      (auto intro: that split: if_splits)
qed



section \<open>Steps that every method is built from\<close>

text \<open>
  Crash recovery first: all its steps are on one slot.  \<open>I\<close> is the set of slots a program may
  change, so that the frame of a recovery (\<open>I = {i}\<close>) and that of the whole manager
  (\<open>I = UNIV\<close>) come from the same proofs.
\<close>

locale crash_rel = step_rel R for R :: "agents_manager \<Rightarrow> agents_manager \<Rightarrow> bool" +
  fixes G :: "agent_slot \<Rightarrow> agent_slot \<Rightarrow> bool" and I :: "nat set"
  assumes R_tick: "R m (m\<lparr>am_tick := t\<rparr>)"
    and R_events: "R m (m\<lparr>am_events := am_events m @ es\<rparr>)"
    and R_panic: "R m (m\<lparr>am_panicked := b\<rparr>)"
    and R_slot: "i \<in> I \<Longrightarrow> i < length (am_slots m) \<Longrightarrow> G (am_slots m ! i) s \<Longrightarrow>
       R m (m\<lparr>am_slots := (am_slots m)[i := s]\<rparr>)"
    and G_conn: "G s (s\<lparr>sl_connection := c\<rparr>)"
    and G_init: "G s (init_upd s' s)"
    and G_life: "G s (s\<lparr>sl_lifecycle := lc, sl_connection := None\<rparr>)"
    and G_reset: "G s (s\<lparr>sl_lifecycle := lc\<rparr>)"
    and G_awaiting: "G s (s\<lparr>sl_awaiting_first_prompt := A\<rparr>)"
    and G_inactive: "G s (s\<lparr>sl_active_prompts := []\<rparr>)"
    and G_drain: "G s (s\<lparr>sl_stale_sessions := hm_extend (sl_stale_sessions s) (sl_session_map s),
       sl_session_map := [], sl_awaiting_first_prompt := {}, sl_tool_context_sent := {}\<rparr>)"
    and G_restore: "G s (s\<lparr>sl_session_map :=
       restored_map a a' (sl_stale_sessions s) (sl_session_map s), sl_stale_sessions := []\<rparr>)"
    and G_restart: "G s (register_default_session nm acp (s\<lparr>sl_reverse_map := [], sl_lifecycle := lc\<rparr>))"
begin

lemma k_ask: "keeps R (ask f)"
  by (simp add: keeps_def R_tick)

lemma R_slot': "i \<in> I \<Longrightarrow> G (am_slots m ! i) s \<Longrightarrow> R m (m\<lparr>am_slots := (am_slots m)[i := s]\<rparr>)"
proof (cases "i < length (am_slots m)")
  case False
  then have "m\<lparr>am_slots := (am_slots m)[i := s]\<rparr> = m" by (simp add: list_update_beyond)
  then show ?thesis by (simp add: refl)
qed (rule R_slot)

lemma k_get_slot: "keeps R (get_slot i)"
  unfolding get_slot_def by (rule k_gets)

lemma k_upd_slot: "i \<in> I \<Longrightarrow> (\<And>s. G s (f s)) \<Longrightarrow> keeps R (upd_slot i f)"
  unfolding upd_slot_def by (intro k_modify R_slot')

lemma k_on_slot:
  assumes "i \<in> I" "conn_only f"
  shows "keeps R (on_slot i f)"
proof -
  have "R m (snd (run_state (on_slot i f) m))" for m
  proof -
    obtain r c t where run: "run_state (f (am_slots m ! i)) m =
        ((r, (am_slots m ! i)\<lparr>sl_connection := c\<rparr>), m\<lparr>am_tick := t\<rparr>)"
      by (rule conn_onlyE [OF assms(2)])
    let ?m = "m\<lparr>am_tick := t\<rparr>"
    have "R ?m (?m\<lparr>am_slots := (am_slots ?m)[i := (am_slots ?m ! i)\<lparr>sl_connection := c\<rparr>]\<rparr>)"
      by (intro R_slot' G_conn assms(1))
    from trans [OF R_tick this] run show ?thesis
      by (simp add: on_slot_def get_slot_def put_slot_def)
  qed
  then show ?thesis by (simp add: keeps_def)
qed

lemma k_initialize:
  assumes "i \<in> I"
  shows "keeps R (on_slot i (initialize_agent E d))"
proof -
  have "R m (snd (run_state (on_slot i (initialize_agent E d)) m))" for m
  proof -
    obtain r s' t where run: "run_state (initialize_agent E d (am_slots m ! i)) m = ((r, s'), m\<lparr>am_tick := t\<rparr>)"
        and s': "s' = init_upd s' (am_slots m ! i)"
      by (rule initialize_agent_form)
    let ?m = "m\<lparr>am_tick := t\<rparr>"
    have "G (am_slots ?m ! i) s'" using G_init [of "am_slots m ! i" s'] s' by simp
    then have "R ?m (?m\<lparr>am_slots := (am_slots ?m)[i := s']\<rparr>)" by (rule R_slot' [OF assms])
    from trans [OF R_tick this] run show ?thesis
      by (simp add: on_slot_def get_slot_def put_slot_def)
  qed
  then show ?thesis by (simp add: keeps_def)
qed

lemma k_send_event: "keeps R (send_event E ev)"
  unfolding send_event_def by (intro k_rules k_ask k_modify R_events)

lemma k_emit: "keeps R (emit E ev)"
  unfolding emit_def by (intro k_rules k_send_event)

lemma k_fetch_mcp: "keeps R (fetch_mcp_servers E i)"
  unfolding fetch_mcp_servers_def by (intro k_rules k_get_slot k_ask)

lemmas k_basic = k_ask k_get_slot k_emit k_send_event k_fetch_mcp k_on_slot conn_only_request
  conn_only_notify conn_only_raw conn_only_call conn_only_start_session

lemma k_restore_call: "i \<in> I \<Longrightarrow> keeps R (restore_call E d resume i acp)"
  unfolding restore_call_def if_distrib [of "on_slot i"] by (intro k_rules k_basic)

lemma k_prepare: "i \<in> I \<Longrightarrow> keeps R (prepare_restart E i)"
  unfolding prepare_restart_def
  by (intro k_rules k_basic k_upd_slot k_modify R_panic G_life)

lemma k_notify: "i \<in> I \<Longrightarrow> keeps R (notify_crash_to_channels E i n)"
  unfolding notify_crash_to_channels_def
  by (intro k_rules k_basic k_upd_slot G_inactive)

lemma k_respawn: "i \<in> I \<Longrightarrow> keeps R (respawn_and_initialize E i n)"
  unfolding respawn_and_initialize_def
  by (intro k_rules k_basic k_initialize k_upd_slot G_conn)

lemma k_try_restore: "i \<in> I \<Longrightarrow> keeps R (try_restore_session E i d)"
  unfolding try_restore_session_def
  by (intro k_rules k_basic k_restore_call k_upd_slot G_restore G_awaiting G_reset)

lemma k_restore_or_start: "i \<in> I \<Longrightarrow> keeps R (restore_or_start_session E i n)"
  unfolding restore_or_start_session_def
  by (intro k_rules k_basic k_try_restore k_upd_slot G_drain G_restart G_conn)

lemma k_handle_crash: "i \<in> I \<Longrightarrow> keeps R (handle_crash E i)"
  unfolding handle_crash_def
  by (intro k_rules k_basic k_prepare k_notify k_respawn k_restore_or_start)

end

text \<open>The other methods that neither dispatch a prompt nor touch the queue.\<close>

locale agent_rel = crash_rel R G UNIV
    for R :: "agents_manager \<Rightarrow> agents_manager \<Rightarrow> bool" and G :: "agent_slot \<Rightarrow> agent_slot \<Rightarrow> bool" +
  assumes R_store: "R m (m\<lparr>am_session_store := st\<rparr>)"
    and R_activity: "R m (m\<lparr>am_activity := ns\<rparr>)"
    and R_seq: "R m (m\<lparr>am_update_seq := n\<rparr>)"
    and R_streaming: "R m (m\<lparr>am_streaming_completed := S\<rparr>)"
    and R_writes: "R m (m\<lparr>am_fs_writes := w\<rparr>)"
    and G_context: "G s (s\<lparr>sl_tool_context := ctx\<rparr>)"
    and G_commands: "G s (s\<lparr>sl_last_available_commands := cmds\<rparr>)"
    and G_bind: "G s (bind_session k acp s)"
    and G_unstale: "G s (s\<lparr>sl_stale_sessions := hm_remove k (sl_stale_sessions s)\<rparr>)"
    and G_heal: "G s (bind_session k acp (s\<lparr>sl_stale_sessions := hm_remove k (sl_stale_sessions s)\<rparr>))"
    and G_permit: "G s (s\<lparr>sl_pending_permissions := hm_insert rid p (sl_pending_permissions s)\<rparr>)"
    and G_answer: "G s (s\<lparr>sl_pending_permissions := hm_remove rid (sl_pending_permissions s)\<rparr>)"
begin

lemma k_send_response: "keeps R (send_response E i msg)"
  unfolding send_response_def by (intro k_rules k_on_slot conn_only_raw UNIV_I)

lemma k_fetch_context: "keeps R (fetch_tool_context E i)"
  unfolding fetch_tool_context_def by (intro k_rules k_get_slot k_ask)

lemma k_update_store: "keeps R (update_session_store E n k acp)"
  unfolding update_session_store_def by (intro k_rules k_ask k_modify R_store)

lemmas k_prims = UNIV_I k_basic k_send_response k_fetch_context k_update_store

lemma k_create: "keeps R (create_session E n k)"
  unfolding create_session_def
  by (intro k_rules k_prims k_upd_slot G_context G_bind)

lemma k_heal: "keeps R (heal_session E i n k)"
  unfolding heal_session_def
  by (intro k_rules k_prims k_restore_call k_create k_upd_slot G_heal G_awaiting G_unstale)

lemma k_cancel: "keeps R (cancel_session E n k)"
  unfolding cancel_session_def by (intro k_rules k_prims)

lemma k_cancel_by_key: "keeps R (cancel_session_by_key E k)"
  unfolding cancel_session_by_key_def by (intro k_rules k_prims)

lemma k_fork: "keeps R (fork_session E n k)"
  unfolding fork_session_def by (intro k_rules k_prims k_upd_slot G_bind)

lemma k_list_sessions: "keeps R (list_sessions E n)"
  unfolding list_sessions_def by (intro k_rules k_prims)

lemma k_synthetic: "keeps R (send_synthetic_chunk E k msg)" "keeps R (send_synthetic_response E k msg r)"
  unfolding send_synthetic_chunk_def send_synthetic_response_def by (intro k_rules k_prims)+

lemma k_prompt_to_slot: "keeps R (send_prompt_to_slot E i msg)"
  unfolding send_prompt_to_slot_def by (intro k_rules k_prims)

lemma k_respond: "keeps R (respond_permission E rid oid)"
  unfolding respond_permission_def by (intro k_rules k_prims k_upd_slot G_answer)

lemma k_cancel_operation: "keeps R (cancel_operation E)"
  unfolding cancel_operation_def by (intro k_rules k_prims)

lemma k_keepalive: "keeps R (send_keepalive E)"
  unfolding send_keepalive_def by (intro k_rules k_prims)

lemma k_forward: "keeps R (forward_session_update E i ev c)"
  unfolding forward_session_update_def
  by (intro k_rules k_prims k_upd_slot k_modify G_commands R_activity R_streaming)

lemma k_session_update: "keeps R (handle_session_update E i p)"
  unfolding handle_session_update_def forward_malformed_update_error_def
  by (intro k_rules k_prims k_forward k_modify R_seq)

lemma k_permission: "keeps R (handle_permission_request E i r)"
  unfolding handle_permission_request_def
  by (intro k_rules k_prims k_upd_slot G_permit)

lemma k_push: "keeps R (handle_session_push E i r)"
  unfolding handle_session_push_def by (intro k_rules k_prims)

lemma k_fs: "keeps R (handle_fs_read E i r)" "keeps R (handle_fs_write E i r)"
  unfolding handle_fs_read_def handle_fs_write_def by (intro k_rules k_prims k_modify R_writes)+

lemma k_incoming: "keeps R (handle_incoming E i msg)"
  unfolding handle_incoming_def
  by (intro k_rules k_session_update k_permission k_push k_fs k_prims)

lemma k_drain: "keeps R (drain_incoming E ds)"
  unfolding drain_incoming_def by (intro k_rules k_incoming k_handle_crash UNIV_I)

lemmas k_methods = UNIV_I k_create k_heal k_handle_crash k_cancel k_cancel_by_key k_fork k_list_sessions
  k_synthetic k_prompt_to_slot k_respond k_cancel_operation k_keepalive k_incoming k_drain

end


section \<open>Interpretations\<close>

text \<open>The queue, the running prompts and everything fixed at start are left alone.\<close>

definition quiet :: "agents_manager \<Rightarrow> agents_manager \<Rightarrow> bool" where
  "quiet m m' \<longleftrightarrow>
     am_queue m' = am_queue m \<and> am_tasks m' = am_tasks m \<and>
     am_config m' = am_config m \<and> am_agent_configs m' = am_agent_configs m \<and>
     am_channels_sender m' = am_channels_sender m \<and>
     map sl_name (am_slots m') = map sl_name (am_slots m)"

definition same_name :: "agent_slot \<Rightarrow> agent_slot \<Rightarrow> bool" where
  "same_name s s' \<longleftrightarrow> sl_name s' = sl_name s"

lemma map_list_update_same: "i < length xs \<Longrightarrow> f x = f (xs ! i) \<Longrightarrow> map f (xs[i := x]) = map f xs"
  by (metis list_update_id map_update)

interpretation quiet: agent_rel quiet same_name
  by unfold_locales
    (auto simp: quiet_def same_name_def map_list_update_same init_upd_def bind_session_def
      register_default_session_def Let_def)

text \<open>The maps of a slot have distinct keys.\<close>

definition slot_ok :: "agent_slot \<Rightarrow> bool" where
  "slot_ok s \<longleftrightarrow> hm_ok (sl_session_map s) \<and> hm_ok (sl_reverse_map s) \<and>
     hm_ok (sl_pending_permissions s) \<and> hm_ok (sl_stale_sessions s) \<and> hm_ok (sl_active_prompts s)"

definition slots_ok :: "agents_manager \<Rightarrow> bool" where
  "slots_ok m \<longleftrightarrow> list_all slot_ok (am_slots m)"

lemma list_all_update:
  "list_all P xs \<Longrightarrow> (i < length xs \<Longrightarrow> P (xs ! i) \<Longrightarrow> P x) \<Longrightarrow> list_all P (xs[i := x])"
  by (auto simp: list_all_length) (metis length_list_update nth_list_update nth_list_update_neq)

interpretation wf: agent_rel "inv_rel slots_ok" "\<lambda>s s'. slot_ok s \<longrightarrow> slot_ok s'"
  by unfold_locales
    (auto simp: inv_rel_def slots_ok_def slot_ok_def init_upd_def bind_session_def restored_map_def
      register_default_session_def Let_def intro!: list_all_update)

end
