(* ===== verification/Agents_Example.thy ===== *)
theory Agents_Example
  imports Agents_Frames
begin

text \<open>
  A concrete manager on which properties are instantiated: one agent \<open>a\<close> that accepts everything,
  with one session.  \<open>play\<close> runs a list of events; its results are runs of the manager.
\<close>

definition demo_env :: agent_env where
  "demo_env =
     \<lparr>env_spawn = (\<lambda>t c n. Inr ()), env_stdin_ok = (\<lambda>t. True),
      env_reply = (\<lambda>t n me p. Rpc_Response (response_success None (JObj [(''sessionId'', JStr ''s2'')]))),
      env_mcp_urls = (\<lambda>t ns. Tools_Reply []), env_tool_descriptions = (\<lambda>t ns. Tools_Reply []),
      env_event_ok = (\<lambda>t. True), env_now_secs = int, env_now_ms = of_nat,
      env_instant = (\<lambda>t. t), env_store_fault = (\<lambda>t. None),
      env_current_dir = Some ''/'', env_canon = (\<lambda>t. Inr), env_read = (\<lambda>t p. Inr ''''),
      env_write = (\<lambda>t p c. Inr ()), env_block_json = (\<lambda>b. JNull),
      env_show_duration = (\<lambda>d. ''30s''), env_lower = to_ascii_lowercase,
      env_json_string = (\<lambda>j. ''''),
      dec_initialize = (\<lambda>j. Inr \<lparr>ir_protocol_version = 2, ir_agent_capabilities = None, ir_defaults = None\<rparr>),
      dec_session_id = (\<lambda>j. case as_str (jidx j ''sessionId'') of
        Some s \<Rightarrow> Inr s | None \<Rightarrow> Inl ''missing field''),
      dec_session_list = (\<lambda>j. Inr []),
      dec_update = (\<lambda>j. Inr \<lparr>sue_session_id = unwrap_or (as_str (jidx j ''sessionId'')) '''',
        sue_update = Update_Result None False\<rparr>),
      dec_push = (\<lambda>j. Inl ''no push''), dec_options = (\<lambda>j. None), dec_stop_reason = (\<lambda>j. None)\<rparr>"

definition demo_agent :: agent_config where
  "demo_agent =
     \<lparr>ac_workspace = Ws_Local \<lparr>lw_binary = soa_from ''agent'', lw_working_dir = None, lw_env = []\<rparr>,
      ac_enabled = True, ac_tools = [], ac_acp_timeout_secs = None, ac_backoff = None,
      ac_crash_tracker = None, ac_options = []\<rparr>"

definition demo_key :: session_key where
  "demo_key = session_key_new ''tg'' ''chat'' ''7''"

definition demo_slot :: agent_slot where
  "demo_slot = (bind_session demo_key ''s1'' (agent_slot_new ''a'' demo_agent False))
     \<lparr>sl_connection := Some agent_conn_new\<rparr>"

definition demo_manager :: agents_manager where
  "demo_manager = (with_channels_sender (agents_manager_new agents_manager_config_default))
     \<lparr>am_slots := [demo_slot]\<rparr>"

definition demo_msg :: "string \<Rightarrow> agent_event" where
  "demo_msg t = Ev_Command (EnqueueMessage ''a'' demo_key [Part_Text t] None)"

definition stops :: "agent_event \<Rightarrow> bool" where
  "stops e \<longleftrightarrow> e = Ev_Cancelled \<or> e = Ev_Command Shutdown"

fun play :: "agent_env \<Rightarrow> agent_event list \<Rightarrow> agents_manager \<Rightarrow> agents_manager option" where
  "play E [] m = Some m"
| "play E (e # es) m =
     (if am_panicked m \<or> \<not> event_enabled m e \<or> stops e then None
      else play E es (snd (run_state (agents_turn E e) m)))"

lemma play_from:
  assumes "agents_run E m0 pre m" "list_all (\<lambda>e. \<not> stops e) pre" "play E es m = Some m'"
  shows "agents_run E m0 (pre @ es) m'"
  using assms
proof (induction es arbitrary: pre m)
  case (Cons e es)
  then have ok: "\<not> am_panicked m" "event_enabled m e" "\<not> stops e"
    and rest: "play E es (snd (run_state (agents_turn E e) m)) = Some m'"
    by (auto split: if_splits)
  obtain stop m1 where turn: "run_state (agents_turn E e) m = (stop, m1)"
    by (cases "run_state (agents_turn E e) m")
  have "agents_run E m0 (pre @ [e]) m1"
    using Cons.prems(1,2) ok turn by (auto simp: stops_def list_all_iff intro: run_turn)
  from Cons.IH [OF this] Cons.prems(2) ok(3) rest turn show ?case by simp
qed simp

lemma play_run: "play E es m = Some m' \<Longrightarrow> agents_run E m es m'"
  using play_from [OF run_start, of E es m m'] by simp

lemma play_reaches: "map_option f (play E es m) = Some x \<Longrightarrow> \<exists>m'. agents_run E m es m' \<and> f m' = x"
  by (auto intro: play_run)

lemma demo_env_simps [simp]:
  "env_stdin_ok demo_env = (\<lambda>t. True)" "env_event_ok demo_env = (\<lambda>t. True)"
  "env_now_secs demo_env = int" "env_now_ms demo_env = of_nat" "env_instant demo_env = (\<lambda>t. t)"
  "env_block_json demo_env = (\<lambda>b. JNull)" "env_show_duration demo_env = (\<lambda>d. ''30s'')"
  "env_mcp_urls demo_env = (\<lambda>t ns. Tools_Reply [])"
  "env_tool_descriptions demo_env = (\<lambda>t ns. Tools_Reply [])"
  "env_store_fault demo_env = (\<lambda>t. None)" "env_current_dir demo_env = Some ''/''"
  "env_spawn demo_env = (\<lambda>t c n. Inr ())"
  "env_reply demo_env = (\<lambda>t n me p. Rpc_Response (response_success None (JObj [(''sessionId'', JStr ''s2'')])))"
  "dec_initialize demo_env =
     (\<lambda>j. Inr \<lparr>ir_protocol_version = 2, ir_agent_capabilities = None, ir_defaults = None\<rparr>)"
  "dec_session_id demo_env =
     (\<lambda>j. case as_str (jidx j ''sessionId'') of Some s \<Rightarrow> Inr s | None \<Rightarrow> Inl ''missing field'')"
  "dec_update demo_env = (\<lambda>j. Inr \<lparr>sue_session_id = unwrap_or (as_str (jidx j ''sessionId'')) '''',
     sue_update = Update_Result None False\<rparr>)"
  "dec_stop_reason demo_env = (\<lambda>j. None)" "dec_options demo_env = (\<lambda>j. None)"
  by (simp_all add: demo_env_def)

lemma demo_commands [simp]:
  "platform_command_of [Part_Text ''hi''] = None" "platform_command_of [Part_Text ''more''] = None"
  "platform_command_of [Part_Text ''/cancel''] =
     Some \<lparr>pc_name = ''cancel'', pc_description = ''Cancel the current operation''\<rparr>"
  by (simp_all add: platform_command_of_def match_platform_command_def PLATFORM_COMMANDS_def
      strip_prefix_def)

lemmas demo_setup = demo_manager_def demo_slot_def demo_msg_def stops_def agent_slot_new_def agents_manager_new_def
  with_channels_sender_def bind_session_def queue_new_def agent_conn_new_def

lemmas demo_maps = hm_remove_def hm_get_def hm_has_def push_back_def

lemmas demo_queue = is_active_def queue_push_def push_only_def flush_pending_def mark_idle_def
  queue_complete_def drain_queued_def

lemmas demo_slots = on_slot_def get_slot_def put_slot_def upd_slot_def slot_request_def slot_call_def
  slot_notify_def slot_send_raw_def send_response_def emit_def send_event_def agent_send_request_def
  agent_send_notification_def agent_send_raw_def some_or_def try_then_def map_err_def

lemmas demo_prompts = enqueue_message_def flush_and_dispatch_def prompt_session_def send_prompt_def
  prompt_parts_def mark_prompted_def handle_platform_command_def cancel_session_def
  queue_mark_idle_def send_synthetic_chunk_def

lemmas demo_run = demo_setup demo_maps demo_queue demo_slots demo_prompts

end
