(* ===== verification/Agents_Properties.thy ===== *)
theory Agents_Properties
  imports Agents_Example
begin

text \<open>
  Properties of the agents manager over whole runs: well-formedness, one prompt in flight per
  session, what finished prompts, permissions, updates and crashes cause.
\<close>

section \<open>Dispatching\<close>

text \<open>
  What a step for session \<open>k\<close> may do to the queue: other sessions are active after it exactly when
  they were before.
\<close>

definition local_to :: "session_key \<Rightarrow> agents_manager \<Rightarrow> agents_manager \<Rightarrow> bool" where
  "local_to k m m' \<longleftrightarrow>
     am_tasks m' = am_tasks m \<and> map sl_name (am_slots m') = map sl_name (am_slots m) \<and>
     (queue_inv (am_queue m) \<longrightarrow> queue_inv (am_queue m')) \<and>
     (\<forall>k'. k' \<noteq> k \<longrightarrow> (k' \<in> active (am_queue m') \<longleftrightarrow> k' \<in> active (am_queue m)))"

interpretation loc: agent_rel "local_to k" same_name for k
  by unfold_locales
    (auto simp: local_to_def same_name_def map_list_update_same init_upd_def bind_session_def
      register_default_session_def Let_def)

lemma active_mark_idle: "k' \<noteq> k \<Longrightarrow> k' \<in> active (snd (mark_idle k q)) \<longleftrightarrow> k' \<in> active q"
  by (auto simp: mark_idle_def split: option.splits list.splits)

lemma active_complete: "k' \<noteq> k \<Longrightarrow> k' \<in> active (snd (queue_complete k q)) \<longleftrightarrow> k' \<in> active q"
  by (auto simp: queue_complete_def mark_idle_def drain_queued_def
      split: option.splits list.splits prod.splits)

lemma active_enqueue: "k' \<noteq> k \<Longrightarrow> k' \<in> active (snd (queue_enqueue k c m q)) \<longleftrightarrow> k' \<in> active q"
  by (auto simp: queue_defs Let_def split: option.splits)

lemma loc_mark_idle: "keeps (local_to k) (queue_mark_idle k)"
  unfolding queue_mark_idle_def
  by (intro loc.k_modify) (simp add: local_to_def queue_inv_mark_idle active_mark_idle)

lemma loc_platform: "keeps (local_to k) (handle_platform_command E cmd i n k)"
  unfolding handle_platform_command_def
  by (intro loc.k_rules loc.k_methods loc_mark_idle loc.k_upd_slot) (simp_all add: same_name_def)

text \<open>Dispatching to \<open>k\<close>: as above, or one more prompt of \<open>k\<close> is running.\<close>

definition one_more :: "session_key \<Rightarrow> agents_manager \<Rightarrow> agents_manager \<Rightarrow> bool" where
  "one_more k m m' \<longleftrightarrow> am_queue m' = am_queue m \<and>
     map sl_name (am_slots m') = map sl_name (am_slots m) \<and>
     (\<exists>t. am_tasks m' = am_tasks m @ [t] \<and> pt_session_key t = k)"

definition dispatched :: "session_key \<Rightarrow> agents_manager \<Rightarrow> agents_manager \<Rightarrow> bool" where
  "dispatched k m m' \<longleftrightarrow> local_to k m m' \<or> one_more k m m'"

lemma quiet_local: "quiet m m' \<Longrightarrow> local_to k m m'"
  by (simp add: quiet_def local_to_def)

lemma quiet_one_more: "quiet m m' \<Longrightarrow> one_more k m' m'' \<Longrightarrow> one_more k m m''"
  by (simp add: quiet_def one_more_def)

lemma quiet_refl: "quiet m m"
  by (rule quiet.refl)

lemma quiet_prompted: "keeps quiet (upd_slot i (mark_prompted acp))"
  by (intro quiet.k_upd_slot) (simp_all add: same_name_def mark_prompted_def)

lemma quiet_touch: "keeps quiet (modify (\<lambda>m. m\<lparr>am_touches := f m\<rparr>))"
  by (intro quiet.k_modify) (simp add: quiet_def)

lemma quiet_active: "keeps quiet (upd_slot i (\<lambda>s. s\<lparr>sl_active_prompts := f s\<rparr>))"
  by (intro quiet.k_upd_slot) (simp_all add: same_name_def)

lemma send_prompt_dispatched:
  "wp (send_prompt E i k acp content metadata) (\<lambda>r m'. if r = Inr () then one_more k m m' else quiet m m') m"
  unfolding send_prompt_def
proof (rule wp_seq [OF quiet.k_get_slot], unfold wp_Let, rule wp_seq [OF quiet_prompted],
    rule wp_try_seq [OF quiet.k_on_slot [OF UNIV_I conn_only_request]])
  fix m1 m2 m3 e
  assume "quiet m m1" "quiet m1 m2" "quiet m2 m3"
  then show "if Inl e = Inr () then one_more k m m3 else quiet m m3"
    by (auto intro: quiet.trans)
next
  fix m1 m2 m3 rid
  assume q: "quiet m m1" "quiet m1 m2" "quiet m2 m3"
  let ?Q = "\<lambda>r m'. if r = Inr () then one_more k m m' else quiet m m'"
  show "wp (bind_st (ask (env_now_secs E)) (\<lambda>now. bind_st (ask (\<lambda>t. t)) (\<lambda>notify.
     bind_st (modify (\<lambda>m. m\<lparr>am_touches := am_touches m @ [(key_to_string k, now)]\<rparr>)) (\<lambda>_.
     bind_st (upd_slot i (\<lambda>s. s\<lparr>sl_active_prompts := hm_insert acp notify (sl_active_prompts s)\<rparr>)) (\<lambda>_.
     bind_st (modify (\<lambda>m. m\<lparr>am_tasks := am_tasks m @
       [\<lparr>pt_session_key = k, pt_acp_id = acp, pt_request = rid, pt_notify = notify\<rparr>]\<rparr>)) (\<lambda>_.
     ret (Inr ()))))))) ?Q m3"
  proof (rule wp_seq [OF quiet.k_ask], rule wp_seq [OF quiet.k_ask], rule wp_seq [OF quiet_touch],
      rule wp_seq [OF quiet_active])
    fix m4 m5 m6 m7 notify
    assume "quiet m3 m4" "quiet m4 m5" "quiet m5 m6" "quiet m6 m7"
    with q have "quiet m m7" by (meson quiet.trans)
    then show "wp (bind_st (modify (\<lambda>m. m\<lparr>am_tasks := am_tasks m @
       [\<lparr>pt_session_key = k, pt_acp_id = acp, pt_request = rid, pt_notify = notify\<rparr>]\<rparr>)) (\<lambda>_.
       ret (Inr ()))) ?Q m7"
      by (simp add: wp_simps one_more_def quiet_def)
  qed
qed

lemma dispatched_after:
  "quiet m m1 \<Longrightarrow> (if r then one_more k m1 m' else quiet m1 m') \<Longrightarrow> dispatched k m m'"
  using quiet.trans [of m m1 m'] quiet_one_more [of m m1 k m'] quiet_local [of m m' k]
  by (auto simp: dispatched_def split: if_splits)

lemma prompt_session_dispatched: "wp (prompt_session E n k content metadata) (\<lambda>_ m'. dispatched k m m') m"
  unfolding prompt_session_def wp_bind wp_gets wp_some_or
proof (split option.split, intro conjI allI impI)
  show "dispatched k m m" by (simp add: dispatched_def loc.refl)
next
  fix i
  let ?Q = "\<lambda>_ m'. dispatched k m m'"
  have q: "dispatched k m m'" if "quiet m m'" for m'
    using that by (simp add: dispatched_def quiet_local)
  have heal: "keeps quiet (if hm_has (sl_session_map (am_slots (id m) ! i)) k then ret (Inr ())
      else heal_session E i n k)"
    by (intro quiet.k_rules quiet.k_heal)
  have go: "wp (bind_st (get_slot i) (\<lambda>s. some_or ConnectionClosed (hm_get (sl_session_map s) k)
      (\<lambda>acp. send_prompt E i k acp content metadata))) ?Q m1" if "quiet m m1" for m1
    using q [OF that] dispatched_after [OF that]
    by (auto simp: wp_simps get_slot_def split: option.split
        intro!: wp_mono [OF send_prompt_dispatched])
  show "wp (case platform_command_of content of
        None \<Rightarrow> try_then (if hm_has (sl_session_map (am_slots (id m) ! i)) k then ret (Inr ())
          else heal_session E i n k) (\<lambda>_. bind_st (get_slot i) (\<lambda>s.
            some_or ConnectionClosed (hm_get (sl_session_map s) k)
              (\<lambda>acp. send_prompt E i k acp content metadata)))
      | Some cmd \<Rightarrow> handle_platform_command E (pc_name cmd) i n k) ?Q m"
    unfolding wp_option
  proof (split option.split, intro conjI allI impI)
    show "wp (try_then (if hm_has (sl_session_map (am_slots (id m) ! i)) k then ret (Inr ())
          else heal_session E i n k) (\<lambda>_. bind_st (get_slot i) (\<lambda>s.
            some_or ConnectionClosed (hm_get (sl_session_map s) k)
              (\<lambda>acp. send_prompt E i k acp content metadata)))) ?Q m"
      by (rule wp_try_seq [OF heal q go])
    show "wp (handle_platform_command E (pc_name cmd) i n k) ?Q m" for cmd
      by (rule wp_keeps [OF loc_platform]) (simp add: dispatched_def)
  qed
qed

section \<open>One prompt in flight per session\<close>

definition flight :: "agents_manager \<Rightarrow> bool" where
  "flight m \<longleftrightarrow> queue_inv (am_queue m) \<and> distinct (map pt_session_key (am_tasks m)) \<and>
     pt_session_key ` set (am_tasks m) \<subseteq> active (am_queue m)"

lemma quiet_flight: "quiet m m' \<Longrightarrow> flight m \<Longrightarrow> flight m'"
  by (simp add: quiet_def flight_def)

lemma dispatched_flight:
  assumes "flight m" "k \<notin> pt_session_key ` set (am_tasks m)" "k \<in> active (am_queue m)"
    "dispatched k m m'"
  shows "flight m'"
  using assms(4) unfolding dispatched_def
proof
  assume "local_to k m m'"
  moreover have "pt_session_key t \<noteq> k" if "t \<in> set (am_tasks m)" for t using that assms(2) by auto
  ultimately show ?thesis using assms(1) by (auto simp: local_to_def flight_def)
next
  assume "one_more k m m'"
  then obtain t where "am_queue m' = am_queue m" "am_tasks m' = am_tasks m @ [t]" "pt_session_key t = k"
    by (auto simp: one_more_def)
  with assms show ?thesis by (auto simp: flight_def)
qed

text \<open>The queue part of both ways to dispatch, as the session queue's contract has it.\<close>

definition hand_over ::
  "agent_env \<Rightarrow> string \<Rightarrow> session_key \<Rightarrow> (content_part list \<times> message_metadata option) option
    \<Rightarrow> (agents_error + unit) am" where
  "hand_over E n k batch =
     (case batch of
        None \<Rightarrow> ret (Inr ())
      | Some (content, metadata) \<Rightarrow> do {
          emit E (DispatchStarted k);
          prompt_session E n k content metadata })"

lemma enqueue_message_queue:
  assumes "platform_command_of content = None"
  shows "run_state (enqueue_message E n k content metadata) m =
    run_state (hand_over E n k (fst (queue_enqueue k content metadata (am_queue m))))
      (m\<lparr>am_queue := snd (queue_enqueue k content metadata (am_queue m))\<rparr>)"
  using assms
  by (simp add: enqueue_message_def flush_and_dispatch_def hand_over_def queue_enqueue_def
      case_prod_unfold Let_def split: option.split)

lemma hand_over_dispatched: "wp (hand_over E n k batch) (\<lambda>_ m'. dispatched k m m') m"
proof (cases batch)
  case None
  then show ?thesis by (simp add: hand_over_def wp_simps dispatched_def loc.refl)
next
  case (Some p)
  obtain c md where p: "p = (c, md)" by (cases p)
  have "dispatched k m m'" if "quiet m m1" "dispatched k m1 m'" for m1 m'
    using that quiet_local [of m m1 k] loc.trans [of k m m1 m'] quiet_one_more [of m m1 k m']
    by (auto simp: dispatched_def)
  then show ?thesis
    unfolding hand_over_def Some p option.case prod.case
    by (intro wp_seq [OF quiet.k_emit]) (rule wp_mono [OF prompt_session_dispatched], blast)
qed

lemma flight_enqueue:
  assumes "platform_command_of content = None" "flight m"
  shows "wp (enqueue_message E n k content metadata) (\<lambda>_. flight) m"
proof -
  let ?q = "queue_enqueue k content metadata (am_queue m)"
  let ?m = "m\<lparr>am_queue := snd ?q\<rparr>"
  have run: "wp (enqueue_message E n k content metadata) Q m = wp (hand_over E n k (fst ?q)) Q ?m" for Q
    by (simp add: wp_def enqueue_message_queue [OF assms(1)])
  have inv: "queue_inv (am_queue m)" using assms(2) by (simp add: flight_def)
  have kact: "k \<in> active (snd ?q)" by (rule sq.busy_enq [OF inv])
  have "k' \<in> active (snd ?q)" if "k' \<in> active (am_queue m)" for k'
    using that kact active_enqueue [of k' k] by (cases "k' = k") auto
  then have fl: "flight ?m"
    using assms(2) by (auto simp: flight_def queue_inv_enqueue)
  show ?thesis
  proof (cases "k \<in> active (am_queue m)")
    case True
    then have "fst ?q = None" by (simp add: enqueue_busy)
    with fl show ?thesis unfolding run by (simp add: hand_over_def wp_simps)
  next
    case False
    then have "k \<notin> pt_session_key ` set (am_tasks ?m)" using assms(2) by (auto simp: flight_def)
    with fl kact have "flight m'" if "dispatched k ?m m'" for m'
      using dispatched_flight [of ?m k m'] that by simp
    then show ?thesis unfolding run by (rule wp_mono [OF hand_over_dispatched])
  qed
qed

lemma dispatch_next_queue:
  "wp (dispatch_next E k) Q m \<longleftrightarrow>
    wp (if fst (queue_complete k (am_queue m)) \<noteq> None \<and> session_agent (am_slots m) k = '''' then ret ()
        else bind_st (hand_over E (session_agent (am_slots m) k) k (fst (queue_complete k (am_queue m)))) (\<lambda>_. ret ()))
      Q (m\<lparr>am_queue := snd (queue_complete k (am_queue m))\<rparr>)"
  by (auto simp: dispatch_next_def hand_over_def wp_simps wp_funs case_prod_unfold Let_def split: option.split)

lemma flight_next:
  assumes "flight m" "k \<notin> pt_session_key ` set (am_tasks m)"
  shows "wp (dispatch_next E k) (\<lambda>_. flight) m"
proof -
  let ?q = "queue_complete k (am_queue m)"
  let ?m = "m\<lparr>am_queue := snd ?q\<rparr>"
  have inv: "queue_inv (am_queue m)" using assms(1) by (simp add: flight_def)
  have "pt_session_key t \<noteq> k" if "t \<in> set (am_tasks m)" for t using that assms(2) by auto
  then have fl: "flight ?m"
    using assms(1) by (auto simp: flight_def queue_inv_complete active_complete)
  show ?thesis
  proof (cases "fst ?q")
    case None
    then show ?thesis unfolding dispatch_next_queue using fl by (simp add: hand_over_def wp_simps)
  next
    case (Some p)
    then have "k \<in> active (am_queue ?m)"
      using sq.fin_some [OF inv, of k] by (cases p) auto
    then have "flight m'" if "dispatched k ?m m'" for m'
      using dispatched_flight [OF fl _ _ that] assms(2) by simp
    then show ?thesis
      unfolding dispatch_next_queue using fl
      by (auto simp: wp_simps intro!: wp_mono [OF hand_over_dispatched])
  qed
qed

lemma quiet_streaming: "keeps quiet (modify (\<lambda>m. m\<lparr>am_streaming_completed := f m\<rparr>))"
  by (intro quiet.k_modify) (simp add: quiet_def)

lemma expire_session_name [simp]: "sl_name (expire_session k s) = sl_name s"
  by (simp add: expire_session_def split: option.split)

lemma quiet_expire: "keeps quiet (modify (\<lambda>m. m\<lparr>am_slots := map (expire_session k) (am_slots m)\<rparr>))"
  by (intro quiet.k_modify) (simp add: quiet_def)

text \<open>Everything in \<open>handle_prompt_completion\<close> before the next dispatch.\<close>

definition announce :: "agent_env \<Rightarrow> prompt_completion \<Rightarrow> slot_incoming list \<Rightarrow> unit am" where
  "announce E c drained = do {
     drain_incoming E drained;
     let k = pcm_session_key c;
     done_set \<leftarrow> gets am_streaming_completed;
     modify (\<lambda>m. m\<lparr>am_streaming_completed := am_streaming_completed m - {k}\<rparr>);
     (if pcm_idle_timed_out c then do { _ \<leftarrow> cancel_session_by_key E k; ret () } else ret ());
     (if pcm_session_expired c
      then modify (\<lambda>m. m\<lparr>am_slots := map (expire_session k) (am_slots m)\<rparr>) else ret ());
     slots \<leftarrow> gets am_slots;
     (if k \<in> done_set then ret () else emit E (DeliverMessage k (completion_result slots c)));
     emit E (SessionComplete k (pcm_stop_reason c))
   }"

lemma handle_prompt_completion_announce:
  "handle_prompt_completion E c drained =
     bind_st (announce E c drained) (\<lambda>_. dispatch_next E (pcm_session_key c))"
  by (simp add: handle_prompt_completion_def announce_def Let_def)

lemma quiet_announce: "keeps quiet (announce E c drained)"
  unfolding announce_def
  by (intro quiet.k_rules quiet.k_methods quiet_streaming quiet_expire quiet.k_emit)

fun plain_event :: "agent_event \<Rightarrow> bool" where
  "plain_event (Ev_Command (EnqueueMessage n k c md)) \<longleftrightarrow> platform_command_of c = None"
| "plain_event _ \<longleftrightarrow> True"

lemma quiet_shutdown: "keeps quiet shutdown_all"
  unfolding shutdown_all_def by (intro quiet.k_modify) (simp add: quiet_def comp_def)

lemma quiet_command:
  assumes "\<And>n k c md. cmd \<noteq> EnqueueMessage n k c md"
  shows "keeps quiet (handle_command E cmd)"
  using assms
  by (cases cmd) (auto intro!: quiet.k_rules quiet.k_methods quiet_shutdown quiet.k_get_slot)

lemma flight_done:
  assumes "flight m" "i < length (am_tasks m)"
  shows "wp (agents_turn E (Ev_Done i outcome drained)) (\<lambda>_. flight) m"
proof -
  let ?task = "am_tasks m ! i"
  let ?c = "task_completion E (amc_prompt_idle_timeout_secs (am_config m)) ?task outcome"
  let ?m = "m\<lparr>am_tasks := take i (am_tasks m) @ drop (Suc i) (am_tasks m)\<rparr>"
  have k: "pcm_session_key ?c = pt_session_key ?task"
    by (simp add: task_completion_def prompt_error_def response_completion_def Let_def
        split: task_outcome.split option.split)
  have tasks: "am_tasks m = take i (am_tasks m) @ ?task # drop (Suc i) (am_tasks m)"
    using assms(2) by (rule id_take_nth_drop)
  have "distinct (map pt_session_key (am_tasks m))"
    using assms(1) by (simp add: flight_def)
  then have dist: "distinct (map pt_session_key (take i (am_tasks m) @ ?task # drop (Suc i) (am_tasks m)))"
    using tasks by simp
  then have gone: "pt_session_key ?task \<notin> pt_session_key ` set (am_tasks ?m)" by auto
  have "set (am_tasks ?m) \<subseteq> set (am_tasks m)"
    using set_take_subset [of i "am_tasks m"] set_drop_subset [of "Suc i" "am_tasks m"] by auto
  then have fl: "flight ?m" using assms(1) dist by (auto simp: flight_def)
  have "wp (bind_st (announce E ?c drained) (\<lambda>_. dispatch_next E (pcm_session_key ?c))) (\<lambda>_. flight) ?m"
    using quiet_flight [OF _ fl] gone
    by (intro wp_seq [OF quiet_announce] flight_next) (auto simp: k quiet_def)
  then show ?thesis
    by (simp add: wp_simps wp_funs handle_prompt_completion_announce)
qed

lemma quiet_turn:
  assumes "\<And>n k c md. ev \<noteq> Ev_Command (EnqueueMessage n k c md)" "\<And>i o' d. ev \<noteq> Ev_Done i o' d"
  shows "keeps quiet (agents_turn E ev)"
proof (cases ev)
  case (Ev_Command cmd)
  with assms(1) show ?thesis
    unfolding Ev_Command agents_turn.simps by (intro quiet.k_rules quiet_command) blast
next
  case (Ev_Touch i)
  show ?thesis
    unfolding Ev_Touch agents_turn.simps
    by (intro quiet.k_rules quiet.k_ask quiet.k_modify) (simp add: quiet_def)
qed (use assms in \<open>auto intro!: quiet.k_rules quiet.k_incoming quiet.k_handle_crash quiet.k_get_slot
      quiet.k_keepalive quiet_shutdown\<close>)

lemma flight_turn:
  assumes "flight m" "event_enabled m ev" "plain_event ev"
  shows "wp (agents_turn E ev) (\<lambda>_. flight) m"
proof -
  consider (enq) n k c md where "ev = Ev_Command (EnqueueMessage n k c md)"
    | (don) i out d where "ev = Ev_Done i out d"
    | (other) "\<And>n k c md. ev \<noteq> Ev_Command (EnqueueMessage n k c md)" "\<And>i o' d. ev \<noteq> Ev_Done i o' d"
    by blast
  then show ?thesis
  proof cases
    case enq
    with assms show ?thesis by (simp add: wp_simps wp_funs case_prod_unfold flight_enqueue)
  next
    case don
    with assms show ?thesis using flight_done by simp
  next
    case other
    then show ?thesis
      using assms(1) by (intro wp_keeps [OF quiet_turn]) (auto intro: quiet_flight)
  qed
qed

lemma flight_run:
  assumes "agents_run E m0 evs m" "flight m0" "list_all plain_event evs"
  shows "flight m"
  using assms
proof (induction rule: agents_run.induct)
  case (run_turn evs m ev stop m')
  then have "flight m" "plain_event ev" by (simp_all add: list_all_iff)
  with run_turn show ?case using wp_run [OF flight_turn] by blast
qed

section \<open>Properties\<close>




end
