(* ===== verification/Agents_Runs.thy ===== *)
theory Agents_Runs
  imports Agents_Properties
begin

text \<open>
  What every turn of the agents manager's event loop keeps.  The locale \<open>turn_rel\<close> extends the steps
  of \<open>agent_rel\<close> with those of dispatching and completing prompts, so that a relation that allows
  them all is kept by \<open>agents_turn\<close> and related along every run.  It is interpreted for the
  invariants of the manager and for the order of the events sent to the channels.
\<close>

section \<open>Steps of a turn\<close>

locale turn_rel = agent_rel R G
    for R :: "agents_manager \<Rightarrow> agents_manager \<Rightarrow> bool" and G :: "agent_slot \<Rightarrow> agent_slot \<Rightarrow> bool" +
  assumes R_queue: "(queue_inv (am_queue m) \<Longrightarrow> queue_inv q) \<Longrightarrow> R m (m\<lparr>am_queue := q\<rparr>)"
    and R_tasks: "R m (m\<lparr>am_tasks := ts\<rparr>)"
    and R_touches: "R m (m\<lparr>am_touches := us\<rparr>)"
    and R_all: "(\<And>s. G s (f s)) \<Longrightarrow> R m (m\<lparr>am_slots := map f (am_slots m)\<rparr>)"
    and G_forget: "G s (s\<lparr>sl_session_map := hm_remove k (sl_session_map s),
       sl_reverse_map := filter (\<lambda>(a, v). v \<noteq> k) (sl_reverse_map s)\<rparr>)"
    and G_prompted: "G s (mark_prompted acp s)"
    and G_active: "G s (s\<lparr>sl_active_prompts := hm_insert acp n (sl_active_prompts s)\<rparr>)"
    and G_expire: "G s (expire_session k s)"
begin

lemma k_platform: "keeps R (handle_platform_command E cmd i n k)"
  unfolding handle_platform_command_def queue_mark_idle_def
  by (intro k_rules k_methods k_upd_slot k_modify R_queue G_forget) (simp_all add: queue_inv_mark_idle)

lemma k_send_prompt: "keeps R (send_prompt E i k acp content metadata)"
  unfolding send_prompt_def
  by (intro k_rules k_prims k_upd_slot k_modify R_tasks R_touches G_prompted G_active)

lemma k_prompt_session: "keeps R (prompt_session E n k content metadata)"
  unfolding prompt_session_def
  by (intro k_rules k_prims k_platform k_send_prompt k_heal)

lemma k_hand_over: "keeps R (hand_over E n k batch)"
  unfolding hand_over_def by (intro k_rules k_emit k_prompt_session)

lemma k_enqueue: "keeps R (enqueue_message E n k content metadata)"
proof (cases "platform_command_of content")
  case None
  have "R m (snd (run_state (hand_over E n k b) (m\<lparr>am_queue := q\<rparr>)))"
    if "queue_inv (am_queue m) \<Longrightarrow> queue_inv q" for m b q
    using trans [OF R_queue [OF that]] k_hand_over by (auto simp: keeps_def)
  then show ?thesis
    unfolding keeps_def enqueue_message_queue [OF None] by (simp add: queue_inv_enqueue)
next
  case (Some cmd)
  then show ?thesis
    unfolding enqueue_message_def Some option.case by (intro k_rules k_platform)
qed

lemma k_next: "keeps R (dispatch_next E k)"
proof (rule keepsI)
  fix m
  have "R m (m\<lparr>am_queue := snd (queue_complete k (am_queue m))\<rparr>)"
    by (rule R_queue) (rule queue_inv_complete)
  moreover have "keeps R (if fst (queue_complete k (am_queue m)) \<noteq> None \<and>
        session_agent (am_slots m) k = '''' then ret ()
      else bind_st (hand_over E (session_agent (am_slots m) k) k (fst (queue_complete k (am_queue m)))) (\<lambda>_. ret ()))"
    by (intro k_rules k_hand_over)
  ultimately show "wp (dispatch_next E k) (\<lambda>_. R m) m"
    unfolding dispatch_next_queue by (auto elim!: wp_keeps intro: trans)
qed

lemma k_completion: "keeps R (handle_prompt_completion E c drained)"
  unfolding handle_prompt_completion_def
  by (intro k_rules k_methods k_emit k_next k_modify R_streaming R_all G_expire)

lemma k_shutdown: "keeps R shutdown_all"
  unfolding shutdown_all_def by (intro k_modify R_all G_conn)

lemma k_command: "keeps R (handle_command E cmd)"
  by (cases cmd) (auto intro!: k_rules k_methods k_shutdown k_get_slot k_enqueue)

lemma R_touched: "R m (m\<lparr>am_touches := us, am_session_store := st\<rparr>)"
  using trans [OF R_touches R_store] by simp

lemma k_turn: "keeps R (agents_turn E ev)"
proof (cases ev)
  case (Ev_Touch i)
  show ?thesis
    unfolding Ev_Touch agents_turn.simps by (intro k_rules k_ask k_modify R_touched)
qed (auto intro!: k_rules k_incoming k_handle_crash k_get_slot k_keepalive k_shutdown k_command
    k_modify R_tasks k_completion)

lemma k_run: "agents_run E m0 evs m \<Longrightarrow> R m0 m"
proof (induction rule: agents_run.induct)
  case (run_turn evs m ev stop m')
  then have "R m m'" using k_turn [of E ev] by (metis keeps_def snd_conv)
  then show ?case using run_turn.IH trans by blast
qed (rule refl)

end


section \<open>Interpretations\<close>

text \<open>
  The slots stay well formed, in place and under their names, the queue keeps its invariant, and the
  configuration is constant.
\<close>

definition stable :: "agents_manager \<Rightarrow> agents_manager \<Rightarrow> bool" where
  "stable m m' \<longleftrightarrow>
     (slots_ok m \<longrightarrow> slots_ok m') \<and> (queue_inv (am_queue m) \<longrightarrow> queue_inv (am_queue m')) \<and>
     map sl_name (am_slots m') = map sl_name (am_slots m) \<and>
     am_config m' = am_config m \<and> am_channels_sender m' = am_channels_sender m"

definition slot_step :: "agent_slot \<Rightarrow> agent_slot \<Rightarrow> bool" where
  "slot_step s s' \<longleftrightarrow> sl_name s' = sl_name s \<and> (slot_ok s \<longrightarrow> slot_ok s')"

lemma stable_map:
  assumes "\<And>s. slot_step s (f s)"
  shows "stable m (m\<lparr>am_slots := map f (am_slots m)\<rparr>)"
  using assms by (simp add: stable_def slot_step_def slots_ok_def list_all_iff)

interpretation stb: turn_rel stable slot_step
proof unfold_locales
  show "stable m (m\<lparr>am_slots := map f (am_slots m)\<rparr>)" if "\<And>s. slot_step s (f s)" for f m
    using that by (rule stable_map)
qed (auto simp: stable_def slot_step_def slots_ok_def slot_ok_def init_upd_def
      bind_session_def restored_map_def register_default_session_def Let_def map_list_update_same
      mark_prompted_def expire_session_def split: option.split intro!: list_all_update)

text \<open>Events once sent stay sent, in order.\<close>

definition grows :: "agents_manager \<Rightarrow> agents_manager \<Rightarrow> bool" where
  "grows m m' \<longleftrightarrow> (\<exists>es. am_events m' = am_events m @ es)"

interpretation gr: turn_rel grows "\<lambda>s s'. True"
  by unfold_locales (auto simp: grows_def)

end
