(* ===== verification/Agents_Recovery.thy ===== *)
theory Agents_Recovery
  imports Agents_Runs
begin

text \<open>
  Recovery of agents and sessions, and the handshake:
  \<open>session_recovery.rs\<close>, \<open>initialize_agent\<close> and \<open>start\<close> of \<open>manager.rs\<close>.
\<close>

section \<open>Crashes\<close>

text \<open>The sessions a slot knows: the live ones and those kept for recovery.\<close>

definition known :: "agent_slot \<Rightarrow> session_key set" where
  "known s = {k. hm_has (sl_session_map s) k \<or> hm_has (sl_stale_sessions s) k}"

definition crash_frame :: "nat \<Rightarrow> agents_manager \<Rightarrow> agents_manager \<Rightarrow> bool" where
  "crash_frame i m m' \<longleftrightarrow>
     am_queue m' = am_queue m \<and> am_tasks m' = am_tasks m \<and> am_touches m' = am_touches m \<and>
     am_session_store m' = am_session_store m \<and> am_config m' = am_config m \<and>
     length (am_slots m') = length (am_slots m) \<and>
     (\<forall>j. j \<noteq> i \<longrightarrow> am_slots m' ! j = am_slots m ! j) \<and>
     (i < length (am_slots m) \<longrightarrow> known (am_slots m ! i) \<subseteq> known (am_slots m' ! i))"

lemma known_drain: "known s \<subseteq> known (s\<lparr>sl_stale_sessions := hm_extend (sl_stale_sessions s) (sl_session_map s),
    sl_session_map := [], sl_awaiting_first_prompt := {}, sl_tool_context_sent := {}\<rparr>)"
  by (auto simp: known_def hm_has_keys [of "sl_session_map s"])

lemma known_restore: "known s \<subseteq> known (s\<lparr>sl_session_map :=
    restored_map a a' (sl_stale_sessions s) (sl_session_map s), sl_stale_sessions := []\<rparr>)"
  by (auto simp: known_def restored_map_def hm_has_keys [of "sl_stale_sessions s"] image_image case_prod_unfold)

lemma known_default: "known s \<subseteq> known (register_default_session nm acp (s\<lparr>sl_reverse_map := [], sl_lifecycle := lc\<rparr>))"
  by (auto simp: known_def register_default_session_def Let_def hm_has_def)

interpretation cr: crash_rel "crash_frame i" "\<lambda>s s'. known s \<subseteq> known s'" "{i}" for i
proof unfold_locales
  show "crash_frame i m (m\<lparr>am_slots := (am_slots m)[j := s]\<rparr>)"
    if "j \<in> {i}" "j < length (am_slots m)" "known (am_slots m ! j) \<subseteq> known s" for m j s
    using that by (simp add: crash_frame_def)
qed (use known_drain known_restore known_default in \<open>auto simp: crash_frame_def known_def init_upd_def\<close>)


section \<open>Healing a session\<close>

lemma wp_on_slot:
  assumes "conn_only f"
    and "\<And>r c t. Q r (m\<lparr>am_tick := t, am_slots := (am_slots m)[i := (am_slots m ! i)\<lparr>sl_connection := c\<rparr>]\<rparr>)"
  shows "wp (on_slot i f) Q m"
proof -
  obtain r c t where "run_state (f (am_slots m ! i)) m =
      ((r, (am_slots m ! i)\<lparr>sl_connection := c\<rparr>), m\<lparr>am_tick := t\<rparr>)"
    by (rule conn_onlyE [OF assms(1)])
  then show ?thesis using assms(2)
    by (simp add: wp_def on_slot_def get_slot_def put_slot_def)
qed

lemma wp_restore_call:
  assumes "\<And>r c t. Q r (m\<lparr>am_tick := t, am_slots := (am_slots m)[i := (am_slots m ! i)\<lparr>sl_connection := c\<rparr>]\<rparr>)"
  shows "wp (restore_call E d resume i acp) Q m"
  using assms
  by (cases resume)
    (auto simp: restore_call_def fetch_mcp_servers_def get_slot_def wp_simps wp_funs conn_only_call
      intro!: wp_on_slot)

lemma find_slot_by_name_nth:
  "find_slot_by_name ss n = Some i \<Longrightarrow> i < length ss \<and> sl_name (ss ! i) = n"
  by (induction ss arbitrary: i) (auto split: if_splits)

lemma find_slot_by_name_names:
  "map sl_name ss = map sl_name ss' \<Longrightarrow> find_slot_by_name ss n = find_slot_by_name ss' n"
proof (induction ss arbitrary: ss')
  case (Cons s ss)
  then show ?case by (cases ss') auto
qed simp

text \<open>The row of session \<open>k\<close> was written to the store (the write may have failed).\<close>

definition stored :: "string \<Rightarrow> session_key \<Rightarrow> string \<Rightarrow> dyn_store \<Rightarrow> dyn_store \<Rightarrow> bool" where
  "stored n k acp st st' \<longleftrightarrow>
     (\<exists>f now. st' = snd (dyn_upsert_session f
        \<lparr>ps_session_key = key_to_string k, ps_agent_name = n, ps_acp_session_id = acp,
         ps_created_at = now, ps_last_active_at = now, ps_closed = False\<rparr> st))"

lemma storedI [simp]:
  "stored n k acp st (snd (dyn_upsert_session f
     \<lparr>ps_session_key = key_to_string k, ps_agent_name = n, ps_acp_session_id = acp,
      ps_created_at = now, ps_last_active_at = now, ps_closed = False\<rparr> st))"
  by (auto simp: stored_def)

text \<open>Session \<open>k\<close> is bound both ways on slot \<open>i\<close>.\<close>

definition bound :: "nat \<Rightarrow> session_key \<Rightarrow> string \<Rightarrow> agents_manager \<Rightarrow> bool" where
  "bound i k acp m \<longleftrightarrow>
     hm_get (sl_session_map (am_slots m ! i)) k = Some acp \<and>
     hm_get (sl_reverse_map (am_slots m ! i)) acp = Some k \<and>
     \<not> hm_has (sl_stale_sessions (am_slots m ! i)) k"

lemma create_binds:
  assumes "find_slot_by_name (am_slots m) n = Some i"
    and "hm_get (sl_session_map (am_slots m ! i)) k = None"
    and "\<not> hm_has (sl_stale_sessions (am_slots m ! i)) k" "am_session_store m = st"
  shows "wp (create_session E n k) (\<lambda>r m'. \<forall>acp. r = Inr acp \<longrightarrow> bound i k acp m' \<and> stored n k acp st (am_session_store m')) m"
proof -
  have i: "i < length (am_slots m)" using find_slot_by_name_nth [OF assms(1)] by blast
  then show ?thesis
    using assms
    by (auto simp: create_session_def fetch_tool_context_def update_session_store_def upd_slot_def
        get_slot_def wp_simps wp_funs bound_def bind_session_def Let_def split: sum.split
        intro!: wp_on_slot conn_only_start_session)
qed

text \<open>The attempt of \<open>heal_session\<close> to restore touches nothing but the connection.\<close>

lemma wp_attempt:
  assumes Q: "\<And>r t c. Q r (m\<lparr>am_tick := t, am_slots := (am_slots m)[i := (am_slots m ! i)\<lparr>sl_connection := c\<rparr>]\<rparr>)"
  shows "wp (case attempt of
        None \<Rightarrow> ret (Inr None)
      | Some acp \<Rightarrow>
          if sl_connection s = None
          then bind_st (fetch_mcp_servers E i) (\<lambda>_. ret (Inl ConnectionClosed))
          else bind_st (restore_call E d resume i acp) (\<lambda>r. ret (Inr r))) Q m"
proof -
  have tick: "Q r (m\<lparr>am_tick := t\<rparr>)" for r t
    using Q [of r "sl_connection (am_slots m ! i)" t] by simp
  then have "Q r m" for r using tick [of r "am_tick m"] by simp
  with tick Q show ?thesis
    by (auto simp: wp_simps wp_funs fetch_mcp_servers_def get_slot_def split: option.split
        intro!: wp_restore_call)
qed

lemma heal_binds:
  assumes "find_slot_by_name (am_slots m) n = Some i"
    and "hm_get (sl_session_map (am_slots m ! i)) k = None"
  shows "wp (heal_session E i n k)
    (\<lambda>r m'. r = Inr () \<longrightarrow> (\<exists>acp. bound i k acp m' \<and> stored n k acp (am_session_store m) (am_session_store m'))) m"
proof -
  let ?Q = "\<lambda>r m'. r = Inr () \<longrightarrow> (\<exists>acp. bound i k acp m' \<and> stored n k acp (am_session_store m) (am_session_store m'))"
  let ?tail = "\<lambda>restored. case restored of
       Inl e \<Rightarrow> ret (Inl e)
     | Inr (Some returned) \<Rightarrow>
         bind_st (upd_slot i (\<lambda>s. bind_session k returned
           (s\<lparr>sl_stale_sessions := hm_remove k (sl_stale_sessions s)\<rparr>))) (\<lambda>_.
         bind_st (if has_session_capability (am_slots m ! i) cap_resume then ret ()
          else upd_slot i (\<lambda>s. s\<lparr>sl_awaiting_first_prompt :=
                 insert returned (sl_awaiting_first_prompt s)\<rparr>)) (\<lambda>_.
         bind_st (update_session_store E n k returned) (\<lambda>_. ret (Inr ()))))
     | Inr None \<Rightarrow>
         bind_st (upd_slot i (\<lambda>s. s\<lparr>sl_stale_sessions := hm_remove k (sl_stale_sessions s)\<rparr>)) (\<lambda>_.
         try_then (create_session E n k) (\<lambda>_. ret (Inr ())))"
  have i: "i < length (am_slots m)" using find_slot_by_name_nth [OF assms(1)] by blast
  have tail: "wp (?tail restored) ?Q m1"
    if "m1 = m\<lparr>am_tick := t, am_slots := (am_slots m)[i := (am_slots m ! i)\<lparr>sl_connection := c\<rparr>]\<rparr>"
    for restored m1 t c
  proof -
    let ?m2 = "m1\<lparr>am_slots := (am_slots m1)[i := (am_slots m1 ! i)
        \<lparr>sl_stale_sessions := hm_remove k (sl_stale_sessions (am_slots m1 ! i))\<rparr>]\<rparr>"
    have "find_slot_by_name (am_slots ?m2) n = Some i"
      using assms(1) i that
      by (subst find_slot_by_name_names [of _ "am_slots m"]) (simp_all add: map_list_update_same)
    then have "wp (create_session E n k) (\<lambda>r m'. \<forall>acp. r = Inr acp \<longrightarrow>
        bound i k acp m' \<and> stored n k acp (am_session_store m) (am_session_store m')) ?m2"
      using assms(2) i that by (intro create_binds) (simp_all add: hm_has_def)
    then show ?thesis
      using i that
      by (auto simp: wp_simps wp_funs upd_slot_def update_session_store_def bound_def bind_session_def
          hm_has_def split: sum.split option.split elim!: wp_mono)
  qed
  show ?thesis
    unfolding heal_session_def Let_def wp_bind wp_gets id_apply
    by (rule wp_attempt, rule tail, rule refl)
qed


section \<open>Handshake and start\<close>

text \<open>A program on a detached slot keeps it connected.\<close>

definition conn_kept :: "(agent_slot \<Rightarrow> ('a \<times> agent_slot) am) \<Rightarrow> bool" where
  "conn_kept f \<longleftrightarrow>
     (\<forall>s m. \<exists>r c t. run_state (f s) m = ((r, s\<lparr>sl_connection := c\<rparr>), m\<lparr>am_tick := t\<rparr>) \<and>
        (c = None \<longleftrightarrow> sl_connection s = None))"

lemma conn_keptI:
  assumes "conn_only f"
    and "\<And>s m. wp (f s) (\<lambda>(r, s') m'. sl_connection s' = None \<longleftrightarrow> sl_connection s = None) m"
  shows "conn_kept f"
  unfolding conn_kept_def
proof (intro allI)
  fix s m
  obtain r c t where "run_state (f s) m = ((r, s\<lparr>sl_connection := c\<rparr>), m\<lparr>am_tick := t\<rparr>)"
    by (rule conn_onlyE [OF assms(1)])
  then show "\<exists>r c t. run_state (f s) m = ((r, s\<lparr>sl_connection := c\<rparr>), m\<lparr>am_tick := t\<rparr>) \<and>
      (c = None \<longleftrightarrow> sl_connection s = None)"
    using assms(2) [of s m] by (auto simp: wp_def)
qed

lemma conn_kept_call: "conn_kept (slot_call E d me p)"
  by (rule conn_keptI [OF conn_only_call])
    (auto simp: slot_call_def slot_request_def wp_simps wp_funs case_prod_unfold Let_def
      split: option.split sum.split rpc_outcome.split)

lemma conn_keptE:
  assumes "conn_kept f"
  obtains r c t where "run_state (f s) m = ((r, s\<lparr>sl_connection := c\<rparr>), m\<lparr>am_tick := t\<rparr>)"
    "c = None \<longleftrightarrow> sl_connection s = None"
  using assms unfolding conn_kept_def by blast

lemma conn_kept_start_session: "conn_kept (start_session E d)"
proof (rule conn_keptI [OF conn_only_start_session])
  fix s m
  have call: "wp (slot_call E d me p s) (\<lambda>(r, s') m'. sl_connection s' = None \<longleftrightarrow> sl_connection s = None) m'"
    for me p m'
    by (rule conn_keptE [OF conn_kept_call, of E d me p s m']) (simp add: wp_def)
  show "wp (start_session E d s) (\<lambda>(r, s') m'. sl_connection s' = None \<longleftrightarrow> sl_connection s = None) m"
    by (auto simp: start_session_def wp_simps wp_funs case_prod_unfold split: tools_reply.split sum.split
        intro!: wp_mono [OF call])
qed

text \<open>A slot as a successful start leaves it.\<close>

definition ready :: "string \<times> agent_config \<Rightarrow> agent_slot \<Rightarrow> bool" where
  "ready nc s \<longleftrightarrow>
     sl_name s = fst nc \<and> sl_connection s \<noteq> None \<and> \<not> disabled (sl_lifecycle s) \<and>
     sl_protocol_version s \<in> {1, 2} \<and>
     (\<exists>acp. hm_get (sl_session_map s) (session_key_new (fst nc) ''default'' ''default'') = Some acp \<and>
        hm_get (sl_reverse_map s) acp = Some (session_key_new (fst nc) ''default'' ''default'')) \<and>
     (\<forall>k v. hm_get (ac_options (snd nc)) k = Some v \<longrightarrow> hm_get (ac_options (sl_config s)) k = Some v)"

lemma initialize_ready:
  assumes "sl_connection s \<noteq> None"
  shows "wp (initialize_agent E d s) (\<lambda>(r, s') m'.
     (\<exists>t. m' = m\<lparr>am_tick := t\<rparr>) \<and>
     (r = Inr () \<longrightarrow> sl_connection s' \<noteq> None \<and> sl_protocol_version s' \<in> {1, 2} \<and>
        sl_name s' = sl_name s \<and> sl_lifecycle s' = sl_lifecycle s \<and>
        (\<forall>k v. hm_get (ac_options (sl_config s)) k = Some v \<longrightarrow> hm_get (ac_options (sl_config s')) k = Some v))) m"
proof -
  let ?o = "if ac_options (sl_config s) = [] then None else Some (ac_options (sl_config s))"
  obtain r c t where "run_state (slot_call E d ''initialize'' (initialize_params_json 2 ?o) s) m =
      ((r, s\<lparr>sl_connection := c\<rparr>), m\<lparr>am_tick := t\<rparr>)" "c \<noteq> None"
    using conn_keptE [OF conn_kept_call] assms by metis
  then show ?thesis
    using assms
    by (auto simp: initialize_agent_def wp_def Let_def apply_agent_defaults_def hm_get_defaults opt_or_def split: sum.split option.split)
qed

lemma build_ready:
  assumes "ac_enabled config"
  shows "wp (build_started_slot E name config) (\<lambda>r m'. (\<exists>t. m' = m\<lparr>am_tick := t\<rparr>) \<and>
    (\<forall>s. r = Inr s \<longrightarrow> ready (name, config) s)) m"
proof -
  let ?s0 = "(agent_slot_new name config False)\<lparr>sl_connection := Some agent_conn_new\<rparr>"
  let ?d = "acp_timeout_for config (am_config m)"
  let ?m = "m\<lparr>am_tick := Suc (am_tick m)\<rparr>"
  have fin: "wp (bind_st (start_session E ?d s) (\<lambda>(q', s'). ret (case q' of
        Inl e \<Rightarrow> Inl (internal_error E name e)
      | Inr sid \<Rightarrow> Inr (register_default_session name sid s'))))
      (\<lambda>r m'. (\<exists>t. m' = m\<lparr>am_tick := t\<rparr>) \<and> (\<forall>s. r = Inr s \<longrightarrow> ready (name, config) s)) m1"
    if "sl_connection s \<noteq> None" "sl_protocol_version s \<in> {1, 2}" "sl_name s = name" "\<not> disabled (sl_lifecycle s)"
      "\<forall>k v. hm_get (ac_options config) k = Some v \<longrightarrow> hm_get (ac_options (sl_config s)) k = Some v"
      "m1 = m\<lparr>am_tick := t\<rparr>" for s m1 t
    by (rule conn_keptE [OF conn_kept_start_session, of E ?d s m1])
      (use that in \<open>auto simp: wp_def ready_def register_default_session_def Let_def split: sum.split\<close>)
  have "sl_connection ?s0 \<noteq> None" by simp
  note init = initialize_ready [OF this, of E ?d ?m]
  have s0: "sl_name ?s0 = name" "\<not> disabled (sl_lifecycle ?s0)" "sl_config ?s0 = config"
    using assms by (simp_all add: agent_slot_new_def)
  show ?thesis
  proof (cases "env_spawn E (am_tick m) config name")
    case (Inl e)
    then show ?thesis by (auto simp: build_started_slot_def wp_simps)
  next
    case (Inr u)
    let ?Q = "\<lambda>r m'. (\<exists>t. m' = m\<lparr>am_tick := t\<rparr>) \<and> (\<forall>s. r = Inr s \<longrightarrow> ready (name, config) s)"
    let ?k = "\<lambda>(q :: agents_error + unit, s). case q of
        Inl e \<Rightarrow> ret (Inl (internal_error E name e))
      | Inr _ \<Rightarrow> bind_st (start_session E ?d s) (\<lambda>(q', s'). ret (case q' of
          Inl e \<Rightarrow> Inl (internal_error E name e)
        | Inr sid \<Rightarrow> Inr (register_default_session name sid s')))"
    have "wp (initialize_agent E ?d ?s0) (\<lambda>p. wp (?k p) ?Q) ?m"
    proof (rule wp_mono [OF init])
      fix p :: "(agents_error + unit) \<times> agent_slot" and m1
      assume post: "(\<lambda>(r, s') m'. (\<exists>t. m' = ?m\<lparr>am_tick := t\<rparr>) \<and>
        (r = Inr () \<longrightarrow> sl_connection s' \<noteq> None \<and> sl_protocol_version s' \<in> {1, 2} \<and>
          sl_name s' = sl_name ?s0 \<and> sl_lifecycle s' = sl_lifecycle ?s0 \<and>
          (\<forall>k v. hm_get (ac_options (sl_config ?s0)) k = Some v \<longrightarrow>
             hm_get (ac_options (sl_config s')) k = Some v))) p m1"
      obtain q s t where p: "p = (q, s)" and m1: "m1 = m\<lparr>am_tick := t\<rparr>" using post by (cases p) auto
      show "wp (?k p) ?Q m1"
      proof (cases q)
        case (Inl e)
        then show ?thesis using p m1 by (auto simp: wp_ret)
      next
        case (Inr u)
        then show ?thesis unfolding p Inr prod.case sum.case
          using post p s0 Inr by (intro fin [OF _ _ _ _ _ m1]) auto
      qed
    qed
    with Inr show ?thesis
      unfolding build_started_slot_def wp_bind wp_gets id_apply
      by (simp add: wp_simps Let_def case_prod_unfold)
  qed
qed

lemma start_slots_ready:
  "wp (start_slots E cs) (\<lambda>r m'. am_agent_configs m' = am_agent_configs m \<and> (r = Inr () \<longrightarrow>
     (\<exists>ss. am_slots m' = am_slots m @ ss \<and> list_all2 ready (filter (\<lambda>nc. ac_enabled (snd nc)) cs) ss))) m"
proof (induction cs arbitrary: m)
  case (Cons nc cs)
  obtain n c where nc: "nc = (n, c)" by (cases nc)
  show ?case
  proof (cases "ac_enabled c")
    case True
    have "wp (bind_st (modify (\<lambda>m. m\<lparr>am_slots := am_slots m @ [s]\<rparr>)) (\<lambda>_. start_slots E cs))
        (\<lambda>r m'. am_agent_configs m' = am_agent_configs m \<and> (r = Inr () \<longrightarrow>
          (\<exists>ss. am_slots m' = am_slots m @ ss \<and>
            list_all2 ready (filter (\<lambda>nc. ac_enabled (snd nc)) (nc # cs)) ss))) (m\<lparr>am_tick := t\<rparr>)"
      if "ready (n, c) s" for s t
      unfolding wp_bind wp_modify
      by (rule wp_mono [OF Cons.IH]) (use that True nc in auto)
    then show ?thesis
      unfolding nc start_slots.simps wp_try_then
      using True nc by (auto simp: wp_try_then intro!: wp_mono [OF build_ready] split: sum.split)
  next
    case False
    then show ?thesis using Cons.IH nc by simp
  qed
qed (simp add: wp_simps)

lemma ready_stale [simp]: "ready nc (s\<lparr>sl_stale_sessions := x\<rparr>) = ready nc s"
  by (simp add: ready_def)

lemma restore_stale_ready:
  "list_all2 ready ncs slots \<Longrightarrow> list_all2 ready ncs (fold restore_stale ps slots)"
proof (induction ps arbitrary: slots)
  case (Cons p ps)
  have "list_all2 ready ncs (restore_stale p slots)"
  proof (cases "find_slot_by_name slots (ps_agent_name p)")
    case (Some i)
    then have "ready (ncs ! i) (slots ! i)"
      using Cons.prems find_slot_by_name_nth [OF Some] by (simp add: list_all2_conv_all_nth)
    with Some show ?thesis
      using list_all2_update_cong [OF Cons.prems, of "ncs ! i" _ i] by (simp add: restore_stale_def)
  qed (simp add: restore_stale_def Cons.prems)
  with Cons.IH show ?case by simp
qed simp

lemma start_ready:
  assumes "am_slots m = []"
  shows "wp (agents_start E) (\<lambda>r m'. r = Inr () \<longrightarrow>
    list_all2 ready (filter (\<lambda>nc. ac_enabled (snd nc)) (am_agent_configs m)) (am_slots m')) m"
  unfolding agents_start_def wp_bind wp_gets wp_try_then
  by (rule wp_mono [OF start_slots_ready])
    (use assms in \<open>auto simp: wp_simps wp_funs Let_def restore_stale_ready split: sum.split\<close>)


section \<open>Properties\<close>

text \<open>
  Property C2.  On every run, whatever the agents, the channels, the tools and the store answer: the
  slots stay in place under their names with well-formed maps, the queue keeps its invariant, and the
  configuration never changes.  In particular a slot index handed out stays valid.
\<close>

theorem run_invariant:
  assumes "agents_run E m0 evs m" "slots_ok m0" "queue_inv (am_queue m0)"
  shows "slots_ok m \<and> queue_inv (am_queue m) \<and> map sl_name (am_slots m) = map sl_name (am_slots m0) \<and>
    (\<forall>n. find_slot_by_name (am_slots m) n = find_slot_by_name (am_slots m0) n) \<and>
    am_config m = am_config m0"
  using stb.k_run [OF assms(1)] assms(2,3) find_slot_by_name_names [of "am_slots m" "am_slots m0"]
  by (simp add: stable_def)

theorem run_invariant_witness:
  "\<exists>m. agents_run demo_env demo_manager [demo_msg ''hi'', demo_msg ''/cancel''] m \<and>
     slots_ok m \<and> queue_inv (am_queue m) \<and> find_slot_by_name (am_slots m) ''a'' = Some 0"
proof -
  have "map_option (\<lambda>m. length (am_tasks m)) (play demo_env [demo_msg ''hi'', demo_msg ''/cancel''] demo_manager) = Some 1"
    by (simp add: demo_run)
  from play_reaches [OF this] obtain m
    where m: "agents_run demo_env demo_manager [demo_msg ''hi'', demo_msg ''/cancel''] m" by blast
  have "slots_ok demo_manager" "queue_inv (am_queue demo_manager)"
    by (simp_all add: demo_setup slots_ok_def slot_ok_def queue_inv_new [unfolded queue_new_def])
  from run_invariant [OF m this] have "slots_ok m \<and> queue_inv (am_queue m) \<and>
      find_slot_by_name (am_slots m) ''a'' = find_slot_by_name (am_slots demo_manager) ''a''" by blast
  with m show ?thesis by (auto simp: demo_setup)
qed

text \<open>
  Property C3.  However the recovery of a crashed agent goes (crash loop, failed spawn, failed
  handshake, restored or fresh session), no session of that agent is forgotten: each is live or kept
  for recovery.  The other agents, the queued messages, the running prompts and the session store are
  left alone.
\<close>

theorem crash_keeps_sessions:
  assumes "run_state (handle_crash E i) m = ((), m')" "i < length (am_slots m)"
  shows "known (am_slots m ! i) \<subseteq> known (am_slots m' ! i) \<and>
    (\<forall>j. j \<noteq> i \<longrightarrow> am_slots m' ! j = am_slots m ! j) \<and> length (am_slots m') = length (am_slots m) \<and>
    am_queue m' = am_queue m \<and> am_tasks m' = am_tasks m \<and> am_session_store m' = am_session_store m"
proof -
  have "keeps (crash_frame i) (handle_crash E i)" by (rule cr.k_handle_crash) simp
  then have "crash_frame i m m'" using assms(1) by (metis keeps_def snd_conv)
  with assms(2) show ?thesis by (simp add: crash_frame_def)
qed

theorem crash_keeps_sessions_witness:
  "known (am_slots demo_manager ! 0) \<subseteq> known (am_slots (snd (run_state (handle_crash demo_env 0) demo_manager)) ! 0)
   \<and> demo_key \<in> known (am_slots demo_manager ! 0)"
proof
  show "known (am_slots demo_manager ! 0) \<subseteq> known (am_slots (snd (run_state (handle_crash demo_env 0) demo_manager)) ! 0)"
    using crash_keeps_sessions [of demo_env 0 demo_manager "snd (run_state (handle_crash demo_env 0) demo_manager)"]
    by (simp add: prod_eq_iff demo_manager_def)
  show "demo_key \<in> known (am_slots demo_manager ! 0)"
    by (simp add: demo_setup known_def demo_maps)
qed

text \<open>
  When \<open>heal_session\<close> succeeds for a session that is not live, by resuming, loading or
  creating one, the session is bound to an ACP session in both directions, it no longer waits for
  recovery, and that binding was written to the session store.
\<close>

lemma heal_session_binds:
  assumes "run_state (heal_session E i n k) m = (Inr (), m')"
    and "find_slot_by_name (am_slots m) n = Some i"
    and "hm_get (sl_session_map (am_slots m ! i)) k = None"
  shows "\<exists>acp. bound i k acp m' \<and> stored n k acp (am_session_store m) (am_session_store m')"
  using wp_run [OF heal_binds [OF assms(2,3)] assms(1)] by simp

text \<open>
  Property C4.  A successful start yields exactly one slot per enabled agent of the configuration, in
  order.  Each is connected, not disabled, speaks protocol version 1 or 2, has its default session
  bound in both directions, and the options the user configured win over the agent's defaults.
\<close>

theorem start_makes_ready_slots:
  assumes "run_state (agents_start E) m = (Inr (), m')" "am_slots m = []"
  shows "list_all2 ready (filter (\<lambda>nc. ac_enabled (snd nc)) (am_agent_configs m)) (am_slots m')"
  using wp_run [OF start_ready [OF assms(2)] assms(1)] by simp

theorem start_makes_ready_slots_witness:
  "\<exists>m'. run_state (agents_start demo_env) (demo_manager\<lparr>am_slots := [], am_agent_configs := [(''a'', demo_agent)]\<rparr>) = (Inr (), m') \<and>
     list_all2 ready [(''a'', demo_agent)] (am_slots m')"
proof -
  let ?m = "demo_manager\<lparr>am_slots := [], am_agent_configs := [(''a'', demo_agent)]\<rparr>"
  have en: "ac_enabled demo_agent" by (simp add: demo_agent_def)
  have "fst (run_state (agents_start demo_env) ?m) = Inr ()"
    using en by (simp add: demo_run agents_start_def build_started_slot_def initialize_agent_def start_session_def
        register_default_session_def response_success_def response_value_def jidx_def Let_def
        dyn_delete_expired_def dyn_load_open_sessions_def)
  then obtain m' where run: "run_state (agents_start demo_env) ?m = (Inr (), m')"
    by (metis prod.collapse)
  from start_makes_ready_slots [OF run] run en show ?thesis by (auto simp: demo_setup)
qed

end
