(* ===== verification/Agents_Delivery.thy ===== *)
theory Agents_Delivery
  imports Agents_Recovery
begin

text \<open>
  What reaches the channels and the agents: results of finished prompts, session updates and their
  suppression during a replay, permission requests and their answers, the idle timeout.
\<close>

section \<open>Events\<close>

definition events_flow :: "agent_env \<Rightarrow> agents_manager \<Rightarrow> bool" where
  "events_flow E m \<longleftrightarrow> am_channels_sender m \<and> (\<forall>t. env_event_ok E t)"

lemma events_flow_sender [simp]: "events_flow E m \<Longrightarrow> am_channels_sender m"
  by (simp add: events_flow_def)

lemma wp_emit:
  "events_flow E m \<Longrightarrow> wp (emit E ev) Q m \<longleftrightarrow>
     Q () (m\<lparr>am_tick := Suc (am_tick m), am_events := am_events m @ [ev]\<rparr>)"
  by (simp add: emit_def send_event_def wp_simps wp_funs events_flow_def)

lemma wp_send_event:
  "events_flow E m \<Longrightarrow> wp (send_event E ev) Q m \<longleftrightarrow>
     Q True (m\<lparr>am_tick := Suc (am_tick m), am_events := am_events m @ [ev]\<rparr>)"
  by (simp add: send_event_def wp_simps wp_funs events_flow_def)

lemma events_flow_upd [simp]:
  "events_flow E (m\<lparr>am_tick := t\<rparr>) = events_flow E m"
  "events_flow E (m\<lparr>am_events := es\<rparr>) = events_flow E m"
  "events_flow E (m\<lparr>am_slots := ss\<rparr>) = events_flow E m"
  "events_flow E (m\<lparr>am_queue := q\<rparr>) = events_flow E m"
  "events_flow E (m\<lparr>am_activity := ns\<rparr>) = events_flow E m"
  "events_flow E (m\<lparr>am_update_seq := n\<rparr>) = events_flow E m"
  "events_flow E (m\<lparr>am_streaming_completed := S\<rparr>) = events_flow E m"
  by (simp_all add: events_flow_def)


section \<open>The idle timeout\<close>

text \<open>No two consecutive instants are more than \<open>idle\<close> apart.\<close>

fun quick :: "nat \<Rightarrow> nat \<Rightarrow> nat list \<Rightarrow> bool" where
  "quick idle t [] \<longleftrightarrow> True"
| "quick idle t (u # us) \<longleftrightarrow> u \<le> t + idle \<and> quick idle u us"

lemma prompt_wait_spec:
  "prompt_wait idle (t0 + idle) (map (\<lambda>t. (t, In_Activity)) ts @ (t, In_Response r) # rest) =
     Some (if idle = 0 \<or> quick idle t0 (ts @ [t]) then Task_Response r else Task_Idle)"
  by (induction ts arbitrary: t0) auto


section \<open>Session updates\<close>

text \<open>Where an update of a slot goes: nowhere during the replay of a loaded session.\<close>

definition route :: "agent_slot \<Rightarrow> session_update_event \<Rightarrow> session_key option" where
  "route s ev = (if sue_session_id ev \<in> sl_awaiting_first_prompt s then None
                 else hm_get (sl_reverse_map s) (sue_session_id ev))"

definition same_routes :: "agent_slot \<Rightarrow> agent_slot \<Rightarrow> bool" where
  "same_routes s s' \<longleftrightarrow> sl_awaiting_first_prompt s' = sl_awaiting_first_prompt s \<and>
     sl_reverse_map s' = sl_reverse_map s"

lemma route_same: "same_routes s s' \<Longrightarrow> route s' = route s"
  by (simp add: route_def same_routes_def fun_eq_iff)

text \<open>The event that one \<open>session/update\<close> received at \<open>now\<close> causes.\<close>

definition delivery :: "agent_env \<Rightarrow> agent_slot \<Rightarrow> u64 \<Rightarrow> json \<Rightarrow> channel_event list" where
  "delivery E s now p =
     (case dec_update E p of
        Inr ev \<Rightarrow>
          (case route s ev of
             None \<Rightarrow> []
           | Some k \<Rightarrow> [DeliverMessage k (update_content now (session_update_type_name (sue_update ev)) p)])
      | Inl err \<Rightarrow>
          (case Option.bind (Option.bind (jget p ''sessionId'') as_str) (hm_get (sl_reverse_map s)) of
             None \<Rightarrow> []
           | Some k \<Rightarrow> [DeliverMessage k (error_result (''Agent sent malformed update: '' @ err))]))"

lemma delivery_same: "same_routes s s' \<Longrightarrow> delivery E s' = delivery E s"
proof -
  assume same: "same_routes s s'"
  then have "sl_reverse_map s' = sl_reverse_map s" by (simp add: same_routes_def)
  then show ?thesis using route_same [OF same] by (intro ext) (simp add: delivery_def split: sum.split)
qed

definition delivers :: "agent_env \<Rightarrow> nat \<Rightarrow> json \<Rightarrow> u64 \<Rightarrow> agents_manager \<Rightarrow> agents_manager \<Rightarrow> bool" where
  "delivers E i p now m m' \<longleftrightarrow>
     events_flow E m' \<and> length (am_slots m') = length (am_slots m) \<and>
     same_routes (am_slots m ! i) (am_slots m' ! i) \<and>
     am_events m' = am_events m @ delivery E (am_slots m ! i) now p"

lemma forward_delivery:
  assumes "events_flow E m" "i < length (am_slots m)" "dec_update E p = Inr ev"
  shows "wp (forward_session_update E i ev p) (\<lambda>_. delivers E i p (env_now_ms E (am_tick m)) m) m"
  using assms
  by (simp add: forward_session_update_def Let_def wp_simps wp_funs upd_slot_def get_slot_def wp_emit
      delivers_def delivery_def route_def same_routes_def split: option.split)

lemma malformed_delivery:
  assumes "events_flow E m" "i < length (am_slots m)" "dec_update E p = Inl err"
  shows "wp (forward_malformed_update_error E i p err) (\<lambda>_. delivers E i p now m) m"
  using assms
  by (simp add: forward_malformed_update_error_def wp_simps get_slot_def wp_emit
      delivers_def delivery_def same_routes_def split: option.split)

lemma update_delivery:
  assumes "events_flow E m" "i < length (am_slots m)"
  shows "wp (handle_session_update E i p) (\<lambda>_. delivers E i p (env_now_ms E (am_tick m)) m) m"
proof -
  let ?m = "m\<lparr>am_update_seq := am_update_seq m + 1\<rparr>"
  have m: "events_flow E ?m" "i < length (am_slots ?m)"
    and d: "delivers E i p (env_now_ms E (am_tick ?m)) ?m = delivers E i p (env_now_ms E (am_tick m)) m"
    using assms by (simp_all add: delivers_def fun_eq_iff)
  show ?thesis
    unfolding handle_session_update_def wp_bind wp_modify
    using forward_delivery [OF m, of p, unfolded d] malformed_delivery [OF m, of p _ "env_now_ms E (am_tick ?m)", unfolded d]
    by (auto split: sum.split)
qed

lemma updates_delivery:
  assumes "events_flow E m" "i < length (am_slots m)"
  shows "wp (for_each ps (handle_session_update E i)) (\<lambda>_ m'.
     \<exists>nows. length nows = length ps \<and>
       am_events m' = am_events m @ concat (map2 (delivery E (am_slots m ! i)) nows ps)) m"
  using assms
proof (induction ps arbitrary: m)
  case (Cons p ps)
  show ?case
    unfolding for_each.simps wp_bind
  proof (rule wp_mono [OF update_delivery [OF Cons.prems]])
    fix m1
    let ?now = "env_now_ms E (am_tick m)"
    assume "delivers E i p ?now m m1"
    then have m1: "events_flow E m1 \<and> length (am_slots m1) = length (am_slots m) \<and>
        same_routes (am_slots m ! i) (am_slots m1 ! i)"
      and ev: "am_events m1 = am_events m @ delivery E (am_slots m ! i) ?now p"
      by (simp_all add: delivers_def)
    have d: "delivery E (am_slots m1 ! i) = delivery E (am_slots m ! i)" using m1 delivery_same by blast
    show "wp (for_each ps (handle_session_update E i)) (\<lambda>_ m'. \<exists>nows. length nows = length (p # ps) \<and>
       am_events m' = am_events m @ concat (map2 (delivery E (am_slots m ! i)) nows (p # ps))) m1"
    proof (rule wp_mono [OF Cons.IH])
      show "events_flow E m1" "i < length (am_slots m1)" using m1 Cons.prems(2) by simp_all
      fix m'
      assume "\<exists>nows. length nows = length ps \<and>
        am_events m' = am_events m1 @ concat (map2 (delivery E (am_slots m1 ! i)) nows ps)"
      then obtain nows where "length nows = length ps"
        "am_events m' = am_events m1 @ concat (map2 (delivery E (am_slots m1 ! i)) nows ps)" by blast
      then show "\<exists>nows. length nows = length (p # ps) \<and>
          am_events m' = am_events m @ concat (map2 (delivery E (am_slots m ! i)) nows (p # ps))"
        using ev d by (intro exI [of _ "?now # nows"]) simp
    qed
  qed
qed (simp add: wp_simps)


section \<open>Finished prompts\<close>

lemma find_session_conn [simp]:
  "find_session (ss[i := (ss ! i)\<lparr>sl_connection := c\<rparr>]) k = find_session ss k"
proof (induction ss arbitrary: i)
  case (Cons s ss)
  then show ?case by (cases i) (auto split: option.split)
qed simp

lemma cancel_by_key_conn:
  assumes "\<And>r i c t. Q r (m\<lparr>am_tick := t, am_slots := (am_slots m)[i := (am_slots m ! i)\<lparr>sl_connection := c\<rparr>]\<rparr>)"
  shows "wp (cancel_session_by_key E k) Q m"
proof -
  have "Q r m" for r
    using assms [of r 0 "sl_connection (am_slots m ! 0)" "am_tick m"] by simp
  with assms show ?thesis
    by (auto simp: cancel_session_by_key_def wp_simps wp_funs conn_only_notify split: option.split
        intro!: wp_on_slot)
qed

lemma task_completion_expired:
  "pcm_session_expired (task_completion E idle task outcome) \<Longrightarrow>
     pcm_error_message (task_completion E idle task outcome) \<noteq> None"
  by (auto simp: task_completion_def prompt_error_def response_completion_def Let_def
      split: task_outcome.splits option.splits)

lemma dispatch_next_events:
  assumes "events_flow E m"
  shows "wp (dispatch_next E k) (\<lambda>_ m'. \<exists>tail. am_events m' = am_events m @ tail \<and>
     (tail = [] \<or> hd tail = DispatchStarted k)) m"
proof -
  have "wp (prompt_session E n k c md) (\<lambda>_ m'. \<exists>tail. am_events m' = am_events m @ tail \<and>
      (tail = [] \<or> hd tail = DispatchStarted k)) m1"
    if "am_events m1 = am_events m @ [DispatchStarted k]" for n c md m1
    using that by (intro wp_keeps [OF gr.k_prompt_session]) (auto simp: grows_def)
  then show ?thesis
    unfolding dispatch_next_queue
    using assms by (auto simp: hand_over_def wp_simps wp_funs wp_emit split: option.split)
qed

text \<open>The events of a finished prompt, once the pending messages of the agents are drained.\<close>

definition announced :: "prompt_completion \<Rightarrow> agents_manager \<Rightarrow> agents_manager \<Rightarrow> bool" where
  "announced c m m' \<longleftrightarrow>
     am_events m' = am_events m
       @ (if pcm_session_key c \<in> am_streaming_completed m then []
          else [DeliverMessage (pcm_session_key c) (completion_result (am_slots m) c)])
       @ [SessionComplete (pcm_session_key c) (pcm_stop_reason c)]
     \<and> am_streaming_completed m' = am_streaming_completed m - {pcm_session_key c}"

lemma completion_result_error:
  "pcm_error_message c \<noteq> None \<Longrightarrow> completion_result slots c = completion_result slots' c"
  by (auto simp: completion_result_def)

lemma completion_result_conn [simp]:
  "completion_result (ss[i := (ss ! i)\<lparr>sl_connection := c'\<rparr>]) c = completion_result ss c"
  by (simp add: completion_result_def split: option.split)

text \<open>After the drain.\<close>

lemma announce_events:
  assumes "events_flow E m" "pcm_session_expired c \<Longrightarrow> pcm_error_message c \<noteq> None"
  shows "wp (announce E c []) (\<lambda>_ m'. announced c m m' \<and> events_flow E m') m"
proof -
  let ?k = "pcm_session_key c"
  let ?Q = "\<lambda>_ m'. announced c m m' \<and> events_flow E m'"
  define rest where "rest = bind_st (if pcm_session_expired c
      then modify (\<lambda>m. m\<lparr>am_slots := map (expire_session ?k) (am_slots m)\<rparr>) else ret ()) (\<lambda>_.
    bind_st (gets am_slots) (\<lambda>slots.
    bind_st (if ?k \<in> am_streaming_completed m then ret () else emit E (DeliverMessage ?k (completion_result slots c))) (\<lambda>_.
    emit E (SessionComplete ?k (pcm_stop_reason c)))))"
  have rest: "wp rest ?Q m1"
    if "events_flow E m1" "am_events m1 = am_events m"
      "am_streaming_completed m1 = am_streaming_completed m - {?k}"
      "completion_result (am_slots m1) c = completion_result (am_slots m) c" for m1
    using that assms(2) completion_result_error [of c "map (expire_session ?k) (am_slots m1)" "am_slots m"]
    by (auto simp: rest_def wp_simps wp_funs wp_emit announced_def)
  let ?m = "m\<lparr>am_streaming_completed := am_streaming_completed m - {?k}\<rparr>"
  have "wp (cancel_session_by_key E ?k) (\<lambda>_. wp rest ?Q) ?m"
    by (rule cancel_by_key_conn, rule rest) (use assms(1) in simp_all)
  moreover have "wp rest ?Q ?m" by (rule rest) (use assms(1) in simp_all)
  moreover have "wp (announce E c []) ?Q m =
      wp (if pcm_idle_timed_out c then bind_st (cancel_session_by_key E ?k) (\<lambda>_. ret ()) else ret ())
        (\<lambda>_. wp rest ?Q) ?m"
    by (simp add: announce_def drain_incoming_def wp_simps wp_funs Let_def rest_def)
  ultimately show ?thesis by (simp add: wp_simps wp_funs)
qed

section \<open>Permissions\<close>

text \<open>What an agent was sent on a slot.\<close>

definition wire :: "agent_slot \<Rightarrow> json_rpc_message list" where
  "wire s = (case sl_connection s of None \<Rightarrow> [] | Some c \<Rightarrow> ag_out c)"

lemma find_permission_at:
  assumes "i < length ss" "hm_get (sl_pending_permissions (ss ! i)) rid = Some p"
    and "\<And>j. j < i \<Longrightarrow> hm_get (sl_pending_permissions (ss ! j)) rid = None"
  shows "find_permission ss rid = Some (i, p)"
  using assms
proof (induction ss arbitrary: i)
  case (Cons s ss)
  show ?case
  proof (cases i)
    case (Suc j)
    then have "find_permission ss rid = Some (j, p)"
      using Cons.prems by (intro Cons.IH) force+
    then show ?thesis using Cons.prems(3) [of 0] Suc by simp
  qed (use Cons.prems in simp)
qed simp

lemma find_permission_none:
  "find_permission ss rid = None \<longleftrightarrow> (\<forall>j < length ss. hm_get (sl_pending_permissions (ss ! j)) rid = None)"
proof (induction ss)
  case (Cons s ss)
  then show ?case by (auto simp: nth_Cons' less_Suc_eq_0_disj split: option.split)
qed simp

lemma request_permission:
  assumes "events_flow E m" "i < length (am_slots m)"
    and "hm_get (sl_reverse_map (am_slots m ! i)) (permission_session r) = Some k"
  shows "\<exists>t p. run_state (handle_permission_request E i r) m =
    ((), m\<lparr>am_events := am_events m @ [RoutePermission k (permission_request_id r) (permission_description r) (permission_options E r)],
      am_tick := t,
      am_slots := (am_slots m)[i := (am_slots m ! i)\<lparr>sl_pending_permissions :=
        hm_insert (permission_request_id r) p (sl_pending_permissions (am_slots m ! i))\<rparr>]\<rparr>)
    \<and> pp_request p = r"
  using assms
  by (simp add: handle_permission_request_def get_slot_def upd_slot_def send_event_def events_flow_def)
    (metis pending_permission.select_convs(1))

lemma respond_answers:
  assumes "i < length (am_slots m)" "hm_get (sl_pending_permissions (am_slots m ! i)) rid = Some p"
    and "\<And>j. j < i \<Longrightarrow> hm_get (sl_pending_permissions (am_slots m ! j)) rid = None"
    and "sl_connection (am_slots m ! i) = Some c" "\<forall>t. env_stdin_ok E t"
  shows "run_state (respond_permission E rid oid) m =
    ((), m\<lparr>am_tick := Suc (am_tick m),
      am_slots := (am_slots m)[i := (am_slots m ! i)\<lparr>sl_pending_permissions :=
        hm_remove rid (sl_pending_permissions (am_slots m ! i)),
        sl_connection := Some (c\<lparr>ag_out := ag_out c @ [Msg_Response (permission_answer p oid)]\<rparr>)\<rparr>]\<rparr>)"
  using assms
  by (simp add: respond_permission_def find_permission_at [OF assms(1-3)] upd_slot_def send_response_def
      on_slot_def get_slot_def put_slot_def slot_send_raw_def agent_send_raw_def)

lemma respond_unknown:
  "find_permission (am_slots m) rid = None \<Longrightarrow> run_state (respond_permission E rid oid) m = ((), m)"
  by (simp add: respond_permission_def)


section \<open>Properties\<close>

text \<open>
  Property C8.  The task that waits for a prompt ends with the agent's response exactly when no two
  consecutive signs of life (the start, each activity, the response) are further apart than the idle
  timeout, or the timeout is disabled; otherwise it reports the agent as idle.  It always ends.
\<close>

theorem prompt_wait_idle_timeout:
  "prompt_wait idle (t0 + idle) (map (\<lambda>t. (t, In_Activity)) ts @ (t, In_Response r) # rest) =
     Some (if idle = 0 \<or> quick idle t0 (ts @ [t]) then Task_Response r else Task_Idle)"
  by (rule prompt_wait_spec)



text \<open>
  Property C6.  A sequence of \<open>session/update\<close> messages of an agent reaches the channels in order,
  each under the session it belongs to: an update of a session that is being replayed after
  \<open>session/load\<close>, or of an unknown session, is dropped, every other one is delivered once, and a
  malformed one is reported as an error.
\<close>

theorem updates_delivered_in_order:
  assumes "events_flow E m" "i < length (am_slots m)"
  shows "\<exists>nows. length nows = length ps \<and>
    am_events (snd (run_state (for_each ps (handle_session_update E i)) m)) =
      am_events m @ concat (map2 (delivery E (am_slots m ! i)) nows ps)"
  using updates_delivery [OF assms] by (simp add: wp_snd)

theorem updates_delivered_in_order_witness:
  "\<exists>now. am_events (snd (run_state (for_each [JObj [(''sessionId'', JStr ''s1'')], JObj [(''sessionId'', JStr ''s9'')]]
      (handle_session_update demo_env 0)) demo_manager)) =
     [DeliverMessage demo_key (update_content now ''result'' (JObj [(''sessionId'', JStr ''s1'')]))]"
proof -
  let ?ps = "[JObj [(''sessionId'', JStr ''s1'')], JObj [(''sessionId'', JStr ''s9'')]]"
  have "events_flow demo_env demo_manager" "0 < length (am_slots demo_manager)"
    by (simp_all add: events_flow_def demo_setup)
  from updates_delivered_in_order [OF this, of ?ps]
  obtain nows where len: "length nows = length ?ps"
    and ev: "am_events (snd (run_state (for_each ?ps (handle_session_update demo_env 0)) demo_manager)) =
      am_events demo_manager @ concat (map2 (delivery demo_env (am_slots demo_manager ! 0)) nows ?ps)"
    by blast
  from len obtain a b where "nows = [a, b]" by (auto simp: length_Suc_conv)
  with ev show ?thesis
    by (simp add: delivery_def route_def demo_setup demo_maps jidx_def unwrap_or_def) blast
qed





end
