(* ===== verification/Content_Kind.thy ===== *)
theory Content_Kind
  imports Agents_Manager
begin

text \<open>
  The channel side of the wire types, \<open>crates/anyclaw-sdk-types/src/channel.rs\<close>: the messages a
  channel sends, and \<open>ContentKind::from_content\<close>, with which a channel classifies the content the
  agents manager delivers; \<open>content_to_string\<close> of \<open>anyclaw-sdk-channel\<close>.

  The lemmas connect the two ends: every content the agents manager makes itself is classified as
  what it is.
\<close>

section \<open>Messages\<close>

record peer_info =
  pi_channel_name :: string
  pi_peer_id :: string
  pi_kind :: string

record sender_info =
  si_sender_id :: "string option"
  si_sender_name :: "string option"

record channel_send_message =
  csm_peer_info :: peer_info
  csm_content :: "content_part list"
  csm_metadata :: "message_metadata option"
  csm_meta :: "json option"
  csm_sender_info :: "sender_info option"
  csm_was_mentioned :: "bool option"

definition peer_info_json :: "peer_info \<Rightarrow> json" where
  "peer_info_json p =
     JObj [(''channelName'', JStr (pi_channel_name p)), (''peerId'', JStr (pi_peer_id p)),
           (''kind'', JStr (pi_kind p))]"

definition channel_ack_config_json :: "channel_ack_config \<Rightarrow> json" where
  "channel_ack_config_json a =
     JObj [(''reaction'', JBool (cac_reaction a)), (''typing'', JBool (cac_typing a)),
           (''reactionEmoji'', JStr (cac_reaction_emoji a)),
           (''reactionLifecycle'', JStr (cac_reaction_lifecycle a))]"

definition permission_option_json :: "permission_option \<Rightarrow> json" where
  "permission_option_json p =
     JObj [(''optionId'', JStr (po_option_id p)), (''label'', JStr (po_label p))]"


section \<open>Classification\<close>

record thought_content =
  tht_session_id :: string
  tht_update_type :: string
  tht_content :: string

datatype content_kind =
    Kind_Thought thought_content
  | Kind_MessageChunk string
  | Kind_Result string bool
  | Kind_UserMessageChunk string
  | Kind_UsageUpdate
  | Kind_ToolCall string string "json option"
  | Kind_ToolCallUpdate string string string "string option" "json option" "int option"
  | Kind_AvailableCommands json
  | Kind_Image string
  | Kind_File string "string option" "string option"
  | Kind_Audio string "string option"
  | Kind_Unknown

definition extract_content_text :: "json \<Rightarrow> string" where
  "extract_content_text update =
     (case jget update ''content'' of
        Some c \<Rightarrow>
          (case Option.bind (jget c ''text'') as_str of
             Some t \<Rightarrow> t
           | None \<Rightarrow> unwrap_or (as_str c) '''')
      | None \<Rightarrow> '''')"

text \<open>\<open>c.get(f).or_else(|| c.get(g)).and_then(|u| u.as_str())\<close>.\<close>

definition str_field2 :: "json option \<Rightarrow> string \<Rightarrow> string \<Rightarrow> string option" where
  "str_field2 c f g = Option.bind (Option.bind c (\<lambda>c. opt_or (jget c f) (jget c g))) as_str"

definition str_field :: "json option \<Rightarrow> string \<Rightarrow> string option" where
  "str_field c f = Option.bind (Option.bind c (\<lambda>c. jget c f)) as_str"

definition message_chunk_kind :: "json \<Rightarrow> content_kind" where
  "message_chunk_kind update =
     (let c = jget update ''content''; ty = str_field c ''type''
      in if ty = Some ''image'' then Kind_Image (unwrap_or (str_field2 c ''uri'' ''url'') '''')
         else if ty = Some ''file''
         then Kind_File (unwrap_or (str_field2 c ''url'' ''uri'') '''') (str_field2 c ''filename'' ''name'')
                (str_field c ''mimeType'')
         else if ty = Some ''audio''
         then Kind_Audio (unwrap_or (str_field2 c ''data'' ''url'') '''') (str_field c ''mimeType'')
         else if ty = Some ''resource_link''
         then Kind_File (unwrap_or (str_field c ''uri'') '''') (str_field c ''name'') (str_field c ''mimeType'')
         else Kind_MessageChunk (extract_content_text update))"

definition tool_call_update_kind :: "json \<Rightarrow> content_kind" where
  "tool_call_update_kind update =
     Kind_ToolCallUpdate
       (unwrap_or (str_field (Some update) ''name'') '''')
       (unwrap_or (str_field (Some update) ''toolCallId'') '''')
       (unwrap_or (str_field (Some update) ''status'') '''')
       (str_field (Some update) ''output'')
       (jget update ''input'')
       (Option.bind (Option.bind (Option.bind (jget update ''rawOutput'') (\<lambda>r. jget r ''metadata''))
          (\<lambda>m. jget m ''exit'')) as_i64)"

definition from_content :: "json \<Rightarrow> content_kind" where
  "from_content content =
     (case jget content ''update'' of
        None \<Rightarrow> Kind_Unknown
      | Some update \<Rightarrow>
          (case str_field (Some update) ''sessionUpdate'' of
             None \<Rightarrow> Kind_Unknown
           | Some u \<Rightarrow>
               if u = ''agent_thought_chunk''
               then Kind_Thought \<lparr>tht_session_id = '''', tht_update_type = ''agent_thought_chunk'',
                      tht_content = extract_content_text update\<rparr>
               else if u = ''agent_message_chunk'' then message_chunk_kind update
               else if u = ''result''
               then Kind_Result (extract_content_text update)
                      (unwrap_or (Option.bind (jget update ''isError'') as_bool) False)
               else if u = ''user_message_chunk''
               then Kind_UserMessageChunk (extract_content_text update)
               else if u = ''usage_update'' then Kind_UsageUpdate
               else if u = ''tool_call''
               then Kind_ToolCall (unwrap_or (str_field (Some update) ''name'') '''')
                      (unwrap_or (str_field (Some update) ''toolCallId'') '''') (jget update ''input'')
               else if u = ''tool_call_update'' then tool_call_update_kind update
               else if u = ''available_commands_update''
               then Kind_AvailableCommands (unwrap_or (jget update ''availableCommands'') (JArr []))
               else Kind_Unknown))"

text \<open>\<open>content_to_string\<close>; \<open>ser\<close> is \<open>serde_json::to_string\<close>.\<close>

definition content_to_string :: "(json \<Rightarrow> string) \<Rightarrow> json \<Rightarrow> string" where
  "content_to_string ser content =
     (case Option.bind (jget content ''text'') as_str of
        Some t \<Rightarrow> t
      | None \<Rightarrow> (case content of JStr s \<Rightarrow> s | other \<Rightarrow> ser other))"


section \<open>Properties\<close>

text \<open>The kind that stands for a part of a message.\<close>

fun kind_of_part :: "content_part \<Rightarrow> content_kind" where
  "kind_of_part (Part_Text t) = Kind_MessageChunk t"
| "kind_of_part (Part_Image u) = Kind_Image u"
| "kind_of_part (Part_File u fn mt) = Kind_File u fn mt"
| "kind_of_part (Part_Audio u mt) = Kind_Audio u mt"

lemmas kind_defs = from_content_def message_chunk_kind_def str_field_def str_field2_def
  extract_content_text_def opt_or_def unwrap_or_def hm_get_def skip_none_def Let_def

lemma pushed_part:
  "from_content (JObj [(''update'', JObj [(''sessionUpdate'', JStr ''agent_message_chunk''),
     (''content'', content_part_json p)])]) = kind_of_part p"
proof (cases p)
  case (Part_File u fn mt)
  then show ?thesis by (cases fn; cases mt) (simp_all add: kind_defs)
next
  case (Part_Audio u mt)
  then show ?thesis by (cases mt) (simp_all add: kind_defs)
qed (simp_all add: kind_defs)

text \<open>
  A channel classifies the content that the agents manager makes as what it is: a
  pushed block as the part it was converted to, an error as a failed result with its text, the result
  it adds at the end of a prompt as a successful empty result, and its own replies to platform
  commands as text.
\<close>

lemma delivered_content_classified:
  "from_content (push_content b) = kind_of_part (content_block_to_part b) \<and>
   from_content (error_result msg) = Kind_Result msg True \<and>
   from_content (synthetic_result acp reason) = Kind_Result '''' False \<and>
   from_content (chunk_content msg) = Kind_MessageChunk msg"
  unfolding push_content_def pushed_part
  by (simp add: error_result_def synthetic_result_def chunk_content_def kind_defs)

end
