(* ===== verification/Channels_State.thy ===== *)
theory Channels_State
  imports Content_Kind Access_Control
begin

text \<open>
  \<open>crates/anyclaw-channels/src/manager.rs\<close>: the state of the channels manager and what it asks of
  its surroundings.

  As for the agents manager, everything the methods learn from outside (the channel processes, the
  agents manager behind its handle, the clock, the context store's faults, serde) is in a record of
  functions of a tick that every question advances.  \<open>chm_sent\<close> lists the commands the agents manager
  was sent, \<open>chm_waiting\<close> the spawned tasks that wait for a permission response, \<open>chm_streams\<close> the
  slots whose incoming messages are in \<open>channel_streams\<close>.
\<close>

section \<open>State\<close>

record routing_entry =
  re_channel_id :: string
  re_acp_session_id :: string
  re_slot_index :: nat
  re_agent_name :: string

record channel_slot =
  chs_name :: string
  chs_config :: channel_config
  chs_connection :: "channel_connection option"
  chs_channel_id :: string
  chs_lifecycle :: slot_lifecycle

record permission_task =
  pmt_request_id :: string
  pmt_slot :: nat
  pmt_wire_id :: u64

record channels_manager =
  chm_channel_configs :: "(string \<times> channel_config) list"
  chm_init_timeout_secs :: u64
  chm_exit_timeout_secs :: u64
  chm_permission_timeout_secs :: "u64 option"
  chm_slots :: "channel_slot list"
  chm_routing :: "(session_key, routing_entry) hmap"
  chm_agents_handle :: bool
  chm_acked :: "session_key set"
  chm_context_store :: dyn_store
  chm_sent :: "agents_command list"
  chm_waiting :: "permission_task list"
  chm_streams :: "nat set"
  chm_panicked :: bool
  chm_tick :: nat

definition channels_manager_new ::
  "(string \<times> channel_config) list \<Rightarrow> u64 \<Rightarrow> u64 \<Rightarrow> channels_manager" where
  "channels_manager_new configs init_timeout exit_timeout =
     \<lparr>chm_channel_configs = configs, chm_init_timeout_secs = init_timeout,
      chm_exit_timeout_secs = exit_timeout, chm_permission_timeout_secs = None, chm_slots = [],
      chm_routing = [], chm_agents_handle = False, chm_acked = {}, chm_context_store = Noop_Store,
      chm_sent = [], chm_waiting = [], chm_streams = {}, chm_panicked = False, chm_tick = 0\<rparr>"

definition with_agents_handle :: "channels_manager \<Rightarrow> channels_manager" where
  "with_agents_handle m = m\<lparr>chm_agents_handle := True\<rparr>"

definition with_permission_timeout :: "u64 option \<Rightarrow> channels_manager \<Rightarrow> channels_manager" where
  "with_permission_timeout t m = m\<lparr>chm_permission_timeout_secs := t\<rparr>"

definition with_context_store :: "dyn_store \<Rightarrow> channels_manager \<Rightarrow> channels_manager" where
  "with_context_store st m = m\<lparr>chm_context_store := st\<rparr>"

definition agent_name_for_channel :: "channels_manager \<Rightarrow> nat \<Rightarrow> string" where
  "agent_name_for_channel m i = chc_agent (chs_config (chm_slots m ! i))"

definition channel_port :: "channels_manager \<Rightarrow> string \<Rightarrow> u16 option" where
  "channel_port m name =
     Option.bind (List.find (\<lambda>s. chs_name s = name) (chm_slots m))
       (\<lambda>s. map_option cn_port (chs_connection s))"

definition resolve_init_timeout :: "channels_manager \<Rightarrow> channel_config \<Rightarrow> duration" where
  "resolve_init_timeout m c =
     from_secs (unwrap_or (chc_init_timeout_secs c) (chm_init_timeout_secs m))"

definition build_slot_lifecycle :: "channel_config \<Rightarrow> bool \<Rightarrow> slot_lifecycle" where
  "build_slot_lifecycle c parent_cancel =
     slot_lifecycle_new parent_cancel
       (case chc_backoff c of
          Some b \<Rightarrow> backoff_new (from_millis (bc_base_delay_ms b)) (from_secs (bc_max_delay_secs b))
        | None \<Rightarrow> backoff_default)
       (case chc_crash_tracker c of
          Some t \<Rightarrow> tracker_new (ctc_max_crashes t) (from_secs (ctc_window_secs t))
        | None \<Rightarrow> tracker_default)"


section \<open>The environment\<close>

record channel_init_result =
  cir_protocol_version :: u32
  cir_capabilities :: channel_capabilities
  cir_defaults :: "(string, json) hmap option"

record channel_env =
  ce_spawn :: "nat \<Rightarrow> channel_config \<Rightarrow> channels_error + unit"
  ce_stdin_ok :: "nat \<Rightarrow> bool"
  ce_reply :: "nat \<Rightarrow> rpc_outcome"
  ce_create :: "nat \<Rightarrow> string \<Rightarrow> session_key \<Rightarrow> (string + string) tools_reply"
  ce_enqueue :: "nat \<Rightarrow> (string + unit) tools_reply"
  ce_handle_ok :: "nat \<Rightarrow> bool"
  ce_now_secs :: "nat \<Rightarrow> int"
  ce_instant :: "nat \<Rightarrow> instant"
  ce_store_fault :: "nat \<Rightarrow> fault"
  ce_lower :: "string \<Rightarrow> string"
  ce_stop_json :: "stop_reason \<Rightarrow> json"
  dec_ack :: "json \<Rightarrow> ack_config option"
  dec_channel_init :: "json \<Rightarrow> string + channel_init_result"
  dec_send_message :: "json \<Rightarrow> channel_send_message option"
  dec_respond :: "json \<Rightarrow> (string \<times> string) option"

type_synonym 'a cm = "(channels_manager, 'a) state"

definition cask :: "(nat \<Rightarrow> 'a) \<Rightarrow> 'a cm" where
  "cask f = State (\<lambda>m. (f (chm_tick m), m\<lparr>chm_tick := Suc (chm_tick m)\<rparr>))"

lemma run_cask [simp]: "run_state (cask f) m = (f (chm_tick m), m\<lparr>chm_tick := Suc (chm_tick m)\<rparr>)"
  by (simp add: cask_def)

lemma wp_cask [wp_simps]: "wp (cask f) Q m \<longleftrightarrow> Q (f (chm_tick m)) (m\<lparr>chm_tick := Suc (chm_tick m)\<rparr>)"
  by (simp add: wp_def)

definition get_chan :: "nat \<Rightarrow> channel_slot cm" where
  "get_chan i = gets (\<lambda>m. chm_slots m ! i)"

definition upd_chan :: "nat \<Rightarrow> (channel_slot \<Rightarrow> channel_slot) \<Rightarrow> unit cm" where
  "upd_chan i f = modify (\<lambda>m. m\<lparr>chm_slots := (chm_slots m)[i := f (chm_slots m ! i)]\<rparr>)"

text \<open>\<open>conn.send_notification(..)\<close> on a slot, where the slot has a connection; the error is logged.\<close>

definition chan_notify :: "channel_env \<Rightarrow> nat \<Rightarrow> string \<Rightarrow> json \<Rightarrow> unit cm" where
  "chan_notify E i meth params = do {
     s \<leftarrow> get_chan i;
     case chs_connection s of
       None \<Rightarrow> ret ()
     | Some c \<Rightarrow> do {
         ok \<leftarrow> cask (ce_stdin_ok E);
         upd_chan i (\<lambda>s. s\<lparr>chs_connection := Some (snd (channel_send_notification ok meth params c))\<rparr>)
       }
   }"

text \<open>\<open>conn.send_request(..)\<close> on a slot; \<open>None\<close> without a connection.\<close>

definition chan_request :: "channel_env \<Rightarrow> nat \<Rightarrow> string \<Rightarrow> json \<Rightarrow> (channels_error + u64) option cm" where
  "chan_request E i meth params = do {
     s \<leftarrow> get_chan i;
     case chs_connection s of
       None \<Rightarrow> ret None
     | Some c \<Rightarrow> do {
         ok \<leftarrow> cask (ce_stdin_ok E);
         let (r, c') = channel_send_request ok meth params c;
         upd_chan i (\<lambda>s. s\<lparr>chs_connection := Some c'\<rparr>);
         ret (Some r)
       }
   }"

text \<open>A command through \<open>agents_handle\<close>, where there is one.\<close>

definition tell_agents :: "channel_env \<Rightarrow> agents_command \<Rightarrow> unit cm" where
  "tell_agents E cmd = do {
     ok \<leftarrow> cask (ce_handle_ok E);
     if ok then modify (\<lambda>m. m\<lparr>chm_sent := chm_sent m @ [cmd]\<rparr>) else ret ()
   }"

end
