(* ===== verification/Channels_Manager.thy ===== *)
theory Channels_Manager
  imports Channels_State "HOL-Library.Signed_Division"
begin

text \<open>
  The methods of the channels manager (\<open>crates/anyclaw-channels/src/manager.rs\<close>), in the order of
  the source: the life of the channel processes, what the agents manager sends to channels, what
  channels send, and the event loop.
\<close>

section \<open>Channel processes\<close>

definition spawn_and_initialize ::
  "channel_env \<Rightarrow> channel_config \<Rightarrow> string \<Rightarrow> duration
    \<Rightarrow> (channels_error + channel_connection \<times> channel_capabilities \<times> (string, json) hmap option) cm" where
  "spawn_and_initialize E config channel_id init_timeout = do {
     r \<leftarrow> cask (\<lambda>t. ce_spawn E t config);
     case r of
       Inl e \<Rightarrow> ret (Inl e)
     | Inr _ \<Rightarrow> do {
         let ack = unwrap_or (Option.bind (hm_get (chc_options config) ''ack'') (dec_ack E)) ack_config_default;
         let params = JObj [(''protocolVersion'', JInt 1), (''channelId'', JStr channel_id),
           (''ack'', channel_ack_config_json (channel_ack_config_from ack)),
           (''options'', JObj (chc_options config))];
         ok \<leftarrow> cask (ce_stdin_ok E);
         let (q, c) = channel_send_request ok ''initialize'' params (channel_conn_new channel_id);
         case q of
           Inl e \<Rightarrow> ret (Inl e)
         | Inr i \<Rightarrow> do {
             outcome \<leftarrow> cask (ce_reply E);
             ret (case outcome of
                    Rpc_Timeout \<Rightarrow> Inl (Ch_Timeout init_timeout)
                  | Rpc_Dropped \<Rightarrow> Inl Ch_ConnectionClosed
                  | Rpc_Response resp \<Rightarrow>
                      (case resp_result resp of
                         None \<Rightarrow> Inl (Ch_InitializeFailed ''no result in response'')
                       | Some v \<Rightarrow>
                           (case dec_channel_init E v of
                              Inl e \<Rightarrow> Inl (Ch_Json e)
                            | Inr result \<Rightarrow>
                                Inr (set_capabilities (cir_capabilities result)
                                       (c\<lparr>cn_pending := filter (\<lambda>j. j \<noteq> i) (cn_pending c)\<rparr>),
                                     cir_capabilities result, cir_defaults result))))
           }
       }
   }"

text \<open>\<open>for (k, v) in extension_defaults { options.entry(k).or_insert(v) }\<close>.\<close>

definition merge_defaults :: "(string, json) hmap option \<Rightarrow> channel_config \<Rightarrow> channel_config" where
  "merge_defaults defaults c =
     (case defaults of
        None \<Rightarrow> c
      | Some d \<Rightarrow> c\<lparr>chc_options := hm_defaults (chc_options c) d\<rparr>)"

definition handle_channel_crash :: "channel_env \<Rightarrow> nat \<Rightarrow> unit cm" where
  "handle_channel_crash E i = do {
     now \<leftarrow> cask (ce_instant E);
     now' \<leftarrow> cask (ce_instant E);
     s \<leftarrow> get_chan i;
     case record_crash_and_check now now' (chs_lifecycle s) of
       None \<Rightarrow> modify (\<lambda>m. m\<lparr>chm_panicked := True\<rparr>)
     | Some (Crash_Disabled, lc) \<Rightarrow> upd_chan i (\<lambda>s. s\<lparr>chs_lifecycle := lc, chs_connection := None\<rparr>)
     | Some (RestartAfter d, lc) \<Rightarrow> do {
         upd_chan i (\<lambda>s. s\<lparr>chs_lifecycle := lc\<rparr>);
         init_timeout \<leftarrow> gets chm_init_timeout_secs;
         r \<leftarrow> spawn_and_initialize E (chs_config s) (chs_channel_id s) (from_secs init_timeout);
         case r of
           Inr (conn, caps, defaults) \<Rightarrow>
             upd_chan i (\<lambda>s. s\<lparr>chs_connection := Some conn,
               chs_lifecycle := (chs_lifecycle s)\<lparr>backoff := backoff_reset (backoff (chs_lifecycle s))\<rparr>,
               chs_config := merge_defaults defaults (chs_config s)\<rparr>)
         | Inl e \<Rightarrow> upd_chan i (\<lambda>s. s\<lparr>chs_connection := None\<rparr>)
       }
   }"


section \<open>Permissions\<close>

text \<open>The command the spawned task sends when its wait for the channel's response ends.\<close>

definition permission_command :: "string \<Rightarrow> rpc_outcome \<Rightarrow> agents_command" where
  "permission_command request_id outcome =
     (case outcome of
        Rpc_Response resp \<Rightarrow>
          RespondPermission request_id
            (unwrap_or (Option.bind (Option.bind (resp_result resp) (\<lambda>r. jget r ''optionId'')) as_str) ''once'')
      | _ \<Rightarrow> RespondPermission request_id ''denied'')"

definition permission_params :: "string \<Rightarrow> string \<Rightarrow> string \<Rightarrow> permission_option list \<Rightarrow> json" where
  "permission_params request_id acp description options =
     JObj [(''requestId'', JStr request_id), (''sessionId'', JStr acp),
           (''description'', JStr description), (''options'', JArr (map permission_option_json options))]"

definition route_permission_event ::
  "channel_env \<Rightarrow> session_key \<Rightarrow> string \<Rightarrow> string \<Rightarrow> permission_option list \<Rightarrow> unit cm" where
  "route_permission_event E k request_id description options = do {
     m \<leftarrow> gets id;
     case hm_get (chm_routing m) k of
       None \<Rightarrow> ret ()
     | Some entry \<Rightarrow> do {
         r \<leftarrow> chan_request E (re_slot_index entry) ''channel/requestPermission''
           (permission_params request_id (re_acp_session_id entry) description options);
         case r of
           Some (Inr i) \<Rightarrow>
             if chm_agents_handle m
             then modify (\<lambda>m. m\<lparr>chm_waiting := chm_waiting m @
               [\<lparr>pmt_request_id = request_id, pmt_slot = re_slot_index entry, pmt_wire_id = i\<rparr>]\<rparr>)
             else ret ()
         | _ \<Rightarrow> ret ()
       }
   }"


section \<open>Commands and events of the agents manager\<close>

datatype channels_command =
    DeliverToChannel string json
  | RouteToChannel string string string "permission_option list"
  | Channels_Shutdown

definition deliver_params :: "string \<Rightarrow> json \<Rightarrow> json" where
  "deliver_params acp content = JObj [(''sessionId'', JStr acp), (''content'', content)]"

definition channels_shutdown_all :: "unit cm" where
  "channels_shutdown_all =
     modify (\<lambda>m. m\<lparr>chm_slots := map (\<lambda>s. s\<lparr>chs_connection := None,
       chs_lifecycle := (chs_lifecycle s)\<lparr>cancel_token := True\<rparr>\<rparr>) (chm_slots m)\<rparr>)"

fun handle_channels_command :: "channel_env \<Rightarrow> channels_command \<Rightarrow> bool cm" where
  "handle_channels_command E (DeliverToChannel session_key content) = do {
     m \<leftarrow> gets id;
     (case hm_get (chm_routing m) (key_from session_key) of
        None \<Rightarrow> ret ()
      | Some entry \<Rightarrow>
          chan_notify E (re_slot_index entry) ''channel/deliverMessage''
            (deliver_params (re_acp_session_id entry) content));
     ret False
   }"
| "handle_channels_command E (RouteToChannel session_key request_id description options) = do {
     route_permission_event E (key_from session_key) request_id description options;
     ret False
   }"
| "handle_channels_command E Channels_Shutdown = do { channels_shutdown_all; ret True }"

definition lifecycle_params :: "string \<Rightarrow> string \<Rightarrow> (string \<times> json) list \<Rightarrow> json" where
  "lifecycle_params acp action extra = JObj ([(''sessionId'', JStr acp), (''action'', JStr action)] @ extra)"

definition handle_deliver_message :: "channel_env \<Rightarrow> session_key \<Rightarrow> json \<Rightarrow> unit cm" where
  "handle_deliver_message E k content = do {
     m \<leftarrow> gets id;
     case hm_get (chm_routing m) k of
       None \<Rightarrow> ret ()
     | Some entry \<Rightarrow> do {
         (if k \<in> chm_acked m then ret ()
          else do {
            modify (\<lambda>m. m\<lparr>chm_acked := insert k (chm_acked m)\<rparr>);
            chan_notify E (re_slot_index entry) ''channel/ackLifecycle''
              (lifecycle_params (re_acp_session_id entry) ''response_started'' [])
          });
         chan_notify E (re_slot_index entry) ''channel/deliverMessage''
           (deliver_params (re_acp_session_id entry) content)
       }
   }"

definition handle_session_complete :: "channel_env \<Rightarrow> session_key \<Rightarrow> stop_reason \<Rightarrow> unit cm" where
  "handle_session_complete E k stop_reason = do {
     m \<leftarrow> gets id;
     case hm_get (chm_routing m) k of
       None \<Rightarrow> ret ()
     | Some entry \<Rightarrow>
         chan_notify E (re_slot_index entry) ''channel/ackLifecycle''
           (lifecycle_params (re_acp_session_id entry) ''response_completed''
             [(''stopReason'', ce_stop_json E stop_reason)])
   }"

definition peer_of_key :: "session_key \<Rightarrow> string" where
  "peer_of_key k = (case splitn 3 (CHR '':'') (key_to_string k) of [_, _, p] \<Rightarrow> p | _ \<Rightarrow> '''')"

definition send_ack_to_channel :: "channel_env \<Rightarrow> session_key \<Rightarrow> unit cm" where
  "send_ack_to_channel E k = do {
     m \<leftarrow> gets id;
     case hm_get (chm_routing m) k of
       None \<Rightarrow> ret ()
     | Some entry \<Rightarrow>
         chan_notify E (re_slot_index entry) ''channel/ackMessage''
           (JObj [(''sessionId'', JStr (re_acp_session_id entry)),
                  (''channelName'', JStr (chs_name (chm_slots m ! re_slot_index entry))),
                  (''peerId'', JStr (peer_of_key k)), (''messageId'', JNull)])
   }"

definition handle_dispatch_started :: "channel_env \<Rightarrow> session_key \<Rightarrow> unit cm" where
  "handle_dispatch_started E k = do {
     modify (\<lambda>m. m\<lparr>chm_acked := chm_acked m - {k}\<rparr>);
     send_ack_to_channel E k;
     m \<leftarrow> gets id;
     case hm_get (chm_routing m) k of
       None \<Rightarrow> ret ()
     | Some entry \<Rightarrow>
         chan_notify E (re_slot_index entry) ''channel/typingIndicator''
           (JObj [(''sessionId'', JStr (re_acp_session_id entry)),
                  (''channelName'', JStr (chs_name (chm_slots m ! re_slot_index entry)))])
   }"

fun handle_channel_event :: "channel_env \<Rightarrow> channel_event \<Rightarrow> unit cm" where
  "handle_channel_event E (DeliverMessage k content) = handle_deliver_message E k content"
| "handle_channel_event E (SessionComplete k reason) = handle_session_complete E k reason"
| "handle_channel_event E (RoutePermission k request_id description options) =
     route_permission_event E k request_id description options"
| "handle_channel_event E (AckMessage k channel peer message) = ret ()"
| "handle_channel_event E (DispatchStarted k) = handle_dispatch_started E k"

section \<open>Messages of the channels\<close>

definition parse_channel_message :: "incoming_channel_message \<Rightarrow> string \<times> json" where
  "parse_channel_message msg =
     (let r = (case msg of ChannelRequest r \<Rightarrow> r | ChannelNotification r \<Rightarrow> r)
      in (req_method r, unwrap_or (req_params r) JNull))"

definition build_session_key :: "channel_send_message \<Rightarrow> session_key" where
  "build_session_key msg =
     (let p = csm_peer_info msg in session_key_new (pi_channel_name p) (pi_kind p) (pi_peer_id p))"

text \<open>Rust's \<open>%\<close> and \<open>/\<close> on \<open>i64\<close>, and \<open>{:02}\<close>.\<close>

definition two_digits :: "int \<Rightarrow> string" where
  "two_digits i = (if 0 \<le> i \<and> i < 10 then CHR ''0'' # show_int i else show_int i)"

definition format_timestamp :: "int \<Rightarrow> string" where
  "format_timestamp unix_secs =
     (let secs_in_day = unix_secs smod 86400; h = secs_in_day sdiv 3600; m = (secs_in_day smod 3600) sdiv 60
      in two_digits h @ '':'' @ two_digits m)"

definition format_context_block :: "context_message list \<Rightarrow> string" where
  "format_context_block messages =
     ''[Recent group messages for context]'' @ NEWLINE
     @ concat (map (\<lambda>c. ''['' @ cm_sender c @ '', '' @ format_timestamp (cm_timestamp c) @ ''] ''
         @ cm_content c @ NEWLINE) messages)
     @ NEWLINE @ ''[Current message]'' @ NEWLINE"

definition message_sender :: "channel_send_message \<Rightarrow> sender_identity" where
  "message_sender msg =
     (case csm_sender_info msg of
        None \<Rightarrow> \<lparr>user_id = None, username = None\<rparr>
      | Some si \<Rightarrow> \<lparr>user_id = Option.bind (si_sender_id si) parse_i64, username = si_sender_name si\<rparr>)"

definition reply_sender :: "message_metadata \<Rightarrow> sender_identity" where
  "reply_sender md = \<lparr>user_id = Option.bind (reply_to_sender_id md) parse_i64, username = reply_to_sender md\<rparr>"

definition is_group_message :: "channel_send_message \<Rightarrow> bool" where
  "is_group_message msg = (pi_kind (csm_peer_info msg) \<in> {''group'', ''supergroup''})"

definition chat_id_of :: "channel_send_message \<Rightarrow> int" where
  "chat_id_of msg =
     unwrap_or (Option.bind (split_once (CHR '':'') (pi_peer_id (csm_peer_info msg))) (\<lambda>(_, i). parse_i64 i)) 0"

definition text_content :: "content_part list \<Rightarrow> string" where
  "text_content parts = str_join '' '' (List.map_filter (\<lambda>p. case p of Part_Text t \<Rightarrow> Some t | _ \<Rightarrow> None) parts)"

definition context_limit :: "json \<Rightarrow> nat" where
  "context_limit options = unwrap_or (Option.bind (jget options ''context_history_limit'') as_u64) 50"

definition context_message_of :: "channel_send_message \<Rightarrow> int \<Rightarrow> context_message" where
  "context_message_of msg now =
     \<lparr>cm_group_key = pi_peer_id (csm_peer_info msg),
      cm_sender = unwrap_or (Option.bind (csm_sender_info msg) si_sender_name) ''unknown'',
      cm_content = text_content (csm_content msg), cm_timestamp = now\<rparr>"

text \<open>The branch \<open>SkipNoMention\<close>: keep the message as context.\<close>

definition buffer_context :: "channel_env \<Rightarrow> json \<Rightarrow> channel_send_message \<Rightarrow> unit cm" where
  "buffer_context E options msg =
     (if context_limit options = 0 then ret ()
      else do {
        now \<leftarrow> cask (ce_now_secs E);
        f \<leftarrow> cask (ce_store_fault E);
        f' \<leftarrow> cask (ce_store_fault E);
        modify (\<lambda>m. m\<lparr>chm_context_store := snd (dyn_store_context f f' (context_message_of msg now)
          (context_limit options) (chm_context_store m))\<rparr>)
      })"

text \<open>The buffered context goes in front of a message that mentions the bot.\<close>

definition add_context :: "channel_env \<Rightarrow> channel_send_message \<Rightarrow> channel_send_message cm" where
  "add_context E msg = do {
     f \<leftarrow> cask (ce_store_fault E);
     f' \<leftarrow> cask (ce_store_fault E);
     st \<leftarrow> gets chm_context_store;
     let (r, st') = dyn_take_context f f' (pi_peer_id (csm_peer_info msg)) st;
     modify (\<lambda>m. m\<lparr>chm_context_store := st'\<rparr>);
     ret (case r of
            Inr (c # cs) \<Rightarrow> msg\<lparr>csm_content := Part_Text (format_context_block (c # cs)) # csm_content msg\<rparr>
          | _ \<Rightarrow> msg)
   }"

definition suppress_reply :: "access_config \<Rightarrow> channel_send_message \<Rightarrow> channel_send_message" where
  "suppress_reply cfg msg =
     (case csm_metadata msg of
        Some md \<Rightarrow>
          if should_suppress_reply_context cfg (chat_id_of msg) (reply_sender md) True
          then msg\<lparr>csm_metadata := None\<rparr> else msg
      | None \<Rightarrow> msg)"

text \<open>The access control part of \<open>collect_send_message\<close>; \<open>None\<close> drops the message.\<close>

definition gate_message :: "channel_env \<Rightarrow> nat \<Rightarrow> channel_send_message \<Rightarrow> channel_send_message option cm" where
  "gate_message E i msg = do {
     s \<leftarrow> get_chan i;
     let options = JObj (chc_options (chs_config s));
     if jget options ''access_control'' = None then ret (Some msg)
     else do {
       let cfg = from_options (ce_lower E) options;
       let is_group = is_group_message msg;
       let mentioned = unwrap_or (csm_was_mentioned msg) False;
       case evaluate_access cfg (chat_id_of msg) (message_sender msg) is_group mentioned of
         Deny reason \<Rightarrow> ret None
       | SkipNoMention \<Rightarrow> do { buffer_context E options msg; ret None }
       | Allow \<Rightarrow> do {
           msg' \<leftarrow> (if is_group \<and> mentioned then add_context E msg else ret msg);
           ret (Some (if is_group then suppress_reply cfg msg' else msg'))
         }
     }
   }"

definition channel_error_params :: "string \<Rightarrow> string \<Rightarrow> json" where
  "channel_error_params acp msg = deliver_params acp (error_result msg)"

definition enqueue_to_agent ::
  "channel_env \<Rightarrow> session_key \<Rightarrow> content_part list \<Rightarrow> message_metadata option \<Rightarrow> string \<Rightarrow> unit cm" where
  "enqueue_to_agent E k content metadata agent_name = do {
     m \<leftarrow> gets id;
     if \<not> chm_agents_handle m then ret ()
     else do {
       r \<leftarrow> cask (ce_enqueue E);
       case r of
         Tools_SendFailed e \<Rightarrow> ret ()
       | _ \<Rightarrow> do {
           modify (\<lambda>m. m\<lparr>chm_sent := chm_sent m @ [EnqueueMessage agent_name k content metadata]\<rparr>);
           case r of
             Tools_Reply (Inl e) \<Rightarrow>
               (case hm_get (chm_routing m) k of
                  None \<Rightarrow> ret ()
                | Some entry \<Rightarrow>
                    chan_notify E (re_slot_index entry) ''channel/deliverMessage''
                      (channel_error_params (re_acp_session_id entry) (''Session recovery failed: '' @ e)))
           | _ \<Rightarrow> ret ()
         }
     }
   }"

definition ensure_session_created ::
  "channel_env \<Rightarrow> nat \<Rightarrow> session_key \<Rightarrow> channel_send_message \<Rightarrow> string \<Rightarrow> bool cm" where
  "ensure_session_created E i k msg agent_name = do {
     m \<leftarrow> gets id;
     if hm_has (chm_routing m) k then ret True
     else do {
       r \<leftarrow> cask (\<lambda>t. ce_create E t agent_name k);
       case r of
         Tools_SendFailed e \<Rightarrow> ret False
       | _ \<Rightarrow> do {
           modify (\<lambda>m. m\<lparr>chm_sent := chm_sent m @ [CreateSession agent_name k]\<rparr>);
           case r of
             Tools_Reply (Inr acp) \<Rightarrow> do {
               modify (\<lambda>m. m\<lparr>chm_routing := hm_insert k
                 \<lparr>re_channel_id = chs_channel_id (chm_slots m ! i), re_acp_session_id = acp,
                  re_slot_index = i, re_agent_name = agent_name\<rparr> (chm_routing m)\<rparr>);
               chan_notify E i ''channel/sessionCreated''
                 (JObj [(''sessionId'', JStr acp), (''peerInfo'', peer_info_json (csm_peer_info msg))]);
               ret True
             }
           | Tools_Reply (Inl e) \<Rightarrow> do {
               chan_notify E i ''channel/deliverMessage''
                 (channel_error_params '''' (''Failed to create session: '' @ e));
               ret False
             }
           | _ \<Rightarrow> do {
               chan_notify E i ''channel/deliverMessage''
                 (channel_error_params '''' ''Failed to create session: internal error (reply dropped)'');
               ret False
             }
         }
     }
   }"

definition collect_send_message :: "channel_env \<Rightarrow> nat \<Rightarrow> json \<Rightarrow> unit cm" where
  "collect_send_message E i params =
     (case dec_send_message E params of
        None \<Rightarrow> ret ()
      | Some msg \<Rightarrow> do {
          gated \<leftarrow> gate_message E i msg;
          case gated of
            None \<Rightarrow> ret ()
          | Some msg \<Rightarrow> do {
              m \<leftarrow> gets id;
              let k = build_session_key msg;
              if \<not> chm_agents_handle m then ret ()
              else do {
                let agent_name = agent_name_for_channel m i;
                ready \<leftarrow> ensure_session_created E i k msg agent_name;
                if \<not> ready then ret ()
                else enqueue_to_agent E k (csm_content msg) (csm_metadata msg) agent_name
              }
            }
        })"

definition handle_respond_permission :: "channel_env \<Rightarrow> json \<Rightarrow> unit cm" where
  "handle_respond_permission E params =
     (case dec_respond E params of
        None \<Rightarrow> ret ()
      | Some (request_id, option_id) \<Rightarrow> do {
          handle \<leftarrow> gets chm_agents_handle;
          if handle then tell_agents E (RespondPermission request_id option_id) else ret ()
        })"

definition collect_channel_message :: "channel_env \<Rightarrow> nat \<Rightarrow> incoming_channel_message \<Rightarrow> unit cm" where
  "collect_channel_message E i msg =
     (let (meth, params) = parse_channel_message msg
      in if meth = ''channel/sendMessage'' then collect_send_message E i params
         else if meth = ''channel/respondPermission'' then handle_respond_permission E params
         else ret ())"


section \<open>Life cycle\<close>

definition start_channel_slot :: "channel_env \<Rightarrow> string \<Rightarrow> channel_config \<Rightarrow> channel_slot cm" where
  "start_channel_slot E name config = do {
     m \<leftarrow> gets id;
     r \<leftarrow> spawn_and_initialize E config name (resolve_init_timeout m config);
     ret (case r of
            Inr (conn, caps, defaults) \<Rightarrow>
              \<lparr>chs_name = name, chs_config = merge_defaults defaults config, chs_connection = Some conn,
               chs_channel_id = name, chs_lifecycle = build_slot_lifecycle config False\<rparr>
          | Inl e \<Rightarrow>
              \<lparr>chs_name = name, chs_config = config, chs_connection = None,
               chs_channel_id = name, chs_lifecycle = build_slot_lifecycle config False\<rparr>)
   }"

definition channels_start :: "channel_env \<Rightarrow> unit cm" where
  "channels_start E = do {
     configs \<leftarrow> gets chm_channel_configs;
     for_each configs (\<lambda>(name, config).
       if \<not> chc_enabled config then ret ()
       else do {
         s \<leftarrow> start_channel_slot E name config;
         modify (\<lambda>m. m\<lparr>chm_slots := chm_slots m @ [s]\<rparr>)
       })
   }"

text \<open>The start of \<open>run\<close>: the streams of the connected slots.\<close>

definition open_streams :: "unit cm" where
  "open_streams = modify (\<lambda>m. m\<lparr>chm_streams :=
     {i. i < length (chm_slots m) \<and> chs_connection (chm_slots m ! i) \<noteq> None}\<rparr>)"

definition channels_health_check :: "channels_manager \<Rightarrow> bool" where
  "channels_health_check m =
     list_ex (\<lambda>s. chs_connection s \<noteq> None \<and> \<not> disabled (chs_lifecycle s)) (chm_slots m)"

text \<open>
  One turn of \<open>run\<close>.  \<open>Ch_Permission j\<close> is the end of the wait of the \<open>j\<close>-th permission task.
\<close>

datatype channel_turn_event =
    Ch_Command channels_command
  | Ch_Event channel_event
  | Ch_Message nat incoming_channel_message
  | Ch_Exit nat
  | Ch_Permission nat rpc_outcome
  | Ch_Cancelled

fun channels_turn :: "channel_env \<Rightarrow> channel_turn_event \<Rightarrow> bool cm" where
  "channels_turn E (Ch_Command cmd) = handle_channels_command E cmd"
| "channels_turn E (Ch_Event ev) = do { handle_channel_event E ev; ret False }"
| "channels_turn E (Ch_Message i msg) = do { collect_channel_message E i msg; ret False }"
| "channels_turn E (Ch_Exit i) = do {
     modify (\<lambda>m. m\<lparr>chm_streams := chm_streams m - {i}\<rparr>);
     handle_channel_crash E i;
     s \<leftarrow> get_chan i;
     (if chs_connection s \<noteq> None then modify (\<lambda>m. m\<lparr>chm_streams := insert i (chm_streams m)\<rparr>) else ret ());
     ret False
   }"
| "channels_turn E (Ch_Permission j outcome) = do {
     waiting \<leftarrow> gets chm_waiting;
     modify (\<lambda>m. m\<lparr>chm_waiting := take j (chm_waiting m) @ drop (Suc j) (chm_waiting m)\<rparr>);
     tell_agents E (permission_command (pmt_request_id (waiting ! j)) outcome);
     ret False
   }"
| "channels_turn E Ch_Cancelled = do { channels_shutdown_all; ret True }"

fun channel_event_enabled :: "channels_manager \<Rightarrow> channel_turn_event \<Rightarrow> bool" where
  "channel_event_enabled m (Ch_Message i msg) \<longleftrightarrow> i \<in> chm_streams m"
| "channel_event_enabled m (Ch_Exit i) \<longleftrightarrow> i \<in> chm_streams m"
| "channel_event_enabled m (Ch_Permission j outcome) \<longleftrightarrow>
     j < length (chm_waiting m) \<and> (outcome = Rpc_Timeout \<longrightarrow> chm_permission_timeout_secs m \<noteq> None)"
| "channel_event_enabled m _ \<longleftrightarrow> True"

inductive channels_run ::
  "channel_env \<Rightarrow> channels_manager \<Rightarrow> channel_turn_event list \<Rightarrow> channels_manager \<Rightarrow> bool"
  for E m0 where
  chan_start: "channels_run E m0 [] m0"
| chan_turn: "channels_run E m0 evs m \<Longrightarrow> \<not> chm_panicked m \<Longrightarrow>
    list_all (\<lambda>e. e \<noteq> Ch_Cancelled \<and> e \<noteq> Ch_Command Channels_Shutdown) evs \<Longrightarrow>
    channel_event_enabled m ev \<Longrightarrow> run_state (channels_turn E ev) m = (stop, m') \<Longrightarrow>
    channels_run E m0 (evs @ [ev]) m'"

end
