(* ===== verification/Channels_Frames.thy ===== *)
theory Channels_Frames
  imports Channels_Manager
begin

text \<open>
  What every method of the channels manager keeps.

  The locale \<open>chan_quiet\<close> lists the changes of state of the methods that send nothing to the agents
  manager, \<open>chan_rel\<close> those of all methods; a reflexive and transitive relation that contains them
  relates the states before and after any turn of the event loop (\<open>k_channels_turn\<close>).  \<open>chan_rel\<close> is interpreted on \<open>chan_grows\<close> (slots keep their identity and their options,
  routes are never changed) and on \<open>keeps_wired\<close> (slots come from the configuration, routes and streams
  point at slots that exist).
\<close>

section \<open>Slots over time\<close>

definition chan_step :: "channel_slot \<Rightarrow> channel_slot \<Rightarrow> bool" where
  "chan_step s s' \<longleftrightarrow>
     chs_name s' = chs_name s \<and> chs_channel_id s' = chs_channel_id s
     \<and> chc_agent (chs_config s') = chc_agent (chs_config s)
     \<and> (\<forall>k v. hm_get (chc_options (chs_config s)) k = Some v \<longrightarrow>
           hm_get (chc_options (chs_config s')) k = Some v)"

lemma chan_step_refl [simp]: "chan_step s s"
  by (simp add: chan_step_def)

lemma chan_step_trans: "chan_step s t \<Longrightarrow> chan_step t u \<Longrightarrow> chan_step s u"
  by (auto simp: chan_step_def)

lemma chan_step_connection [simp]: "chan_step s (s\<lparr>chs_connection := c\<rparr>)"
  by (simp add: chan_step_def)

lemma chan_step_lifecycle [simp]: "chan_step s (s\<lparr>chs_lifecycle := l\<rparr>)"
  by (simp add: chan_step_def)

lemma chan_step_disable [simp]: "chan_step s (s\<lparr>chs_lifecycle := l, chs_connection := c\<rparr>)"
  by (simp add: chan_step_def)

lemma merge_defaults_agent [simp]: "chc_agent (merge_defaults d c) = chc_agent c"
  by (simp add: merge_defaults_def split: option.split)

lemma merge_defaults_options:
  "hm_get (chc_options c) k = Some v \<Longrightarrow> hm_get (chc_options (merge_defaults d c)) k = Some v"
  by (simp add: merge_defaults_def hm_get_defaults split: option.split)

lemma chan_step_restart [simp]:
  "chan_step s (s\<lparr>chs_connection := c, chs_lifecycle := l, chs_config := merge_defaults d (chs_config s)\<rparr>)"
  by (simp add: chan_step_def merge_defaults_options)


section \<open>Case distinctions of the methods\<close>

lemma keeps_action:
  "keeps R m \<Longrightarrow> (\<And>d. keeps R (k d)) \<Longrightarrow> keeps R (case a of Crash_Disabled \<Rightarrow> m | RestartAfter d \<Rightarrow> k d)"
  by (cases a) simp_all

lemma keeps_decision:
  "keeps R a \<Longrightarrow> (\<And>r. keeps R (d r)) \<Longrightarrow> keeps R s \<Longrightarrow>
    keeps R (case x of Allow \<Rightarrow> a | Deny r \<Rightarrow> d r | SkipNoMention \<Rightarrow> s)"
  by (cases x) simp_all

lemma keeps_reply:
  "(\<And>e. keeps R (f e)) \<Longrightarrow> keeps R d \<Longrightarrow> (\<And>a. keeps R (k a)) \<Longrightarrow>
    keeps R (case x of Tools_SendFailed e \<Rightarrow> f e | Tools_Dropped \<Rightarrow> d | Tools_Reply a \<Rightarrow> k a)"
  by (cases x) simp_all


section \<open>Relations kept by every turn\<close>

definition route_to :: "channels_manager \<Rightarrow> nat \<Rightarrow> string \<Rightarrow> string \<Rightarrow> routing_entry" where
  "route_to m i acp agent_name =
     \<lparr>re_channel_id = chs_channel_id (chm_slots m ! i), re_acp_session_id = acp,
      re_slot_index = i, re_agent_name = agent_name\<rparr>"

locale chan_quiet = step_rel R for R :: "channels_manager \<Rightarrow> channels_manager \<Rightarrow> bool" +
  fixes N :: nat
  assumes r_tick: "R m (m\<lparr>chm_tick := t\<rparr>)"
    and r_waiting: "R m (m\<lparr>chm_waiting := w\<rparr>)"
    and r_acked: "R m (m\<lparr>chm_acked := a\<rparr>)"
    and r_store: "R m (m\<lparr>chm_context_store := st\<rparr>)"
    and r_panicked: "R m (m\<lparr>chm_panicked := b\<rparr>)"
    and r_streams: "A \<subseteq> chm_streams m \<union> {..<N} \<Longrightarrow> R m (m\<lparr>chm_streams := A\<rparr>)"
    and r_slots: "length ss = length (chm_slots m) \<Longrightarrow>
      (\<And>j. j < length ss \<Longrightarrow> chan_step (chm_slots m ! j) (ss ! j)) \<Longrightarrow> R m (m\<lparr>chm_slots := ss\<rparr>)"
begin

lemma r_slot: "chan_step (chm_slots m ! i) s \<Longrightarrow> R m (m\<lparr>chm_slots := (chm_slots m)[i := s]\<rparr>)"
proof (rule r_slots)
  fix j assume "j < length ((chm_slots m)[i := s])" and "chan_step (chm_slots m ! i) s"
  then show "chan_step (chm_slots m ! j) ((chm_slots m)[i := s] ! j)"
    by (cases "i = j") simp_all
qed simp

lemma k_cask: "keeps R (cask f)"
  by (rule keepsI) (simp add: wp_simps r_tick)

lemma k_get_chan: "keeps R (get_chan i)"
  by (simp add: get_chan_def k_gets)

lemma k_upd_chan: "(\<And>s. chan_step s (f s)) \<Longrightarrow> keeps R (upd_chan i f)"
  unfolding upd_chan_def by (rule k_modify) (rule r_slot, simp)

lemmas k_changes = r_tick r_waiting r_acked r_store r_panicked

lemma k_chan_notify: "keeps R (chan_notify E i meth params)"
  unfolding chan_notify_def by (intro k_rules k_cask k_get_chan k_upd_chan) simp

lemma k_chan_request: "keeps R (chan_request E i meth params)"
  unfolding chan_request_def by (intro k_rules k_cask k_get_chan k_upd_chan) simp

lemmas k_talk = k_cask k_get_chan k_chan_notify k_chan_request

lemma k_spawn: "keeps R (spawn_and_initialize E c n d)"
  unfolding spawn_and_initialize_def by (intro k_rules k_talk)

lemma k_crash: "keeps R (handle_channel_crash E i)"
  unfolding handle_channel_crash_def
  by (intro k_rules keeps_action k_talk k_modify k_changes k_spawn k_upd_chan) simp_all

lemma k_permission: "keeps R (route_permission_event E k rid d os)"
  unfolding route_permission_event_def by (intro k_rules k_talk k_modify k_changes)

lemma k_shutdown: "keeps R channels_shutdown_all"
  unfolding channels_shutdown_all_def
  by (intro k_modify r_slots) (simp_all add: chan_step_def)

lemma k_command: "keeps R (handle_channels_command E cmd)"
  by (cases cmd) (auto intro!: k_rules k_talk k_permission k_shutdown)

lemma k_ack: "keeps R (send_ack_to_channel E k)"
  unfolding send_ack_to_channel_def by (intro k_rules k_talk)

lemma k_event: "keeps R (handle_channel_event E ev)"
  by (cases ev) (auto simp: handle_deliver_message_def handle_session_complete_def
      handle_dispatch_started_def intro!: k_rules k_talk k_permission k_modify k_changes k_ack)

lemma k_gate: "keeps R (gate_message E i msg)"
  unfolding gate_message_def buffer_context_def add_context_def
  by (intro k_rules k_talk k_modify k_changes keeps_decision)

lemma w_keeps: "keeps R p \<Longrightarrow> R m m' \<Longrightarrow> wp p (\<lambda>_. R m) m'"
  by (auto simp: keeps_def wp_snd intro: trans)

end

locale chan_rel = chan_quiet R N for R :: "channels_manager \<Rightarrow> channels_manager \<Rightarrow> bool" and N :: nat +
  assumes r_sent: "R m (m\<lparr>chm_sent := cs\<rparr>)"
    and r_route: "i < N \<Longrightarrow> hm_get (chm_routing m) k = None \<Longrightarrow>
      agent_name = agent_name_for_channel m i \<Longrightarrow>
      R m (m\<lparr>chm_routing := hm_insert k (route_to m i acp agent_name) (chm_routing m)\<rparr>)"
begin

lemma k_tell_agents: "keeps R (tell_agents E cmd)"
  unfolding tell_agents_def by (intro k_rules k_cask k_modify k_changes r_sent)

lemma k_enqueue: "keeps R (enqueue_to_agent E k content md a)"
  unfolding enqueue_to_agent_def by (intro k_rules keeps_reply k_talk k_modify k_changes r_sent)

lemma w_ensure:
  assumes "i < N"
  shows "wp (ensure_session_created E i k msg (agent_name_for_channel m i)) (\<lambda>_. R m) m"
proof -
  have sent: "R m (m\<lparr>chm_tick := t, chm_sent := cs\<rparr>)" for t cs
    by (blast intro: trans r_tick r_sent)
  have routed: "R m (m\<lparr>chm_tick := t, chm_sent := cs, chm_routing := hm_insert k
      \<lparr>re_channel_id = chs_channel_id (chm_slots m ! i), re_acp_session_id = acp, re_slot_index = i,
       re_agent_name = agent_name_for_channel m i\<rparr> (chm_routing m)\<rparr>)"
    if "hm_get (chm_routing m) k = None" for t cs acp
    using r_route [of i "m\<lparr>chm_tick := t, chm_sent := cs\<rparr>" k "agent_name_for_channel m i" acp] assms that
    by (auto simp: route_to_def agent_name_for_channel_def intro: trans [OF sent])
  show ?thesis
    unfolding ensure_session_created_def
    by (auto simp: wp_simps wp_funs refl r_tick sent routed hm_has_iff
        split: tools_reply.split sum.split intro!: w_keeps [OF k_chan_notify])
qed

lemma k_collect:
  assumes "i < N"
  shows "keeps R (collect_send_message E i params)"
proof -
  have tail: "keeps R (do { m \<leftarrow> gets id; let k = build_session_key msg;
      if \<not> chm_agents_handle m then ret ()
      else do { let agent_name = agent_name_for_channel m i;
        ready \<leftarrow> ensure_session_created E i k msg agent_name;
        if \<not> ready then ret () else enqueue_to_agent E k (csm_content msg) (csm_metadata msg) agent_name }})"
    for msg
    by (rule keepsI)
      (auto simp: wp_simps refl Let_def intro!: wp_mono [OF w_ensure [OF assms]] w_keeps [OF k_enqueue])
  show ?thesis
    unfolding collect_send_message_def by (intro k_rules k_gate tail)
qed

lemma k_message: "i < N \<Longrightarrow> keeps R (collect_channel_message E i msg)"
  unfolding collect_channel_message_def handle_respond_permission_def
  by (intro k_rules k_collect k_tell_agents)

theorem k_channels_turn:
  assumes "channel_event_enabled m ev" "chm_streams m \<subseteq> {..<N}"
  shows "R m (snd (run_state (channels_turn E ev) m))"
proof -
  have "keeps R (channels_turn E ev)" if "\<And>i msg. ev = Ch_Message i msg \<or> ev = Ch_Exit i \<Longrightarrow> i < N"
    using that
    by (cases ev) (auto intro!: k_rules k_command k_event k_message k_talk k_tell_agents k_modify k_changes r_streams k_crash k_shutdown)
  then show ?thesis
    using assms by (cases ev) (auto simp: keeps_def subset_iff)
qed

end


section \<open>Growth\<close>

definition chan_grows :: "channels_manager \<Rightarrow> channels_manager \<Rightarrow> bool" where
  "chan_grows m m' \<longleftrightarrow>
     chm_channel_configs m' = chm_channel_configs m
     \<and> chm_agents_handle m' = chm_agents_handle m
     \<and> chm_permission_timeout_secs m' = chm_permission_timeout_secs m
     \<and> length (chm_slots m') = length (chm_slots m)
     \<and> (\<forall>i < length (chm_slots m). chan_step (chm_slots m ! i) (chm_slots m' ! i))
     \<and> (\<forall>k e. hm_get (chm_routing m) k = Some e \<longrightarrow> hm_get (chm_routing m') k = Some e)"

interpretation grow: chan_rel chan_grows N for N
proof
  fix s t u
  show "chan_grows s t \<Longrightarrow> chan_grows t u \<Longrightarrow> chan_grows s u"
    unfolding chan_grows_def by (auto intro: chan_step_trans)
qed (auto simp: chan_grows_def)


section \<open>Wiring\<close>

definition slot_from :: "(string \<times> channel_config) list \<Rightarrow> channel_slot \<Rightarrow> bool" where
  "slot_from configs s \<longleftrightarrow>
     (\<exists>c. (chs_name s, c) \<in> set configs \<and> chc_enabled c \<and> chs_channel_id s = chs_name s
        \<and> chc_agent (chs_config s) = chc_agent c
        \<and> (\<forall>k v. hm_get (chc_options c) k = Some v \<longrightarrow> hm_get (chc_options (chs_config s)) k = Some v))"

lemma slot_from_step: "slot_from cs s \<Longrightarrow> chan_step s s' \<Longrightarrow> slot_from cs s'"
  unfolding slot_from_def chan_step_def by metis

definition entry_wired :: "channel_slot list \<Rightarrow> routing_entry \<Rightarrow> bool" where
  "entry_wired ss e \<longleftrightarrow> re_slot_index e < length ss
     \<and> re_channel_id e = chs_name (ss ! re_slot_index e)
     \<and> re_agent_name e = chc_agent (chs_config (ss ! re_slot_index e))"

definition wired :: "channels_manager \<Rightarrow> bool" where
  "wired m \<longleftrightarrow>
     list_all (slot_from (chm_channel_configs m)) (chm_slots m)
     \<and> chm_streams m \<subseteq> {..<length (chm_slots m)}
     \<and> (\<forall>k e. hm_get (chm_routing m) k = Some e \<longrightarrow> entry_wired (chm_slots m) e)"

definition keeps_wired :: "nat \<Rightarrow> channels_manager \<Rightarrow> channels_manager \<Rightarrow> bool" where
  "keeps_wired N m m' \<longleftrightarrow>
     (length (chm_slots m) = N \<and> wired m \<longrightarrow> length (chm_slots m') = N \<and> wired m')"

lemma entry_wired_step:
  assumes "entry_wired ss e" "length ss' = length ss"
    "\<And>j. j < length ss \<Longrightarrow> chan_step (ss ! j) (ss' ! j)"
  shows "entry_wired ss' e"
  using assms by (auto simp: entry_wired_def chan_step_def)

lemma wired_slots:
  assumes "wired m" "length ss = length (chm_slots m)"
    "\<And>j. j < length ss \<Longrightarrow> chan_step (chm_slots m ! j) (ss ! j)"
  shows "wired (m\<lparr>chm_slots := ss\<rparr>)"
  using assms unfolding wired_def list_all_length
  by (auto intro: slot_from_step entry_wired_step [of "chm_slots m"])

lemma wired_route:
  assumes "wired m" "i < length (chm_slots m)"
  shows "wired (m\<lparr>chm_routing := hm_insert k (route_to m i acp (agent_name_for_channel m i)) (chm_routing m)\<rparr>)"
  using assms unfolding wired_def list_all_length
  by (auto simp: entry_wired_def route_to_def agent_name_for_channel_def slot_from_def split: if_splits)

interpretation wire: chan_rel "keeps_wired N" N for N
proof
  fix m ss
  show "length ss = length (chm_slots m) \<Longrightarrow>
      (\<And>j. j < length ss \<Longrightarrow> chan_step (chm_slots m ! j) (ss ! j)) \<Longrightarrow> keeps_wired N m (m\<lparr>chm_slots := ss\<rparr>)"
    using wired_slots [of m ss] by (simp add: keeps_wired_def)
next
  fix i m k agent_name acp
  show "i < N \<Longrightarrow> hm_get (chm_routing m) k = None \<Longrightarrow> agent_name = agent_name_for_channel m i \<Longrightarrow>
      keeps_wired N m (m\<lparr>chm_routing := hm_insert k (route_to m i acp agent_name) (chm_routing m)\<rparr>)"
    using wired_route [of m i k acp] by (simp add: keeps_wired_def)
qed (auto simp: keeps_wired_def wired_def)

lemma turn_wired:
  assumes "wired m" "channel_event_enabled m ev" "run_state (channels_turn E ev) m = (stop, m')"
  shows "wired m' \<and> chan_grows m m'"
  using wire.k_channels_turn [OF assms(2), of "length (chm_slots m)" E]
    grow.k_channels_turn [OF assms(2), of "length (chm_slots m)" E] assms
  by (auto simp: wired_def keeps_wired_def)

lemma run_wired:
  assumes "channels_run E m0 evs m" "wired m0"
  shows "wired m \<and> chan_grows m0 m"
  using assms
proof (induction rule: channels_run.induct)
  case chan_start
  then show ?case by (simp add: grow.refl)
next
  case (chan_turn evs m ev stop m')
  then show ?case by (meson turn_wired grow.trans)
qed


section \<open>Start\<close>

definition channels_boot :: "channel_env \<Rightarrow> channels_manager \<Rightarrow> channels_manager" where
  "channels_boot E m = snd (run_state (do { channels_start E; open_streams }) m)"

definition chan_fresh :: "channels_manager \<Rightarrow> bool" where
  "chan_fresh m \<longleftrightarrow> chm_slots m = [] \<and> chm_routing m = [] \<and> chm_acked m = {} \<and> chm_sent m = []
     \<and> chm_waiting m = [] \<and> chm_streams m = {}"

lemma fresh_new [simp]: "chan_fresh (channels_manager_new cs a b)"
  by (simp add: chan_fresh_def channels_manager_new_def)

lemma fresh_with [simp]:
  "chan_fresh (with_agents_handle m) = chan_fresh m"
  "chan_fresh (with_permission_timeout t m) = chan_fresh m"
  "chan_fresh (with_context_store st m) = chan_fresh m"
  by (simp_all add: chan_fresh_def with_agents_handle_def with_permission_timeout_def with_context_store_def)

lemma spawn_tick:
  "\<exists>r t. run_state (spawn_and_initialize E c n d) m = (r, m\<lparr>chm_tick := t\<rparr>)"
  unfolding spawn_and_initialize_def
  by (auto simp: Let_def split: sum.split prod.split)

lemma start_slot:
  "wp (start_channel_slot E name c) (\<lambda>s m'. (\<exists>t. m' = m\<lparr>chm_tick := t\<rparr>) \<and> chs_name s = name
     \<and> chs_channel_id s = name \<and> chan_step \<lparr>chs_name = name, chs_config = c, chs_connection = None,
         chs_channel_id = name, chs_lifecycle = l\<rparr> s) m"
  using spawn_tick [of E c name "resolve_init_timeout m c" m]
  by (auto simp: start_channel_slot_def wp_def chan_step_def merge_defaults_options split: sum.split)

text \<open>What \<open>start\<close> adds to a manager: slots for enabled entries of the configuration.\<close>

definition started :: "(string \<times> channel_config) list \<Rightarrow> channels_manager \<Rightarrow> channels_manager \<Rightarrow> bool" where
  "started configs m m' \<longleftrightarrow>
     (\<exists>t ss. m' = m\<lparr>chm_slots := chm_slots m @ ss, chm_tick := t\<rparr> \<and> list_all (slot_from configs) ss
        \<and> map chs_name ss = map fst (filter (\<lambda>(n, c). chc_enabled c) configs))"

lemma slot_from_mono: "slot_from cs s \<Longrightarrow> set cs \<subseteq> set cs' \<Longrightarrow> slot_from cs' s"
  unfolding slot_from_def by blast

lemma started_step:
  assumes "slot_from [p] s" "chs_name s = fst p" "chc_enabled (snd p)"
    and "started cs (m\<lparr>chm_tick := t, chm_slots := chm_slots m @ [s]\<rparr>) m'"
  shows "started (p # cs) m m'"
proof -
  obtain t' ss where ss: "m' = m\<lparr>chm_slots := chm_slots m @ s # ss, chm_tick := t'\<rparr>"
    "list_all (slot_from cs) ss" "map chs_name ss = map fst (filter (\<lambda>(n, c). chc_enabled c) cs)"
    using assms(4) unfolding started_def by auto
  then show ?thesis
    unfolding started_def using assms(1-3)
    by (intro exI [of _ t'] exI [of _ "s # ss"])
      (auto simp: list_all_iff case_prod_beta elim!: slot_from_mono)
qed

lemma started_skip: "started cs m m' \<Longrightarrow> \<not> chc_enabled (snd p) \<Longrightarrow> started (p # cs) m m'"
  unfolding started_def list_all_iff
  by (elim exE conjE, intro exI conjI, assumption) (auto simp: case_prod_beta elim!: slot_from_mono)

definition start_one :: "channel_env \<Rightarrow> string \<times> channel_config \<Rightarrow> unit cm" where
  "start_one E = (\<lambda>(name, config).
     if \<not> chc_enabled config then ret ()
     else do {
       s \<leftarrow> start_channel_slot E name config;
       modify (\<lambda>m. m\<lparr>chm_slots := chm_slots m @ [s]\<rparr>)
     })"

lemma start_started: "wp (for_each ps (start_one E)) (\<lambda>_. started ps m) m"
proof (induction ps arbitrary: m)
  case Nil
  show ?case by (auto simp: wp_simps started_def intro!: exI [of _ "chm_tick m"])
next
  case (Cons p ps)
  obtain name c where p: "p = (name, c)" by fastforce
  show ?case
  proof (cases "chc_enabled c")
    case False
    then have "start_one E p = ret ()" by (simp add: start_one_def p)
    then show ?thesis
      using False by (auto simp: wp_simps p intro!: wp_mono [OF Cons.IH] started_skip)
  next
    case True
    have "wp (start_channel_slot E name c) (\<lambda>s m'. \<exists>t. m' = m\<lparr>chm_tick := t\<rparr> \<and> slot_from [p] s
        \<and> chs_name s = fst p) m"
      using True by (intro wp_mono [OF start_slot]) (auto simp: p slot_from_def chan_step_def)
    moreover have "start_one E p = do { s \<leftarrow> start_channel_slot E name c;
        modify (\<lambda>m. m\<lparr>chm_slots := chm_slots m @ [s]\<rparr>) }"
      using True by (simp add: start_one_def p)
    ultimately show ?thesis
      using True by (auto simp: wp_simps wp_funs p intro!: wp_mono [OF Cons.IH] elim!: wp_mono)
        (rule started_step; (assumption | simp))
  qed
qed

lemma boot_wired:
  assumes "chan_fresh m"
  shows "wired (channels_boot E m) \<and> chan_fresh ((channels_boot E m)\<lparr>chm_slots := [], chm_streams := {}\<rparr>)
    \<and> chm_channel_configs (channels_boot E m) = chm_channel_configs m"
proof -
  have "wp (do { channels_start E; open_streams }) (\<lambda>_ m'. wired m'
      \<and> chan_fresh (m'\<lparr>chm_slots := [], chm_streams := {}\<rparr>)
      \<and> chm_channel_configs m' = chm_channel_configs m) m"
    using assms unfolding channels_start_def start_one_def [symmetric]
    by (auto simp: wp_simps open_streams_def started_def wired_def chan_fresh_def
        intro!: wp_mono [OF start_started])
  then show ?thesis
    by (simp add: wp_snd channels_boot_def)
qed

end
