(* ===== verification/Channels_Example.thy ===== *)
theory Channels_Example
  imports Channels_Frames Agents_Example
begin

text \<open>
  A concrete channels manager: one channel \<open>tg\<close> whose access control admits the user 7, for the agent
  \<open>a\<close>; the channel process and the agents manager accept everything.
\<close>

definition chan_options :: "(string, json) hmap" where
  "chan_options = [(''access_control'', JObj [(''allowed_users'', JArr [JInt 7])])]"

definition chan_config :: channel_config where
  "chan_config =
     \<lparr>chc_binary = ''telegram'', chc_args = [], chc_enabled = True, chc_agent = ''a'',
      chc_init_timeout_secs = None, chc_exit_timeout_secs = None, chc_backoff = None,
      chc_crash_tracker = None, chc_options = chan_options\<rparr>"

definition chan_message :: "string \<Rightarrow> channel_send_message" where
  "chan_message sender =
     \<lparr>csm_peer_info = \<lparr>pi_channel_name = ''tg'', pi_peer_id = ''tg:7'', pi_kind = ''private''\<rparr>,
      csm_content = [Part_Text ''hi''], csm_metadata = None, csm_meta = None,
      csm_sender_info = Some \<lparr>si_sender_id = Some sender, si_sender_name = None\<rparr>,
      csm_was_mentioned = None\<rparr>"

definition chan_env :: channel_env where
  "chan_env =
     \<lparr>ce_spawn = (\<lambda>t c. Inr ()), ce_stdin_ok = (\<lambda>t. True),
      ce_reply = (\<lambda>t. Rpc_Response (response_success None JNull)),
      ce_create = (\<lambda>t a k. Tools_Reply (Inr ''s1'')), ce_enqueue = (\<lambda>t. Tools_Reply (Inr ())),
      ce_handle_ok = (\<lambda>t. True), ce_now_secs = int, ce_instant = (\<lambda>t. t), ce_store_fault = (\<lambda>t. None),
      ce_lower = to_ascii_lowercase, ce_stop_json = (\<lambda>r. JNull), dec_ack = (\<lambda>j. None),
      dec_channel_init = (\<lambda>j. Inr \<lparr>cir_protocol_version = 1,
        cir_capabilities = \<lparr>ccap_streaming = True, ccap_rich_text = True, ccap_media = False\<rparr>,
        cir_defaults = None\<rparr>),
      dec_send_message = (\<lambda>j. map_option chan_message (as_str j)),
      dec_respond = (\<lambda>j. None)\<rparr>"

definition chan_manager :: channels_manager where
  "chan_manager = with_agents_handle (channels_manager_new [(''tg'', chan_config)] 10 5)"

definition chan_text :: "string \<Rightarrow> channel_turn_event" where
  "chan_text sender = Ch_Message 0 (ChannelNotification (request_new ''channel/sendMessage'' None (Some (JStr sender))))"

fun chan_play :: "channel_env \<Rightarrow> channel_turn_event list \<Rightarrow> channels_manager \<Rightarrow> channels_manager option" where
  "chan_play E [] m = Some m"
| "chan_play E (e # es) m =
     (if chm_panicked m \<or> \<not> channel_event_enabled m e \<or> e = Ch_Cancelled \<or> e = Ch_Command Channels_Shutdown
      then None else chan_play E es (snd (run_state (channels_turn E e) m)))"

lemma chan_play_from:
  assumes "channels_run E m0 pre m" "list_all (\<lambda>e. e \<noteq> Ch_Cancelled \<and> e \<noteq> Ch_Command Channels_Shutdown) pre"
    "chan_play E es m = Some m'"
  shows "channels_run E m0 (pre @ es) m'"
  using assms
proof (induction es arbitrary: pre m)
  case (Cons e es)
  then have ok: "\<not> chm_panicked m" "channel_event_enabled m e" "e \<noteq> Ch_Cancelled" "e \<noteq> Ch_Command Channels_Shutdown"
    and rest: "chan_play E es (snd (run_state (channels_turn E e) m)) = Some m'"
    by (auto split: if_splits)
  obtain stop m1 where turn: "run_state (channels_turn E e) m = (stop, m1)"
    by (cases "run_state (channels_turn E e) m")
  have "channels_run E m0 (pre @ [e]) m1"
    using Cons.prems(1,2) ok turn by (auto intro: chan_turn)
  from Cons.IH [OF this] Cons.prems(2) ok(3,4) rest turn show ?case by simp
qed simp

lemma chan_play_reaches:
  "map_option f (chan_play E es m) = Some x \<Longrightarrow> \<exists>m'. channels_run E m es m' \<and> f m' = x"
  using chan_play_from [OF chan_start] by force

lemma chan_env_simps [simp]:
  "ce_spawn chan_env = (\<lambda>t c. Inr ())" "ce_stdin_ok chan_env = (\<lambda>t. True)"
  "ce_reply chan_env = (\<lambda>t. Rpc_Response (response_success None JNull))"
  "ce_create chan_env = (\<lambda>t a k. Tools_Reply (Inr ''s1''))" "ce_enqueue chan_env = (\<lambda>t. Tools_Reply (Inr ()))"
  "ce_handle_ok chan_env = (\<lambda>t. True)" "ce_instant chan_env = (\<lambda>t. t)"
  "ce_lower chan_env = to_ascii_lowercase" "ce_stop_json chan_env = (\<lambda>r. JNull)" "dec_ack chan_env = (\<lambda>j. None)"
  "dec_channel_init chan_env = (\<lambda>j. Inr \<lparr>cir_protocol_version = 1,
     cir_capabilities = \<lparr>ccap_streaming = True, ccap_rich_text = True, ccap_media = False\<rparr>, cir_defaults = None\<rparr>)"
  "dec_send_message chan_env = (\<lambda>j. map_option chan_message (as_str j))"
  by (simp_all add: chan_env_def)

definition chan_conn0 :: channel_connection where
  "chan_conn0 =
     set_capabilities \<lparr>ccap_streaming = True, ccap_rich_text = True, ccap_media = False\<rparr>
       ((snd (channel_send_request True ''initialize'' (JObj [(''protocolVersion'', JInt 1), (''channelId'', JStr ''tg''),
          (''ack'', channel_ack_config_json (channel_ack_config_from ack_config_default)),
          (''options'', JObj chan_options)]) (channel_conn_new ''tg'')))\<lparr>cn_pending := []\<rparr>)"

definition chan_slot0 :: channel_slot where
  "chan_slot0 =
     \<lparr>chs_name = ''tg'', chs_config = chan_config, chs_connection = Some chan_conn0,
      chs_channel_id = ''tg'', chs_lifecycle = build_slot_lifecycle chan_config False\<rparr>"

lemma chan_boot:
  "channels_boot chan_env chan_manager =
     chan_manager\<lparr>chm_slots := [chan_slot0], chm_streams := {0}, chm_tick := 3\<rparr>"
  by (simp add: channels_boot_def chan_manager_def with_agents_handle_def channels_manager_new_def
      channels_start_def start_channel_slot_def spawn_and_initialize_def chan_config_def open_streams_def
      merge_defaults_def channel_send_request_def channel_conn_new_def response_success_def Let_def
      chan_slot0_def chan_conn0_def chan_options_def hm_get_def) auto

lemma chan_decision:
  "evaluate_access (from_options to_ascii_lowercase (JObj chan_options)) 7 \<lparr>user_id = Some 7, username = None\<rparr>
     False False = Allow"
  "evaluate_access (from_options to_ascii_lowercase (JObj chan_options)) 7 \<lparr>user_id = Some 8, username = None\<rparr>
     False False = Deny DmSenderNotAllowed"
  by code_simp+

lemma chan_fields [simp]:
  "chat_id_of (chan_message sender) = 7" "is_group_message (chan_message sender) = False"
  "csm_was_mentioned (chan_message sender) = None"
  "message_sender (chan_message ''7'') = \<lparr>user_id = Some 7, username = None\<rparr>"
  "message_sender (chan_message ''8'') = \<lparr>user_id = Some 8, username = None\<rparr>"
  "build_session_key (chan_message sender) = session_key_new ''tg'' ''private'' ''tg:7''"
  "csm_content (chan_message sender) = [Part_Text ''hi'']" "csm_metadata (chan_message sender) = None"
  by (simp_all add: chan_message_def is_group_message_def build_session_key_def) code_simp+

lemma chan_slot0_simps [simp]:
  "chc_options (chs_config chan_slot0) = chan_options" "chc_agent (chs_config chan_slot0) = ''a''"
  "chs_channel_id chan_slot0 = ''tg''" "chs_name chan_slot0 = ''tg''"
  "chs_connection chan_slot0 = Some chan_conn0"
  by (simp_all add: chan_slot0_def chan_config_def)

lemma chan_options_simps [simp]: "hm_get chan_options ''access_control'' = Some (JObj [(''allowed_users'', JArr [JInt 7])])"
  by (simp add: chan_options_def hm_get_def)

lemma chan_route: "hm_get [(k, e)] k' = (if k = k' then Some e else None)"
  by (simp add: hm_get_def)

lemmas chan_demo = chan_manager_def with_agents_handle_def channels_manager_new_def
  chan_text_def collect_channel_message_def parse_channel_message_def request_new_def
  collect_send_message_def gate_message_def get_chan_def upd_chan_def chan_notify_def
  ensure_session_created_def enqueue_to_agent_def agent_name_for_channel_def
  hm_has_def unwrap_or_def chan_decision Let_def chan_route

lemma chan_demo_sent:
  "map_option chm_sent (chan_play chan_env [chan_text ''7'', chan_text ''8''] (channels_boot chan_env chan_manager))
   = Some [CreateSession ''a'' (session_key_new ''tg'' ''private'' ''tg:7''),
           EnqueueMessage ''a'' (session_key_new ''tg'' ''private'' ''tg:7'') [Part_Text ''hi''] None]"
  unfolding chan_boot
  by (simp add: chan_demo)

end
