(* ===== verification/Channels_Properties.thy ===== *)
theory Channels_Properties
  imports Channels_Example
begin

text \<open>
  The properties of the channels manager: who can reach an agent, where replies go, the life cycle a
  channel sees, and permission answers.
\<close>

section \<open>What reaches the agents manager\<close>

text \<open>The message of a \<open>channel/sendMessage\<close>, and the decision of access control on it.\<close>

definition sent_message :: "channel_env \<Rightarrow> incoming_channel_message \<Rightarrow> channel_send_message option" where
  "sent_message E msg =
     (case parse_channel_message msg of (meth, params) \<Rightarrow>
        if meth = ''channel/sendMessage'' then dec_send_message E params else None)"

definition admitted :: "channel_env \<Rightarrow> (string, json) hmap \<Rightarrow> channel_send_message \<Rightarrow> bool" where
  "admitted E options msg \<longleftrightarrow>
     hm_get options ''access_control'' = None
     \<or> evaluate_access (from_options (ce_lower E) (JObj options)) (chat_id_of msg) (message_sender msg)
         (is_group_message msg) (unwrap_or (csm_was_mentioned msg) False) = Allow"

text \<open>Access control reads one option, so it does not change when the extension adds defaults.\<close>

lemma admitted_grows:
  "admitted E options msg \<Longrightarrow>
    hm_get options' ''access_control'' = hm_get options ''access_control'' \<Longrightarrow> admitted E options' msg"
  by (simp add: admitted_def from_options_def)

lemma gate_untouched: "\<exists>t st. m = m\<lparr>chm_tick := t, chm_context_store := st\<rparr>"
  by (intro exI [of _ "chm_tick m"] exI [of _ "chm_context_store m"]) simp

lemma buffer_spec:
  "wp (buffer_context E options msg) (\<lambda>_ m'. \<exists>t st. m' = m\<lparr>chm_tick := t, chm_context_store := st\<rparr>) m"
  using gate_untouched [of m] by (auto simp: buffer_context_def wp_simps)

lemma context_spec:
  "wp (add_context E msg) (\<lambda>msg' m'. (\<exists>t st. m' = m\<lparr>chm_tick := t, chm_context_store := st\<rparr>)
     \<and> csm_peer_info msg' = csm_peer_info msg) m"
  by (auto simp: add_context_def wp_simps Let_def split: prod.split sum.split list.split)

lemma suppress_peer [simp]: "csm_peer_info (suppress_reply cfg msg) = csm_peer_info msg"
  by (simp add: suppress_reply_def split: option.split)

lemma build_key_cong: "csm_peer_info msg' = csm_peer_info msg \<Longrightarrow> build_session_key msg' = build_session_key msg"
  by (simp add: build_session_key_def)

lemma gate_spec:
  "wp (gate_message E i msg) (\<lambda>r m'. (\<exists>t st. m' = m\<lparr>chm_tick := t, chm_context_store := st\<rparr>)
     \<and> (\<forall>msg'. r = Some msg' \<longrightarrow> build_session_key msg' = build_session_key msg
          \<and> admitted E (chc_options (chs_config (chm_slots m ! i))) msg)) m"
  unfolding gate_message_def get_chan_def
  using gate_untouched [of m]
  by (auto simp: wp_simps wp_funs admitted_def split: access_decision.split
      intro!: wp_mono [OF buffer_spec] wp_mono [OF context_spec] build_key_cong)

text \<open>Why a command of a turn was sent.\<close>

definition caused_by :: "channel_env \<Rightarrow> channels_manager \<Rightarrow> channel_turn_event \<Rightarrow> agents_command \<Rightarrow> bool" where
  "caused_by E m ev cmd \<longleftrightarrow>
     (case ev of
        Ch_Message i req \<Rightarrow>
          (case cmd of
             EnqueueMessage a k content md \<Rightarrow>
               (\<exists>msg. sent_message E req = Some msg \<and> k = build_session_key msg
                  \<and> a = agent_name_for_channel m i
                  \<and> admitted E (chc_options (chs_config (chm_slots m ! i))) msg)
           | CreateSession a k \<Rightarrow>
               (\<exists>msg. sent_message E req = Some msg \<and> k = build_session_key msg
                  \<and> a = agent_name_for_channel m i
                  \<and> admitted E (chc_options (chs_config (chm_slots m ! i))) msg)
           | RespondPermission rid opt \<Rightarrow>
               (\<exists>params. parse_channel_message req = (''channel/respondPermission'', params)
                  \<and> dec_respond E params = Some (rid, opt))
           | _ \<Rightarrow> False)
      | Ch_Permission j outcome \<Rightarrow>
          cmd = permission_command (pmt_request_id (chm_waiting m ! j)) outcome
      | _ \<Rightarrow> False)"

definition log_grows :: "(agents_command \<Rightarrow> bool) \<Rightarrow> channels_manager \<Rightarrow> channels_manager \<Rightarrow> bool" where
  "log_grows P m m' \<longleftrightarrow> (\<exists>new. chm_sent m' = chm_sent m @ new \<and> list_all P new)"

interpretation lg: chan_quiet "log_grows P" N for P N
  by unfold_locales (fastforce simp: log_grows_def)+

lemma log_add: "P c \<Longrightarrow> log_grows P m (m\<lparr>chm_sent := chm_sent m @ [c]\<rparr>)"
  by (simp add: log_grows_def)

lemma log_tell: "P c \<Longrightarrow> keeps (log_grows P) (tell_agents E c)"
  unfolding tell_agents_def by (intro lg.k_rules lg.k_cask lg.k_modify log_add)

lemma log_enqueue: "P (EnqueueMessage a k content md) \<Longrightarrow> keeps (log_grows P) (enqueue_to_agent E k content md a)"
  unfolding enqueue_to_agent_def by (intro lg.k_rules keeps_reply lg.k_talk lg.k_modify log_add)

lemma log_routing: "keeps (log_grows P) (modify (\<lambda>m. m\<lparr>chm_routing := f m\<rparr>))"
  by (simp add: keeps_def log_grows_def)

lemma log_streams: "keeps (log_grows P) (modify (\<lambda>m. m\<lparr>chm_streams := f m\<rparr>))"
  by (simp add: keeps_def log_grows_def)

lemma log_ensure:
  "P (CreateSession a k) \<Longrightarrow> keeps (log_grows P) (ensure_session_created E i k msg a)"
  unfolding ensure_session_created_def
  by (intro lg.k_rules keeps_reply lg.k_talk log_routing lg.k_modify log_add)

lemma log_create_enqueue:
  assumes "P (CreateSession a k)" "P (EnqueueMessage a k' content md)" "log_grows P m m'"
  shows "wp (ensure_session_created E i k msg a)
    (\<lambda>ready. wp (if \<not> ready then ret () else enqueue_to_agent E k' content md a) (\<lambda>_. log_grows P m)) m'"
  unfolding wp_bind [symmetric]
  by (rule lg.w_keeps [OF _ assms(3)]) (intro lg.k_rules log_ensure log_enqueue assms)

lemma log_collect:
  assumes "\<And>msg a. dec_send_message E params = Some msg \<Longrightarrow>
      admitted E (chc_options (chs_config (chm_slots m ! i))) msg \<Longrightarrow>
      P (CreateSession (agent_name_for_channel m i) (build_session_key msg))
      \<and> (\<forall>c md. P (EnqueueMessage (agent_name_for_channel m i) (build_session_key msg) c md))"
  shows "wp (collect_send_message E i params) (\<lambda>_. log_grows P m) m"
proof -
  have agent: "agent_name_for_channel (m\<lparr>chm_tick := t, chm_context_store := st\<rparr>) i
      = agent_name_for_channel m i" for t st
    by (simp add: agent_name_for_channel_def)
  have quiet: "log_grows P m (m\<lparr>chm_tick := t, chm_context_store := st\<rparr>)" for t st
    by (simp add: log_grows_def)
  show ?thesis
    using assms unfolding collect_send_message_def
    by (auto simp: wp_simps Let_def agent quiet lg.refl split: option.split
        intro!: wp_mono [OF gate_spec] log_create_enqueue)
qed

lemma turn_log:
  assumes "channel_event_enabled m ev"
  shows "wp (channels_turn E ev) (\<lambda>_. log_grows (caused_by E m ev) m) m"
proof (cases ev)
  case (Ch_Message i req)
  obtain meth params where req: "parse_channel_message req = (meth, params)" by fastforce
  have send: "wp (collect_send_message E i params) (\<lambda>_. log_grows (caused_by E m ev) m) m"
    if "meth = ''channel/sendMessage''"
    by (rule log_collect) (auto simp: Ch_Message caused_by_def sent_message_def req that)
  have respond: "keeps (log_grows (caused_by E m ev)) (handle_respond_permission E params)"
    if "meth = ''channel/respondPermission''"
    unfolding handle_respond_permission_def
    by (intro lg.k_rules log_tell) (auto simp: Ch_Message caused_by_def req that)
  show ?thesis
    using send keepsD [OF respond]
    by (simp add: Ch_Message wp_simps wp_funs collect_channel_message_def req lg.refl)
next
  case (Ch_Permission j outcome)
  show ?thesis
    unfolding Ch_Permission
    by (auto simp: wp_simps wp_funs caused_by_def intro!: lg.w_keeps [OF log_tell] lg.r_waiting)
qed (auto intro!: lg.w_keeps [OF _ lg.refl] lg.k_rules lg.k_command lg.k_event lg.k_talk log_streams
    lg.k_crash lg.k_shutdown)

text \<open>Over a run: every command has the event that caused it.\<close>

lemma run_log:
  assumes "channels_run E m0 evs m" "wired m0" "c \<in> set (chm_sent m)" "c \<notin> set (chm_sent m0)"
  shows "\<exists>ev m1. ev \<in> set evs \<and> wired m1 \<and> chan_grows m0 m1 \<and> channel_event_enabled m1 ev \<and> caused_by E m1 ev c"
  using assms
proof (induction rule: channels_run.induct)
  case (chan_turn evs m ev stop m')
  then have "log_grows (caused_by E m ev) m m'"
    using wp_run [OF turn_log] by blast
  then consider "c \<in> set (chm_sent m)" | "caused_by E m ev c"
    using chan_turn.prems by (auto simp: log_grows_def list_all_iff)
  then show ?case
  proof cases
    case 1
    then show ?thesis using chan_turn by fastforce
  next
    case 2
    then show ?thesis
      using chan_turn.hyps(4) run_wired [OF chan_turn.hyps(1) chan_turn.prems(1)]
      by (intro exI [of _ ev] exI [of _ m]) simp
  qed
qed simp

text \<open>Admitted under the options of a slot is admitted under the configuration it was made from.\<close>

definition admitted_by :: "channel_env \<Rightarrow> channel_config \<Rightarrow> channel_send_message \<Rightarrow> bool" where
  "admitted_by E c msg \<longleftrightarrow>
     (hm_has (chc_options c) ''access_control'' \<longrightarrow> admitted E (chc_options c) msg)"

lemma admitted_slot:
  assumes "slot_from configs s" "admitted E (chc_options (chs_config s)) msg"
  shows "\<exists>c. (chs_name s, c) \<in> set configs \<and> chc_enabled c \<and> chc_agent c = chc_agent (chs_config s)
    \<and> admitted_by E c msg"
proof -
  obtain c where c: "(chs_name s, c) \<in> set configs" "chc_enabled c" "chc_agent c = chc_agent (chs_config s)"
    "\<And>k v. hm_get (chc_options c) k = Some v \<Longrightarrow> hm_get (chc_options (chs_config s)) k = Some v"
    using assms(1) unfolding slot_from_def by force
  have "admitted_by E c msg"
    using c(4) [of "''access_control''"] admitted_grows [OF assms(2), of "chc_options c"]
    by (auto simp: admitted_by_def hm_has_iff)
  with c show ?thesis by blast
qed


section \<open>Permission answers\<close>

text \<open>The option a finished permission wait stands for.\<close>

definition permission_choice :: "rpc_outcome \<Rightarrow> string" where
  "permission_choice outcome =
     (case outcome of
        Rpc_Response resp \<Rightarrow>
          (case resp_result resp of
             None \<Rightarrow> ''once''
           | Some r \<Rightarrow> (case jget r ''optionId'' of Some (JStr o') \<Rightarrow> o' | _ \<Rightarrow> ''once''))
      | _ \<Rightarrow> ''denied'')"

lemma permission_command_choice: "permission_command rid outcome = RespondPermission rid (permission_choice outcome)"
  by (auto simp: permission_command_def permission_choice_def unwrap_or_def
      split: rpc_outcome.split option.split json.split)


section \<open>What a channel is told\<close>

text \<open>The notifications of one session, on a connection that accepts writes.\<close>

definition notification :: "string \<Rightarrow> json \<Rightarrow> json_rpc_request" where
  "notification meth params = request_new meth None (Some params)"

definition ack_sent :: "string \<Rightarrow> session_key \<Rightarrow> routing_entry \<Rightarrow> json_rpc_request" where
  "ack_sent nm k e = notification ''channel/ackMessage''
     (JObj [(''sessionId'', JStr (re_acp_session_id e)),
            (''channelName'', JStr nm),
            (''peerId'', JStr (peer_of_key k)), (''messageId'', JNull)])"

definition typing_notification :: "string \<Rightarrow> routing_entry \<Rightarrow> json_rpc_request" where
  "typing_notification nm e = notification ''channel/typingIndicator''
     (JObj [(''sessionId'', JStr (re_acp_session_id e)),
            (''channelName'', JStr nm)])"

definition started_notification :: "routing_entry \<Rightarrow> json_rpc_request" where
  "started_notification e = notification ''channel/ackLifecycle''
     (lifecycle_params (re_acp_session_id e) ''response_started'' [])"

definition content_notification :: "routing_entry \<Rightarrow> json \<Rightarrow> json_rpc_request" where
  "content_notification e content = notification ''channel/deliverMessage''
     (deliver_params (re_acp_session_id e) content)"

definition completed_notification :: "channel_env \<Rightarrow> routing_entry \<Rightarrow> stop_reason \<Rightarrow> json_rpc_request" where
  "completed_notification E e r = notification ''channel/ackLifecycle''
     (lifecycle_params (re_acp_session_id e) ''response_completed'' [(''stopReason'', ce_stop_json E r)])"

text \<open>The session \<open>k\<close> is routed by \<open>e\<close> to a live connection, on which \<open>out\<close> was written.\<close>

definition live_route :: "session_key \<Rightarrow> routing_entry \<Rightarrow> string \<Rightarrow> json_rpc_request list \<Rightarrow> channels_manager \<Rightarrow> bool" where
  "live_route k e nm out m \<longleftrightarrow>
     hm_get (chm_routing m) k = Some e \<and> re_slot_index e < length (chm_slots m)
     \<and> chs_name (chm_slots m ! re_slot_index e) = nm
     \<and> (\<exists>c. chs_connection (chm_slots m ! re_slot_index e) = Some c \<and> cn_out c = out)"

lemma live_entry: "live_route k e nm out m \<Longrightarrow> hm_get (chm_routing m) k = Some e"
  and live_name: "live_route k e nm out m \<Longrightarrow> chs_name (chm_slots m ! re_slot_index e) = nm"
  and live_acked: "live_route k e nm out m \<Longrightarrow> live_route k e nm out (m\<lparr>chm_acked := A\<rparr>)"
  by (simp_all add: live_route_def)

lemma live_notify:
  assumes "live_route k e nm out m" "\<And>t. ce_stdin_ok E t"
    and "\<And>m'. live_route k e nm (out @ [notification meth params]) m' \<Longrightarrow> chm_acked m' = chm_acked m \<Longrightarrow> Q () m'"
  shows "wp (chan_notify E (re_slot_index e) meth params) Q m"
proof -
  have "wp (chan_notify E (re_slot_index e) meth params)
    (\<lambda>_ m'. live_route k e nm (out @ [notification meth params]) m' \<and> chm_acked m' = chm_acked m) m"
    using assms(1,2)
    by (auto simp: live_route_def chan_notify_def get_chan_def upd_chan_def wp_simps
        channel_send_notification_def notification_def)
  then show ?thesis by (rule wp_mono) (auto intro: assms(3))
qed

lemma dispatch_live:
  assumes "live_route k e nm out m" "\<And>t. ce_stdin_ok E t"
  shows "wp (handle_dispatch_started E k)
    (\<lambda>_ m'. live_route k e nm (out @ [ack_sent nm k e, typing_notification nm e]) m' \<and> k \<notin> chm_acked m') m"
  unfolding handle_dispatch_started_def send_ack_to_channel_def
  using live_acked [OF assms(1)] live_entry [OF assms(1)] live_name [OF assms(1)] assms(2)
  by (auto simp: wp_simps ack_sent_def typing_notification_def live_entry live_name
      intro!: live_notify [of k e nm])

lemma deliver_live:
  assumes "live_route k e nm out m" "\<And>t. ce_stdin_ok E t"
  shows "wp (handle_deliver_message E k content)
    (\<lambda>_ m'. live_route k e nm
        (out @ (if k \<in> chm_acked m then [] else [started_notification e]) @ [content_notification e content]) m'
      \<and> k \<in> chm_acked m') m"
  unfolding handle_deliver_message_def
  using assms live_acked [OF assms(1)] live_entry [OF assms(1)]
  by (auto simp: wp_simps wp_funs started_notification_def content_notification_def
      intro!: live_notify [of k e nm])

lemma complete_live:
  assumes "live_route k e nm out m" "\<And>t. ce_stdin_ok E t"
  shows "wp (handle_session_complete E k r)
    (\<lambda>_. live_route k e nm (out @ [completed_notification E e r])) m"
  unfolding handle_session_complete_def
  using assms live_entry [OF assms(1)]
  by (auto simp: wp_simps completed_notification_def intro!: live_notify [of k e nm])

lemma wp_for_append:
  "wp (for_each (xs @ ys) f) Q s \<longleftrightarrow> wp (for_each xs f) (\<lambda>_. wp (for_each ys f) Q) s"
proof (induction xs arbitrary: s)
  case (Cons x xs)
  then have "wp (for_each (xs @ ys) f) Q = wp (for_each xs f) (\<lambda>_. wp (for_each ys f) Q)"
    by (simp add: fun_eq_iff)
  then show ?case by (simp add: wp_simps)
qed (simp add: wp_simps)

lemma deliveries_live:
  assumes "live_route k e nm out m" "k \<in> chm_acked m" "\<And>t. ce_stdin_ok E t"
  shows "wp (for_each (map (DeliverMessage k) cs) (handle_channel_event E))
    (\<lambda>_ m'. live_route k e nm (out @ map (content_notification e) cs) m') m"
  using assms
proof (induction cs arbitrary: out m)
  case (Cons c cs)
  have "wp (handle_deliver_message E k c)
    (\<lambda>_ m'. live_route k e nm (out @ [content_notification e c]) m' \<and> k \<in> chm_acked m') m"
    using deliver_live [OF Cons.prems(1,3), of c] Cons.prems(2) by simp
  then show ?case
    using Cons.IH [of "out @ [content_notification e c]", OF _ _ Cons.prems(3)]
    by (auto simp: wp_simps elim!: wp_mono)
qed (simp add: wp_simps)


section \<open>Crashes\<close>

text \<open>Only the slot \<open>i\<close> changes.\<close>

definition only_slot :: "nat \<Rightarrow> channels_manager \<Rightarrow> channels_manager \<Rightarrow> bool" where
  "only_slot i m m' \<longleftrightarrow>
     length (chm_slots m') = length (chm_slots m)
     \<and> (\<forall>j. j \<noteq> i \<longrightarrow> chm_slots m' ! j = chm_slots m ! j)
     \<and> chm_routing m' = chm_routing m \<and> chm_acked m' = chm_acked m \<and> chm_sent m' = chm_sent m
     \<and> chm_waiting m' = chm_waiting m \<and> chm_streams m' = chm_streams m
     \<and> chm_context_store m' = chm_context_store m"

interpretation os: step_rel "only_slot i" for i
  by unfold_locales (auto simp: only_slot_def)

lemma only_upd: "keeps (only_slot i) (upd_chan i f)"
  by (simp add: keeps_def upd_chan_def only_slot_def)

lemma only_get: "keeps (only_slot i) (get_chan j)"
  by (simp add: keeps_def get_chan_def only_slot_def)

lemma only_cask: "keeps (only_slot i) (cask f)"
  by (simp add: keeps_def only_slot_def)

lemma only_panic: "keeps (only_slot i) (modify (\<lambda>m. m\<lparr>chm_panicked := b\<rparr>))"
  by (simp add: keeps_def only_slot_def)

lemma crash_only_slot: "keeps (only_slot i) (handle_channel_crash E i)"
  unfolding handle_channel_crash_def spawn_and_initialize_def
  by (intro os.k_rules keeps_action only_upd only_get only_cask only_panic)

text \<open>A connection whose handshake is done and on which nothing else was written.\<close>

definition new_connection :: "string \<Rightarrow> channel_connection \<Rightarrow> bool" where
  "new_connection cid c \<longleftrightarrow>
     cn_channel_id c = cid \<and> map req_method (cn_out c) = [''initialize''] \<and> cn_pending c = []"

lemma spawn_new:
  "wp (spawn_and_initialize E c cid d) (\<lambda>r m'. (\<exists>t. m' = m\<lparr>chm_tick := t\<rparr>)
     \<and> (\<forall>conn caps ds. r = Inr (conn, caps, ds) \<longrightarrow> new_connection cid conn)) m"
  unfolding spawn_and_initialize_def
  by (auto simp: wp_simps Let_def new_connection_def channel_send_request_def channel_conn_new_def
      set_capabilities_def request_new_def split: rpc_outcome.split option.split sum.split)

lemma crash_connection:
  assumes "i < length (chm_slots m)" "\<not> chm_panicked m"
  shows "wp (handle_channel_crash E i) (\<lambda>_ m'. chm_panicked m' \<or>
    (case chs_connection (chm_slots m' ! i) of
       None \<Rightarrow> True
     | Some c \<Rightarrow> new_connection (chs_channel_id (chm_slots m ! i)) c
         \<and> disabled (chs_lifecycle (chm_slots m' ! i)) = disabled (chs_lifecycle (chm_slots m ! i)))) m"
  using assms unfolding handle_channel_crash_def get_chan_def upd_chan_def
  by (auto simp: wp_simps wp_funs dest!: record_crash_and_check_disabled
      split: crash_action.split option.split intro!: wp_mono [OF spawn_new] split: sum.splits)

section \<open>Properties\<close>

text \<open>
  Property C9.  Who can talk to an agent.  In every run of a channels manager after its start, a prompt
  is queued for an agent only because a channel delivered a message: that message is from a channel of
  the configuration that is enabled and bound to this very agent, the session is the one of the
  message, and where the configured options of the channel have access control, access control admits
  the sender, whatever defaults the channel process supplied, however often it crashed and restarted.
\<close>

theorem prompts_only_from_admitted:
  assumes "chan_fresh m0" and "channels_run E (channels_boot E m0) evs m"
    and "EnqueueMessage a k content md \<in> set (chm_sent m)"
  shows "\<exists>i req msg c. Ch_Message i req \<in> set evs \<and> sent_message E req = Some msg
    \<and> k = build_session_key msg
    \<and> (chs_name (chm_slots (channels_boot E m0) ! i), c) \<in> set (chm_channel_configs m0)
    \<and> chc_enabled c \<and> chc_agent c = a \<and> admitted_by E c msg"
proof -
  let ?m = "channels_boot E m0"
  have boot: "wired ?m" "chm_sent ?m = []" "chm_channel_configs ?m = chm_channel_configs m0"
    using boot_wired [OF assms(1), of E] by (simp_all add: chan_fresh_def)
  obtain ev m1 where ev: "ev \<in> set evs" "wired m1" "chan_grows ?m m1" "channel_event_enabled m1 ev"
    "caused_by E m1 ev (EnqueueMessage a k content md)"
    using run_log [OF assms(2) boot(1) assms(3)] boot(2) by auto
  obtain i req msg where msg: "ev = Ch_Message i req" "sent_message E req = Some msg"
    "k = build_session_key msg" "a = agent_name_for_channel m1 i"
    "admitted E (chc_options (chs_config (chm_slots m1 ! i))) msg"
    using ev(5) by (auto simp: caused_by_def permission_command_choice split: channel_turn_event.splits)
  have i: "i < length (chm_slots m1)" using ev(2,4) msg(1) by (auto simp: wired_def)
  then have from1: "slot_from (chm_channel_configs m0) (chm_slots m1 ! i)"
    using ev(2,3) boot(3) by (auto simp: wired_def chan_grows_def list_all_length)
  have name: "chs_name (chm_slots m1 ! i) = chs_name (chm_slots ?m ! i)"
    using ev(3) i by (auto simp: chan_grows_def chan_step_def)
  show ?thesis
    using admitted_slot [OF from1 msg(5)] msg(1-4) ev(1)
    unfolding agent_name_for_channel_def name by metis
qed

theorem prompts_only_from_admitted_witness:
  "\<exists>m i req msg c. channels_run chan_env (channels_boot chan_env chan_manager) [chan_text ''7'', chan_text ''8''] m
    \<and> Ch_Message i req \<in> {chan_text ''7'', chan_text ''8''} \<and> sent_message chan_env req = Some msg
    \<and> session_key_new ''tg'' ''private'' ''tg:7'' = build_session_key msg
    \<and> (chs_name (chm_slots (channels_boot chan_env chan_manager) ! i), c) \<in> {(''tg'', chan_config)}
    \<and> admitted_by chan_env c msg"
proof -
  obtain m where m: "channels_run chan_env (channels_boot chan_env chan_manager) [chan_text ''7'', chan_text ''8''] m"
    "chm_sent m = [CreateSession ''a'' (session_key_new ''tg'' ''private'' ''tg:7''),
       EnqueueMessage ''a'' (session_key_new ''tg'' ''private'' ''tg:7'') [Part_Text ''hi''] None]"
    using chan_play_reaches [OF chan_demo_sent] by blast
  have "chan_fresh chan_manager" "chm_channel_configs chan_manager = [(''tg'', chan_config)]"
    by (simp_all add: chan_manager_def with_agents_handle_def channels_manager_new_def chan_fresh_def)
  then show ?thesis
    using prompts_only_from_admitted [of chan_manager chan_env _ m "''a''"
        "session_key_new ''tg'' ''private'' ''tg:7''" "[Part_Text ''hi'']" None, OF _ m(1)] m by fastforce
qed

text \<open>
  Property C10.  Replies stay on their channel.  Whenever a session is routed, its route names a slot
  that exists, whose name is the channel recorded in the route and whose configured agent is the agent
  recorded there; and no later turn of the event loop, a crash and restart of any channel included,
  changes or removes the route.
\<close>

theorem routes_are_stable:
  assumes "chan_fresh m0" and "channels_run E (channels_boot E m0) evs m"
    and "hm_get (chm_routing m) k = Some e"
    and "channel_event_enabled m ev" and "run_state (channels_turn E ev) m = (stop, m')"
  shows "re_slot_index e < length (chm_slots m)
    \<and> chs_name (chm_slots m ! re_slot_index e) = re_channel_id e
    \<and> (\<exists>c. (re_channel_id e, c) \<in> set (chm_channel_configs m0) \<and> chc_enabled c \<and> chc_agent c = re_agent_name e)
    \<and> hm_get (chm_routing m') k = Some e"
proof -
  have boot: "wired (channels_boot E m0)" "chm_channel_configs (channels_boot E m0) = chm_channel_configs m0"
    using boot_wired [OF assms(1), of E] by simp_all
  then have run: "wired m" "chan_grows (channels_boot E m0) m"
    using run_wired [OF assms(2)] by simp_all
  then have "entry_wired (chm_slots m) e" "slot_from (chm_channel_configs m0) (chm_slots m ! re_slot_index e)"
    using assms(3) boot(2) by (auto simp: wired_def chan_grows_def list_all_length entry_wired_def)
  moreover have "hm_get (chm_routing m') k = Some e"
    using turn_wired [OF run(1) assms(4,5)] assms(3) by (auto simp: chan_grows_def)
  ultimately show ?thesis
    by (auto simp: entry_wired_def slot_from_def)
qed

theorem routes_are_stable_witness:
  "\<exists>m m' stop e. channels_run chan_env (channels_boot chan_env chan_manager) [chan_text ''7''] m
    \<and> run_state (channels_turn chan_env (Ch_Exit 0)) m = (stop, m')
    \<and> re_slot_index e < length (chm_slots m) \<and> hm_get (chm_routing m') (session_key_new ''tg'' ''private'' ''tg:7'') = Some e"
proof -
  have "map_option (\<lambda>m. (hm_get (chm_routing m) (session_key_new ''tg'' ''private'' ''tg:7''), 0 \<in> chm_streams m))
      (chan_play chan_env [chan_text ''7''] (channels_boot chan_env chan_manager))
     = Some (Some \<lparr>re_channel_id = ''tg'', re_acp_session_id = ''s1'', re_slot_index = 0, re_agent_name = ''a''\<rparr>, True)"
    unfolding chan_boot by (simp add: chan_demo)
  from chan_play_reaches [OF this]
  obtain m e where m: "channels_run chan_env (channels_boot chan_env chan_manager) [chan_text ''7''] m"
    "hm_get (chm_routing m) (session_key_new ''tg'' ''private'' ''tg:7'') = Some e"
    "channel_event_enabled m (Ch_Exit 0)"
    by auto
  obtain stop m' where turn: "run_state (channels_turn chan_env (Ch_Exit 0)) m = (stop, m')"
    by (cases "run_state (channels_turn chan_env (Ch_Exit 0)) m")
  have "chan_fresh chan_manager" by (simp add: chan_manager_def)
  from routes_are_stable [OF this m turn] m(1) turn show ?thesis by blast
qed

text \<open>
  Property C11.  What a channel sees of one prompt.  On a session routed to a live connection, the
  events of one prompt (dispatch, then any contents, then completion) are written in this order: the
  acknowledgement, the typing indicator, one \<open>response_started\<close> just before the first content and
  none when there is no content, every content once and in order, one \<open>response_completed\<close>.
\<close>

theorem channel_response_life_cycle:
  assumes "live_route k e nm out m" and "\<And>t. ce_stdin_ok E t"
  shows "live_route k e nm
    (out @ [ack_sent nm k e, typing_notification nm e]
      @ (if cs = [] then [] else [started_notification e]) @ map (content_notification e) cs
      @ [completed_notification E e r])
    (snd (run_state (for_each (DispatchStarted k # map (DeliverMessage k) cs @ [SessionComplete k r])
       (handle_channel_event E)) m))"
proof -
  have rest: "wp (for_each (map (DeliverMessage k) cs @ [SessionComplete k r]) (handle_channel_event E))
      (\<lambda>_. live_route k e nm (o' @ (if cs = [] then [] else [started_notification e])
         @ map (content_notification e) cs @ [completed_notification E e r])) m'"
    if "live_route k e nm o' m'" "k \<notin> chm_acked m'" for o' m'
    using that assms(2)
    by (cases cs) (auto simp: wp_simps wp_for_append
        intro!: wp_mono [OF deliver_live [of k e nm]] wp_mono [OF deliveries_live [of k e nm]]
          wp_mono [OF complete_live [of k e nm]])
  show ?thesis
    unfolding wp_snd [symmetric]
    using rest [of "out @ [ack_sent nm k e, typing_notification nm e]"]
    by (auto simp: wp_bind intro!: wp_mono [OF dispatch_live [OF assms]])
qed

theorem channel_response_life_cycle_witness:
  "\<exists>m e out. live_route demo_key e ''tg'' (out @ [ack_sent ''tg'' demo_key e, typing_notification ''tg'' e,
     started_notification e, content_notification e JNull, completed_notification chan_env e EndTurn]) m"
proof -
  let ?e = "\<lparr>re_channel_id = ''tg'', re_acp_session_id = ''s1'', re_slot_index = 0, re_agent_name = ''a''\<rparr>"
  let ?m = "chan_manager\<lparr>chm_slots := [chan_slot0], chm_routing := [(demo_key, ?e)]\<rparr>"
  have "live_route demo_key ?e ''tg'' (cn_out chan_conn0) ?m"
    by (simp add: live_route_def chan_route)
  from channel_response_life_cycle [OF this, of chan_env "[JNull]" EndTurn] show ?thesis
    by auto
qed



text \<open>
  Property C13.  A crashed channel does not disturb the others.  The handler of an exit changes the
  slot of that channel only: all other slots, the routes, the acknowledgement state, the pending
  permission waits and the buffered context stay as they are and nothing is sent to the agents
  manager.  Unless the back-off computation panics, the slot is left without a connection, or with a
  connection whose handshake was completed and on which nothing else was written, and in that case
  the slot was not disabled by this crash.
\<close>

theorem channel_crash_isolated:
  assumes "i < length (chm_slots m)" and "\<not> chm_panicked m" and "run_state (handle_channel_crash E i) m = (u, m')"
  shows "only_slot i m m' \<and> (chm_panicked m' \<or>
    (case chs_connection (chm_slots m' ! i) of
       None \<Rightarrow> True
     | Some c \<Rightarrow> new_connection (chs_channel_id (chm_slots m ! i)) c
         \<and> disabled (chs_lifecycle (chm_slots m' ! i)) = disabled (chs_lifecycle (chm_slots m ! i))))"
  using wp_run [OF keepsD [OF crash_only_slot] assms(3)] wp_run [OF crash_connection [OF assms(1,2)] assms(3)]
  by blast

theorem channel_crash_isolated_witness:
  "\<exists>u m'. run_state (handle_channel_crash chan_env 0) (channels_boot chan_env chan_manager) = (u, m')
    \<and> only_slot 0 (channels_boot chan_env chan_manager) m'"
proof -
  obtain u m' where turn: "run_state (handle_channel_crash chan_env 0) (channels_boot chan_env chan_manager) = (u, m')"
    by (cases "run_state (handle_channel_crash chan_env 0) (channels_boot chan_env chan_manager)")
  moreover have "0 < length (chm_slots (channels_boot chan_env chan_manager))"
    "\<not> chm_panicked (channels_boot chan_env chan_manager)"
    unfolding chan_boot by (simp_all add: chan_manager_def with_agents_handle_def channels_manager_new_def)
  ultimately show ?thesis using channel_crash_isolated by blast
qed

end
