(* ===== verification/Config_Load.thy ===== *)
theory Config_Load
  imports Config_Types
begin

text \<open>
  Preparing a configuration: \<open>crates/anyclaw-config/src/env_yaml.rs\<close> (the tag \<open>!env\<close>),
  \<open>resolve.rs\<close> (built-in binaries), \<open>parse.rs\<close> (resource limits) and \<open>validate.rs\<close>.

  The environment variables, the file system, starting a binary, and \<open>f64\<close> are parameters.  An
  index out of range and \<open>split_at\<close> inside a character panic, which is the value \<open>None\<close>.
\<close>

section \<open>Environment variables in YAML\<close>

datatype 'f yaml =
    Y_Null
  | Y_Bool bool
  | Y_Int int
  | Y_Float 'f
  | Y_Str string
  | Y_Seq "'f yaml list"
  | Y_Map "('f yaml \<times> 'f yaml) list"
  | Y_Tagged string "'f yaml"

definition env_missing :: "string \<Rightarrow> string" where
  "env_missing spec =
     ''env var substitution failed: variable '' @ [CHR 0x27] @ spec @ [CHR 0x27]
     @ '' is not set and has no default''"

definition resolve_env_spec :: "(string \<Rightarrow> string option) \<Rightarrow> string \<Rightarrow> string + string" where
  "resolve_env_spec getenv spec =
     (case split_once (CHR '':'') spec of
        Some (v, dflt) \<Rightarrow> Inr (unwrap_or (getenv v) dflt)
      | None \<Rightarrow> (case getenv spec of Some x \<Rightarrow> Inr x | None \<Rightarrow> Inl (env_missing spec)))"

definition coerce_value :: "(string \<Rightarrow> 'f option) \<Rightarrow> string \<Rightarrow> 'f yaml" where
  "coerce_value parse_f64 s =
     (if s = ''true'' then Y_Bool True
      else if s = ''false'' then Y_Bool False
      else if s = '''' then Y_Str s
      else (case parse_i64 s of
              Some n \<Rightarrow> Y_Int n
            | None \<Rightarrow> (case parse_f64 s of Some f \<Rightarrow> Y_Float f | None \<Rightarrow> Y_Str s)))"

definition not_a_string :: "('f yaml \<Rightarrow> string) \<Rightarrow> 'f yaml \<Rightarrow> string" where
  "not_a_string dbg v = ''!env tag value must be a string, got: '' @ dbg v"

fun resolve_env_tags ::
  "(string \<Rightarrow> string option) \<Rightarrow> (string \<Rightarrow> 'f option) \<Rightarrow> ('f yaml \<Rightarrow> string) \<Rightarrow> 'f yaml \<Rightarrow> string + 'f yaml"
and resolve_env_seq ::
  "(string \<Rightarrow> string option) \<Rightarrow> (string \<Rightarrow> 'f option) \<Rightarrow> ('f yaml \<Rightarrow> string) \<Rightarrow> 'f yaml list \<Rightarrow> string + 'f yaml list"
and resolve_env_map ::
  "(string \<Rightarrow> string option) \<Rightarrow> (string \<Rightarrow> 'f option) \<Rightarrow> ('f yaml \<Rightarrow> string)
    \<Rightarrow> ('f yaml \<times> 'f yaml) list \<Rightarrow> string + ('f yaml \<times> 'f yaml) list" where
  "resolve_env_tags g p dbg (Y_Tagged tag v) =
     (if tag = ''env''
      then (case v of
              Y_Str s \<Rightarrow> sum_bind (resolve_env_spec g s) (\<lambda>x. Inr (coerce_value p x))
            | _ \<Rightarrow> Inl (not_a_string dbg v))
      else Inr (Y_Tagged tag v))"
| "resolve_env_tags g p dbg (Y_Map m) = sum_bind (resolve_env_map g p dbg m) (\<lambda>m'. Inr (Y_Map m'))"
| "resolve_env_tags g p dbg (Y_Seq s) = sum_bind (resolve_env_seq g p dbg s) (\<lambda>s'. Inr (Y_Seq s'))"
| "resolve_env_tags g p dbg v = Inr v"
| "resolve_env_seq g p dbg [] = Inr []"
| "resolve_env_seq g p dbg (v # vs) =
     sum_bind (resolve_env_tags g p dbg v) (\<lambda>v'. sum_bind (resolve_env_seq g p dbg vs) (\<lambda>vs'. Inr (v' # vs')))"
| "resolve_env_map g p dbg [] = Inr []"
| "resolve_env_map g p dbg ((k, v) # m) =
     sum_bind (resolve_env_tags g p dbg v) (\<lambda>v'. sum_bind (resolve_env_map g p dbg m) (\<lambda>m'. Inr ((k, v') # m')))"


section \<open>Built-in binaries\<close>

definition LEGACY_ALIASES :: "(string \<times> string) list" where
  "LEGACY_ALIASES =
     [(''mock-agent'', ''agents/mock-agent''), (''telegram-channel'', ''channels/telegram''),
      (''debug-http'', ''channels/debug-http''), (''system-info'', ''tools/system-info''),
      (''opencode'', ''agents/opencode''), (''agents/opencode'', ''agents/acp-bridge''),
      (''agents/opencode-wrapper'', ''agents/acp-bridge''), (''acp'', ''agents/acp-bridge'')]"

definition built_in :: string where "built_in = ''@built-in/''"

definition resolve_binary_path :: "string \<Rightarrow> string \<Rightarrow> string" where
  "resolve_binary_path binary extensions_dir =
     (case strip_prefix built_in binary of
        None \<Rightarrow> binary
      | Some name \<Rightarrow>
          if starts_with ''agents/'' name \<or> starts_with ''channels/'' name \<or> starts_with ''tools/'' name
          then (case List.find (\<lambda>(old, _). old = name) LEGACY_ALIASES of
                  Some (_, canonical) \<Rightarrow> extensions_dir @ ''/'' @ canonical
                | None \<Rightarrow> extensions_dir @ ''/'' @ name)
          else (case List.find (\<lambda>(old, _). old = name) LEGACY_ALIASES of
                  Some (_, canonical) \<Rightarrow> extensions_dir @ ''/'' @ canonical
                | None \<Rightarrow> extensions_dir @ ''/'' @ name))"

definition resolve_soa :: "string \<Rightarrow> string_or_array \<Rightarrow> string_or_array option" where
  "resolve_soa ext s =
     (case soa_list s of [] \<Rightarrow> None | b # args \<Rightarrow> Some (StringOrArray (resolve_binary_path b ext # args)))"

definition resolve_agent :: "string \<Rightarrow> agent_config \<Rightarrow> agent_config option" where
  "resolve_agent ext a =
     (case ac_workspace a of
        Ws_Local l \<Rightarrow>
          map_option (\<lambda>b. a\<lparr>ac_workspace := Ws_Local (l\<lparr>lw_binary := b\<rparr>)\<rparr>) (resolve_soa ext (lw_binary l))
      | Ws_Docker d \<Rightarrow>
          (case dw_entrypoint d of
             None \<Rightarrow> Some a
           | Some ep \<Rightarrow>
               map_option (\<lambda>b. a\<lparr>ac_workspace := Ws_Docker (d\<lparr>dw_entrypoint := Some b\<rparr>)\<rparr>) (resolve_soa ext ep)))"

fun map_values :: "('v \<Rightarrow> 'v option) \<Rightarrow> ('k, 'v) hmap \<Rightarrow> ('k, 'v) hmap option" where
  "map_values f [] = Some []"
| "map_values f ((k, v) # m) =
     (case f v of None \<Rightarrow> None | Some v' \<Rightarrow> map_option (\<lambda>m'. (k, v') # m') (map_values f m))"

definition resolve_all_binary_paths :: "anyclaw_config \<Rightarrow> anyclaw_config option" where
  "resolve_all_binary_paths c =
     (let ext = cfg_extensions_dir c
      in map_option (\<lambda>agents. c\<lparr>
           cfg_agents_manager := (cfg_agents_manager c)\<lparr>amc_agents := agents\<rparr>,
           cfg_channels_manager := (cfg_channels_manager c)\<lparr>cmc_channels :=
             map (\<lambda>(n, ch). (n, ch\<lparr>chc_binary := resolve_binary_path (chc_binary ch) ext\<rparr>))
               (cmc_channels (cfg_channels_manager c))\<rparr>,
           cfg_tools_manager := (cfg_tools_manager c)\<lparr>tmc_tools :=
             map (\<lambda>(n, t). (n, t\<lparr>tc_binary := map_option (\<lambda>b. resolve_binary_path b ext) (tc_binary t)\<rparr>))
               (tmc_tools (cfg_tools_manager c))\<rparr>\<rparr>)
         (map_values (resolve_agent ext) (amc_agents (cfg_agents_manager c))))"


section \<open>Resource limits\<close>

record 'f f64_ops =
  f64_parse :: "string \<Rightarrow> 'f option"
  f64_le_zero :: "'f \<Rightarrow> bool"
  f64_scaled :: "'f \<Rightarrow> int \<Rightarrow> int"

datatype limit_error = Limit_Error (limit_value: string) (limit_reason: string)

definition quoted :: "string \<Rightarrow> string" where
  "quoted s = [CHR 0x27] @ s @ [CHR 0x27]"

definition parse_memory_limit :: "'f f64_ops \<Rightarrow> string \<Rightarrow> (limit_error + int) option" where
  "parse_memory_limit F s0 =
     (let s = str_trim s0
      in if s = '''' then Some (Inl (Limit_Error s ''empty string''))
         else if 128 \<le> (of_char (last s) :: nat) then None
         else (let num_str = butlast s; unit = [last s]; u = to_ascii_lowercase unit
               in case (if u = ''k'' then Some 1024 else if u = ''m'' then Some (1024 * 1024)
                        else if u = ''g'' then Some (1024 * 1024 * 1024) else None) of
                    None \<Rightarrow> Some (Inl (Limit_Error s
                      (''unknown unit suffix '' @ quoted unit @ '', expected k, m, or g'')))
                  | Some mul \<Rightarrow>
                      (case f64_parse F num_str of
                         None \<Rightarrow> Some (Inl (Limit_Error s (quoted num_str @ '' is not a valid number'')))
                       | Some num \<Rightarrow>
                           if f64_le_zero F num then Some (Inl (Limit_Error s ''value must be positive''))
                           else Some (Inr (f64_scaled F num mul)))))"

definition parse_cpu_limit :: "'f f64_ops \<Rightarrow> string \<Rightarrow> limit_error + int" where
  "parse_cpu_limit F s0 =
     (let s = str_trim s0
      in if s = '''' then Inl (Limit_Error s ''empty string'')
         else (case opt_or (strip_suffix ''m'' s) (strip_suffix ''M'' s) of
                 Some millis_str \<Rightarrow>
                   (case f64_parse F millis_str of
                      None \<Rightarrow> Inl (Limit_Error s (quoted millis_str @ '' is not a valid number''))
                    | Some millis \<Rightarrow>
                        if f64_le_zero F millis then Inl (Limit_Error s ''value must be positive'')
                        else Inr (f64_scaled F millis 1000000))
               | None \<Rightarrow>
                   (case f64_parse F s of
                      None \<Rightarrow> Inl (Limit_Error s (quoted s @ '' is not a valid number or millicore value (e.g. ''
                        @ quoted ''1.5'' @ '' or '' @ quoted ''500m'' @ '')''))
                    | Some cores \<Rightarrow>
                        if f64_le_zero F cores then Inl (Limit_Error s ''value must be positive'')
                        else Inr (f64_scaled F cores 1000000000))))"

end
