(* ===== verification/Config_Validate.thy ===== *)
theory Config_Validate
  imports Config_Load
begin

text \<open>
  \<open>crates/anyclaw-config/src/validate.rs\<close>: the checks of a loaded configuration.  The lemmas say
  what a configuration without errors satisfies, and what the preparation of \<open>Config_Load\<close> yields.
\<close>

section \<open>Hosts\<close>

text \<open>The parser of \<open>std::net::IpAddr\<close>; a parser returns the value and the rest.\<close>

fun hex_val :: "char \<Rightarrow> nat option" where
  "hex_val c =
     (let n = of_char c :: nat
      in if 48 \<le> n \<and> n \<le> 57 then Some (n - 48)
         else if 97 \<le> n \<and> n \<le> 102 then Some (n - 87)
         else if 65 \<le> n \<and> n \<le> 70 then Some (n - 55) else None)"

fun digits_prefix :: "(char \<Rightarrow> nat option) \<Rightarrow> string \<Rightarrow> nat list \<times> string" where
  "digits_prefix dv [] = ([], [])"
| "digits_prefix dv (c # cs) =
     (case dv c of
        None \<Rightarrow> ([], c # cs)
      | Some d \<Rightarrow> (case digits_prefix dv cs of (ds, rest) \<Rightarrow> (d # ds, rest)))"

definition read_octet :: "string \<Rightarrow> string option" where
  "read_octet s =
     (case digits_prefix digit_val s of (ds, rest) \<Rightarrow>
        if ds = [] \<or> 3 < length ds \<or> (hd ds = 0 \<and> 1 < length ds) \<or> 255 < foldl (\<lambda>a d. 10 * a + d) 0 ds
        then None else Some rest)"

definition read_group :: "string \<Rightarrow> string option" where
  "read_group s =
     (case digits_prefix hex_val s of (ds, rest) \<Rightarrow> if ds = [] \<or> 4 < length ds then None else Some rest)"

definition read_char :: "char \<Rightarrow> string \<Rightarrow> string option" where
  "read_char c s = (case s of [] \<Rightarrow> None | x # xs \<Rightarrow> if x = c then Some xs else None)"

text \<open>\<open>read_separator\<close>: the separator before every element but the first.\<close>

definition read_sep :: "char \<Rightarrow> nat \<Rightarrow> (string \<Rightarrow> string option) \<Rightarrow> string \<Rightarrow> string option" where
  "read_sep c i p s = (if i = 0 then p s else Option.bind (read_char c s) p)"

definition read_ipv4 :: "string \<Rightarrow> string option" where
  "read_ipv4 s =
     Option.bind (read_sep (CHR ''.'') 0 read_octet s) (\<lambda>s.
     Option.bind (read_sep (CHR ''.'') 1 read_octet s) (\<lambda>s.
     Option.bind (read_sep (CHR ''.'') 2 read_octet s) (\<lambda>s. read_sep (CHR ''.'') 3 read_octet s)))"

text \<open>\<open>read_groups\<close> from index \<open>i\<close> with \<open>n\<close> places left: groups read, whether it ended in an IPv4 address.\<close>

fun read_groups :: "nat \<Rightarrow> nat \<Rightarrow> string \<Rightarrow> nat \<times> bool \<times> string" where
  "read_groups i 0 s = (i, False, s)"
| "read_groups i (Suc n) s =
     (case (if 0 < n then read_sep (CHR '':'') i read_ipv4 s else None) of
        Some rest \<Rightarrow> (i + 2, True, rest)
      | None \<Rightarrow>
          (case read_sep (CHR '':'') i read_group s of
             Some rest \<Rightarrow> read_groups (Suc i) n rest
           | None \<Rightarrow> (i, False, s)))"

definition read_ipv6 :: "string \<Rightarrow> string option" where
  "read_ipv6 s =
     (case read_groups 0 8 s of (head_size, head_ipv4, rest) \<Rightarrow>
        if head_size = 8 then Some rest
        else if head_ipv4 then None
        else Option.bind (Option.bind (read_char (CHR '':'') rest) (read_char (CHR '':''))) (\<lambda>rest.
          case read_groups 0 (8 - (head_size + 1)) rest of (_, _, rest') \<Rightarrow> Some rest'))"

definition is_ip_addr :: "string \<Rightarrow> bool" where
  "is_ip_addr s = ((case read_ipv4 s of Some rest \<Rightarrow> Some rest | None \<Rightarrow> read_ipv6 s) = Some '''')"

definition ascii_alnum :: "char \<Rightarrow> bool" where
  "ascii_alnum c = (let n = of_char c :: nat in (48 \<le> n \<and> n \<le> 57) \<or> (65 \<le> n \<and> n \<le> 90) \<or> (97 \<le> n \<and> n \<le> 122))"

definition valid_label :: "string \<Rightarrow> bool" where
  "valid_label l \<longleftrightarrow>
     l \<noteq> '''' \<and> length l \<le> 63 \<and> list_all (\<lambda>c. ascii_alnum c \<or> c = CHR ''-'') l
     \<and> \<not> starts_with ''-'' l \<and> \<not> ends_with ''-'' l"

definition is_valid_host :: "string \<Rightarrow> bool" where
  "is_valid_host host =
     (if host = '''' then False
      else if is_ip_addr host then True
      else if 253 < length host then False
      else list_all valid_label (str_split (CHR ''.'') host))"


section \<open>Validation\<close>

datatype validation_error =
    BinaryNotFound string string
  | WorkingDirNotFound path
  | Val_InvalidMemoryLimit string string string
  | Val_InvalidCpuLimit string string string
  | InvalidDockerHost string string
  | InvalidVolumeMount string string
  | InvalidExtraHost string string
  | InvalidToolsServerHost string string

record 'f validate_env =
  ve_is_file :: "path \<Rightarrow> bool"
  ve_exists :: "path \<Rightarrow> bool"
  ve_runs :: "string \<Rightarrow> bool"
  ve_f64 :: "'f f64_ops"

definition is_absolute :: "string \<Rightarrow> bool" where
  "is_absolute p = starts_with ''/'' p"

definition binary_exists :: "'f validate_env \<Rightarrow> string \<Rightarrow> bool" where
  "binary_exists E b = (if is_absolute b then ve_is_file E b else ve_runs E b)"

definition memory_error_str :: "limit_error \<Rightarrow> string" where
  "memory_error_str e = ''invalid memory limit '' @ quoted (limit_value e) @ '': '' @ limit_reason e"

definition cpu_error_str :: "limit_error \<Rightarrow> string" where
  "cpu_error_str e = ''invalid cpu limit '' @ quoted (limit_value e) @ '': '' @ limit_reason e"

definition validate_tools_server_host :: "anyclaw_config \<Rightarrow> validation_error list" where
  "validate_tools_server_host c =
     (let h = tmc_tools_server_host (cfg_tools_manager c)
      in if is_valid_host h then [] else [InvalidToolsServerHost ''tools_manager.tools_server_host'' h])"

definition agent_field :: "string \<Rightarrow> string \<Rightarrow> string" where
  "agent_field name f = ''agents_manager.agents.'' @ name @ ''.workspace.'' @ f"

definition validate_local_agent ::
  "'f validate_env \<Rightarrow> string \<Rightarrow> local_workspace_config \<Rightarrow> validation_error list option" where
  "validate_local_agent E name l =
     (case soa_first (lw_binary l) of
        None \<Rightarrow> None
      | Some b \<Rightarrow> Some (
          (if binary_exists E b then [] else [BinaryNotFound (agent_field name ''binary'') b])
          @ (case lw_working_dir l of
               Some p \<Rightarrow> if ve_exists E p then [] else [WorkingDirNotFound p]
             | None \<Rightarrow> [])))"

definition validate_memory :: "'f validate_env \<Rightarrow> string \<Rightarrow> string option \<Rightarrow> validation_error list option" where
  "validate_memory E name m =
     (case m of
        None \<Rightarrow> Some []
      | Some mem \<Rightarrow>
          map_option (\<lambda>r. case r of
              Inl e \<Rightarrow> [Val_InvalidMemoryLimit (agent_field name ''memory_limit'') mem (memory_error_str e)]
            | Inr _ \<Rightarrow> [])
          (parse_memory_limit (ve_f64 E) mem))"

definition validate_docker_agent ::
  "'f validate_env \<Rightarrow> string \<Rightarrow> docker_workspace_config \<Rightarrow> validation_error list option" where
  "validate_docker_agent E name d =
     map_option (\<lambda>errs. errs
       @ (case dw_cpu_limit d of
            None \<Rightarrow> []
          | Some cpu \<Rightarrow>
              (case parse_cpu_limit (ve_f64 E) cpu of
                 Inl e \<Rightarrow> [Val_InvalidCpuLimit (agent_field name ''cpu_limit'') cpu (cpu_error_str e)]
               | Inr _ \<Rightarrow> []))
       @ (case dw_docker_host d of
            None \<Rightarrow> []
          | Some h \<Rightarrow>
              if \<not> starts_with ''unix://'' h \<and> \<not> starts_with ''tcp://'' h
              then [InvalidDockerHost (agent_field name ''docker_host'') h] else [])
       @ map (InvalidVolumeMount (agent_field name ''volumes'')) (filter (\<lambda>v. CHR '':'' \<notin> set v) (dw_volumes d))
       @ map (InvalidExtraHost (agent_field name ''extra_hosts'')) (filter (\<lambda>v. CHR '':'' \<notin> set v) (dw_extra_hosts d)))
     (validate_memory E name (dw_memory_limit d))"

definition validate_agent :: "'f validate_env \<Rightarrow> string \<times> agent_config \<Rightarrow> validation_error list option" where
  "validate_agent E p =
     (case ac_workspace (snd p) of
        Ws_Local l \<Rightarrow> validate_local_agent E (fst p) l
      | Ws_Docker d \<Rightarrow> validate_docker_agent E (fst p) d)"

fun concat_options :: "('a \<Rightarrow> 'b list option) \<Rightarrow> 'a list \<Rightarrow> 'b list option" where
  "concat_options f [] = Some []"
| "concat_options f (x # xs) =
     (case f x of None \<Rightarrow> None | Some ys \<Rightarrow> map_option (\<lambda>zs. ys @ zs) (concat_options f xs))"

definition validate_agents :: "'f validate_env \<Rightarrow> anyclaw_config \<Rightarrow> validation_error list option" where
  "validate_agents E c = concat_options (validate_agent E) (amc_agents (cfg_agents_manager c))"

definition validate_channel_binaries :: "'f validate_env \<Rightarrow> anyclaw_config \<Rightarrow> validation_error list" where
  "validate_channel_binaries E c =
     map (\<lambda>(n, ch). BinaryNotFound (''channels_manager.channels.'' @ n @ ''.binary'') (chc_binary ch))
       (filter (\<lambda>(n, ch). \<not> binary_exists E (chc_binary ch)) (cmc_channels (cfg_channels_manager c)))"

definition validate_tool_binaries :: "'f validate_env \<Rightarrow> anyclaw_config \<Rightarrow> validation_error list" where
  "validate_tool_binaries E c =
     List.map_filter (\<lambda>(n, t).
       (case tc_binary t of
          Some b \<Rightarrow> if binary_exists E b then None
                    else Some (BinaryNotFound (''tools_manager.tools.'' @ n @ ''.binary'') b)
        | None \<Rightarrow> None)) (tmc_tools (cfg_tools_manager c))"

text \<open>\<open>validate_config\<close>: the errors; the warnings are always empty.\<close>

definition validate_config :: "'f validate_env \<Rightarrow> anyclaw_config \<Rightarrow> validation_error list option" where
  "validate_config E c =
     map_option (\<lambda>agents. validate_tools_server_host c @ agents @ validate_channel_binaries E c
       @ validate_tool_binaries E c) (validate_agents E c)"

definition check_unknown_keys :: "json option \<Rightarrow> json \<Rightarrow> string list" where
  "check_unknown_keys yaml schema =
     (case Option.bind yaml as_object of
        None \<Rightarrow> []
      | Some obj \<Rightarrow>
          (let known = (case Option.bind (jget schema ''properties'') as_object of Some ps \<Rightarrow> map fst ps | None \<Rightarrow> [])
           in filter (\<lambda>k. k \<notin> set known) (map fst obj)))"

lemma host_examples:
  "is_valid_host ''127.0.0.1''" "is_valid_host ''::1''" "is_valid_host ''host.docker.internal''"
  "is_valid_host ''fe80::1:2''" "is_valid_host ''::ffff:1.2.3.4''" "\<not> is_valid_host ''a_b''" "\<not> is_valid_host ''1::2::3''"
  by code_simp+


section \<open>What preparation yields\<close>

text \<open>The \<open>!env\<close> tags of a document, through sequences and the values of mappings.\<close>

fun env_specs :: "'f yaml \<Rightarrow> 'f yaml list" and env_specs_seq :: "'f yaml list \<Rightarrow> 'f yaml list"
  and env_specs_map :: "('f yaml \<times> 'f yaml) list \<Rightarrow> 'f yaml list" where
  "env_specs (Y_Tagged tag v) = (if tag = ''env'' then [v] else [])"
| "env_specs (Y_Map m) = env_specs_map m"
| "env_specs (Y_Seq s) = env_specs_seq s"
| "env_specs _ = []"
| "env_specs_seq [] = []"
| "env_specs_seq (v # vs) = env_specs v @ env_specs_seq vs"
| "env_specs_map [] = []"
| "env_specs_map ((k, v) # m) = env_specs v @ env_specs_map m"

definition spec_ok :: "(string \<Rightarrow> string option) \<Rightarrow> 'f yaml \<Rightarrow> bool" where
  "spec_ok g v = (case v of Y_Str s \<Rightarrow> CHR '':'' \<in> set s \<or> g s \<noteq> None | _ \<Rightarrow> False)"

lemma resolve_spec_ok: "(\<exists>x. resolve_env_spec g s = Inr x) \<longleftrightarrow> CHR '':'' \<in> set s \<or> g s \<noteq> None"
  by (cases "split_once (CHR '':'') s")
    (auto simp: resolve_env_spec_def split_once_None split_once_Some split: option.split)

lemma coerce_no_env [simp]: "env_specs (coerce_value p s) = []"
  by (auto simp: coerce_value_def split: option.split)

lemma resolve_env_iff:
  "(\<exists>v'. resolve_env_tags g p dbg v = Inr v') \<longleftrightarrow> list_all (spec_ok g) (env_specs v)"
  "(\<exists>s'. resolve_env_seq g p dbg s = Inr s') \<longleftrightarrow> list_all (spec_ok g) (env_specs_seq s)"
  "(\<exists>m'. resolve_env_map g p dbg m = Inr m') \<longleftrightarrow> list_all (spec_ok g) (env_specs_map m)"
proof (induction v and s and m rule: env_specs_env_specs_seq_env_specs_map.induct)
  case (1 tag v)
  then show ?case
    using resolve_spec_ok by (cases v) (auto simp: spec_ok_def sum_bind_Inr_iff)
qed (auto simp: sum_bind_Inr_iff)

lemma resolve_env_clean:
  "resolve_env_tags g p dbg v = Inr v' \<Longrightarrow> env_specs v' = [] \<and> (env_specs v = [] \<longrightarrow> v' = v)"
  "resolve_env_seq g p dbg s = Inr s' \<Longrightarrow> env_specs_seq s' = [] \<and> (env_specs_seq s = [] \<longrightarrow> s' = s)"
  "resolve_env_map g p dbg m = Inr m' \<Longrightarrow> env_specs_map m' = [] \<and> (env_specs_map m = [] \<longrightarrow> m' = m)"
proof (induction v and s and m arbitrary: v' and s' and m' rule: env_specs_env_specs_seq_env_specs_map.induct)
  case (1 tag v)
  then show ?case by (cases v) (auto simp: sum_bind_Inr_iff split: if_splits)
qed (fastforce simp: sum_bind_Inr_iff)+


text \<open>The binaries of a configuration.\<close>

definition agent_binaries :: "agent_config \<Rightarrow> string list" where
  "agent_binaries a =
     (case ac_workspace a of
        Ws_Local l \<Rightarrow> take 1 (soa_list (lw_binary l))
      | Ws_Docker d \<Rightarrow> (case dw_entrypoint d of None \<Rightarrow> [] | Some ep \<Rightarrow> take 1 (soa_list ep)))"

definition config_binaries :: "anyclaw_config \<Rightarrow> string list" where
  "config_binaries c =
     concat (map (\<lambda>(n, a). agent_binaries a) (amc_agents (cfg_agents_manager c)))
     @ map (\<lambda>(n, ch). chc_binary ch) (cmc_channels (cfg_channels_manager c))
     @ List.map_filter (\<lambda>(n, t). tc_binary t) (tmc_tools (cfg_tools_manager c))"

lemma not_built_in: "\<not> starts_with built_in b \<Longrightarrow> resolve_binary_path b ext = b"
  by (simp add: resolve_binary_path_def starts_with_def strip_prefix_def)

text \<open>A directory that is not itself below \<open>@built-in/\<close> and does not end inside that prefix.\<close>

definition plain_dir :: "string \<Rightarrow> bool" where
  "plain_dir ext \<longleftrightarrow> (\<forall>rest. \<not> starts_with built_in (ext @ ''/'' @ rest))"

lemma plain_dirI: "starts_with ''/'' ext \<Longrightarrow> plain_dir ext"
  by (cases ext) (simp_all add: plain_dir_def starts_with_def built_in_def)

lemma resolved_plain: "plain_dir ext \<Longrightarrow> \<not> starts_with built_in (resolve_binary_path b ext)"
  by (auto simp: resolve_binary_path_def plain_dir_def starts_with_def strip_prefix_def split: option.split prod.split)

lemma resolve_twice: "plain_dir ext \<Longrightarrow> resolve_binary_path (resolve_binary_path b ext) ext = resolve_binary_path b ext"
  by (rule not_built_in [OF resolved_plain])

lemma resolve_soa_twice: "plain_dir ext \<Longrightarrow> resolve_soa ext s = Some s' \<Longrightarrow> resolve_soa ext s' = Some s'"
  by (auto simp: resolve_soa_def resolve_twice split: list.splits)

lemma resolve_soa_plain:
  "plain_dir ext \<Longrightarrow> resolve_soa ext s = Some s' \<Longrightarrow> list_all (\<lambda>b. \<not> starts_with built_in b) (take 1 (soa_list s'))"
  by (auto simp: resolve_soa_def resolved_plain split: list.splits)

lemma resolve_agent_twice: "plain_dir ext \<Longrightarrow> resolve_agent ext a = Some a' \<Longrightarrow> resolve_agent ext a' = Some a'"
  by (auto simp: resolve_agent_def resolve_soa_twice split: workspace_config.splits option.splits)

lemma resolve_agent_plain:
  "plain_dir ext \<Longrightarrow> resolve_agent ext a = Some a' \<Longrightarrow> list_all (\<lambda>b. \<not> starts_with built_in b) (agent_binaries a')"
  by (auto simp: resolve_agent_def agent_binaries_def dest!: resolve_soa_plain
      split: workspace_config.splits option.splits)

lemma map_values_twice:
  "(\<And>v v'. f v = Some v' \<Longrightarrow> f v' = Some v') \<Longrightarrow> map_values f m = Some m' \<Longrightarrow> map_values f m' = Some m'"
  by (induction m arbitrary: m') (auto split: option.splits)

lemma map_values_all:
  "(\<And>v v'. f v = Some v' \<Longrightarrow> P v') \<Longrightarrow> map_values f m = Some m' \<Longrightarrow> list_all (\<lambda>(k, v). P v) m'"
  by (induction m arbitrary: m') (auto split: option.splits)


section \<open>Properties\<close>

text \<open>
  Environment substitution.  A document is accepted exactly when every \<open>!env\<close> tag in it
  (through sequences and mapping values) holds a string that names a set variable or has a default;
  the result then has no such tag left, and a document without tags is unchanged.
\<close>

lemma env_tags_resolved:
  "((\<exists>v'. resolve_env_tags g p dbg v = Inr v') \<longleftrightarrow> list_all (spec_ok g) (env_specs v))
   \<and> (case resolve_env_tags g p dbg v of
        Inl e \<Rightarrow> True
      | Inr v' \<Rightarrow> env_specs v' = [] \<and> (if env_specs v = [] then v' = v else True))"
  using resolve_env_iff(1) [of g p dbg v] resolve_env_clean(1) [of g p dbg v]
  by (auto split: sum.split)

text \<open>
  Resolving the binaries of a configuration, with an absolute extensions directory,
  leaves no path with the prefix \<open>@built-in/\<close> and resolving again changes nothing.  But the aliases are
  looked up once: the old name \<open>opencode\<close> resolves to \<open>agents/opencode\<close>, itself an old name of
  \<open>agents/acp-bridge\<close>.
\<close>

lemma config_paths_resolved:
  assumes "starts_with ''/'' (cfg_extensions_dir c)" and "resolve_all_binary_paths c = Some c'"
  shows "list_all (\<lambda>b. \<not> starts_with built_in b) (config_binaries c') \<and> resolve_all_binary_paths c' = Some c'
    \<and> resolve_binary_path ''@built-in/opencode'' (cfg_extensions_dir c) = cfg_extensions_dir c @ ''/agents/opencode''
    \<and> resolve_binary_path ''@built-in/agents/opencode'' (cfg_extensions_dir c) = cfg_extensions_dir c @ ''/agents/acp-bridge''"
proof -
  let ?ext = "cfg_extensions_dir c"
  have ext: "plain_dir ?ext" using assms(1) by (rule plain_dirI)
  obtain agents where agents: "map_values (resolve_agent ?ext) (amc_agents (cfg_agents_manager c)) = Some agents"
    and c': "c' = c\<lparr>cfg_agents_manager := (cfg_agents_manager c)\<lparr>amc_agents := agents\<rparr>,
       cfg_channels_manager := (cfg_channels_manager c)\<lparr>cmc_channels :=
         map (\<lambda>(n, ch). (n, ch\<lparr>chc_binary := resolve_binary_path (chc_binary ch) ?ext\<rparr>)) (cmc_channels (cfg_channels_manager c))\<rparr>,
       cfg_tools_manager := (cfg_tools_manager c)\<lparr>tmc_tools :=
         map (\<lambda>(n, t). (n, t\<lparr>tc_binary := map_option (\<lambda>b. resolve_binary_path b ?ext) (tc_binary t)\<rparr>)) (tmc_tools (cfg_tools_manager c))\<rparr>\<rparr>"
    using assms(2) by (auto simp: resolve_all_binary_paths_def Let_def)
  have "list_all (\<lambda>(n, a). list_all (\<lambda>b. \<not> starts_with built_in b) (agent_binaries a)) agents"
    by (rule map_values_all [OF resolve_agent_plain [OF ext] agents])
  then have "list_all (\<lambda>b. \<not> starts_with built_in b) (config_binaries c')"
    by (auto simp: config_binaries_def c' list_all_iff map_filter_def resolved_plain [OF ext])
  moreover have "map_values (resolve_agent ?ext) agents = Some agents"
    by (rule map_values_twice [OF resolve_agent_twice [OF ext] agents])
  then have "resolve_all_binary_paths c' = Some c'"
    by (simp add: resolve_all_binary_paths_def c' Let_def comp_def case_prod_beta resolve_twice [OF ext] option.map_comp)
  ultimately show ?thesis
    by (simp add: resolve_binary_path_def strip_prefix_def built_in_def starts_with_def LEGACY_ALIASES_def)
qed

end
