(* ===== verification/Tools_Server.thy ===== *)
theory Tools_Server
  imports Agents_State
begin

text \<open>
  Tools: the tool SDK (\<open>crates/anyclaw-sdk-tool/src/server.rs\<close>, \<open>trait_def.rs\<close>, \<open>error.rs\<close>), the
  in-process host (\<open>crates/anyclaw-tools/src/mcp_host.rs\<close>), WASM tools (\<open>wasm_tool.rs\<close>,
  \<open>wasm_runner.rs\<close>) and the aggregated server of \<open>manager.rs\<close>.

  A program here is a state monad over a tick; what is outside (an implementation of the trait
  \<open>Tool\<close>, the MCP client of an external server, wasmtime, serde) is a function of the tick.
\<close>

section \<open>The tool SDK\<close>

datatype tool_sdk_error =
    Tool_ExecutionFailed string
  | Tool_InvalidInput string
  | Tool_Io string
  | Tool_Serde string

fun tool_sdk_error_str :: "tool_sdk_error \<Rightarrow> string" where
  "tool_sdk_error_str (Tool_ExecutionFailed e) = ''Tool execution failed: '' @ e"
| "tool_sdk_error_str (Tool_InvalidInput e) = ''Invalid input: '' @ e"
| "tool_sdk_error_str (Tool_Io e) = ''IO error: '' @ e"
| "tool_sdk_error_str (Tool_Serde e) = ''Serialization error: '' @ e"

type_synonym 'a tm = "(nat, 'a) state"

definition task :: "(nat \<Rightarrow> 'a) \<Rightarrow> 'a tm" where
  "task f = State (\<lambda>t. (f t, Suc t))"

record dyn_tool =
  dt_name :: string
  dt_description :: string
  dt_input_schema :: json
  dt_execute :: "nat \<Rightarrow> json \<Rightarrow> tool_sdk_error + json"

record rmcp_tool =
  rt_name :: string
  rt_description :: "string option"
  rt_input_schema :: "(string, json) hmap"

record call_tool_result =
  ctr_content :: "string list"
  ctr_is_error :: bool

datatype mcp_error =
    Mcp_InvalidParams string
  | Mcp_InternalError string

type_synonym tool_server = "(string, dyn_tool) hmap"

definition tool_server_new :: "dyn_tool list \<Rightarrow> tool_server" where
  "tool_server_new tools = hm_extend [] (map (\<lambda>t. (dt_name t, t)) tools)"

definition rmcp_of_tool :: "dyn_tool \<Rightarrow> rmcp_tool" where
  "rmcp_of_tool t =
     \<lparr>rt_name = dt_name t, rt_description = Some (dt_description t),
      rt_input_schema = unwrap_or (as_object (dt_input_schema t)) []\<rparr>"

definition build_tool_list :: "tool_server \<Rightarrow> rmcp_tool list" where
  "build_tool_list s = map (\<lambda>(n, t). rmcp_of_tool t) s"

definition result_success :: "string \<Rightarrow> call_tool_result" where
  "result_success text = \<lparr>ctr_content = [text], ctr_is_error = False\<rparr>"

definition result_error :: "string \<Rightarrow> call_tool_result" where
  "result_error text = \<lparr>ctr_content = [text], ctr_is_error = True\<rparr>"

definition unknown_tool :: "string \<Rightarrow> mcp_error" where
  "unknown_tool name = Mcp_InvalidParams (''unknown tool: '' @ name)"

text \<open>\<open>dispatch_tool\<close>; \<open>ser\<close> is \<open>serde_json::to_string\<close>.\<close>

definition tool_output :: "(json \<Rightarrow> string) \<Rightarrow> tool_sdk_error + json \<Rightarrow> call_tool_result" where
  "tool_output ser r =
     (case r of
        Inr (JStr s) \<Rightarrow> result_success s
      | Inr v \<Rightarrow> result_success (ser v)
      | Inl e \<Rightarrow> result_error (tool_sdk_error_str e))"

definition tool_input :: "(string, json) hmap option \<Rightarrow> json" where
  "tool_input args = unwrap_or (map_option JObj args) JNull"

definition dispatch_tool ::
  "(json \<Rightarrow> string) \<Rightarrow> tool_server \<Rightarrow> string \<Rightarrow> (string, json) hmap option
    \<Rightarrow> (mcp_error + call_tool_result) tm" where
  "dispatch_tool ser s name args =
     (case hm_get s name of
        None \<Rightarrow> ret (Inl (unknown_tool name))
      | Some tool \<Rightarrow> do {
          r \<leftarrow> task (\<lambda>t. dt_execute tool t (tool_input args));
          ret (Inr (tool_output ser r))
        })"


section \<open>WASM tools\<close>

datatype tools_error =
    ServerStart string
  | ServerNotRunning
  | McpHostFailed string
  | ExternalServerFailed string
  | ProxyError string
  | Tools_Io string

fun tools_error_str :: "tools_error \<Rightarrow> string" where
  "tools_error_str (ServerStart e) = ''Failed to start MCP server: '' @ e"
| "tools_error_str ServerNotRunning = ''MCP server not running''"
| "tools_error_str (McpHostFailed e) = ''MCP host failed: '' @ e"
| "tools_error_str (ExternalServerFailed e) = ''External MCP server failed: '' @ e"
| "tools_error_str (ProxyError e) = ''Tool proxy error: '' @ e"
| "tools_error_str (Tools_Io e) = ''IO error: '' @ e"

text \<open>The WASI context: what the module is given of the host.\<close>

datatype wasi_perms = Perms_Read | Perms_All

record wasi_preopen =
  wp_host :: path
  wp_guest :: string
  wp_dir_perms :: wasi_perms
  wp_file_perms :: wasi_perms

record wasi_ctx =
  wx_stdin :: string
  wx_preopens :: "wasi_preopen list"
  wx_env :: "(string \<times> string) list"

definition preopen_of :: "preopened_dir \<Rightarrow> wasi_preopen" where
  "preopen_of d =
     (let p = (if pd_readonly d then Perms_Read else Perms_All)
      in \<lparr>wp_host = pd_host d, wp_guest = pd_guest d, wp_dir_perms = p, wp_file_perms = p\<rparr>)"

definition option_string :: "(json \<Rightarrow> string) \<Rightarrow> json \<Rightarrow> string" where
  "option_string ser v = (case v of JStr s \<Rightarrow> s | _ \<Rightarrow> ser v)"

datatype wasm_trap = OutOfFuel | Interrupt | Other_Trap string

datatype wasm_call =
    Call_Returned
  | Call_Trap wasm_trap
  | Call_Error string

record wasm_limits =
  wl_memory :: nat
  wl_fuel :: u64
  wl_epoch_deadline :: u64

text \<open>wasmtime: compiling, opening a directory, linking, and running \<open>_start\<close> under a WASI context and limits,
  which ends in some way with some bytes on the standard output.\<close>

record wasm_engine =
  we_compile :: "string \<Rightarrow> string + unit"
  we_preopen :: "wasi_preopen \<Rightarrow> string + unit"
  we_set_fuel :: "u64 \<Rightarrow> string + unit"
  we_link :: "string + unit"
  we_instantiate :: "string \<Rightarrow> string + unit"
  we_start_export :: "string \<Rightarrow> string + unit"
  we_call :: "string \<Rightarrow> wasi_ctx \<Rightarrow> wasm_limits \<Rightarrow> wasm_call \<times> string"
  we_utf8 :: "string \<Rightarrow> string + string"

definition memory_growing :: "wasm_limits \<Rightarrow> nat \<Rightarrow> bool" where
  "memory_growing l desired = (desired \<le> wl_memory l)"

definition table_growing :: "nat \<Rightarrow> bool" where
  "table_growing desired = (desired \<le> 10000)"

definition host_failed :: "string \<Rightarrow> (string + 'a) \<Rightarrow> tools_error + 'a" where
  "host_failed what r = (case r of Inl e \<Rightarrow> Inl (McpHostFailed (what @ e)) | Inr a \<Rightarrow> Inr a)"

fun open_dirs :: "wasm_engine \<Rightarrow> preopened_dir list \<Rightarrow> tools_error + wasi_preopen list" where
  "open_dirs W [] = Inr []"
| "open_dirs W (d # ds) =
     sum_bind (host_failed (''preopened dir '' @ pd_guest d @ '': '') (we_preopen W (preopen_of d)))
       (\<lambda>_. sum_bind (open_dirs W ds) (\<lambda>ps. Inr (preopen_of d # ps)))"

definition build_wasi_ctx ::
  "wasm_engine \<Rightarrow> (json \<Rightarrow> string) \<Rightarrow> string \<Rightarrow> preopened_dir list \<Rightarrow> (string, json) hmap
    \<Rightarrow> tools_error + wasi_ctx" where
  "build_wasi_ctx W ser input_json dirs options =
     sum_bind (open_dirs W dirs)
       (\<lambda>ps. Inr \<lparr>wx_stdin = input_json, wx_preopens = ps,
          wx_env = map (\<lambda>(k, v). (k, option_string ser v)) options\<rparr>)"

fun call_failure :: "wasm_call \<Rightarrow> tools_error option" where
  "call_failure Call_Returned = None"
| "call_failure (Call_Trap OutOfFuel) = Some (McpHostFailed ''WASM execution exceeded fuel limit'')"
| "call_failure (Call_Trap Interrupt) = Some (McpHostFailed ''WASM execution exceeded time limit'')"
| "call_failure (Call_Trap (Other_Trap s)) = Some (McpHostFailed (''wasm trap: '' @ s))"
| "call_failure (Call_Error s) =
     Some (McpHostFailed (if str_contains ''unreachable'' s then ''WASM execution exceeded memory limit''
                          else ''wasm error: '' @ s))"

definition sandbox_limits :: "wasm_sandbox_config \<Rightarrow> wasm_limits" where
  "sandbox_limits s =
     \<lparr>wl_memory = unat (wsc_memory_limit_bytes s), wl_fuel = wsc_fuel_limit s,
      wl_epoch_deadline = wsc_epoch_timeout_secs s\<rparr>"

definition execute_sync ::
  "wasm_engine \<Rightarrow> (json \<Rightarrow> string) \<Rightarrow> string \<Rightarrow> string \<Rightarrow> wasm_sandbox_config \<Rightarrow> (string, json) hmap
    \<Rightarrow> tools_error + string" where
  "execute_sync W ser module_bytes input_json sandbox options =
     sum_bind (host_failed ''wasm compile: '' (we_compile W module_bytes)) (\<lambda>_.
     sum_bind (build_wasi_ctx W ser input_json (wsc_preopened_dirs sandbox) options) (\<lambda>wasi.
     sum_bind (host_failed ''set fuel: '' (we_set_fuel W (wsc_fuel_limit sandbox))) (\<lambda>_.
     sum_bind (host_failed ''wasi link: '' (we_link W)) (\<lambda>_.
     sum_bind (host_failed ''instantiate: '' (we_instantiate W module_bytes)) (\<lambda>_.
     sum_bind (host_failed ''no _start export: '' (we_start_export W module_bytes)) (\<lambda>_.
       case we_call W module_bytes wasi (sandbox_limits sandbox) of (c, out) \<Rightarrow>
         (case call_failure c of
            Some e \<Rightarrow> Inl e
          | None \<Rightarrow>
              sum_bind (host_failed ''invalid utf8 output: '' (we_utf8 W out)) (\<lambda>s. Inr (str_trim s)))))))))"

text \<open>\<open>WasmTool::new\<close> and its \<open>Tool\<close> implementation; \<open>parse\<close> is \<open>serde_json::from_str\<close>.\<close>

definition wasm_tool_new ::
  "wasm_engine \<Rightarrow> (json \<Rightarrow> string) \<Rightarrow> (string \<Rightarrow> json option) \<Rightarrow> (path \<Rightarrow> string + string)
    \<Rightarrow> string \<Rightarrow> tool_config \<Rightarrow> tool_sdk_error + dyn_tool" where
  "wasm_tool_new W ser parse read_file name config =
     (case tc_module config of
        None \<Rightarrow> Inl (Tool_ExecutionFailed ''no module path specified'')
      | Some p \<Rightarrow>
          (case read_file p of
             Inl e \<Rightarrow> Inl (Tool_Io e)
           | Inr bytes \<Rightarrow>
               Inr \<lparr>dt_name = name, dt_description = tc_description config,
                 dt_input_schema = unwrap_or (Option.bind (tc_input_schema config) parse)
                   (JObj [(''type'', JStr ''object'')]),
                 dt_execute = (\<lambda>t input.
                   (case execute_sync W ser bytes (ser input) (tc_sandbox config) (tc_options config) of
                      Inl e \<Rightarrow> Inl (Tool_ExecutionFailed (tools_error_str e))
                    | Inr output \<Rightarrow> Inr (unwrap_or (parse output) (JStr output))))\<rparr>))"


section \<open>The aggregated server\<close>

record tools_env =
  te_spawn :: "nat \<Rightarrow> string \<Rightarrow> tool_config \<Rightarrow> string + unit"
  te_list :: "nat \<Rightarrow> string \<Rightarrow> tools_error + rmcp_tool list"
  te_call :: "nat \<Rightarrow> string \<Rightarrow> string \<Rightarrow> (string, json) hmap option \<Rightarrow> duration \<times> (tools_error + call_tool_result)"
  te_engine :: "string + wasm_engine"
  te_bind :: "nat \<Rightarrow> string + u16"
  te_read_file :: "path \<Rightarrow> string + string"
  te_ser :: "json \<Rightarrow> string"
  te_parse :: "string \<Rightarrow> json option"

text \<open>An external server is known by its name; the server after \<open>AggregatedToolServer::new\<close>.\<close>

record aggregated_server =
  as_native_host :: tool_server
  as_external_servers :: "string list"
  as_call_timeouts :: "(string, duration) hmap"

fun ext_tool_list :: "tools_env \<Rightarrow> string list \<Rightarrow> rmcp_tool list tm" where
  "ext_tool_list E [] = ret []"
| "ext_tool_list E (x # xs) = do {
     r \<leftarrow> task (\<lambda>t. te_list E t x);
     rest \<leftarrow> ext_tool_list E xs;
     ret ((case r of Inl e \<Rightarrow> [] | Inr ts \<Rightarrow> ts) @ rest)
   }"

definition aggregate_tool_list :: "tools_env \<Rightarrow> aggregated_server \<Rightarrow> rmcp_tool list tm" where
  "aggregate_tool_list E s = do {
     ext \<leftarrow> ext_tool_list E (as_external_servers s);
     ret (build_tool_list (as_native_host s) @ ext)
   }"

definition as_secs :: "duration \<Rightarrow> nat" where
  "as_secs d = d div 10 ^ 9"

text \<open>\<open>ext.call_tool(params)\<close> under the timeout of the server.\<close>

definition ext_outcome ::
  "duration option \<Rightarrow> string \<Rightarrow> duration \<times> (tools_error + call_tool_result) \<Rightarrow> mcp_error + call_tool_result" where
  "ext_outcome limit name r =
     (case r of (elapsed, result) \<Rightarrow>
        (case limit of
           Some d \<Rightarrow>
             if d < elapsed
             then Inl (Mcp_InternalError (''tool call '' @ [CHR 0x27] @ name @ [CHR 0x27] @ '' timed out after ''
                    @ show_int (int (as_secs d)) @ ''s''))
             else (case result of Inl e \<Rightarrow> Inl (Mcp_InternalError (tools_error_str e)) | Inr x \<Rightarrow> Inr x)
         | None \<Rightarrow>
             (case result of Inl e \<Rightarrow> Inl (Mcp_InternalError (tools_error_str e)) | Inr x \<Rightarrow> Inr x)))"

fun dispatch_external ::
  "tools_env \<Rightarrow> (string, duration) hmap \<Rightarrow> string list \<Rightarrow> string \<Rightarrow> (string, json) hmap option
    \<Rightarrow> (mcp_error + call_tool_result) tm" where
  "dispatch_external E timeouts [] name args = ret (Inl (unknown_tool name))"
| "dispatch_external E timeouts (x # xs) name args = do {
     r \<leftarrow> task (\<lambda>t. te_list E t x);
     if (case r of Inl e \<Rightarrow> False | Inr ts \<Rightarrow> list_ex (\<lambda>t. rt_name t = name) ts)
     then do {
       c \<leftarrow> task (\<lambda>t. te_call E t x name args);
       ret (ext_outcome (hm_get timeouts x) name c)
     }
     else dispatch_external E timeouts xs name args
   }"

definition dispatch_tool_inner ::
  "tools_env \<Rightarrow> aggregated_server \<Rightarrow> string \<Rightarrow> (string, json) hmap option \<Rightarrow> (mcp_error + call_tool_result) tm" where
  "dispatch_tool_inner E s name args = do {
     r \<leftarrow> dispatch_tool (te_ser E) (as_native_host s) name args;
     case r of
       Inr result \<Rightarrow> ret (Inr result)
     | Inl e \<Rightarrow> dispatch_external E (as_call_timeouts s) (as_external_servers s) name args
   }"

end
