(* ===== verification/Tools_Manager.thy ===== *)
theory Tools_Manager
  imports Tools_Server
begin

text \<open>
  The tools manager, \<open>crates/anyclaw-tools/src/manager.rs\<close>: loading the tools, the advertised URLs,
  the commands of its event loop, and the server that agents call.  \<open>tlm_server\<close> is the server that
  listens, if one was started.
\<close>

section \<open>State and start\<close>

record tools_manager =
  tlm_tool_configs :: "(string \<times> tool_config) list"
  tlm_native_tools :: "dyn_tool list"
  tlm_server_urls :: "mcp_server_url list"
  tlm_native_host :: "tool_server option"
  tlm_external_servers :: "string list option"
  tlm_tools_server_host :: string
  tlm_server :: "aggregated_server option"
  tlm_tick :: nat

definition tools_manager_new :: "(string \<times> tool_config) list \<Rightarrow> string \<Rightarrow> tools_manager" where
  "tools_manager_new configs host =
     \<lparr>tlm_tool_configs = configs, tlm_native_tools = [], tlm_server_urls = [], tlm_native_host = None,
      tlm_external_servers = None, tlm_tools_server_host = host, tlm_server = None, tlm_tick = 0\<rparr>"

definition with_native_tools :: "dyn_tool list \<Rightarrow> tools_manager \<Rightarrow> tools_manager" where
  "with_native_tools tools m = m\<lparr>tlm_native_tools := tools\<rparr>"

type_synonym 'a tlm = "(tools_manager, 'a) state"

definition tools_task :: "'a tm \<Rightarrow> 'a tlm" where
  "tools_task p = State (\<lambda>m. case run_state p (tlm_tick m) of (a, t) \<Rightarrow> (a, m\<lparr>tlm_tick := t\<rparr>))"

definition enabled_tool_configs :: "tools_manager \<Rightarrow> tool_type \<Rightarrow> (string \<times> tool_config) list" where
  "enabled_tool_configs m ty = filter (\<lambda>(n, c). tc_tool_type c = ty \<and> tc_enabled c) (tlm_tool_configs m)"

definition load_wasm_tools :: "tools_env \<Rightarrow> wasm_engine \<Rightarrow> (string \<times> tool_config) list \<Rightarrow> dyn_tool list" where
  "load_wasm_tools E W configs =
     List.map_filter (\<lambda>(n, c).
       (case wasm_tool_new W (te_ser E) (te_parse E) (te_read_file E) n c of Inl e \<Rightarrow> None | Inr t \<Rightarrow> Some t))
     configs"

definition load_all_tools ::
  "tools_env \<Rightarrow> (string \<times> tool_config) list \<Rightarrow> (manager_error + dyn_tool list) tlm" where
  "load_all_tools E wasm_configs = do {
     native \<leftarrow> gets tlm_native_tools;
     modify (\<lambda>m. m\<lparr>tlm_native_tools := []\<rparr>);
     if wasm_configs = [] then ret (Inr native)
     else ret (case te_engine E of
                 Inl e \<Rightarrow> Inl (Internal (''wasm runner: '' @ tools_error_str (McpHostFailed (''wasmtime engine: '' @ e))))
               | Inr W \<Rightarrow> Inr (native @ load_wasm_tools E W wasm_configs))
   }"

text \<open>\<open>ExternalMcpServer::spawn\<close> and the loop over the configured servers.\<close>

definition external_spawn :: "tools_env \<Rightarrow> string \<Rightarrow> tool_config \<Rightarrow> (tools_error + string) tm" where
  "external_spawn E name config =
     (case tc_binary config of
        None \<Rightarrow> ret (Inl (ExternalServerFailed (name @ '': no binary specified'')))
      | Some b \<Rightarrow> do {
          r \<leftarrow> task (\<lambda>t. te_spawn E t name config);
          ret (case r of Inl e \<Rightarrow> Inl (ExternalServerFailed (name @ '': '' @ e)) | Inr _ \<Rightarrow> Inr name)
        })"

fun spawn_external_servers :: "tools_env \<Rightarrow> (string \<times> tool_config) list \<Rightarrow> string list tm" where
  "spawn_external_servers E [] = ret []"
| "spawn_external_servers E ((n, c) # cs) = do {
     r \<leftarrow> external_spawn E n c;
     rest \<leftarrow> spawn_external_servers E cs;
     ret (case r of Inl e \<Rightarrow> rest | Inr x \<Rightarrow> x # rest)
   }"

definition call_timeouts :: "tools_manager \<Rightarrow> (string, duration) hmap" where
  "call_timeouts m =
     List.map_filter (\<lambda>(n, c). map_option (\<lambda>s. (n, from_secs s)) (tc_call_timeout_secs c)) (tlm_tool_configs m)"

definition allowed_hosts :: "string \<Rightarrow> string list" where
  "allowed_hosts host =
     [''localhost'', ''127.0.0.1'', ''::1'']
     @ (if host \<noteq> ''127.0.0.1'' \<and> host \<noteq> ''localhost'' \<and> host \<noteq> ''::1'' then [host] else [])"

definition server_url :: "tools_manager \<Rightarrow> u16 \<Rightarrow> string" where
  "server_url m port = ''http://'' @ tlm_tools_server_host m @ '':'' @ show_int (uint port) @ ''/mcp''"

definition start_aggregated_server_if_needed ::
  "tools_env \<Rightarrow> tool_server \<Rightarrow> string list \<Rightarrow> (string \<times> tool_config) list \<Rightarrow> (manager_error + unit) tlm" where
  "start_aggregated_server_if_needed E native_host external_servers mcp_configs =
     (if build_tool_list native_host = [] \<and> external_servers = [] then ret (Inr ())
      else do {
        r \<leftarrow> tools_task (task (te_bind E));
        case r of
          Inl e \<Rightarrow> ret (Inl (Internal (''tools server bind: '' @ e)))
        | Inr port \<Rightarrow> do {
            modify (\<lambda>m. m\<lparr>tlm_server := Some \<lparr>as_native_host = native_host,
                as_external_servers = external_servers, as_call_timeouts = call_timeouts m\<rparr>,
              tlm_server_urls := tlm_server_urls m
                @ map (\<lambda>(n, c). \<lparr>msu_name = n, msu_url = server_url m port\<rparr>) mcp_configs\<rparr>);
            ret (Inr ())
          }
      })"

definition tools_start :: "tools_env \<Rightarrow> (manager_error + unit) tlm" where
  "tools_start E = do {
     m \<leftarrow> gets id;
     let wasm_configs = enabled_tool_configs m Tool_Wasm;
     let mcp_configs = enabled_tool_configs m Tool_Mcp;
     try_then (load_all_tools E wasm_configs) (\<lambda>all_tools. do {
       let native_host = tool_server_new all_tools;
       modify (\<lambda>m. m\<lparr>tlm_native_host := Some native_host\<rparr>);
       externals \<leftarrow> tools_task (spawn_external_servers E mcp_configs);
       modify (\<lambda>m. m\<lparr>tlm_external_servers := Some externals\<rparr>);
       start_aggregated_server_if_needed E native_host externals mcp_configs
     })
   }"


section \<open>Commands\<close>

datatype tools_command =
    GetMcpUrls "string list option"
  | GetToolDescriptions "string list option"
  | Tools_Shutdown

datatype tools_answer =
    Urls "mcp_server_url list"
  | Descriptions "tool_description list"
  | Stopped

definition mcp_urls :: "tools_manager \<Rightarrow> string list option \<Rightarrow> mcp_server_url list" where
  "mcp_urls m names =
     (case names of
        Some ns \<Rightarrow> filter (\<lambda>u. list_ex (\<lambda>n. n = msu_name u) ns) (tlm_server_urls m)
      | None \<Rightarrow> tlm_server_urls m)"

definition describe :: "rmcp_tool \<Rightarrow> tool_description" where
  "describe t = \<lparr>td_name = rt_name t, td_description = unwrap_or (rt_description t) ''''\<rparr>"

definition collect_tool_descriptions ::
  "tools_env \<Rightarrow> tools_manager \<Rightarrow> string list option \<Rightarrow> tool_description list tm" where
  "collect_tool_descriptions E m names = do {
     ext \<leftarrow> ext_tool_list E (unwrap_or (tlm_external_servers m) []);
     let ds = map describe (build_tool_list (unwrap_or (tlm_native_host m) []) @ ext);
     ret (case names of
            Some ns \<Rightarrow> filter (\<lambda>d. list_ex (\<lambda>n. n = td_name d) ns) ds
          | None \<Rightarrow> ds)
   }"

fun handle_tools_command :: "tools_env \<Rightarrow> tools_command \<Rightarrow> tools_answer tlm" where
  "handle_tools_command E (GetMcpUrls names) = gets (\<lambda>m. Urls (mcp_urls m names))"
| "handle_tools_command E (GetToolDescriptions names) = do {
     m \<leftarrow> gets id;
     ds \<leftarrow> tools_task (collect_tool_descriptions E m names);
     ret (Descriptions ds)
   }"
| "handle_tools_command E Tools_Shutdown = do {
     modify (\<lambda>m. m\<lparr>tlm_server := None\<rparr>);
     ret Stopped
   }"

definition tools_health_check :: "tools_manager \<Rightarrow> bool" where
  "tools_health_check m = (tlm_server_urls m \<noteq> [] \<or> tlm_tool_configs m = [])"


section \<open>Calls\<close>

lemma run_task [simp]: "run_state (task f) t = (f t, Suc t)"
  by (simp add: task_def)

text \<open>The names an external server offers, where its list does not change.\<close>

definition offers :: "(string \<Rightarrow> tools_error + rmcp_tool list) \<Rightarrow> string \<Rightarrow> string \<Rightarrow> bool" where
  "offers L x name = (case L x of Inl e \<Rightarrow> False | Inr ts \<Rightarrow> list_ex (\<lambda>t. rt_name t = name) ts)"

lemma run_dispatch_external:
  assumes "\<And>x t. x \<in> set xs \<Longrightarrow> te_list E t x = L x"
  shows "fst (run_state (dispatch_external E timeouts xs name args) t) =
    (case List.find (\<lambda>x. offers L x name) xs of
       None \<Rightarrow> Inl (unknown_tool name)
     | Some x \<Rightarrow> ext_outcome (hm_get timeouts x) name
         (te_call E (Suc (t + length (takeWhile (\<lambda>x. \<not> offers L x name) xs))) x name args))"
  using assms
proof (induction xs arbitrary: t)
  case (Cons x xs)
  then have "te_list E t x = L x" by simp
  then show ?case
    using Cons by (cases "offers L x name") (simp_all add: offers_def [symmetric] split: option.split)
qed simp

lemma run_ext_tool_list:
  assumes "\<And>x t. x \<in> set xs \<Longrightarrow> te_list E t x = L x"
  shows "fst (run_state (ext_tool_list E xs) t) = concat (map (\<lambda>x. case L x of Inl e \<Rightarrow> [] | Inr ts \<Rightarrow> ts) xs)"
  using assms
  by (induction xs arbitrary: t) (auto simp: split: sum.split prod.split, metis fst_conv)

lemma ext_listed:
  assumes "\<And>x t. x \<in> set xs \<Longrightarrow> te_list E t x = L x"
  shows "(\<exists>r \<in> set (fst (run_state (ext_tool_list E xs) t)). rt_name r = name) \<longleftrightarrow>
    (\<exists>x \<in> set xs. offers L x name)"
proof -
  have "fst (run_state (ext_tool_list E xs) t) = concat (map (\<lambda>x. case L x of Inl e \<Rightarrow> [] | Inr ts \<Rightarrow> ts) xs)"
    by (rule run_ext_tool_list) (rule assms)
  moreover have "r \<in> set (case L x of Inl e \<Rightarrow> [] | Inr ts \<Rightarrow> ts) \<longleftrightarrow> (\<exists>ts. L x = Inr ts \<and> r \<in> set ts)" for r x
    by (cases "L x") auto
  moreover have "offers L x name \<longleftrightarrow> (\<exists>ts. L x = Inr ts \<and> (\<exists>r \<in> set ts. rt_name r = name))" for x
    by (cases "L x") (auto simp: offers_def list_ex_iff)
  ultimately show ?thesis by (simp only: set_concat set_map) blast
qed

lemma run_aggregate:
  "fst (run_state (aggregate_tool_list E s) t) =
    build_tool_list (as_native_host s) @ fst (run_state (ext_tool_list E (as_external_servers s)) t)"
  by (simp add: aggregate_tool_list_def split: prod.split)

lemma ext_outcome_known: "ext_outcome l name r \<noteq> Inl (unknown_tool name')"
  by (auto simp: ext_outcome_def unknown_tool_def split: prod.split option.split sum.split)

lemma tool_server_names: "hm_get (tool_server_new tools) n = Some t \<Longrightarrow> dt_name t = n"
  unfolding tool_server_new_def hm_get_extend
  by (auto dest!: map_of_SomeD split: option.splits)

lemma tool_server_listed:
  "(\<exists>r \<in> set (build_tool_list (tool_server_new tools)). rt_name r = name) \<longleftrightarrow>
    hm_get (tool_server_new tools) name \<noteq> None"
proof -
  have ok: "hm_ok (tool_server_new tools)" by (simp add: tool_server_new_def)
  have "(\<exists>r \<in> set (build_tool_list (tool_server_new tools)). rt_name r = name) \<longleftrightarrow>
      (\<exists>n t. (n, t) \<in> set (tool_server_new tools) \<and> dt_name t = name)"
    by (force simp: build_tool_list_def rmcp_of_tool_def)
  also have "\<dots> \<longleftrightarrow> (\<exists>n t. hm_get (tool_server_new tools) n = Some t \<and> dt_name t = name)"
    by (simp add: hm_get_iff [OF ok])
  also have "\<dots> \<longleftrightarrow> hm_get (tool_server_new tools) name \<noteq> None"
    using tool_server_names by blast
  finally show ?thesis .
qed


section \<open>Start\<close>

lemma run_tools_task [simp]:
  "run_state (tools_task p) m = (case run_state p (tlm_tick m) of (a, t) \<Rightarrow> (a, m\<lparr>tlm_tick := t\<rparr>))"
  by (simp add: tools_task_def)

lemma wp_tools_task [wp_simps]:
  "wp (tools_task p) Q m \<longleftrightarrow> (case run_state p (tlm_tick m) of (a, t) \<Rightarrow> Q a (m\<lparr>tlm_tick := t\<rparr>))"
  by (simp add: wp_def split: prod.split)

lemma start_urls:
  "wp (tools_start E) (\<lambda>r m'. r = Inr () \<longrightarrow>
     tlm_tool_configs m' = tlm_tool_configs m \<and>
     (case tlm_server m' of
        None \<Rightarrow> tlm_server_urls m' = []
      | Some s \<Rightarrow> map msu_name (tlm_server_urls m') = map fst (enabled_tool_configs m Tool_Mcp)
          \<and> (\<exists>url. \<forall>u \<in> set (tlm_server_urls m'). msu_url u = url)
          \<and> tlm_native_host m' = Some (as_native_host s)
          \<and> tlm_external_servers m' = Some (as_external_servers s))) m"
  if "tlm_server m = None" "tlm_server_urls m = []"
  using that
  unfolding tools_start_def load_all_tools_def start_aggregated_server_if_needed_def
  by (auto simp: wp_simps Let_def wp_funs split: sum.split prod.split option.split)


section \<open>A concrete environment\<close>

definition demo_tool :: rmcp_tool where
  "demo_tool = \<lparr>rt_name = ''find'', rt_description = None, rt_input_schema = []\<rparr>"

definition demo_engine :: wasm_engine where
  "demo_engine =
     \<lparr>we_compile = (\<lambda>b. Inr ()), we_preopen = (\<lambda>d. Inr ()), we_set_fuel = (\<lambda>f. Inr ()), we_link = Inr (),
      we_instantiate = (\<lambda>b. Inr ()), we_start_export = (\<lambda>b. Inr ()),
      we_call = (\<lambda>b c l. (Call_Returned, ''4'')), we_utf8 = Inr\<rparr>"

definition demo_wasm :: tool_config where
  "demo_wasm =
     \<lparr>tc_tool_type = Tool_Wasm, tc_binary = None, tc_args = [], tc_enabled = True, tc_module = Some ''/m.wasm'',
      tc_description = ''calculator'', tc_input_schema = None, tc_sandbox = wasm_sandbox_config_default,
      tc_options = [], tc_call_timeout_secs = None\<rparr>"

definition tools_demo_env :: tools_env where
  "tools_demo_env =
     \<lparr>te_spawn = (\<lambda>t n c. Inr ()), te_list = (\<lambda>t x. Inr [demo_tool]),
      te_call = (\<lambda>t x n a. (1, Inr (result_success ''found''))), te_engine = Inr demo_engine,
      te_bind = (\<lambda>t. Inr 9000), te_read_file = (\<lambda>p. Inr ''wasm''), te_ser = (\<lambda>j. ''''), te_parse = (\<lambda>s. None)\<rparr>"


section \<open>Properties\<close>

text \<open>
  Property C31.  The tools that the server lists are exactly the tools that it can call.  As long as the
  external servers do not change their lists, a name is in the listing if and only if a call of that
  name is not answered with the error for unknown tools; a native tool wins over external ones of its
  name, and its failures are results, never protocol errors; otherwise the first external server that
  offers the name is called, under its own timeout.
\<close>

theorem tool_calls_routed:
  assumes "\<And>x t. x \<in> set (as_external_servers s) \<Longrightarrow> te_list E t x = L x"
    and "as_native_host s = tool_server_new tools"
  shows "((\<exists>r \<in> set (fst (run_state (aggregate_tool_list E s) t)). rt_name r = name) \<longleftrightarrow>
      fst (run_state (dispatch_tool_inner E s name args) t) \<noteq> Inl (unknown_tool name))
    \<and> fst (run_state (dispatch_tool_inner E s name args) t) =
      (case hm_get (as_native_host s) name of
         Some tool \<Rightarrow> Inr (tool_output (te_ser E) (dt_execute tool t (tool_input args)))
       | None \<Rightarrow>
           (case List.find (\<lambda>x. offers L x name) (as_external_servers s) of
              None \<Rightarrow> Inl (unknown_tool name)
            | Some x \<Rightarrow> ext_outcome (hm_get (as_call_timeouts s) x) name
                (te_call E (Suc (t + length (takeWhile (\<lambda>x. \<not> offers L x name) (as_external_servers s)))) x name args)))"
    (is "(?listed \<longleftrightarrow> ?call \<noteq> _) \<and> ?call = ?spec")
proof -
  have call: "?call = ?spec"
    by (simp add: dispatch_tool_inner_def dispatch_tool_def run_dispatch_external [OF assms(1)] split: option.split)
  have "?listed \<longleftrightarrow> hm_get (as_native_host s) name \<noteq> None \<or> (\<exists>x \<in> set (as_external_servers s). offers L x name)"
    using tool_server_listed [of tools name] ext_listed [where t = t and name = name, OF assms(1)]
    by (simp add: run_aggregate assms(2) bex_Un)
  also have "\<dots> \<longleftrightarrow> ?spec \<noteq> Inl (unknown_tool name)"
    by (auto simp: ext_outcome_known find_None_iff find_Some_iff split: option.split)
  finally show ?thesis using call by simp
qed

theorem tool_calls_routed_witness:
  "let E = tools_demo_env; s = \<lparr>as_native_host = tool_server_new [], as_external_servers = [''search''],
       as_call_timeouts = [(''search'', 5)]\<rparr>
   in fst (run_state (dispatch_tool_inner E s ''find'' None) 0) \<noteq> Inl (unknown_tool ''find'')
     \<and> fst (run_state (dispatch_tool_inner E s ''other'' None) 0) = Inl (unknown_tool ''other'')"
proof -
  let ?s = "\<lparr>as_native_host = tool_server_new [], as_external_servers = [''search''],
    as_call_timeouts = [(''search'', 5)]\<rparr> :: aggregated_server"
  have lists: "\<And>x t. x \<in> set (as_external_servers ?s) \<Longrightarrow> te_list tools_demo_env t x = Inr [demo_tool]"
    by (simp add: tools_demo_env_def)
  show ?thesis
    using tool_calls_routed [of ?s tools_demo_env "\<lambda>x. Inr [demo_tool]" "[]" 0 "''find''" None, OF lists]
      tool_calls_routed [of ?s tools_demo_env "\<lambda>x. Inr [demo_tool]" "[]" 0 "''other''" None, OF lists]
     
    by (simp add: Let_def run_aggregate offers_def ext_outcome_known tools_demo_env_def demo_tool_def build_tool_list_def tool_server_new_def hm_extend_def)
qed

text \<open>
  Which tools an agent can be pointed to.  After a successful start of a tools manager
  the URLs it hands out, for any selection of names, are those of the enabled MCP tools selected, all
  of them when the server listens and none otherwise; in particular a WASM tool has no URL of its own,
  and with WASM tools alone no URL is handed out at all and the manager reports itself unhealthy,
  although its server listens and serves them.
\<close>

lemma tool_urls_after_start:
  assumes "run_state (tools_start E) (tools_manager_new configs host) = (Inr (), m)"
  shows "map msu_name (mcp_urls m names) =
      (if tlm_server m = None then []
       else filter (\<lambda>n. case names of Some ns \<Rightarrow> n \<in> set ns | None \<Rightarrow> True)
         (map fst (filter (\<lambda>(n, c). tc_tool_type c = Tool_Mcp \<and> tc_enabled c) configs)))
    \<and> (tools_health_check m \<longleftrightarrow> configs = [] \<or> (tlm_server m \<noteq> None
         \<and> list_ex (\<lambda>(n, c). tc_tool_type c = Tool_Mcp \<and> tc_enabled c) configs))"
proof -
  let ?m = "tools_manager_new configs host"
  have "tlm_server ?m = None" "tlm_server_urls ?m = []" "tlm_tool_configs ?m = configs"
    by (simp_all add: tools_manager_new_def)
  then have m: "tlm_tool_configs m = configs"
    "tlm_server m = None \<longrightarrow> tlm_server_urls m = []"
    "tlm_server m \<noteq> None \<longrightarrow> map msu_name (tlm_server_urls m)
       = map fst (filter (\<lambda>(n, c). tc_tool_type c = Tool_Mcp \<and> tc_enabled c) configs)"
    using wp_run [OF start_urls [of ?m E] assms] by (auto simp: enabled_tool_configs_def split: option.splits)
  have names: "map msu_name (mcp_urls m names) =
      filter (\<lambda>n. case names of Some ns \<Rightarrow> n \<in> set ns | None \<Rightarrow> True) (map msu_name (tlm_server_urls m))"
    by (simp add: mcp_urls_def filter_map comp_def list_ex_iff split: option.split)
  have "tlm_server_urls m = [] \<longleftrightarrow> map msu_name (tlm_server_urls m) = []" by simp
  then show ?thesis
    using m names unfolding tools_health_check_def
    by (cases "tlm_server m") (auto simp: filter_empty_conv list_ex_iff)
qed

end
