(* ===== verification/Supervisor.thy ===== *)
theory Supervisor
  imports Config_Load Channels_Manager Tools_Manager
begin

text \<open>
  The supervisor: \<open>crates/anyclaw-supervisor/src/lib.rs\<close>, \<open>factory.rs\<close>, \<open>health.rs\<close>, \<open>shutdown.rs\<close>,
  \<open>admin_server.rs\<close> and \<open>crates/anyclaw-core/src/health.rs\<close>.

  A message channel between managers is a number; an end of it is held by a manager
  (\<open>endpoints\<close>) or by the supervisor.  \<open>ms_join\<close> is the task of a running manager: the manager as it
  was started, and the ends it holds.  How a task ends, the contents of the shared stores at a moment
  and the surroundings of the managers are in the environment.
\<close>

section \<open>Managers\<close>

datatype manager_kind =
    Mgr_Tools tools_manager
  | Mgr_Agents agents_manager
  | Mgr_Channels channels_manager

record endpoints =
  ep_tools_tx :: "nat option"
  ep_tools_rx :: "nat option"
  ep_agents_tx :: "nat option"
  ep_agents_rx :: "nat option"
  ep_events_tx :: "nat option"
  ep_events_rx :: "nat option"
  ep_channels_rx :: "nat option"

definition no_ends :: endpoints where
  "no_ends = \<lparr>ep_tools_tx = None, ep_tools_rx = None, ep_agents_tx = None, ep_agents_rx = None,
     ep_events_tx = None, ep_events_rx = None, ep_channels_rx = None\<rparr>"

record manager_task =
  mt_kind :: manager_kind
  mt_ends :: endpoints

record stores =
  sto_session :: dyn_store
  sto_context :: dyn_store

text \<open>\<open>build_stores\<close>; \<open>open_result\<close> is what opening the configured database yields.\<close>

definition build_stores :: "(string option \<Rightarrow> session_store_error + sqlite_db) \<Rightarrow> session_store_config \<Rightarrow> stores" where
  "build_stores open_result c =
     (case c of
        Store_None \<Rightarrow> \<lparr>sto_session = Noop_Store, sto_context = Noop_Store\<rparr>
      | Store_Sqlite s \<Rightarrow>
          (case open_result (ssc_path s) of
             Inr db \<Rightarrow> \<lparr>sto_session = Sqlite_Store db, sto_context = Sqlite_Store db\<rparr>
           | Inl e \<Rightarrow> \<lparr>sto_session = Noop_Store, sto_context = Noop_Store\<rparr>))"

text \<open>
  \<open>create_manager\<close>; \<open>own\<close> is the command channel that a new agents or channels manager makes for itself, and
  \<open>t\<close> the time its environment has reached.  A missing end is a panic.
\<close>

definition create_manager ::
  "string \<Rightarrow> anyclaw_config \<Rightarrow> nat \<Rightarrow> nat option \<Rightarrow> nat option \<Rightarrow> nat option \<Rightarrow> nat option \<Rightarrow> stores
    \<Rightarrow> nat \<Rightarrow> nat \<Rightarrow> manager_task option" where
  "create_manager name config tools_tx tools_rx agents_cmd_tx events_tx events_rx st own t =
     (if name = ''tools''
      then (case tools_rx of
              None \<Rightarrow> None
            | Some rx \<Rightarrow> Some
                \<lparr>mt_kind = Mgr_Tools ((tools_manager_new (tmc_tools (cfg_tools_manager config))
                   (tmc_tools_server_host (cfg_tools_manager config)))\<lparr>tlm_tick := t\<rparr>),
                 mt_ends = no_ends\<lparr>ep_tools_rx := Some rx\<rparr>\<rparr>)
      else if name = ''agents''
      then (let a = with_session_store (sto_session st) (agents_manager_new (cfg_agents_manager config));
                a = (case cfg_session_store config of
                       Store_Sqlite s \<Rightarrow> with_session_ttl_secs (uint (ssc_ttl_days s) * 86400) a
                     | Store_None \<Rightarrow> a);
                a = (if events_tx \<noteq> None then with_channels_sender a else a)
            in Some \<lparr>mt_kind = Mgr_Agents (a\<lparr>am_tick := t\<rparr>),
                     mt_ends = no_ends\<lparr>ep_tools_tx := Some tools_tx, ep_agents_rx := Some own,
                       ep_events_tx := events_tx\<rparr>\<rparr>)
      else if name = ''channels''
      then (case agents_cmd_tx of
              None \<Rightarrow> None
            | Some tx \<Rightarrow>
                (let c = with_context_store (sto_context st) (with_permission_timeout
                       (sc_permission_timeout_secs (cfg_supervisor config)) (with_agents_handle
                         (channels_manager_new (cmc_channels (cfg_channels_manager config))
                           (cmc_init_timeout_secs (cfg_channels_manager config))
                           (cmc_exit_timeout_secs (cfg_channels_manager config)))))
                 in Some \<lparr>mt_kind = Mgr_Channels (c\<lparr>chm_tick := t\<rparr>),
                          mt_ends = no_ends\<lparr>ep_agents_tx := Some tx, ep_events_rx := events_rx,
                            ep_channels_rx := Some own\<rparr>\<rparr>))
      else None)"

datatype manager_exit =
    Exit_Ok
  | Exit_Error manager_error
  | Exit_Panic

record sup_env =
  se_tools :: tools_env
  se_agents :: agent_env
  se_channels :: channel_env
  se_finished :: "nat \<Rightarrow> string \<Rightarrow> manager_exit option"
  se_shutdown :: "nat \<Rightarrow> string \<Rightarrow> manager_exit option"
  se_stores :: "nat \<Rightarrow> stores"
  se_instant :: "nat \<Rightarrow> instant"
  se_open :: "string option \<Rightarrow> session_store_error + sqlite_db"

definition start_manager :: "sup_env \<Rightarrow> manager_task \<Rightarrow> manager_error + manager_task" where
  "start_manager E mt =
     (case mt_kind mt of
        Mgr_Tools m \<Rightarrow>
          (case run_state (tools_start (se_tools E)) m of
             (Inl e, _) \<Rightarrow> Inl e
           | (Inr _, m') \<Rightarrow> Inr (mt\<lparr>mt_kind := Mgr_Tools m'\<rparr>))
      | Mgr_Agents m \<Rightarrow>
          (case run_state (agents_start (se_agents E)) m of
             (Inl e, _) \<Rightarrow> Inl e
           | (Inr _, m') \<Rightarrow> Inr (mt\<lparr>mt_kind := Mgr_Agents m'\<rparr>))
      | Mgr_Channels m \<Rightarrow>
          Inr (mt\<lparr>mt_kind := Mgr_Channels (snd (run_state (channels_start (se_channels E)) m))\<rparr>))"


section \<open>State\<close>

datatype health_status = Healthy | Degraded

record agent_health =
  ah_name :: string
  ah_connected :: bool
  ah_session_count :: nat

record health_snapshot =
  hs_status :: health_status
  hs_agents :: "agent_health list"
  hs_channels :: "string list"
  hs_mcp_servers :: "string list"

definition health_snapshot_default :: health_snapshot where
  "health_snapshot_default = \<lparr>hs_status = Healthy, hs_agents = [], hs_channels = [], hs_mcp_servers = []\<rparr>"

record manager_slot =
  ms_name :: string
  ms_join :: "manager_task option"
  ms_lifecycle :: slot_lifecycle

datatype supervisor_error = BootFailure string manager_error

record supervisor =
  sup_config :: anyclaw_config
  sup_tools_tx :: "nat option"
  sup_agents_cmd_tx :: "nat option"
  sup_channels_cmd_tx :: "nat option"
  sup_events_tx :: "nat option"
  sup_events_rx :: "nat option"
  sup_health :: health_snapshot
  sup_slots :: "manager_slot list"
  sup_root_cancelled :: bool
  sup_stopped :: "string list"
  sup_next_channel :: nat
  sup_panicked :: bool
  sup_tick :: nat

definition MANAGER_ORDER :: "string list" where
  "MANAGER_ORDER = [''tools'', ''agents'', ''channels'']"

text \<open>\<open>Supervisor::new\<close>; the channel of the events is number 0.\<close>

definition supervisor_new :: "anyclaw_config \<Rightarrow> supervisor option" where
  "supervisor_new config =
     map_option (\<lambda>config.
       \<lparr>sup_config = config, sup_tools_tx = None, sup_agents_cmd_tx = None, sup_channels_cmd_tx = None,
        sup_events_tx = Some 0, sup_events_rx = Some 0, sup_health = health_snapshot_default,
        sup_slots = [], sup_root_cancelled = False, sup_stopped = [], sup_next_channel = 1,
        sup_panicked = False, sup_tick = 0\<rparr>)
     (resolve_all_binary_paths config)"

type_synonym 'a sup = "(supervisor, 'a) state"

definition sask :: "(nat \<Rightarrow> 'a) \<Rightarrow> 'a sup" where
  "sask f = State (\<lambda>s. (f (sup_tick s), s\<lparr>sup_tick := Suc (sup_tick s)\<rparr>))"

definition new_channel :: "nat sup" where
  "new_channel = State (\<lambda>s. (sup_next_channel s, s\<lparr>sup_next_channel := Suc (sup_next_channel s)\<rparr>))"

definition upd_mslot :: "nat \<Rightarrow> (manager_slot \<Rightarrow> manager_slot) \<Rightarrow> unit sup" where
  "upd_mslot i f = modify (\<lambda>s. s\<lparr>sup_slots := (sup_slots s)[i := f (sup_slots s ! i)]\<rparr>)"

definition sup_panic :: "unit sup" where
  "sup_panic = modify (\<lambda>s. s\<lparr>sup_panicked := True\<rparr>)"


section \<open>Boot\<close>

definition init_slots :: "anyclaw_config \<Rightarrow> manager_slot list" where
  "init_slots c =
     map (\<lambda>n. \<lparr>ms_name = n, ms_join = None,
            ms_lifecycle = slot_lifecycle_new False backoff_default
              (tracker_new (sc_max_restarts (cfg_supervisor c)) (from_secs (sc_restart_window_secs (cfg_supervisor c))))\<rparr>)
       MANAGER_ORDER"

text \<open>One iteration of the loop of \<open>boot_managers\<close> for slot \<open>i\<close>.\<close>

definition boot_slot ::
  "sup_env \<Rightarrow> nat \<Rightarrow> nat option \<Rightarrow> nat option \<Rightarrow> nat option \<Rightarrow> nat \<Rightarrow> (supervisor_error + unit) sup" where
  "boot_slot E tools_tx tools_rx events_tx events_rx i = do {
     s \<leftarrow> gets id;
     let name = ms_name (sup_slots s ! i);
     own \<leftarrow> new_channel;
     st \<leftarrow> sask (se_stores E);
     case create_manager name (sup_config s) tools_tx (if i = 0 then tools_rx else None)
            (sup_agents_cmd_tx s) (if name = ''agents'' then events_tx else None)
            (if name = ''channels'' then events_rx else None) st own (sup_tick s) of
       None \<Rightarrow> do { sup_panic; ret (Inr ()) }
     | Some mt \<Rightarrow> do {
         (if name = ''agents'' then modify (\<lambda>s. s\<lparr>sup_agents_cmd_tx := ep_agents_rx (mt_ends mt)\<rparr>) else ret ());
         case start_manager E mt of
           Inl e \<Rightarrow> ret (Inl (BootFailure name e))
         | Inr mt' \<Rightarrow> do {
             (if name = ''channels'' then modify (\<lambda>s. s\<lparr>sup_channels_cmd_tx := ep_channels_rx (mt_ends mt')\<rparr>)
              else ret ());
             upd_mslot i (\<lambda>s. s\<lparr>ms_join := Some mt'\<rparr>);
             ret (Inr ())
           }
       }
   }"

fun boot_slots ::
  "sup_env \<Rightarrow> nat \<Rightarrow> nat option \<Rightarrow> nat option \<Rightarrow> nat option \<Rightarrow> nat list \<Rightarrow> (supervisor_error + unit) sup" where
  "boot_slots E tools_tx tools_rx events_tx events_rx [] = ret (Inr ())"
| "boot_slots E tools_tx tools_rx events_tx events_rx (i # is) =
     try_then (boot_slot E tools_tx tools_rx events_tx events_rx i)
       (\<lambda>_. boot_slots E tools_tx tools_rx events_tx events_rx is)"

definition boot_managers :: "sup_env \<Rightarrow> (supervisor_error + unit) sup" where
  "boot_managers E = do {
     tools_tx \<leftarrow> new_channel;
     s \<leftarrow> gets id;
     modify (\<lambda>s. s\<lparr>sup_tools_tx := Some tools_tx, sup_events_tx := None, sup_events_rx := None\<rparr>);
     boot_slots E tools_tx (Some tools_tx) (sup_events_tx s) (sup_events_rx s) [0..<length (sup_slots s)]
   }"


section \<open>Shutdown\<close>

text \<open>
  The task of a slot is awaited up to the timeout; the handle was taken before, so that the \<open>abort\<close> of the
  branch for the timeout finds none.
\<close>

definition shutdown_slot :: "sup_env \<Rightarrow> nat \<Rightarrow> unit sup" where
  "shutdown_slot E i = do {
     s \<leftarrow> gets id;
     upd_mslot i (\<lambda>s. s\<lparr>ms_lifecycle := (ms_lifecycle s)\<lparr>cancel_token := True\<rparr>\<rparr>);
     case ms_join (sup_slots s ! i) of
       None \<Rightarrow> ret ()
     | Some mt \<Rightarrow> do {
         r \<leftarrow> sask (\<lambda>t. se_shutdown E t (ms_name (sup_slots s ! i)));
         upd_mslot i (\<lambda>s. s\<lparr>ms_join := None\<rparr>);
         modify (\<lambda>s'. s'\<lparr>sup_stopped := sup_stopped s' @ [ms_name (sup_slots s ! i)]\<rparr>)
       }
   }"

definition shutdown_ordered :: "sup_env \<Rightarrow> unit sup" where
  "shutdown_ordered E = do {
     s \<leftarrow> gets id;
     for_each (rev [0..<length (sup_slots s)]) (shutdown_slot E)
   }"


section \<open>Health and restart\<close>

definition running :: "manager_slot list \<Rightarrow> string \<Rightarrow> bool" where
  "running slots name = list_ex (\<lambda>s. ms_name s = name \<and> ms_join s \<noteq> None) slots"

definition health_of :: "anyclaw_config \<Rightarrow> manager_slot list \<Rightarrow> health_snapshot" where
  "health_of c slots =
     (let agents = map (\<lambda>(n, a). \<lparr>ah_name = n, ah_connected = running slots ''agents'', ah_session_count = 0\<rparr>)
            (amc_agents (cfg_agents_manager c))
      in \<lparr>hs_status = (if list_ex (\<lambda>a. \<not> ah_connected a) agents then Degraded else Healthy),
          hs_agents = agents,
          hs_channels = (if running slots ''channels'' then map fst (cmc_channels (cfg_channels_manager c)) else []),
          hs_mcp_servers = map fst (filter (\<lambda>(n, t). tc_enabled t \<and> tc_tool_type t = Tool_Mcp)
            (tmc_tools (cfg_tools_manager c)))\<rparr>)"

definition refresh_health_snapshot :: "unit sup" where
  "refresh_health_snapshot = modify (\<lambda>s. s\<lparr>sup_health := health_of (sup_config s) (sup_slots s)\<rparr>)"

definition health_http_status :: "health_snapshot \<Rightarrow> nat" where
  "health_http_status h = (case hs_status h of Healthy \<Rightarrow> 200 | Degraded \<Rightarrow> 503)"

text \<open>The restart of a crashed manager, after the delay.\<close>

definition restart_slot :: "sup_env \<Rightarrow> nat \<Rightarrow> unit sup" where
  "restart_slot E i = do {
     s \<leftarrow> gets id;
     let name = ms_name (sup_slots s ! i);
     dummy \<leftarrow> new_channel;
     let tools_tx = unwrap_or (sup_tools_tx s) dummy;
     tools_rx \<leftarrow> (if name = ''tools''
       then do { c \<leftarrow> new_channel; modify (\<lambda>s. s\<lparr>sup_tools_tx := Some c\<rparr>); ret (Some c) }
       else ret None);
     own \<leftarrow> new_channel;
     st \<leftarrow> sask (se_stores E);
     case create_manager name (sup_config s) tools_tx tools_rx (sup_agents_cmd_tx s) None None st own (sup_tick s) of
       None \<Rightarrow> sup_panic
     | Some mt \<Rightarrow>
         (case start_manager E mt of
            Inl e \<Rightarrow> ret ()
          | Inr mt' \<Rightarrow> do {
              root \<leftarrow> gets sup_root_cancelled;
              upd_mslot i (\<lambda>s. s\<lparr>ms_lifecycle := (ms_lifecycle s)\<lparr>cancel_token := root\<rparr>, ms_join := Some mt'\<rparr>)
            })
   }"

definition crash_slot :: "sup_env \<Rightarrow> nat \<Rightarrow> unit sup" where
  "crash_slot E i = do {
     now \<leftarrow> sask (se_instant E);
     now' \<leftarrow> sask (se_instant E);
     s \<leftarrow> gets id;
     case record_crash_and_check now now' (ms_lifecycle (sup_slots s ! i)) of
       None \<Rightarrow> sup_panic
     | Some (Crash_Disabled, lc) \<Rightarrow> do {
         upd_mslot i (\<lambda>s. s\<lparr>ms_lifecycle := lc\<rparr>);
         if ms_name (sup_slots s ! i) = ''agents'' \<or> ms_name (sup_slots s ! i) = ''channels''
         then modify (\<lambda>s. s\<lparr>sup_root_cancelled := True\<rparr>) else ret ()
       }
     | Some (RestartAfter d, lc) \<Rightarrow> do {
         upd_mslot i (\<lambda>s. s\<lparr>ms_lifecycle := lc\<rparr>);
         restart_slot E i
       }
   }"

definition check_slot :: "sup_env \<Rightarrow> nat \<Rightarrow> unit sup" where
  "check_slot E i = do {
     s \<leftarrow> gets id;
     if sup_panicked s then ret ()
     else case ms_join (sup_slots s ! i) of
       None \<Rightarrow> ret ()
     | Some mt \<Rightarrow> do {
         r \<leftarrow> sask (\<lambda>t. se_finished E t (ms_name (sup_slots s ! i)));
         case r of
           None \<Rightarrow> ret ()
         | Some exit \<Rightarrow> do {
             upd_mslot i (\<lambda>s. s\<lparr>ms_join := None\<rparr>);
             if exit = Exit_Ok then ret () else crash_slot E i
           }
       }
   }"

definition check_and_restart_managers :: "sup_env \<Rightarrow> unit sup" where
  "check_and_restart_managers E = do {
     s \<leftarrow> gets id;
     for_each [0..<length (sup_slots s)] (check_slot E);
     refresh_health_snapshot
   }"


section \<open>Running\<close>

text \<open>\<open>run_with_cancel\<close> up to its loop, and the loop: health ticks until the root token is cancelled.\<close>

definition supervisor_boot :: "sup_env \<Rightarrow> (supervisor_error + unit) sup" where
  "supervisor_boot E = do {
     modify (\<lambda>s. s\<lparr>sup_slots := init_slots (sup_config s)\<rparr>);
     r \<leftarrow> boot_managers E;
     case r of
       Inl e \<Rightarrow> do { shutdown_ordered E; ret (Inl e) }
     | Inr _ \<Rightarrow> ret (Inr ())
   }"

datatype sup_event = Sup_Tick | Sup_Cancelled

inductive sup_run :: "sup_env \<Rightarrow> supervisor \<Rightarrow> sup_event list \<Rightarrow> supervisor \<Rightarrow> bool" for E s0 where
  sup_booted: "run_state (supervisor_boot E) s0 = (Inr (), s) \<Longrightarrow> sup_run E s0 [] s"
| sup_tick: "sup_run E s0 evs s \<Longrightarrow> Sup_Cancelled \<notin> set evs \<Longrightarrow> \<not> sup_panicked s \<Longrightarrow>
    run_state (check_and_restart_managers E) s = (u, s') \<Longrightarrow> sup_run E s0 (evs @ [Sup_Tick]) s'"
| sup_cancel: "sup_run E s0 evs s \<Longrightarrow> Sup_Cancelled \<notin> set evs \<Longrightarrow> \<not> sup_panicked s \<Longrightarrow>
    run_state (shutdown_ordered E) s = (u, s') \<Longrightarrow> sup_run E s0 (evs @ [Sup_Cancelled]) s'"

end
