(* ===== verification/Supervisor_Properties.thy ===== *)
theory Supervisor_Properties
  imports Supervisor Channels_Example
begin

text \<open>
  The properties of the supervisor: how the managers are connected after boot, what a failed boot and
  a shutdown leave behind, what a restart does to the connections, and the circuit breaker.
\<close>

lemma run_sask [simp]: "run_state (sask f) s = (f (sup_tick s), s\<lparr>sup_tick := Suc (sup_tick s)\<rparr>)"
  by (simp add: sask_def)

lemma wp_sask [wp_simps]: "wp (sask f) Q s \<longleftrightarrow> Q (f (sup_tick s)) (s\<lparr>sup_tick := Suc (sup_tick s)\<rparr>)"
  by (simp add: wp_def)

lemma wp_new_channel [wp_simps]:
  "wp new_channel Q s \<longleftrightarrow> Q (sup_next_channel s) (s\<lparr>sup_next_channel := Suc (sup_next_channel s)\<rparr>)"
  by (simp add: wp_def new_channel_def)

lemma start_manager_ends: "start_manager E mt = Inr mt' \<Longrightarrow> mt_ends mt' = mt_ends mt"
  by (auto simp: start_manager_def split: manager_kind.splits prod.splits sum.splits)

section \<open>Boot\<close>

definition wired_managers :: "supervisor \<Rightarrow> bool" where
  "wired_managers s \<longleftrightarrow>
     (\<exists>t a c. map (\<lambda>x. (ms_name x, ms_join x)) (sup_slots s)
        = [(''tools'', Some t), (''agents'', Some a), (''channels'', Some c)]
      \<and> ep_tools_tx (mt_ends a) = ep_tools_rx (mt_ends t) \<and> ep_tools_rx (mt_ends t) = sup_tools_tx s
      \<and> ep_agents_tx (mt_ends c) = ep_agents_rx (mt_ends a) \<and> ep_agents_rx (mt_ends a) = sup_agents_cmd_tx s
      \<and> ep_events_tx (mt_ends a) = Some 0 \<and> ep_events_rx (mt_ends c) = Some 0)"

text \<open>The managers before the one that failed run, the others do not.\<close>

definition partly_booted :: "string \<Rightarrow> supervisor \<Rightarrow> bool" where
  "partly_booted n s \<longleftrightarrow>
     (\<exists>k < 3. n = MANAGER_ORDER ! k \<and> map ms_name (sup_slots s) = MANAGER_ORDER
        \<and> map (\<lambda>x. ms_join x \<noteq> None) (sup_slots s) = replicate k True @ replicate (3 - k) False
        \<and> sup_stopped s = [])"

lemma partly_bootedI:
  "map ms_name (sup_slots s) = MANAGER_ORDER \<Longrightarrow> sup_stopped s = [] \<Longrightarrow>
    map (\<lambda>x. ms_join x \<noteq> None) (sup_slots s) \<in> {[False, False, False], [True, False, False], [True, True, False]} \<Longrightarrow>
    n = MANAGER_ORDER ! length (filter (\<lambda>x. ms_join x \<noteq> None) (sup_slots s)) \<Longrightarrow> partly_booted n s"
  unfolding partly_booted_def
  by (rule exI [of _ "length (filter (\<lambda>x. ms_join x \<noteq> None) (sup_slots s))"])
    (auto simp: map_eq_Cons_conv numeral_3_eq_3)

definition ends_of :: "endpoints \<Rightarrow> nat set" where
  "ends_of e = (\<Union>f \<in> {ep_tools_tx, ep_tools_rx, ep_agents_tx, ep_agents_rx, ep_events_tx, ep_events_rx, ep_channels_rx}.
     set_option (f e))"

text \<open>Numbers of channels are not reused.\<close>

definition channels_known :: "supervisor \<Rightarrow> bool" where
  "channels_known s \<longleftrightarrow>
     (\<forall>x \<in> set (sup_slots s). \<forall>mt. ms_join x = Some mt \<longrightarrow> (\<forall>c \<in> ends_of (mt_ends mt). c < sup_next_channel s))"

definition breaker_slot :: "bool \<Rightarrow> manager_slot \<Rightarrow> bool" where
  "breaker_slot root x \<longleftrightarrow>
     (disabled (ms_lifecycle x) \<longrightarrow> ms_join x = None \<and> (ms_name x \<in> {''agents'', ''channels''} \<longrightarrow> root))"

definition breaker :: "supervisor \<Rightarrow> bool" where
  "breaker s \<longleftrightarrow> list_all (breaker_slot (sup_root_cancelled s)) (sup_slots s)"

definition boot_outcome :: "supervisor_error + unit \<Rightarrow> supervisor \<Rightarrow> bool" where
  "boot_outcome r s =
     (case r of
        Inr _ \<Rightarrow> wired_managers s \<and> channels_known s \<and> breaker s \<and> \<not> sup_panicked s
      | Inl (BootFailure n e) \<Rightarrow> partly_booted n s)"

lemma boot_outcome:
  assumes "supervisor_new config = Some s0"
  shows "wp (boot_managers E) boot_outcome (s0\<lparr>sup_slots := init_slots (sup_config s0)\<rparr>)"
proof -
  have s0: "sup_events_tx s0 = Some 0" "sup_events_rx s0 = Some 0" "sup_next_channel s0 = 1" "\<not> sup_panicked s0"
    "sup_stopped s0 = []"
    using assms by (auto simp: supervisor_new_def)
  have upt: "[0..<3] = [0, 1, 2::nat]" by (simp add: upt_rec)
  show ?thesis
    unfolding boot_managers_def
    by (auto simp: wp_simps wp_funs init_slots_def MANAGER_ORDER_def upt boot_slot_def create_manager_def Let_def
        upd_mslot_def no_ends_def s0 boot_outcome_def wired_managers_def channels_known_def ends_of_def breaker_def
        breaker_slot_def slot_lifecycle_new_def split: sum.split intro!: partly_bootedI dest!: start_manager_ends)
qed

section \<open>Shutdown\<close>

definition stopped_slot :: "manager_slot \<Rightarrow> manager_slot" where
  "stopped_slot s = s\<lparr>ms_join := None, ms_lifecycle := (ms_lifecycle s)\<lparr>cancel_token := True\<rparr>\<rparr>"

definition live_names :: "manager_slot list \<Rightarrow> string list" where
  "live_names slots = map ms_name (filter (\<lambda>s. ms_join s \<noteq> None) slots)"

lemma shutdown_slot_spec:
  assumes "i < length (sup_slots s)"
  shows "wp (shutdown_slot E i) (\<lambda>_ s'. sup_slots s' = (sup_slots s)[i := stopped_slot (sup_slots s ! i)]
    \<and> sup_stopped s' = sup_stopped s @ live_names [sup_slots s ! i]) s"
  using assms
  by (cases "sup_slots s ! i")
    (auto simp: shutdown_slot_def upd_mslot_def wp_simps stopped_slot_def live_names_def split: option.split)

lemma shutdown_loop:
  assumes "n \<le> length (sup_slots s)"
  shows "wp (for_each (rev [0..<n]) (shutdown_slot E)) (\<lambda>_ s'.
    sup_slots s' = map stopped_slot (take n (sup_slots s)) @ drop n (sup_slots s)
    \<and> sup_stopped s' = sup_stopped s @ rev (live_names (take n (sup_slots s)))) s"
  using assms
proof (induction n arbitrary: s)
  case (Suc n)
  have rest: "wp (for_each (rev [0..<n]) (shutdown_slot E)) (\<lambda>_ s''.
      sup_slots s'' = map stopped_slot (take (Suc n) (sup_slots s)) @ drop (Suc n) (sup_slots s)
      \<and> sup_stopped s'' = sup_stopped s @ rev (live_names (take (Suc n) (sup_slots s)))) s'"
    if "sup_slots s' = (sup_slots s)[n := stopped_slot (sup_slots s ! n)]"
      "sup_stopped s' = sup_stopped s @ live_names [sup_slots s ! n]" for s'
    using Suc.IH [of s'] that Suc.prems
    by (auto simp: take_Suc_conv_app_nth live_names_def Cons_nth_drop_Suc [symmetric] elim!: wp_mono)
  show ?case
    using Suc.prems by (auto simp: wp_bind intro!: wp_mono [OF shutdown_slot_spec] rest)
qed (simp add: wp_simps live_names_def)

lemma shutdown_spec:
  "wp (shutdown_ordered E) (\<lambda>_ s'. sup_slots s' = map stopped_slot (sup_slots s)
     \<and> sup_stopped s' = sup_stopped s @ rev (live_names (sup_slots s))) s"
  using shutdown_loop [of "length (sup_slots s)" s E] by (simp add: shutdown_ordered_def wp_simps)

section \<open>Circuit breaker\<close>

lemma breaker_upd:
  "breaker s \<Longrightarrow> breaker_slot (sup_root_cancelled s) x \<Longrightarrow> breaker (s\<lparr>sup_slots := (sup_slots s)[i := x]\<rparr>)"
  unfolding breaker_def by (auto simp: list_all_iff dest!: set_update_subset_insert [THEN subsetD])

lemma breaker_root: "breaker s \<Longrightarrow> breaker (s\<lparr>sup_root_cancelled := True\<rparr>)"
  by (auto simp: breaker_def breaker_slot_def list_all_iff)

lemma restart_breaker:
  assumes "breaker s" "\<not> disabled (ms_lifecycle (sup_slots s ! i))"
  shows "wp (restart_slot E i) (\<lambda>_. breaker) s"
proof -
  have new: "list_all (breaker_slot (sup_root_cancelled s)) ((sup_slots s)[i := (sup_slots s ! i)
      \<lparr>ms_lifecycle := (ms_lifecycle (sup_slots s ! i))\<lparr>cancel_token := root\<rparr>, ms_join := Some mt\<rparr>])" for root mt
    using assms by (auto simp: breaker_def breaker_slot_def intro!: list_all_update)
  show ?thesis
    unfolding restart_slot_def upd_mslot_def sup_panic_def
    using assms(1) new
    by (simp add: wp_simps wp_funs Let_def breaker_def split: option.split sum.split)
qed

lemma crash_breaker:
  assumes "breaker s" "\<not> disabled (ms_lifecycle (sup_slots s ! i))" "ms_join (sup_slots s ! i) = None"
  shows "wp (crash_slot E i) (\<lambda>_. breaker) s"
proof -
  have down: "list_all (breaker_slot True) ((sup_slots s)[i := (sup_slots s ! i)\<lparr>ms_lifecycle := lc\<rparr>])" for lc
    using assms by (auto simp: breaker_def breaker_slot_def list_all_iff dest!: set_update_subset_insert [THEN subsetD])
  have tools: "list_all (breaker_slot (sup_root_cancelled s)) ((sup_slots s)[i := (sup_slots s ! i)\<lparr>ms_lifecycle := lc\<rparr>])"
    if "\<not> disabled lc \<or> ms_name (sup_slots s ! i) \<notin> {''agents'', ''channels''}" for lc
    using assms that by (auto simp: breaker_def breaker_slot_def intro!: list_all_update)
  have restart: "wp (restart_slot E i) (\<lambda>_. breaker) (s\<lparr>sup_tick := t, sup_slots := (sup_slots s)[i := (sup_slots s ! i)\<lparr>ms_lifecycle := lc\<rparr>]\<rparr>)"
    if "\<not> disabled lc" for lc t
  proof (rule restart_breaker)
    show "breaker (s\<lparr>sup_tick := t, sup_slots := (sup_slots s)[i := (sup_slots s ! i)\<lparr>ms_lifecycle := lc\<rparr>]\<rparr>)"
      using tools that by (simp add: breaker_def)
    show "\<not> disabled (ms_lifecycle (sup_slots (s\<lparr>sup_tick := t, sup_slots := (sup_slots s)[i := (sup_slots s ! i)\<lparr>ms_lifecycle := lc\<rparr>]\<rparr>) ! i))"
      using assms(2) that by (cases "i < length (sup_slots s)") (simp_all add: list_update_beyond)
  qed
  show ?thesis
    unfolding crash_slot_def upd_mslot_def sup_panic_def
    using assms(1,2) down tools restart
    by (auto simp: wp_simps wp_funs breaker_def [of "_ \<lparr>sup_slots := _\<rparr>"] breaker_def [of "_ \<lparr>sup_root_cancelled := _\<rparr>"]
        breaker_def [of "_ \<lparr>sup_panicked := _\<rparr>"] breaker_def [of s] dest: record_crash_and_check_disabled
        split: option.split crash_action.split)
qed

text \<open>The slots stay in place under their names.\<close>

definition slot_names :: "supervisor \<Rightarrow> string list" where
  "slot_names s = map ms_name (sup_slots s)"

lemma names_upd: "(\<And>x. ms_name (f x) = ms_name x) \<Longrightarrow> keeps (same slot_names) (upd_mslot i f)"
  by (rule keepsI) (simp add: upd_mslot_def wp_simps same_def slot_names_def map_update list_update_id
      flip: nth_map, metis (no_types, lifting) list_update_beyond list_update_id length_map linorder_not_less nth_map)

lemma names_other: "keeps (same slot_names) (sask g)" "keeps (same slot_names) new_channel"
  "keeps (same slot_names) sup_panic" "keeps (same slot_names) (modify (\<lambda>s. s\<lparr>sup_root_cancelled := b\<rparr>))"
  "keeps (same slot_names) (modify (\<lambda>s. s\<lparr>sup_tools_tx := c\<rparr>))" "keeps (same slot_names) refresh_health_snapshot"
  by (simp_all add: keeps_def same_def slot_names_def new_channel_def sup_panic_def refresh_health_snapshot_def)

lemma names_restart: "keeps (same slot_names) (restart_slot E i)"
  unfolding restart_slot_def by (intro sm.k_rules names_upd names_other) simp

lemma names_crash: "keeps (same slot_names) (crash_slot E i)"
  unfolding crash_slot_def by (intro sm.k_rules keeps_action names_upd names_other names_restart) simp_all

lemma names_check: "keeps (same slot_names) (check_slot E i)"
  unfolding check_slot_def by (intro sm.k_rules names_upd names_other names_crash) simp

lemma check_breaker:
  assumes "breaker s" "i < length (sup_slots s)"
  shows "wp (check_slot E i) (\<lambda>_ s'. breaker s' \<and> slot_names s' = slot_names s) s"
proof -
  have "wp (check_slot E i) (\<lambda>_. breaker) s"
  proof (cases "ms_join (sup_slots s ! i)")
    case None
    then show ?thesis using assms by (simp add: check_slot_def wp_simps)
  next
    case (Some mt)
    have live: "\<not> disabled (ms_lifecycle (sup_slots s ! i))"
      using assms Some by (auto simp: breaker_def breaker_slot_def list_all_length)
    have off: "list_all (breaker_slot (sup_root_cancelled s)) ((sup_slots s)[i := (sup_slots s ! i)\<lparr>ms_join := None\<rparr>])"
      using assms by (auto simp: breaker_def breaker_slot_def intro!: list_all_update)
    have "wp (crash_slot E i) (\<lambda>_. breaker)
        (s\<lparr>sup_tick := t, sup_slots := (sup_slots s)[i := (sup_slots s ! i)\<lparr>ms_join := None\<rparr>]\<rparr>)" for t
      by (rule crash_breaker) (use off live assms(2) in \<open>simp_all add: breaker_def\<close>)
    then show ?thesis
      using Some assms(1) off
      by (auto simp: check_slot_def upd_mslot_def wp_simps wp_funs breaker_def [of "_ \<lparr>sup_slots := _\<rparr>"]
          breaker_def [of "s\<lparr>sup_tick := _\<rparr>"] breaker_def [of s] split: option.split)
  qed
  then show ?thesis
    using keepsD [OF names_check, of E i s] by (simp add: wp_conj same_def)
qed

lemma checks_breaker:
  assumes "breaker s" "\<forall>i \<in> set is. i < length (sup_slots s)"
  shows "wp (for_each is (check_slot E)) (\<lambda>_ s'. breaker s' \<and> slot_names s' = slot_names s) s"
  using assms
proof (induction "is" arbitrary: s)
  case (Cons i "is")
  have rest: "wp (for_each is (check_slot E)) (\<lambda>_ s''. breaker s'' \<and> slot_names s'' = slot_names s) s'"
    if "breaker s'" "slot_names s' = slot_names s" for s'
  proof -
    have "length (sup_slots s') = length (sup_slots s)"
      using that(2) by (metis length_map slot_names_def)
    then show ?thesis using Cons.IH [of s'] Cons.prems that by simp
  qed
  show ?case
    using Cons.prems by (auto simp: wp_bind intro!: wp_mono [OF check_breaker] rest)
qed (simp add: wp_simps)

lemma tick_breaker:
  assumes "breaker s"
  shows "wp (check_and_restart_managers E) (\<lambda>_ s'. breaker s' \<and> slot_names s' = slot_names s
    \<and> sup_health s' = health_of (sup_config s') (sup_slots s')) s"
proof -
  have health: "breaker (s\<lparr>sup_health := h\<rparr>) = breaker s" "slot_names (s\<lparr>sup_health := h\<rparr>) = slot_names s" for s h
    by (simp_all add: breaker_def slot_names_def)
  show ?thesis
    unfolding check_and_restart_managers_def refresh_health_snapshot_def
    by (auto simp: wp_simps wp_funs health intro!: wp_mono [OF checks_breaker [OF assms]])
qed

section \<open>Restart\<close>

lemma restart_agents:
  assumes "i < length (sup_slots s)" "ms_name (sup_slots s ! i) = ''agents''"
    "ms_join (sup_slots s ! i) = None" "channels_known s"
  shows "wp (restart_slot E i) (\<lambda>_ s'. \<forall>mt. ms_join (sup_slots s' ! i) = Some mt \<longrightarrow>
    ep_events_tx (mt_ends mt) = None
    \<and> (\<forall>x \<in> set (sup_slots s'). \<forall>mt'. ms_join x = Some mt' \<longrightarrow> ep_agents_tx (mt_ends mt') \<noteq> ep_agents_rx (mt_ends mt))) s"
proof -
  have fresh: "ep_agents_tx (mt_ends mt') \<noteq> Some (Suc (sup_next_channel s))"
    if "x \<in> set (sup_slots s)" "ms_join x = Some mt'" for x mt'
  proof
    assume "ep_agents_tx (mt_ends mt') = Some (Suc (sup_next_channel s))"
    then have "Suc (sup_next_channel s) \<in> ends_of (mt_ends mt')" by (simp add: ends_of_def)
    then show False using assms(4) that unfolding channels_known_def by fastforce
  qed
  show ?thesis
    unfolding restart_slot_def upd_mslot_def
    using assms(1-3) fresh
    by (auto simp: wp_simps wp_funs Let_def create_manager_def no_ends_def dest!: start_manager_ends
        set_update_subset_insert [THEN subsetD] split: sum.split)
qed

lemma check_agents:
  assumes "i < length (sup_slots s)" "ms_name (sup_slots s ! i) = ''agents''" "channels_known s"
    "\<And>t. se_finished E t ''agents'' = Some x" "x \<noteq> Exit_Ok" "\<not> sup_panicked s" "ms_join (sup_slots s ! i) \<noteq> None"
  shows "wp (check_slot E i) (\<lambda>_ s'. \<forall>mt. ms_join (sup_slots s' ! i) = Some mt \<longrightarrow>
    ep_events_tx (mt_ends mt) = None
    \<and> (\<forall>x \<in> set (sup_slots s'). \<forall>mt'. ms_join x = Some mt' \<longrightarrow> ep_agents_tx (mt_ends mt') \<noteq> ep_agents_rx (mt_ends mt))) s"
proof -
  have restart: "wp (restart_slot E i) (\<lambda>_ s'. \<forall>mt. ms_join (sup_slots s' ! i) = Some mt \<longrightarrow>
      ep_events_tx (mt_ends mt) = None
      \<and> (\<forall>x \<in> set (sup_slots s'). \<forall>mt'. ms_join x = Some mt' \<longrightarrow> ep_agents_tx (mt_ends mt') \<noteq> ep_agents_rx (mt_ends mt)))
      (s\<lparr>sup_tick := t, sup_slots := (sup_slots s)[i := (sup_slots s ! i)\<lparr>ms_join := None, ms_lifecycle := lc\<rparr>]\<rparr>)" for t lc
    by (rule restart_agents)
      (use assms(1-3) in \<open>auto simp: channels_known_def dest!: set_update_subset_insert [THEN subsetD]\<close>)
  show ?thesis
    unfolding check_slot_def crash_slot_def upd_mslot_def sup_panic_def
    using assms(1,2,4-7) restart
    by (auto simp: wp_simps wp_funs split: option.split crash_action.split)
qed

section \<open>Runs\<close>

lemma supervisor_boot_spec:
  assumes "supervisor_new config = Some s0"
  shows "wp (supervisor_boot E) (\<lambda>r s. case r of
      Inr _ \<Rightarrow> boot_outcome (Inr ()) s
    | Inl (BootFailure n e) \<Rightarrow> map ms_name (sup_slots s) = MANAGER_ORDER
        \<and> list_all (\<lambda>x. ms_join x = None \<and> cancel_token (ms_lifecycle x)) (sup_slots s)
        \<and> sup_stopped s = rev (takeWhile (\<lambda>m. m \<noteq> n) MANAGER_ORDER) \<and> n \<in> set MANAGER_ORDER) s0"
proof -
  have down: "wp (shutdown_ordered E) (\<lambda>_ s. map ms_name (sup_slots s) = MANAGER_ORDER
      \<and> list_all (\<lambda>x. ms_join x = None \<and> cancel_token (ms_lifecycle x)) (sup_slots s)
      \<and> sup_stopped s = rev (takeWhile (\<lambda>m. m \<noteq> n) MANAGER_ORDER) \<and> n \<in> set MANAGER_ORDER) s"
    if "partly_booted n s" for n s
  proof -
    have "map ms_name (sup_slots s) = [''tools'', ''agents'', ''channels'']"
      using that by (auto simp: partly_booted_def MANAGER_ORDER_def)
    then obtain a b c where abc: "sup_slots s = [a, b, c]" "map ms_name [a, b, c] = MANAGER_ORDER"
      by (auto simp: map_eq_Cons_conv MANAGER_ORDER_def)
    then show ?thesis
      using that
      by (auto simp: partly_booted_def MANAGER_ORDER_def less_Suc_eq numeral_3_eq_3 live_names_def stopped_slot_def
          intro!: wp_mono [OF shutdown_spec])
  qed
  have fail: "wp (case r of Inl e \<Rightarrow> do { shutdown_ordered E; ret (Inl e) } | Inr _ \<Rightarrow> ret (Inr ())) (\<lambda>r s. case r of
      Inr _ \<Rightarrow> boot_outcome (Inr ()) s
    | Inl (BootFailure n e) \<Rightarrow> map ms_name (sup_slots s) = MANAGER_ORDER
        \<and> list_all (\<lambda>x. ms_join x = None \<and> cancel_token (ms_lifecycle x)) (sup_slots s)
        \<and> sup_stopped s = rev (takeWhile (\<lambda>m. m \<noteq> n) MANAGER_ORDER) \<and> n \<in> set MANAGER_ORDER) s"
    if "boot_outcome r s" for r s
  proof (cases r)
    case (Inl err)
    then obtain n e where "r = Inl (BootFailure n e)" by (cases err) simp
    with that show ?thesis
      by (auto simp: wp_simps wp_funs boot_outcome_def intro!: wp_mono [OF down])
  next
    case (Inr u)
    with that show ?thesis by (simp add: wp_simps)
  qed
  show ?thesis
    unfolding supervisor_boot_def
    by (auto simp: wp_bind wp_modify intro!: wp_mono [OF boot_outcome [OF assms]] fail)
qed

lemma shutdown_breaker: "wp (shutdown_ordered E) (\<lambda>_ s'. breaker s' \<and> slot_names s' = slot_names s) s"
  if "breaker s"
proof -
  have root: "keeps (same sup_root_cancelled) (shutdown_ordered E)"
    unfolding shutdown_ordered_def shutdown_slot_def
    by (intro sm.k_rules) (simp_all add: keeps_def same_def upd_mslot_def)
  have "wp (shutdown_ordered E) (\<lambda>_ s'. (sup_slots s' = map stopped_slot (sup_slots s)
      \<and> sup_stopped s' = sup_stopped s @ rev (live_names (sup_slots s)))
      \<and> sup_root_cancelled s' = sup_root_cancelled s) s"
    using shutdown_spec [of E s] keepsD [OF root, of s] by (simp add: wp_conj same_def)
  then show ?thesis
    by (rule wp_mono)
      (use that in \<open>auto simp: breaker_def breaker_slot_def slot_names_def stopped_slot_def list_all_iff\<close>)
qed

lemma run_breaker:
  assumes "sup_run E s0 evs s" "supervisor_new config = Some s0"
  shows "breaker s \<and> slot_names s = MANAGER_ORDER"
  using assms
proof (induction rule: sup_run.induct)
  case (sup_booted s)
  then show ?case
    using wp_run [OF supervisor_boot_spec [OF sup_booted(2)] sup_booted(1)]
    by (auto simp: boot_outcome_def wired_managers_def slot_names_def MANAGER_ORDER_def map_eq_Cons_conv)
next
  case (sup_tick evs s u s')
  then show ?case using wp_run [OF tick_breaker] by fastforce
next
  case (sup_cancel evs s u s')
  then show ?case using wp_run [OF shutdown_breaker] by fastforce
qed

section \<open>A concrete supervisor\<close>

definition sup_demo_config :: anyclaw_config where
  "sup_demo_config =
     \<lparr>cfg_log_level = ''info'', cfg_log_format = Log_Pretty, cfg_extensions_dir = ''/opt'',
      cfg_agents_manager = agents_manager_config_default,
      cfg_channels_manager = channels_manager_config_default, cfg_tools_manager = tools_manager_config_default,
      cfg_supervisor = supervisor_config_default, cfg_session_store = Store_None\<rparr>"

definition sup_demo_env :: "sup_env" where
  "sup_demo_env =
     \<lparr>se_tools = tools_demo_env, se_agents = demo_env, se_channels = chan_env,
      se_finished = (\<lambda>t n. if n = ''agents'' then Some Exit_Panic else None),
      se_shutdown = (\<lambda>t n. Some Exit_Ok), se_stores = (\<lambda>t. \<lparr>sto_session = Noop_Store, sto_context = Noop_Store\<rparr>),
      se_instant = (\<lambda>t. t), se_open = (\<lambda>p. Inr sqlite_open_in_memory)\<rparr>"

definition sup_demo :: supervisor where
  "sup_demo =
     \<lparr>sup_config = sup_demo_config, sup_tools_tx = None, sup_agents_cmd_tx = None, sup_channels_cmd_tx = None,
        sup_events_tx = Some 0, sup_events_rx = Some 0, sup_health = health_snapshot_default,
        sup_slots = [], sup_root_cancelled = False, sup_stopped = [], sup_next_channel = 1,
        sup_panicked = False, sup_tick = 0\<rparr>"

lemma sup_demo_new: "supervisor_new sup_demo_config = Some sup_demo"
  by (simp add: supervisor_new_def resolve_all_binary_paths_def sup_demo_config_def sup_demo_def
      agents_manager_config_default_def channels_manager_config_default_def tools_manager_config_default_def)

lemma demo_start_agents:
  "am_agent_configs m = [] \<Longrightarrow> am_session_store m = Noop_Store \<Longrightarrow>
    \<exists>m'. run_state (agents_start demo_env) m = (Inr (), m')"
  by (simp add: agents_start_def try_then_def Let_def)

lemma demo_start_tools:
  "tlm_tool_configs m = [] \<Longrightarrow> tlm_native_tools m = [] \<Longrightarrow>
    \<exists>m'. run_state (tools_start E) m = (Inr (), m')"
  by (simp add: tools_start_def try_then_def Let_def enabled_tool_configs_def load_all_tools_def
      start_aggregated_server_if_needed_def build_tool_list_def tool_server_new_def hm_extend_def)

lemma demo_start:
  assumes "create_manager n sup_demo_config tx rx atx etx erx \<lparr>sto_session = Noop_Store, sto_context = Noop_Store\<rparr> own t = Some mt"
  shows "\<exists>mt'. start_manager sup_demo_env mt = Inr mt'"
proof (cases "mt_kind mt")
  case (Mgr_Tools m)
  then have "tlm_tool_configs m = []" "tlm_native_tools m = []"
    using assms by (auto simp: create_manager_def sup_demo_config_def tools_manager_config_default_def
        tools_manager_new_def Let_def split: if_splits option.splits)
  then show ?thesis
    using demo_start_tools [of m "se_tools sup_demo_env"] Mgr_Tools by (auto simp: start_manager_def)
next
  case (Mgr_Agents m)
  then have "am_agent_configs m = []" "am_session_store m = Noop_Store"
    using assms by (auto simp: create_manager_def sup_demo_config_def agents_manager_config_default_def
        agents_manager_new_def with_session_store_def with_channels_sender_def Let_def split: if_splits option.splits)
  then show ?thesis
    using demo_start_agents [of m] Mgr_Agents by (auto simp: start_manager_def sup_demo_env_def)
next
  case (Mgr_Channels m)
  then show ?thesis by (simp add: start_manager_def)
qed

lemma demo_boots:
  "\<exists>s. run_state (supervisor_boot sup_demo_env) sup_demo = (Inr (), s)
    \<and> map ms_lifecycle (sup_slots s) = map ms_lifecycle (init_slots sup_demo_config) \<and> sup_config s = sup_demo_config"
proof -
  have upt: "[0..<3] = [0, 1, 2::nat]" by (simp add: upt_rec)
  have "wp (boot_managers sup_demo_env) (\<lambda>r s. r = Inr () \<and> map ms_lifecycle (sup_slots s)
      = map ms_lifecycle (init_slots sup_demo_config) \<and> sup_config s = sup_demo_config)
    (sup_demo\<lparr>sup_slots := init_slots (sup_config sup_demo)\<rparr>)"
    unfolding boot_managers_def
    by (auto simp: wp_simps wp_funs init_slots_def MANAGER_ORDER_def upt boot_slot_def Let_def sup_demo_def
        upd_mslot_def sup_panic_def sup_demo_env_def [THEN arg_cong, of se_stores, simplified]
        split: sum.split option.split dest!: demo_start)
  then show ?thesis
    by (auto simp: supervisor_boot_def wp_def split: prod.splits)
qed

lemma create_agents_Some: "create_manager ''agents'' c tx rx atx etx erx st own t \<noteq> None"
  by (simp add: create_manager_def Let_def)

lemma demo_restarts:
  assumes "run_state (supervisor_boot sup_demo_env) sup_demo = (Inr (), s)"
    "map ms_lifecycle (sup_slots s) = map ms_lifecycle (init_slots sup_demo_config)" "sup_config s = sup_demo_config"
  shows "\<exists>u s' mt. run_state (check_slot sup_demo_env 1) s = (u, s') \<and> ms_join (sup_slots s' ! 1) = Some mt"
proof -
  have boot: "wired_managers s" "\<not> sup_panicked s"
    using wp_run [OF supervisor_boot_spec [OF sup_demo_new] assms(1)] by (simp_all add: boot_outcome_def)
  then obtain x where x: "1 < length (sup_slots s)" "ms_name (sup_slots s ! 1) = ''agents''"
      "ms_join (sup_slots s ! 1) = Some x"
    by (auto simp: wired_managers_def map_eq_Cons_conv)
  have lc: "ms_lifecycle (sup_slots s ! 1) = ms_lifecycle (init_slots sup_demo_config ! 1)"
    using arg_cong [OF assms(2), of "\<lambda>xs. xs ! 1"] x(1) by (simp add: init_slots_def MANAGER_ORDER_def)
  have crash: "\<exists>d lc'. record_crash_and_check now now' (ms_lifecycle (sup_slots s ! 1)) = Some (RestartAfter d, lc')" for now now'
    unfolding lc
    by (simp add: recent_def init_slots_def MANAGER_ORDER_def record_crash_and_check_def Let_def slot_lifecycle_new_def
        tracker_new_def record_crash_def is_crash_loop_def sup_demo_config_def supervisor_config_default_def
        default_max_restarts_def DEFAULT_CRASH_LONG_MAX_def backoff_default_def backoff_new_def
        next_delay_def duration_mul2_def from_millis_def DEFAULT_BACKOFF_BASE_MS_def duration_max_def)
  have "wp (check_slot sup_demo_env 1) (\<lambda>_ s'. ms_join (sup_slots s' ! 1) \<noteq> None) s"
    using x boot(2) crash [of "se_instant sup_demo_env (Suc (sup_tick s))" "se_instant sup_demo_env (Suc (Suc (sup_tick s)))"]
      assms(3)
    unfolding check_slot_def crash_slot_def restart_slot_def upd_mslot_def sup_panic_def
    by (auto simp: wp_simps wp_funs Let_def sup_demo_env_def [THEN arg_cong, of se_stores, simplified]
        sup_demo_env_def [THEN arg_cong, of se_finished, simplified] create_agents_Some
        split: sum.split option.split crash_action.split dest!: demo_start)
  then show ?thesis by (auto simp: wp_def split: prod.splits)
qed

section \<open>Properties\<close>

text \<open>
  Property C26.  How the managers are connected.  When the boot of a new supervisor succeeds, the
  managers run in the order tools, agents, channels and hold both ends of the same channels: the agents
  manager sends its commands to the tools manager, the channels manager to the agents manager, and the
  events of the agents manager arrive at the channels manager.  When the boot fails, the error names
  the manager whose start failed; the managers before it have been stopped in reverse order, none
  runs, and all their tokens are cancelled.
\<close>

theorem boot_connects_managers:
  assumes "supervisor_new config = Some s0" and "run_state (supervisor_boot E) s0 = (r, s)"
  shows "case r of
      Inr _ \<Rightarrow> (\<exists>t a c. map (\<lambda>x. (ms_name x, ms_join x)) (sup_slots s)
          = [(''tools'', Some t), (''agents'', Some a), (''channels'', Some c)]
        \<and> ep_tools_tx (mt_ends a) = ep_tools_rx (mt_ends t)
        \<and> ep_agents_tx (mt_ends c) = ep_agents_rx (mt_ends a)
        \<and> ep_events_tx (mt_ends a) = Some 0 \<and> ep_events_rx (mt_ends c) = Some 0)
    | Inl (BootFailure n e) \<Rightarrow>
        n \<in> set MANAGER_ORDER \<and> sup_stopped s = rev (takeWhile (\<lambda>m. m \<noteq> n) MANAGER_ORDER)
        \<and> list_all (\<lambda>x. ms_join x = None \<and> cancel_token (ms_lifecycle x)) (sup_slots s)"
proof (cases r)
  case (Inl err)
  then obtain n e where "r = Inl (BootFailure n e)" by (cases err) simp
  then show ?thesis using wp_run [OF supervisor_boot_spec [OF assms(1)] assms(2)] by simp
next
  case (Inr u)
  then show ?thesis
    using wp_run [OF supervisor_boot_spec [OF assms(1)] assms(2)] by (simp add: boot_outcome_def wired_managers_def) (elim conjE exE, intro exI conjI; assumption)
qed

theorem boot_connects_managers_witness:
  "\<exists>s. run_state (supervisor_boot sup_demo_env) sup_demo = (Inr (), s)
    \<and> map ms_name (sup_slots s) = [''tools'', ''agents'', ''channels'']"
proof -
  obtain s where s: "run_state (supervisor_boot sup_demo_env) sup_demo = (Inr (), s)"
    using demo_boots by blast
  then obtain t a c where "map (\<lambda>x. (ms_name x, ms_join x)) (sup_slots s)
      = [(''tools'', Some t), (''agents'', Some a), (''channels'', Some c)]"
    using boot_connects_managers [OF sup_demo_new s] by auto
  then have "map fst (map (\<lambda>x. (ms_name x, ms_join x)) (sup_slots s)) = [''tools'', ''agents'', ''channels'']"
    by simp
  then show ?thesis using s by (auto simp: comp_def)
qed

text \<open>
  Property C28.  What a restart does to the connections.  After a successful boot, when the agents
  manager has crashed, the health check may restart it; but the new agents manager has no channel for
  its events, so nothing it does reaches a channel, and no running manager holds the sending end of
  its command channel, so it is sent nothing.
\<close>

theorem restart_cuts_agents_off:
  assumes "supervisor_new config = Some s0" and "run_state (supervisor_boot E) s0 = (Inr (), s)"
    and "\<And>t. se_finished E t ''agents'' = Some x" and "x \<noteq> Exit_Ok"
    and "run_state (check_slot E 1) s = (u, s')" and "ms_join (sup_slots s' ! 1) = Some mt"
  shows "ep_events_tx (mt_ends mt) = None
    \<and> (\<forall>x \<in> set (sup_slots s'). \<forall>mt'. ms_join x = Some mt' \<longrightarrow> ep_agents_tx (mt_ends mt') \<noteq> ep_agents_rx (mt_ends mt))"
proof -
  have boot: "wired_managers s" "channels_known s" "\<not> sup_panicked s"
    using wp_run [OF supervisor_boot_spec [OF assms(1)] assms(2)] by (simp_all add: boot_outcome_def)
  have "1 < length (sup_slots s) \<and> ms_name (sup_slots s ! 1) = ''agents'' \<and> ms_join (sup_slots s ! 1) \<noteq> None"
    using boot(1) by (auto simp: wired_managers_def map_eq_Cons_conv)
  then show ?thesis
    using wp_run [OF check_agents [OF _ _ boot(2) assms(3,4) boot(3)] assms(5)] assms(6) by blast
qed

theorem restart_cuts_agents_off_witness:
  "\<exists>s u s' mt. run_state (supervisor_boot sup_demo_env) sup_demo = (Inr (), s)
    \<and> run_state (check_slot sup_demo_env 1) s = (u, s') \<and> ms_join (sup_slots s' ! 1) = Some mt
    \<and> ep_events_tx (mt_ends mt) = None"
proof -
  obtain s where s: "run_state (supervisor_boot sup_demo_env) sup_demo = (Inr (), s)"
    "map ms_lifecycle (sup_slots s) = map ms_lifecycle (init_slots sup_demo_config)" "sup_config s = sup_demo_config"
    using demo_boots by blast
  obtain u s' mt where tick: "run_state (check_slot sup_demo_env 1) s = (u, s')" "ms_join (sup_slots s' ! 1) = Some mt"
    using demo_restarts [OF s] by blast
  have "\<And>t. se_finished sup_demo_env t ''agents'' = Some Exit_Panic" "Exit_Panic \<noteq> Exit_Ok"
    by (simp_all add: sup_demo_env_def)
  from restart_cuts_agents_off [OF sup_demo_new s(1) this tick] show ?thesis
    using s(1) tick by blast
qed

text \<open>
  Property C27.  The circuit breaker.  In every run of a supervisor the three managers keep their slots,
  and a manager that was disabled for crashing too often does not run any more; when it is the agents
  or the channels manager, the shutdown of the whole program has been requested.
\<close>

theorem circuit_breaker:
  assumes "supervisor_new config = Some s0" and "sup_run E s0 evs s"
  shows "map ms_name (sup_slots s) = MANAGER_ORDER
    \<and> (\<forall>x \<in> set (sup_slots s). disabled (ms_lifecycle x) \<longrightarrow>
         ms_join x = None \<and> (ms_name x = ''tools'' \<or> sup_root_cancelled s))"
proof -
  have "breaker s" and names: "map ms_name (sup_slots s) = MANAGER_ORDER"
    using run_breaker [OF assms(2,1)] by (simp_all add: slot_names_def)
  moreover have "ms_name x \<in> {''tools'', ''agents'', ''channels''}" if "x \<in> set (sup_slots s)" for x
    using that arg_cong [OF names, of set] by (simp add: MANAGER_ORDER_def) blast
  ultimately show ?thesis
    by (fastforce simp: breaker_def breaker_slot_def list_all_iff)
qed

theorem circuit_breaker_witness:
  "\<exists>s. sup_run sup_demo_env sup_demo [] s \<and> map ms_name (sup_slots s) = MANAGER_ORDER"
proof -
  obtain s where "run_state (supervisor_boot sup_demo_env) sup_demo = (Inr (), s)"
    using demo_boots by blast
  then have "sup_run sup_demo_env sup_demo [] s" by (rule sup_booted)
  then show ?thesis using circuit_breaker [OF sup_demo_new] by blast
qed

text \<open>
  Shutdown.  Stopping the supervisor cancels the token of every manager and waits for the
  running ones in the reverse of the order in which they were started; afterwards no slot holds a task,
  so a manager that outlives the timeout is left running and is not aborted.
\<close>

lemma shutdown_in_reverse_order:
  "let s' = snd (run_state (shutdown_ordered E) s)
   in sup_stopped s' = sup_stopped s @ rev (live_names (sup_slots s))
     \<and> map ms_name (sup_slots s') = map ms_name (sup_slots s)
     \<and> list_all (\<lambda>x. ms_join x = None \<and> cancel_token (ms_lifecycle x)) (sup_slots s')"
  using shutdown_spec [of E s] by (simp add: wp_snd Let_def stopped_slot_def comp_def list_all_iff)

end
