(* ===== verification/Utf8.thy ===== *)
theory Utf8
  imports Rust_Str
begin

text \<open>
  Byte positions of a Rust string: character boundaries, searching for a pattern, replacing a
  character.  Slicing a string anywhere but at a character boundary panics; the lemmas say which
  positions are boundaries of well-formed UTF-8: the end of every ASCII character, and one among any
  four positions in a row.
\<close>

section \<open>Character boundaries\<close>

definition is_cont :: "char \<Rightarrow> bool" where
  "is_cont c \<longleftrightarrow> of_char c div 64 = (2 :: nat)"

definition is_ascii :: "char \<Rightarrow> bool" where
  "is_ascii c \<longleftrightarrow> of_char c < (128 :: nat)"

text \<open>\<open>str::is_char_boundary\<close>.\<close>

definition is_char_boundary :: "string \<Rightarrow> nat \<Rightarrow> bool" where
  "is_char_boundary s i \<longleftrightarrow> i = length s \<or> (i < length s \<and> (i = 0 \<or> \<not> is_cont (s ! i)))"

text \<open>The length of a character by its first byte; \<open>0\<close> for a byte that starts none.\<close>

definition utf8_len :: "char \<Rightarrow> nat" where
  "utf8_len c =
     (let n = of_char c :: nat
      in if n < 128 then 1 else if n < 194 then 0 else if n < 224 then 2
         else if n < 240 then 3 else if n < 245 then 4 else 0)"

text \<open>Well-formed strings: every character has its continuation bytes.\<close>

function utf8_ok :: "string \<Rightarrow> bool" where
  "utf8_ok [] \<longleftrightarrow> True"
| "utf8_ok (c # s) \<longleftrightarrow>
     0 < utf8_len c \<and> utf8_len c \<le> Suc (length s) \<and> (\<forall>x\<in>set (take (utf8_len c - 1) s). is_cont x)
       \<and> utf8_ok (drop (utf8_len c - 1) s)"
  by pat_completeness auto
termination by (relation "measure length") auto

text \<open>\<open>s.chars().take(n)\<close>, collected.\<close>

fun chars_take :: "nat \<Rightarrow> string \<Rightarrow> string" where
  "chars_take 0 s = []"
| "chars_take (Suc n) s =
     (case s of [] \<Rightarrow> []
      | c # cs \<Rightarrow> c # takeWhile is_cont cs @ chars_take n (dropWhile is_cont cs))"


section \<open>Searching and replacing\<close>

text \<open>\<open>str::find\<close>, \<open>str::rfind\<close> and \<open>str::matches(..).count()\<close>.\<close>

fun str_find :: "string \<Rightarrow> string \<Rightarrow> nat option" where
  "str_find p [] = (if p = [] then Some 0 else None)"
| "str_find p (x # xs) = (if starts_with p (x # xs) then Some 0 else map_option Suc (str_find p xs))"

fun str_rfind :: "string \<Rightarrow> string \<Rightarrow> nat option" where
  "str_rfind p [] = (if p = [] then Some 0 else None)"
| "str_rfind p (x # xs) =
     (case str_rfind p xs of
        Some i \<Rightarrow> Some (Suc i)
      | None \<Rightarrow> if starts_with p (x # xs) then Some 0 else None)"

function match_count :: "string \<Rightarrow> string \<Rightarrow> nat" where
  "match_count p [] = 0"
| "match_count p (x # xs) =
     (if p \<noteq> [] \<and> starts_with p (x # xs) then Suc (match_count p (drop (length p) (x # xs)))
      else match_count p xs)"
  by pat_completeness auto
termination by (relation "measure (\<lambda>(p, s). length s)") auto

text \<open>\<open>str::replace\<close> of one character.\<close>

definition replace_char :: "char \<Rightarrow> string \<Rightarrow> string \<Rightarrow> string" where
  "replace_char c r s = concat (map (\<lambda>x. if x = c then r else [x]) s)"

text \<open>The first item of \<open>str::split_whitespace\<close>, or the empty string.\<close>

fun take_word :: "string \<Rightarrow> string" where
  "take_word [] = []"
| "take_word (x # xs) =
     (if (\<exists>w\<in>set whitespace. starts_with w (x # xs)) then [] else x # take_word xs)"

definition first_word :: "string \<Rightarrow> string" where
  "first_word s = take_word (trim_start s)"


section \<open>Lemmas\<close>

lemma starts_with_append [simp]: "starts_with p (p @ s)"
  by (simp add: starts_with_def)

lemma starts_with_length: "starts_with p s \<Longrightarrow> length p \<le> length s"
  unfolding starts_with_def by (metis length_take min.cobounded1)

lemma starts_with_nth: "starts_with p s \<Longrightarrow> i < length p \<Longrightarrow> s ! i = p ! i"
  unfolding starts_with_def by (metis nth_take)

lemma str_find_Some:
  "str_find p s = Some i \<Longrightarrow> i \<le> length s \<and> starts_with p (drop i s)"
  by (induction p s arbitrary: i rule: str_find.induct) (auto split: if_splits simp: starts_with_def)

lemma str_rfind_Some:
  "str_rfind p s = Some i \<Longrightarrow> i \<le> length s \<and> starts_with p (drop i s)"
  by (induction p s arbitrary: i rule: str_rfind.induct)
    (auto split: if_splits option.splits simp: starts_with_def)

lemma is_cont_ascii: "is_cont c \<Longrightarrow> \<not> is_ascii c"
  by (auto simp: is_cont_def is_ascii_def)

lemma utf8_len_cont: "0 < utf8_len c \<Longrightarrow> \<not> is_cont c"
proof
  assume len: "0 < utf8_len c" and c: "is_cont c"
  from c have "64 * 2 \<le> (of_char c :: nat)" "(of_char c :: nat) < 64 * 3"
    unfolding is_cont_def by linarith+
  with len show False by (simp add: utf8_len_def Let_def)
qed

lemma utf8_len_ascii: "is_ascii c \<Longrightarrow> utf8_len c = 1"
  by (simp add: utf8_len_def is_ascii_def)

lemma utf8_len_le: "utf8_len c \<le> 4"
  by (simp add: utf8_len_def Let_def)

lemma utf8_ok_hd: "utf8_ok (c # s) \<Longrightarrow> \<not> is_cont c"
  by (auto dest: utf8_len_cont)

text \<open>A boundary cuts a well-formed string into well-formed parts.\<close>

lemma utf8_ok_cut:
  "utf8_ok s \<Longrightarrow> is_char_boundary s i \<Longrightarrow> utf8_ok (take i s) \<and> utf8_ok (drop i s)"
proof (induction s arbitrary: i rule: utf8_ok.induct)
  case 1
  then show ?case by simp
next
  case (2 c s)
  let ?n = "utf8_len c"
  have n: "0 < ?n" "?n \<le> Suc (length s)" "\<forall>x\<in>set (take (?n - 1) s). is_cont x"
    and rest: "utf8_ok (drop (?n - 1) s)" using "2.prems"(1) by auto
  show ?case
  proof (cases "i = 0 \<or> i = Suc (length s)")
    case True
    then show ?thesis using "2.prems"(1) by auto
  next
    case False
    then have i: "0 < i" "i \<le> length s" "\<not> is_cont ((c # s) ! i)"
      using "2.prems"(2) by (auto simp: is_char_boundary_def)
    have le: "?n \<le> i"
    proof (rule ccontr)
      assume "\<not> ?n \<le> i"
      then have "i - 1 < ?n - 1" using i by linarith
      then have "s ! (i - 1) \<in> set (take (?n - 1) s)" using i by (auto simp: in_set_conv_nth intro!: exI [of _ "i - 1"])
      then show False using n(3) i by (simp add: nth_Cons')
    qed
    have b: "is_char_boundary (drop (?n - 1) s) (i - ?n)"
      using i le n(1) by (auto simp: is_char_boundary_def nth_Cons')
    have "i - 1 = (?n - 1) + (i - ?n)" using le n(1) by linarith
    then have "take (i - 1) s = take (?n - 1) s @ take (i - ?n) (drop (?n - 1) s)"
      by (simp only: take_add)
    then have "utf8_ok (take i (c # s))"
      using 2(1) [OF rest b] n le i by (cases i) auto
    moreover have "drop i (c # s) = drop (i - ?n) (drop (?n - 1) s)"
      using le n(1) i by (cases i) auto
    ultimately show ?thesis using 2(1) [OF rest b] by metis
  qed
qed

text \<open>The position after an ASCII byte is a boundary.\<close>

lemma utf8_ok_after_ascii:
  "utf8_ok s \<Longrightarrow> j < length s \<Longrightarrow> is_ascii (s ! j) \<Longrightarrow> is_char_boundary s (Suc j)"
proof (induction s arbitrary: j rule: utf8_ok.induct)
  case 1
  then show ?case by simp
next
  case (2 c s)
  let ?n = "utf8_len c"
  have n: "0 < ?n" "?n \<le> Suc (length s)" "\<forall>x\<in>set (take (?n - 1) s). is_cont x"
    and rest: "utf8_ok (drop (?n - 1) s)" using "2.prems"(1) by auto
  show ?case
  proof (cases j)
    case 0
    then have "?n = 1" using "2.prems"(3) by (simp add: utf8_len_ascii)
    then have "utf8_ok s" using rest by simp
    then show ?thesis using 0 by (cases s) (auto simp: is_char_boundary_def dest: utf8_len_cont)
  next
    case (Suc k)
    have le: "?n - 1 \<le> k"
    proof (rule ccontr)
      assume "\<not> ?n - 1 \<le> k"
      then have "s ! k \<in> set (take (?n - 1) s)"
        using Suc "2.prems"(2) by (auto simp: in_set_conv_nth intro!: exI [of _ k])
      then show False using n(3) "2.prems"(3) Suc by (auto dest: is_cont_ascii)
    qed
    have "is_char_boundary (drop (?n - 1) s) (Suc (k - (?n - 1)))"
      using 2(1) [OF rest, of "k - (?n - 1)"] "2.prems"(2,3) Suc le by simp
    then show ?thesis using le Suc "2.prems"(2) by (auto simp: is_char_boundary_def)
  qed
qed

lemma utf8_ok_after_match:
  assumes "utf8_ok s" "starts_with p (drop i s)" "p \<noteq> []" "is_ascii (last p)" "i \<le> length s"
  shows "is_char_boundary s (i + length p)"
proof -
  have "length p \<le> length s - i" using starts_with_length [OF assms(2)] by simp
  then have j: "i + length p - 1 < length s" using assms(3,5) by (cases p) auto
  have "s ! (i + length p - 1) = last p"
    using starts_with_nth [OF assms(2), of "length p - 1"] assms(3,5)
    by (cases p) (auto simp: last_conv_nth)
  then show ?thesis using utf8_ok_after_ascii [OF assms(1) j] assms(3,4) by (cases p) auto
qed

text \<open>The first character of a well-formed string ends at a boundary.\<close>

lemma utf8_first_boundary:
  assumes "utf8_ok s" "s \<noteq> []"
  obtains n where "0 < n" "n \<le> 4" "is_char_boundary s n"
proof -
  obtain c t where s: "s = c # t" using assms(2) by (cases s) auto
  have n: "0 < utf8_len c" "utf8_len c \<le> Suc (length t)" and rest: "utf8_ok (drop (utf8_len c - 1) t)"
    using assms(1) s by auto
  have "is_char_boundary s (utf8_len c)"
  proof (cases "utf8_len c = Suc (length t)")
    case True
    then show ?thesis using s by (simp add: is_char_boundary_def)
  next
    case False
    then have "drop (utf8_len c - 1) t = t ! (utf8_len c - 1) # drop (utf8_len c) t"
      using n by (metis Cons_nth_drop_Suc Suc_pred' less_Suc_eq_le not_less_eq_eq order_le_less)
    then have "\<not> is_cont (t ! (utf8_len c - 1))" using rest utf8_ok_hd by metis
    then show ?thesis using s n False by (simp add: is_char_boundary_def nth_Cons')
  qed
  then show thesis using that n utf8_len_le by blast
qed

end
