(* ===== verification/Telegram_Text.thy ===== *)
theory Telegram_Text
  imports Utf8 Content_Kind
begin

text \<open>
  The text functions of the Telegram channel: \<open>formatting.rs\<close>, \<open>split_message\<close> of
  \<open>deliver.rs\<close>, the rendering of tool arguments of \<open>turn.rs\<close> and the callback data of
  \<open>permissions.rs\<close> (\<open>src/ext/channels/telegram/src\<close>).

  The \<open>regex\<close> crate is a parameter: \<open>rx r s\<close> yields the matches of the regular expression \<open>r\<close>
  in \<open>s\<close> with their capture groups.  A panic is \<open>None\<close>.
\<close>

section \<open>HTML\<close>

definition escape_html :: "string \<Rightarrow> string" where
  "escape_html s =
     replace_char (CHR ''>'') ''&gt;''
       (replace_char (CHR ''<'') ''&lt;'' (replace_char (CHR ''&'') ''&amp;'' s))"

datatype re =
    FENCED_CODE_RE | INLINE_CODE_RE | BLOCKQUOTE_RE | HEADER_RE | LINK_RE | BOLD_RE | STRIKE_RE
  | ITALIC_UNDERSCORE_RE | ITALIC_STAR_RE

text \<open>A match: the text before it (from the end of the previous one), its groups; then the rest.\<close>

type_synonym re_find = "re \<Rightarrow> string \<Rightarrow> (string \<times> string option list) list \<times> string"

definition group :: "string option list \<Rightarrow> nat \<Rightarrow> string" where
  "group caps i = (if i < length caps then unwrap_or (caps ! i) '''' else '''')"

text \<open>\<open>Regex::replace_all\<close> with a closure that collects what it extracts.\<close>

fun replace_extract ::
  "(string option list \<Rightarrow> string) \<Rightarrow> (nat \<Rightarrow> string) \<Rightarrow> (string \<times> string option list) list
    \<Rightarrow> string list \<Rightarrow> string \<times> string list" where
  "replace_extract f mark [] acc = ('''', acc)"
| "replace_extract f mark ((before, caps) # ms) acc =
     (let (s, acc') = replace_extract f mark ms (acc @ [f caps])
      in (before @ mark (length acc) @ s, acc'))"

definition extract_all ::
  "re_find \<Rightarrow> re \<Rightarrow> (string option list \<Rightarrow> string) \<Rightarrow> (nat \<Rightarrow> string) \<Rightarrow> string \<Rightarrow> string \<times> string list" where
  "extract_all rx r f mark s =
     (let (ms, tail) = rx r s; (s', items) = replace_extract f mark ms [] in (s' @ tail, items))"

definition replace_all :: "re_find \<Rightarrow> re \<Rightarrow> (string option list \<Rightarrow> string) \<Rightarrow> string \<Rightarrow> string" where
  "replace_all rx r f s =
     (let (ms, tail) = rx r s in concat (map (\<lambda>(before, caps). before @ f caps) ms) @ tail)"

text \<open>\<open>str::replace\<close> of a string that is not empty.\<close>

function replace_str :: "string \<Rightarrow> string \<Rightarrow> string \<Rightarrow> string" where
  "replace_str p r [] = []"
| "replace_str p r (x # xs) =
     (if p \<noteq> [] \<and> starts_with p (x # xs) then r @ replace_str p r (drop (length p) (x # xs))
      else x # replace_str p r xs)"
  by pat_completeness auto
termination by (relation "measure (\<lambda>(p, r, s). length s)") auto

definition mark :: "string \<Rightarrow> nat \<Rightarrow> string" where
  "mark name i = [CHR 0x00] @ name @ ''_'' @ digits_of i @ [CHR 0x00]"

definition restore :: "string \<Rightarrow> string list \<Rightarrow> string \<Rightarrow> string" where
  "restore name items s = fold (\<lambda>(i, item). replace_str (mark name i) item) (enumerate 0 items) s"

text \<open>\<open>str::lines\<close>.\<close>

definition str_lines :: "string \<Rightarrow> string list" where
  "str_lines s =
     (let ls = str_split (CHR 0x0A) s; ls' = (if last ls = [] then butlast ls else ls)
      in map (\<lambda>l. unwrap_or (strip_suffix [CHR 0x0D] l) l) ls')"

definition code_block :: "string option list \<Rightarrow> string" where
  "code_block caps =
     (let lang = group caps 1; code = escape_html (group caps 2)
      in if lang = [] then ''<pre>'' @ code @ ''</pre>''
         else ''<pre><code class=\"language-'' @ lang @ ''\">'' @ code @ ''</code></pre>'')"

definition blockquote :: "string option list \<Rightarrow> string" where
  "blockquote caps =
     (let strip = (\<lambda>l. unwrap_or (opt_or (strip_prefix ''> '' l) (strip_prefix ''>'' l)) l)
      in ''<blockquote>'' @ escape_html (str_join [CHR 0x0A] (map strip (str_lines (group caps 0))))
           @ ''</blockquote>'')"

definition wrap_group :: "string \<Rightarrow> string option list \<Rightarrow> string" where
  "wrap_group tag caps = ''<'' @ tag @ ''>'' @ group caps 1 @ ''</'' @ tag @ ''>''"

definition format_telegram_html :: "re_find \<Rightarrow> string \<Rightarrow> string" where
  "format_telegram_html rx text =
     (let (t1, code_blocks) = extract_all rx FENCED_CODE_RE code_block (mark ''CODEBLOCK'') text;
          (t2, inline_codes) = extract_all rx INLINE_CODE_RE
             (\<lambda>caps. ''<code>'' @ escape_html (group caps 1) @ ''</code>'') (mark ''INLINE'') t1;
          (t3, blockquotes) = extract_all rx BLOCKQUOTE_RE blockquote (mark ''BLOCKQUOTE'') t2;
          t4 = escape_html t3;
          t5 = replace_all rx HEADER_RE (wrap_group ''b'') t4;
          t6 = replace_all rx LINK_RE
             (\<lambda>caps. ''<a href=\"'' @ group caps 2 @ ''\">'' @ group caps 1 @ ''</a>'') t5;
          t7 = replace_all rx BOLD_RE (wrap_group ''b'') t6;
          t8 = replace_all rx STRIKE_RE (wrap_group ''s'') t7;
          t9 = replace_all rx ITALIC_UNDERSCORE_RE (wrap_group ''i'') t8;
          t10 = replace_all rx ITALIC_STAR_RE (wrap_group ''i'') t9
      in restore ''CODEBLOCK'' code_blocks
           (restore ''INLINE'' inline_codes (restore ''BLOCKQUOTE'' blockquotes t10)))"

text \<open>\<open>close_open_tags\<close>: the stack of open tags, the last one opened first.\<close>

definition html_tags :: "string list" where
  "html_tags = [''b'', ''i'', ''s'', ''u'', ''code'', ''pre'', ''blockquote'', ''a'']"

definition tag_step :: "string \<Rightarrow> string list \<Rightarrow> string list" where
  "tag_step tag_content stack =
     (case strip_prefix ''/'' tag_content of
        Some closing \<Rightarrow> remove1 (first_word closing) stack
      | None \<Rightarrow>
          if first_word tag_content \<in> set html_tags then first_word tag_content # stack else stack)"

function open_tags :: "string \<Rightarrow> string list \<Rightarrow> string list" where
  "open_tags [] stack = stack"
| "open_tags (x # xs) stack =
     (if x = CHR ''<''
      then (let content = takeWhile (\<lambda>c. c \<noteq> CHR ''>'') xs
            in open_tags (drop (Suc (length content)) xs) (tag_step content stack))
      else open_tags xs stack)"
  by pat_completeness auto
termination by (relation "measure (\<lambda>(s, _). length s)") (auto simp: Let_def)

definition close_tag :: "string \<Rightarrow> string" where
  "close_tag tag = ''</'' @ tag @ ''>''"

definition close_open_tags :: "string \<Rightarrow> string" where
  "close_open_tags html = html @ concat (map close_tag (open_tags html []))"


section \<open>Splitting a message\<close>

definition TELEGRAM_MAX_MESSAGE_LEN :: nat where
  "TELEGRAM_MAX_MESSAGE_LEN = 4096"

fun boundary_down :: "string \<Rightarrow> nat \<Rightarrow> nat" where
  "boundary_down s 0 = 0"
| "boundary_down s (Suc n) = (if is_char_boundary s (Suc n) then Suc n else boundary_down s n)"

text \<open>The end of a \<open><pre>\<close> block that is still open at \<open>b\<close>.\<close>

definition pre_boundary :: "string \<Rightarrow> nat \<Rightarrow> nat" where
  "pre_boundary s b =
     (let candidate = take b s
      in if match_count ''</pre>'' candidate < match_count ''<pre>'' candidate + match_count ''<pre '' candidate
         then (case str_find ''</pre>'' s of Some p \<Rightarrow> p + 6 | None \<Rightarrow> b)
         else b)"

definition soft_boundary :: "string \<Rightarrow> nat \<Rightarrow> nat" where
  "soft_boundary s b =
     (let candidate = take b s
      in case str_rfind [CHR 0x0A, CHR 0x0A] candidate of
           Some p \<Rightarrow> p + 2
         | None \<Rightarrow>
             (case str_rfind [CHR 0x0A] candidate of
                Some p \<Rightarrow> p + 1
              | None \<Rightarrow> (case str_rfind ''. '' candidate of Some p \<Rightarrow> p + 2 | None \<Rightarrow> b)))"

text \<open>Where the first chunk of a string longer than \<open>max_len\<close> ends; \<open>None\<close> where slicing panics.\<close>

definition split_boundary :: "nat \<Rightarrow> string \<Rightarrow> nat option" where
  "split_boundary max_len s =
     (let b0 = boundary_down s max_len; b1 = (if b0 = 0 then max_len else b0)
      in if \<not> is_char_boundary s b1 then None
         else (let b2 = pre_boundary s b1
               in if max_len < b2 then (if is_char_boundary s b2 then Some b2 else None)
                  else if \<not> is_char_boundary s b2 then None
                  else (let b3 = soft_boundary s b2
                        in if is_char_boundary s b3 then Some b3 else None)))"

lemma pre_boundary_pos: "0 < b \<Longrightarrow> 0 < pre_boundary s b"
  by (auto simp: pre_boundary_def Let_def split: option.splits)

lemma soft_boundary_pos: "0 < b \<Longrightarrow> 0 < soft_boundary s b"
  by (auto simp: soft_boundary_def Let_def split: option.splits)

lemma split_boundary_pos: "split_boundary m s = Some b \<Longrightarrow> 0 < m \<Longrightarrow> 0 < b"
  by (auto simp: split_boundary_def Let_def pre_boundary_pos soft_boundary_pos split: if_splits)

text \<open>The loop; with \<open>max_len = 0\<close> it would push empty chunks for ever, which is \<open>None\<close> too.\<close>

function split_loop :: "nat \<Rightarrow> string \<Rightarrow> string list option" where
  "split_loop max_len s =
     (if s = [] then Some []
      else if length s \<le> max_len then Some [s]
      else if max_len = 0 then None
      else (case split_boundary max_len s of
              None \<Rightarrow> None
            | Some b \<Rightarrow> map_option (\<lambda>cs. take b s # cs) (split_loop max_len (drop b s))))"
  by pat_completeness auto
termination by (relation "measure (\<lambda>(m, s). length s)") (auto dest: split_boundary_pos)

definition split_message :: "string \<Rightarrow> nat \<Rightarrow> string list option" where
  "split_message text max_len = (if length text \<le> max_len then Some [text] else split_loop max_len text)"


section \<open>Tool calls\<close>

datatype args_summary = Args_None | Args_Collapsed string | Args_Expanded string

definition COLLAPSED_MAX_LEN :: nat where
  "COLLAPSED_MAX_LEN = 60"

definition LARGE_VALUE_THRESHOLD :: nat where
  "LARGE_VALUE_THRESHOLD = 200"

text \<open>\<open>{kb:.1}\<close> of \<open>n / 1024\<close>: to tenths, halves to the even digit.\<close>

definition kb_tenths :: "nat \<Rightarrow> nat" where
  "kb_tenths n =
     (let q = n * 10 div 1024; r = n * 10 mod 1024
      in if 512 < r \<or> (r = 512 \<and> odd q) then Suc q else q)"

fun format_arg_value :: "(json \<Rightarrow> string) \<Rightarrow> json \<Rightarrow> string" where
  "format_arg_value ser (JStr s) =
     (if LARGE_VALUE_THRESHOLD < length s
      then ''('' @ digits_of (kb_tenths (length s) div 10) @ ''.'' @ digits_of (kb_tenths (length s) mod 10) @ ''kb)''
      else s)"
| "format_arg_value ser JNull = ''null''"
| "format_arg_value ser (JBool b) = (if b then ''true'' else ''false'')"
| "format_arg_value ser (JArr xs) = ''['' @ digits_of (length xs) @ '' items]''"
| "format_arg_value ser (JObj m) = ''{'' @ digits_of (length m) @ '' keys}''"
| "format_arg_value ser n = ser n"

definition format_tool_args :: "(json \<Rightarrow> string) \<Rightarrow> json option \<Rightarrow> args_summary" where
  "format_tool_args ser input =
     (case input of
        Some (JObj m) \<Rightarrow>
          (let pairs = map (\<lambda>(k, v). k @ '': '' @ format_arg_value ser v) m
           in if m = [] then Args_None
              else if length pairs = 1 \<and> length (hd pairs) \<le> COLLAPSED_MAX_LEN then Args_Collapsed (hd pairs)
              else Args_Expanded (str_join '', '' pairs))
      | _ \<Rightarrow> Args_None)"


section \<open>Permission buttons\<close>

text \<open>The data of a button; \<open>None\<close> where the subtraction overflows, a panic of a debug build.\<close>

definition callback_data :: "string \<Rightarrow> string \<Rightarrow> string option" where
  "callback_data request_id option_id =
     (let d = request_id @ '':'' @ option_id
      in if 64 < length d
         then (if 63 < length option_id then None
               else Some (chars_take (63 - length option_id) request_id @ '':'' @ option_id))
         else Some d)"

definition build_permission_keyboard ::
  "string \<Rightarrow> permission_option list \<Rightarrow> (string \<times> string) list option" where
  "build_permission_keyboard request_id options =
     those (map (\<lambda>opt. map_option (\<lambda>d. (po_label opt, d)) (callback_data request_id (po_option_id opt))) options)"

definition parse_callback_data :: "string \<Rightarrow> (string \<times> string) option" where
  "parse_callback_data data =
     map_option (\<lambda>i. (take i data, drop (Suc i) data)) (str_rfind '':'' data)"

definition peer_info_from_chat :: "int \<Rightarrow> string \<Rightarrow> peer_info" where
  "peer_info_from_chat chat_id chat_type =
     \<lparr>pi_channel_name = ''telegram'', pi_peer_id = ''telegram:'' @ show_int chat_id,
      pi_kind = (if chat_type = ''private'' then ''direct''
                 else if chat_type = ''group'' \<or> chat_type = ''supergroup'' then ''group''
                 else if chat_type = ''channel'' then ''channel'' else ''unknown'')\<rparr>"

definition parse_chat_id :: "string \<Rightarrow> int option" where
  "parse_chat_id peer_id = Option.bind (strip_prefix ''telegram:'' peer_id) parse_i64"


section \<open>Specifications\<close>

text \<open>Escaping, one character at a time.\<close>

definition escape_char :: "char \<Rightarrow> string" where
  "escape_char c =
     (if c = CHR ''&'' then ''&amp;'' else if c = CHR ''<'' then ''&lt;''
      else if c = CHR ''>'' then ''&gt;'' else [c])"

text \<open>Every tag is finished: no \<open><\<close> without a \<open>>\<close> after it.\<close>

function tags_complete :: "string \<Rightarrow> bool" where
  "tags_complete [] \<longleftrightarrow> True"
| "tags_complete (x # xs) \<longleftrightarrow>
     (if x = CHR ''<''
      then CHR ''>'' \<in> set xs \<and> tags_complete (drop (Suc (length (takeWhile (\<lambda>c. c \<noteq> CHR ''>'') xs))) xs)
      else tags_complete xs)"
  by pat_completeness auto
termination by (relation "measure length") auto


section \<open>Properties\<close>

lemma replace_char_concat: "replace_char c r (concat (map f s)) = concat (map (\<lambda>x. replace_char c r (f x)) s)"
  by (induction s) (auto simp: replace_char_def)

lemma escape_html_chars: "escape_html s = concat (map escape_char s)"
proof -
  have "escape_html s = concat (map (\<lambda>x. escape_html [x]) s)"
    by (induction s) (auto simp: escape_html_def replace_char_def)
  moreover have "escape_html [x] = escape_char x" for x
    by (simp add: escape_html_def replace_char_def escape_char_def)
  ultimately show ?thesis by simp
qed

lemma escape_html_safe: "CHR ''<'' \<notin> set (escape_html s) \<and> CHR ''>'' \<notin> set (escape_html s)"
  by (auto simp: escape_html_chars escape_char_def)

lemma boundary_down_ge: "is_char_boundary s b \<Longrightarrow> b \<le> n \<Longrightarrow> b \<le> boundary_down s n"
  by (induction n) (auto simp: le_Suc_eq)

lemma boundary_down_le: "boundary_down s n \<le> n"
  by (induction n) auto

lemma boundary_down_boundary: "0 < boundary_down s n \<Longrightarrow> is_char_boundary s (boundary_down s n)"
  by (induction n) (auto split: if_splits)

lemma str_rfind_take:
  assumes "str_rfind p (take b s) = Some i" "p \<noteq> []"
  shows "i + length p \<le> b" "starts_with p (drop i s)" "i \<le> length s"
proof -
  have *: "i \<le> length (take b s)" "starts_with p (drop i (take b s))"
    using str_rfind_Some [OF assms(1)] by auto
  then have l: "length p \<le> length (take b s) - i" using starts_with_length [OF *(2)] by simp
  then show "i + length p \<le> b" using assms(2) by (cases p) auto
  show "i \<le> length s" using *(1) by simp
  have "length p \<le> b - i" using l by auto
  then have "take (length p) (drop i s) = take (length p) (drop i (take b s))"
    by (simp add: drop_take min_def)
  then show "starts_with p (drop i s)" using *(2) by (simp add: starts_with_def)
qed

lemma soft_boundary_ok:
  assumes s: "utf8_ok s" and b: "is_char_boundary s b"
  shows "is_char_boundary s (soft_boundary s b) \<and> soft_boundary s b \<le> b"
proof -
  have "is_char_boundary s (i + length p) \<and> i + length p \<le> b"
    if "str_rfind p (take b s) = Some i" "p \<noteq> []" "is_ascii (last p)" for p i
    using str_rfind_take [OF that(1,2)] utf8_ok_after_match [OF s _ that(2,3)] by blast
  from this [of "[CHR 0x0A, CHR 0x0A]"] this [of "[CHR 0x0A]"] this [of "''. ''"]
  show ?thesis using b by (auto simp: soft_boundary_def Let_def is_ascii_def split: option.splits)
qed

lemma pre_boundary_ok:
  assumes s: "utf8_ok s" and b: "is_char_boundary s b"
  shows "is_char_boundary s (pre_boundary s b)
    \<and> (pre_boundary s b = b \<or> ends_with ''</pre>'' (take (pre_boundary s b) s))"
proof (cases "str_find ''</pre>'' s")
  case (Some p)
  then have p: "p \<le> length s" "starts_with ''</pre>'' (drop p s)" using str_find_Some by auto
  then have "is_char_boundary s (p + 6)" using utf8_ok_after_match [OF s p(2)] by (simp add: is_ascii_def eval_nat_numeral)
  moreover have "take 6 (drop p s) = ''</pre>''" using p by (simp add: starts_with_def eval_nat_numeral)
  then have "take (p + 6) s = take p s @ ''</pre>''" by (simp add: take_add)
  then have "ends_with ''</pre>'' (take (p + 6) s)" by (simp add: ends_with_def starts_with_def)
  ultimately show ?thesis using Some b by (simp add: pre_boundary_def Let_def)
qed (use b in \<open>simp add: pre_boundary_def Let_def\<close>)

lemma split_boundary_ok:
  assumes s: "utf8_ok s" and m: "4 \<le> m" "m < length s"
  shows "\<exists>b. split_boundary m s = Some b \<and> 0 < b \<and> b \<le> length s \<and> is_char_boundary s b
    \<and> (b \<le> m \<or> ends_with ''</pre>'' (take b s))"
proof -
  obtain n where n: "0 < n" "n \<le> 4" "is_char_boundary s n"
    using utf8_first_boundary [OF s] m(2) by (metis list.size(3) not_less_zero)
  define b1 where "b1 = boundary_down s m"
  have "n \<le> b1" using boundary_down_ge [OF n(3), of m] n(2) m(1) by (simp add: b1_def)
  then have b1: "0 < b1" "b1 \<le> m" "is_char_boundary s b1"
    using n(1) boundary_down_le [of s m] boundary_down_boundary [of s m] by (simp_all add: b1_def)
  have b2: "is_char_boundary s (pre_boundary s b1)" "0 < pre_boundary s b1"
    "pre_boundary s b1 = b1 \<or> ends_with ''</pre>'' (take (pre_boundary s b1) s)"
    using pre_boundary_ok [OF s b1(3)] pre_boundary_pos [OF b1(1)] by auto
  have b3: "is_char_boundary s (soft_boundary s (pre_boundary s b1))"
    "soft_boundary s (pre_boundary s b1) \<le> pre_boundary s b1"
    "0 < soft_boundary s (pre_boundary s b1)"
    using soft_boundary_ok [OF s b2(1)] soft_boundary_pos [OF b2(2)] by auto
  have eq: "split_boundary m s = Some (if m < pre_boundary s b1 then pre_boundary s b1
      else soft_boundary s (pre_boundary s b1))"
    unfolding split_boundary_def Let_def b1_def [symmetric] using b1 b2 b3 by simp
  have le: "b \<le> length s" if "is_char_boundary s b" for b
    using that by (auto simp: is_char_boundary_def)
  show ?thesis
  proof (cases "m < pre_boundary s b1")
    case True
    then have "pre_boundary s b1 \<noteq> b1" using b1(2) by simp
    then show ?thesis using True eq b2 le by auto
  next
    case False
    then show ?thesis using eq b3 le by auto
  qed
qed

lemma split_loop_ok:
  assumes "utf8_ok s" "4 \<le> m" "s \<noteq> []"
  shows "\<exists>cs. split_loop m s = Some cs \<and> concat cs = s
    \<and> (\<forall>c\<in>set cs. c \<noteq> [] \<and> utf8_ok c \<and> (length c \<le> m \<or> ends_with ''</pre>'' c))"
  using assms
proof (induction m s rule: split_loop.induct)
  case (1 m s)
  show ?case
  proof (cases "length s \<le> m")
    case True
    then show ?thesis using "1.prems" by simp
  next
    case False
    then obtain b where b: "split_boundary m s = Some b" "0 < b" "b \<le> length s" "is_char_boundary s b"
      "b \<le> m \<or> ends_with ''</pre>'' (take b s)"
      using split_boundary_ok [OF "1.prems"(1,2)] by auto
    have cut: "utf8_ok (take b s)" "utf8_ok (drop b s)" using utf8_ok_cut [OF "1.prems"(1) b(4)] by auto
    have first: "take b s \<noteq> [] \<and> utf8_ok (take b s) \<and> (length (take b s) \<le> m \<or> ends_with ''</pre>'' (take b s))"
      using b cut "1.prems"(3) by auto
    have unf: "split_loop m s = map_option (\<lambda>cs. take b s # cs) (split_loop m (drop b s))"
      using False b(1) "1.prems" by simp
    show ?thesis
    proof (cases "drop b s = []")
      case True
      then have "split_loop m (drop b s) = Some []" "take b s = s" by auto
      then show ?thesis using unf first by simp
    next
      case rest: False
      obtain cs where "split_loop m (drop b s) = Some cs" "concat cs = drop b s"
        "\<forall>c\<in>set cs. c \<noteq> [] \<and> utf8_ok c \<and> (length c \<le> m \<or> ends_with ''</pre>'' c)"
        using "1.IH" [OF "1.prems"(3) False _ b(1) cut(2) "1.prems"(2) rest] "1.prems"(2) by auto
      then show ?thesis using unf first by simp
    qed
  qed
qed

text \<open>
  Property C25.  Splitting a message loses nothing and always ends: for well-formed text and a limit of
  at least four bytes no slice panics, the chunks put together are the text, each is well formed, and
  each is within the limit unless it was extended to the end of a preformatted block.
\<close>

theorem split_message_correct:
  assumes "utf8_ok text" and "4 \<le> max_len"
  shows "\<exists>cs. split_message text max_len = Some cs \<and> concat cs = text
    \<and> (\<forall>c\<in>set cs. utf8_ok c \<and> (length c \<le> max_len \<or> ends_with ''</pre>'' c))"
proof (cases "length text \<le> max_len")
  case True
  then show ?thesis using assms by (simp add: split_message_def)
next
  case False
  then have "text \<noteq> []" by auto
  from split_loop_ok [OF assms this] show ?thesis using False by (auto simp: split_message_def)
qed

theorem split_message_correct_witness:
  "utf8_ok (''one. two'' @ [CHR 0xE2, CHR 0x9C, CHR 0x85]) \<and>
   split_message (''one. two'' @ [CHR 0xE2, CHR 0x9C, CHR 0x85]) 6
     = Some [''one. '', ''two'' @ [CHR 0xE2, CHR 0x9C, CHR 0x85]] \<and>
   (\<exists>cs. split_message (''one. two'' @ [CHR 0xE2, CHR 0x9C, CHR 0x85]) 6 = Some cs
      \<and> concat cs = ''one. two'' @ [CHR 0xE2, CHR 0x9C, CHR 0x85]
      \<and> list_all (\<lambda>c. utf8_ok c \<and> (length c \<le> 6 \<or> ends_with ''</pre>'' c)) cs)"
proof (intro conjI)
  show ok: "utf8_ok (''one. two'' @ [CHR 0xE2, CHR 0x9C, CHR 0x85])" by code_simp
  show "split_message (''one. two'' @ [CHR 0xE2, CHR 0x9C, CHR 0x85]) 6
     = Some [''one. '', ''two'' @ [CHR 0xE2, CHR 0x9C, CHR 0x85]]" by code_simp
  show "\<exists>cs. split_message (''one. two'' @ [CHR 0xE2, CHR 0x9C, CHR 0x85]) 6 = Some cs
      \<and> concat cs = ''one. two'' @ [CHR 0xE2, CHR 0x9C, CHR 0x85]
      \<and> list_all (\<lambda>c. utf8_ok c \<and> (length c \<le> 6 \<or> ends_with ''</pre>'' c)) cs"
    using split_message_correct [OF ok, of 6] by (simp add: list_all_iff)
qed

lemma open_tags_append:
  "tags_complete s \<Longrightarrow> open_tags (s @ t) stack = open_tags t (open_tags s stack)"
proof (induction s stack rule: open_tags.induct)
  case (2 x xs stack)
  show ?case
  proof (cases "x = CHR ''<''")
    case True
    let ?w = "takeWhile (\<lambda>c. c \<noteq> CHR ''>'') xs"
    have gt: "CHR ''>'' \<in> set xs" using "2.prems" True by simp
    then have w: "takeWhile (\<lambda>c. c \<noteq> CHR ''>'') (xs @ t) = ?w" by (simp add: takeWhile_append1)
    obtain a b where "xs = a @ CHR ''>'' # b" "CHR ''>'' \<notin> set a" using split_list_first [OF gt] by auto
    then have "Suc (length ?w) \<le> length xs" using split_first_append [of _ a b] by (simp add: split_first_def)
    then have "drop (Suc (length ?w)) (xs @ t) = drop (Suc (length ?w)) xs @ t" by simp
    then show ?thesis using "2.IH"(1) [OF True refl] "2.prems" True w by (simp add: Let_def)
  next
    case False
    then show ?thesis using 2 by simp
  qed
qed simp

lemma open_tags_known: "set stack \<subseteq> set html_tags \<Longrightarrow> set (open_tags s stack) \<subseteq> set html_tags"
proof (induction s stack rule: open_tags.induct)
  case (2 x xs stack)
  have "set (tag_step c stack) \<subseteq> set html_tags" for c
    using "2.prems" set_remove1_subset [of "first_word (the (strip_prefix ''/'' c))" stack]
    by (auto simp: tag_step_def split: option.splits)
  then show ?case using 2 by (simp add: Let_def)
qed simp

lemma whitespace_hd: "w \<in> set whitespace \<Longrightarrow> w \<noteq> [] \<and> hd w \<in> set (map hd whitespace)"
  by (auto simp: whitespace_def)

lemma no_whitespace:
  "x \<notin> set (map hd whitespace) \<Longrightarrow> w \<in> set whitespace \<Longrightarrow> \<not> starts_with w (x # xs)"
  using whitespace_hd [of w] by (cases w) (auto simp: starts_with_def)

lemma take_word_id: "\<forall>x\<in>set s. x \<notin> set (map hd whitespace) \<Longrightarrow> take_word s = s"
  by (induction s) (auto simp del: set_map dest: no_whitespace)

lemma trim_start_id:
  assumes "\<forall>x\<in>set s. x \<notin> set (map hd whitespace)"
  shows "trim_start s = s"
proof (cases s)
  case (Cons x xs)
  then have "List.find (\<lambda>w. starts_with w s) whitespace = None"
    unfolding find_None_iff using assms no_whitespace [of x _ xs] by auto
  then show ?thesis using Cons by (simp add: trim_start_def)
qed (simp add: trim_start_def)

lemma html_tag_word: "tag \<in> set html_tags \<Longrightarrow> CHR ''>'' \<notin> set tag \<and> first_word tag = tag"
proof -
  assume tag: "tag \<in> set html_tags"
  have "\<forall>tag\<in>set html_tags. \<forall>x\<in>set tag. x \<notin> set (map hd whitespace) \<and> x \<noteq> CHR ''>''"
    by (simp add: html_tags_def whitespace_def char_of_def)
  then have "\<forall>x\<in>set tag. x \<notin> set (map hd whitespace)" "CHR ''>'' \<notin> set tag" using tag by auto
  then show ?thesis by (simp add: first_word_def trim_start_id take_word_id del: set_map)
qed

lemma open_tags_close:
  assumes "tag \<in> set html_tags"
  shows "open_tags (close_tag tag @ t) stack = open_tags t (remove1 tag stack)"
proof -
  have "takeWhile (\<lambda>c. c \<noteq> CHR ''>'') (CHR ''/'' # tag @ CHR ''>'' # t) = CHR ''/'' # tag"
    using html_tag_word [OF assms] split_first_append [of _ tag t] by (simp add: split_first_def)
  moreover have "tag_step (CHR ''/'' # tag) stack = remove1 tag stack"
    using html_tag_word [OF assms] by (simp add: tag_step_def strip_prefix_def)
  ultimately show ?thesis by (simp add: close_tag_def Let_def)
qed

lemma open_tags_close_all:
  "set stack \<subseteq> set html_tags \<Longrightarrow> open_tags (concat (map close_tag stack)) stack = []"
  by (induction stack) (auto simp: open_tags_close)

text \<open>
  What \<open>close_open_tags\<close> returns for a fragment whose tags are finished has no open tag
  left, begins with the fragment, and is not changed by closing it again.
\<close>

lemma close_open_tags_balanced:
  assumes "tags_complete html"
  shows "open_tags (close_open_tags html) [] = [] \<and> starts_with html (close_open_tags html)
    \<and> close_open_tags (close_open_tags html) = close_open_tags html"
proof -
  have "open_tags (close_open_tags html) [] = []"
    using open_tags_append [OF assms] open_tags_close_all open_tags_known [of "[]" html]
    by (simp add: close_open_tags_def)
  then show ?thesis by (simp add: close_open_tags_def [of "close_open_tags html"])
     (simp add: close_open_tags_def)
qed

lemma chars_take_ascii: "\<forall>x\<in>set s. is_ascii x \<Longrightarrow> chars_take n s = take n s"
proof (induction n arbitrary: s)
  case (Suc n)
  show ?case
  proof (cases s)
    case (Cons c cs)
    have "takeWhile is_cont cs = [] \<and> dropWhile is_cont cs = cs"
      using Suc.prems Cons by (cases cs) (auto dest: is_cont_ascii)
    then show ?thesis using Suc Cons by simp
  qed simp
qed simp

lemma str_rfind_colon: "CHR '':'' \<notin> set b \<Longrightarrow> str_rfind '':'' (a @ CHR '':'' # b) = Some (length a)"
proof -
  have none: "CHR '':'' \<notin> set b \<Longrightarrow> str_rfind '':'' b = None" for b
    by (induction b) (auto simp: starts_with_def)
  show "CHR '':'' \<notin> set b \<Longrightarrow> str_rfind '':'' (a @ CHR '':'' # b) = Some (length a)"
    by (induction a) (auto simp: none starts_with_def)
qed

lemma parse_callback_append:
  "CHR '':'' \<notin> set b \<Longrightarrow> parse_callback_data (a @ '':'' @ b) = Some (a, b)"
  by (simp add: parse_callback_data_def str_rfind_colon)

text \<open>
  The data of a permission button fits Telegram's 64 bytes, and the callback brings back
  the chosen option; it brings back the request exactly when request and option fit into the 64 bytes
  together, and otherwise a shorter request identifier that no pending request has.
\<close>

lemma permission_button_round_trip:
  assumes "\<forall>x\<in>set request_id. is_ascii x" and "CHR '':'' \<notin> set option_id" and "length option_id \<le> 63"
  shows "\<exists>d r. callback_data request_id option_id = Some d \<and> length d \<le> 64
    \<and> parse_callback_data d = Some (r, option_id) \<and> starts_with r request_id
    \<and> (r = request_id \<longleftrightarrow> length request_id + length option_id < 64)"
proof (cases "length request_id + length option_id < 64")
  case True
  then show ?thesis using parse_callback_append [OF assms(2), of request_id]
    by (simp add: callback_data_def starts_with_def)
next
  case False
  define r where "r = take (63 - length option_id) request_id"
  have "callback_data request_id option_id = Some (r @ '':'' @ option_id)"
    using False assms(3) by (simp add: callback_data_def chars_take_ascii [OF assms(1)] r_def)
  moreover have "length r = 63 - length option_id" "length r < length request_id"
    using False assms(3) by (auto simp: r_def)
  moreover have "starts_with r request_id" using False by (simp add: r_def starts_with_def)
  ultimately show ?thesis using parse_callback_append [OF assms(2), of r] False assms(3)
    by (intro exI [of _ "r @ '':'' @ option_id"] exI [of _ r]) auto
qed

end
