(* ===== verification/Telegram_Turn.thy ===== *)
theory Telegram_Turn
  imports Telegram_Text
begin

text \<open>
  The turn of a chat, \<open>src/ext/channels/telegram/src/turn.rs\<close>: what one agent response looks like
  while it is streamed to Telegram.  A join handle is the number of its task; an operation that
  aborts tasks returns their numbers.  An \<open>Instant\<close> is an integer number of nanoseconds.
\<close>

section \<open>Tracks\<close>

record thought_track =
  tt_msg_id :: int
  tt_started_at :: int
  tt_buffer :: string
  tt_debounce_handle :: "nat option"
  tt_suppressed :: bool

record response_track =
  rt_msg_id :: int
  rt_buffer :: string
  rt_last_edit :: int
  rt_debounce_handle :: "nat option"

datatype call_status =
    Started
  | InProgress
  | Completed
  | Failed "string option"

fun is_terminal :: "call_status \<Rightarrow> bool" where
  "is_terminal Completed = True"
| "is_terminal (Failed _) = True"
| "is_terminal _ = False"

record tool_call_track =
  tct_name :: string
  tct_status :: call_status
  tct_input :: "json option"

datatype turn_phase = Active | Finalizing nat

record chat_turn =
  tu_message_id :: string
  tu_phase :: turn_phase
  tu_thought :: "thought_track option"
  tu_response :: "response_track option"
  tu_tool_calls :: "(string, tool_call_track) hmap"
  tu_tools_msg_id :: int
  tu_tool_call_order :: "string list"
  tu_render_tick :: u32
  tu_last_result_was_error :: bool
  tu_last_tools_edit :: int
  tu_response_finalized :: bool

section \<open>Operations\<close>

definition chat_turn_new :: "int \<Rightarrow> string \<Rightarrow> chat_turn" where
  "chat_turn_new now message_id =
     \<lparr>tu_message_id = message_id, tu_phase = Active, tu_thought = None, tu_response = None,
      tu_tool_calls = [], tu_tools_msg_id = 0, tu_tool_call_order = [], tu_render_tick = 0,
      tu_last_result_was_error = False, tu_last_tools_edit = now - 60 * 10 ^ 9,
      tu_response_finalized = False\<rparr>"

definition args_detail :: "(json \<Rightarrow> string) \<Rightarrow> json option \<Rightarrow> string" where
  "args_detail ser input =
     (case format_tool_args ser input of
        Args_None \<Rightarrow> ''''
      | Args_Collapsed s \<Rightarrow> [CHR 0x0A] @ ''   '' @ escape_html s
      | Args_Expanded s \<Rightarrow> [CHR 0x0A] @ ''   '' @ escape_html s)"

definition dots :: "u32 \<Rightarrow> string" where
  "dots tick = (if tick mod 3 = 0 then ''.'' else if tick mod 3 = 1 then ''..'' else ''...'')"

definition render_tool :: "(json \<Rightarrow> string) \<Rightarrow> u32 \<Rightarrow> tool_call_track \<Rightarrow> string" where
  "render_tool ser tick t =
     [CHR 0xF0, CHR 0x9F, CHR 0x94, CHR 0xA7] @ '' <code>'' @ escape_html (tct_name t) @ ''</code> '' @
     (case tct_status t of
        Started \<Rightarrow> dots tick @ args_detail ser (tct_input t)
      | InProgress \<Rightarrow> dots tick @ args_detail ser (tct_input t)
      | Completed \<Rightarrow> [CHR 0xE2, CHR 0x9C, CHR 0x85] @ args_detail ser (tct_input t)
      | Failed out \<Rightarrow> [CHR 0xE2, CHR 0x9D, CHR 0x8C] @
          (case out of
             Some err \<Rightarrow> [CHR 0x0A] @ ''   <pre>'' @ escape_html err @ ''</pre>''
           | None \<Rightarrow> ''''))"

definition render_tools_text :: "(json \<Rightarrow> string) \<Rightarrow> chat_turn \<Rightarrow> string \<times> chat_turn" where
  "render_tools_text ser tu =
     (let tick = tu_render_tick tu + 1
      in (str_join [CHR 0x0A]
            (map (render_tool ser tick) (List.map_filter (hm_get (tu_tool_calls tu)) (tu_tool_call_order tu))),
          tu\<lparr>tu_render_tick := tick\<rparr>))"

definition append_response :: "int \<Rightarrow> string \<Rightarrow> int \<Rightarrow> chat_turn \<Rightarrow> chat_turn" where
  "append_response now text msg_id tu =
     tu\<lparr>tu_response := Some
       (case tu_response tu of
          Some t \<Rightarrow> t\<lparr>rt_buffer := rt_buffer t @ text\<rparr>
        | None \<Rightarrow> \<lparr>rt_msg_id = msg_id, rt_buffer = text, rt_last_edit = now, rt_debounce_handle = None\<rparr>)\<rparr>"

text \<open>\<open>elapsed\<close> saturates at zero.\<close>

definition elapsed :: "int \<Rightarrow> int \<Rightarrow> duration" where
  "elapsed now since = nat (now - since)"

definition can_edit_response :: "int \<Rightarrow> duration \<Rightarrow> chat_turn \<Rightarrow> bool \<times> chat_turn" where
  "can_edit_response now cooldown tu =
     (case tu_response tu of
        Some t \<Rightarrow>
          if elapsed now (rt_last_edit t) < cooldown then (False, tu)
          else (True, tu\<lparr>tu_response := Some (t\<lparr>rt_last_edit := now\<rparr>)\<rparr>)
      | None \<Rightarrow> (False, tu))"

definition can_edit_tools :: "int \<Rightarrow> duration \<Rightarrow> chat_turn \<Rightarrow> bool \<times> chat_turn" where
  "can_edit_tools now cooldown tu =
     (if elapsed now (tu_last_tools_edit tu) < cooldown then (False, tu)
      else (True, tu\<lparr>tu_last_tools_edit := now\<rparr>))"

definition append_thought :: "int \<Rightarrow> string \<Rightarrow> int \<Rightarrow> int option \<Rightarrow> chat_turn \<Rightarrow> chat_turn" where
  "append_thought now text msg_id origin tu =
     tu\<lparr>tu_thought := Some
       (case tu_thought tu of
          Some t \<Rightarrow> t\<lparr>tt_buffer := tt_buffer t @ text\<rparr>
        | None \<Rightarrow> \<lparr>tt_msg_id = msg_id, tt_started_at = unwrap_or origin now, tt_buffer = text,
            tt_debounce_handle = None, tt_suppressed = False\<rparr>)\<rparr>"

definition begin_finalizing :: "nat \<Rightarrow> chat_turn \<Rightarrow> nat list \<times> chat_turn" where
  "begin_finalizing h tu =
     ((case tu_phase tu of Finalizing old \<Rightarrow> [old] | Active \<Rightarrow> []), tu\<lparr>tu_phase := Finalizing h\<rparr>)"

definition take_response_for_finalize :: "chat_turn \<Rightarrow> (string \<times> int) option" where
  "take_response_for_finalize tu = map_option (\<lambda>r. (rt_buffer r, rt_msg_id r)) (tu_response tu)"

definition try_finalize_response :: "chat_turn \<Rightarrow> bool \<times> chat_turn" where
  "try_finalize_response tu =
     (if tu_response_finalized tu then (False, tu) else (True, tu\<lparr>tu_response_finalized := True\<rparr>))"

definition is_finalizing :: "chat_turn \<Rightarrow> bool" where
  "is_finalizing tu \<longleftrightarrow> (case tu_phase tu of Finalizing _ \<Rightarrow> True | Active \<Rightarrow> False)"

definition is_different_turn :: "string \<Rightarrow> chat_turn \<Rightarrow> bool" where
  "is_different_turn message_id tu \<longleftrightarrow> tu_message_id tu \<noteq> message_id"

definition opt_list :: "'a option \<Rightarrow> 'a list" where
  "opt_list x = (case x of Some a \<Rightarrow> [a] | None \<Rightarrow> [])"

text \<open>The message, for how long it was thought, and the aborted task.\<close>

definition collapse_thought :: "int \<Rightarrow> chat_turn \<Rightarrow> (int \<times> duration) option \<times> nat list \<times> chat_turn" where
  "collapse_thought now tu =
     (case tu_thought tu of
        None \<Rightarrow> (None, [], tu)
      | Some t \<Rightarrow> (Some (tt_msg_id t, elapsed now (tt_started_at t)), opt_list (tt_debounce_handle t),
          tu\<lparr>tu_thought := None\<rparr>))"

definition turn_handles :: "chat_turn \<Rightarrow> nat list" where
  "turn_handles tu =
     (case tu_phase tu of Finalizing h \<Rightarrow> [h] | Active \<Rightarrow> [])
       @ opt_list (Option.bind (tu_thought tu) tt_debounce_handle)
       @ opt_list (Option.bind (tu_response tu) rt_debounce_handle)"

definition turn_cleanup :: "chat_turn \<Rightarrow> nat list \<times> chat_turn" where
  "turn_cleanup tu =
     (turn_handles tu,
      tu\<lparr>tu_thought := None, tu_response := None, tu_tool_calls := [], tu_tools_msg_id := 0,
         tu_tool_call_order := [], tu_render_tick := 0, tu_last_result_was_error := False,
         tu_response_finalized := False, tu_phase := Active\<rparr>)"


section \<open>Properties of turns\<close>

text \<open>Every tool call that is listed is tracked, so rendering skips none.\<close>

definition turn_ok :: "chat_turn \<Rightarrow> bool" where
  "turn_ok tu \<longleftrightarrow> hm_ok (tu_tool_calls tu) \<and> set (tu_tool_call_order tu) = fst ` set (tu_tool_calls tu)"

lemma try_finalize_once:
  "fst (try_finalize_response (snd (try_finalize_response tu))) = False"
  by (simp add: try_finalize_response_def)

lemma turn_ok_ops [simp]:
  "turn_ok (append_response now text m tu) = turn_ok tu"
  "turn_ok (append_thought now text m o' tu) = turn_ok tu"
  "turn_ok (snd (can_edit_response now d tu)) = turn_ok tu"
  "turn_ok (snd (can_edit_tools now d tu)) = turn_ok tu"
  "turn_ok (snd (begin_finalizing h tu)) = turn_ok tu"
  "turn_ok (snd (try_finalize_response tu)) = turn_ok tu"
  "turn_ok (snd (snd (collapse_thought now tu))) = turn_ok tu"
  "turn_ok (snd (render_tools_text ser tu)) = turn_ok tu"
  "turn_ok (snd (turn_cleanup tu))"
  "turn_ok (chat_turn_new now mid)"
  by (auto simp: turn_ok_def append_response_def append_thought_def can_edit_response_def can_edit_tools_def
    begin_finalizing_def try_finalize_response_def collapse_thought_def render_tools_text_def Let_def
    turn_cleanup_def chat_turn_new_def split: option.splits)

lemma render_all_tools:
  assumes "turn_ok tu"
  shows "length (List.map_filter (hm_get (tu_tool_calls tu)) (tu_tool_call_order tu)) = length (tu_tool_call_order tu)"
proof -
  have "\<forall>x\<in>set (tu_tool_call_order tu). hm_has (tu_tool_calls tu) x"
    using assms by (auto simp: turn_ok_def hm_has_keys)
  then have "\<forall>x\<in>set (tu_tool_call_order tu). hm_get (tu_tool_calls tu) x \<noteq> None"
    by (auto simp: hm_has_iff)
  then show ?thesis by (simp add: map_filter_def filter_True)
qed

end
