(* ===== verification/Channel_Sdk.thy ===== *)
theory Channel_Sdk
  imports Channels_State
begin

text \<open>
  The channel SDK, \<open>crates/anyclaw-sdk-channel/src\<close>: the \<open>Channel\<close> trait, the permission broker and
  the harness that drives a channel over standard input and output.

  A channel is a record of functions on its own state, one per method of the trait.  The harness
  is a machine that takes one input at a time, in the order in which \<open>select!\<close> picks them: a line,
  the end of the input, a message the channel wants to send, a permission response.  Its trace keeps
  what it writes and, between the writes, the permission requests it registers.  Decoding is a
  parameter, as is whether a write succeeds.
\<close>

section \<open>Messages and errors\<close>

record channel_initialize_params =
  cip_protocol_version :: u32
  cip_channel_id :: string
  cip_ack :: "channel_ack_config option"
  cip_options :: "(string, json) hmap"

record deliver_msg =
  dm_session_id :: string
  dm_content :: json
  dm_meta :: "json option"

record session_created =
  sc_session_id :: string
  sc_peer_info :: peer_info

record channel_request_permission =
  crp_request_id :: string
  crp_session_id :: string
  crp_description :: string
  crp_options :: "permission_option list"

record permission_response =
  pr_request_id :: string
  pr_option_id :: string

definition permission_response_json :: "permission_response \<Rightarrow> json" where
  "permission_response_json r =
     JObj [(''requestId'', JStr (pr_request_id r)), (''optionId'', JStr (pr_option_id r))]"

datatype channel_sdk_error =
    Sdk_Io string
  | Sdk_Protocol string
  | Sdk_Serde string

fun channel_sdk_error_str :: "channel_sdk_error \<Rightarrow> string" where
  "channel_sdk_error_str (Sdk_Io e) = ''IO error: '' @ e"
| "channel_sdk_error_str (Sdk_Protocol e) = ''Protocol error: '' @ e"
| "channel_sdk_error_str (Sdk_Serde e) = ''Serialization error: '' @ e"


section \<open>The trait\<close>

record 's channel_impl =
  ci_capabilities :: "'s \<Rightarrow> channel_capabilities"
  ci_defaults :: "'s \<Rightarrow> (string, json) hmap option"
  ci_on_initialize :: "channel_initialize_params \<Rightarrow> 's \<Rightarrow> (channel_sdk_error + unit) \<times> 's"
  ci_on_ready :: "'s \<Rightarrow> (channel_sdk_error + unit) \<times> 's"
  ci_deliver_message :: "deliver_msg \<Rightarrow> 's \<Rightarrow> (channel_sdk_error + unit) \<times> 's"
  ci_on_session_created :: "session_created \<Rightarrow> 's \<Rightarrow> (channel_sdk_error + unit) \<times> 's"
  ci_show_permission_prompt :: "channel_request_permission \<Rightarrow> 's \<Rightarrow> (channel_sdk_error + unit) \<times> 's"
  ci_handle_unknown :: "string \<Rightarrow> json \<Rightarrow> 's \<Rightarrow> (channel_sdk_error + json) \<times> 's"

text \<open>The default methods.\<close>

definition default_handle_unknown :: "string \<Rightarrow> json \<Rightarrow> 's \<Rightarrow> (channel_sdk_error + json) \<times> 's" where
  "default_handle_unknown meth params s = (Inl (Sdk_Protocol (''unknown method: '' @ meth)), s)"


section \<open>The permission broker\<close>

text \<open>
  A oneshot channel is known by a number; \<open>br_sent\<close> is what has been sent through each.  Registering
  a request again drops the sender of the earlier registration.
\<close>

record broker =
  br_resolvers :: "(string, nat) hmap"
  br_next :: nat
  br_sent :: "(nat \<times> permission_response) list"

definition broker_new :: broker where
  "broker_new = \<lparr>br_resolvers = [], br_next = 0, br_sent = []\<rparr>"

definition broker_register :: "string \<Rightarrow> broker \<Rightarrow> nat \<times> broker" where
  "broker_register r b =
     (br_next b, b\<lparr>br_resolvers := hm_insert r (br_next b) (br_resolvers b), br_next := Suc (br_next b)\<rparr>)"

definition broker_resolve :: "string \<Rightarrow> string \<Rightarrow> broker \<Rightarrow> bool \<times> broker" where
  "broker_resolve r opt b =
     (case hm_get (br_resolvers b) r of
        Some tx \<Rightarrow>
          (True, b\<lparr>br_resolvers := hm_remove r (br_resolvers b),
                   br_sent := br_sent b @ [(tx, \<lparr>pr_request_id = r, pr_option_id = opt\<rparr>)]\<rparr>)
      | None \<Rightarrow> (False, b))"


section \<open>The harness\<close>

datatype harness_event =
    Ev_Registered string request_id
  | Ev_Response json_rpc_response
  | Ev_Answer string json_rpc_response
  | Ev_Request json_rpc_request

datatype harness_phase = Main_Loop | Drain | Returned "channel_sdk_error + unit"

record 's harness =
  hs_channel :: 's
  hs_pending :: "(string, request_id) hmap"
  hs_phase :: harness_phase
  hs_trace :: "harness_event list"

record harness_env =
  he_parse :: "string \<Rightarrow> json_rpc_request option"
  he_init_params :: "json \<Rightarrow> channel_initialize_params option"
  he_deliver :: "json \<Rightarrow> deliver_msg option"
  he_session_created :: "json \<Rightarrow> session_created option"
  he_request_permission :: "json \<Rightarrow> channel_request_permission option"
  he_init_result_json :: "channel_init_result \<Rightarrow> json"
  he_send_message_json :: "channel_send_message \<Rightarrow> json"
  he_write :: "nat \<Rightarrow> string option"

datatype harness_input =
    In_Line string
  | In_Closed
  | In_Outbound channel_send_message
  | In_Permission permission_response

definition harness_new :: "'s \<Rightarrow> 's harness" where
  "harness_new c = \<lparr>hs_channel = c, hs_pending = [], hs_phase = Main_Loop, hs_trace = []\<rparr>"

text \<open>A write; a failing one ends \<open>run\<close> with its error.\<close>

definition harness_write :: "harness_env \<Rightarrow> harness_event \<Rightarrow> 's harness \<Rightarrow> 's harness" where
  "harness_write E ev h =
     (case he_write E (length (hs_trace h)) of
        Some e \<Rightarrow> h\<lparr>hs_phase := Returned (Inl (Sdk_Io e))\<rparr>
      | None \<Rightarrow> h\<lparr>hs_trace := hs_trace h @ [ev]\<rparr>)"

definition write_outbound :: "harness_env \<Rightarrow> channel_send_message \<Rightarrow> 's harness \<Rightarrow> 's harness" where
  "write_outbound E m =
     harness_write E (Ev_Request (request_new ''channel/sendMessage'' None (Some (he_send_message_json E m))))"

definition flush_permission :: "harness_env \<Rightarrow> permission_response \<Rightarrow> 's harness \<Rightarrow> 's harness" where
  "flush_permission E r h =
     (case hm_get (hs_pending h) (pr_request_id r) of
        Some i \<Rightarrow>
          harness_write E (Ev_Answer (pr_request_id r) (response_success (Some i) (permission_response_json r)))
            (h\<lparr>hs_pending := hm_remove (pr_request_id r) (hs_pending h)\<rparr>)
      | None \<Rightarrow> h)"

text \<open>
  A call of a method of the channel: its state is updated, an error goes up with \<open>?\<close> and ends \<open>run\<close>.
\<close>

definition call_channel ::
  "('s \<Rightarrow> (channel_sdk_error + 'a) \<times> 's) \<Rightarrow> ('s harness \<Rightarrow> 's harness) \<Rightarrow> 's harness \<Rightarrow> 's harness" where
  "call_channel f k h =
     (case f (hs_channel h) of
        (Inl e, c) \<Rightarrow> h\<lparr>hs_channel := c, hs_phase := Returned (Inl e)\<rparr>
      | (Inr _, c) \<Rightarrow> k (h\<lparr>hs_channel := c\<rparr>))"

definition respond ::
  "harness_env \<Rightarrow> request_id option \<Rightarrow> (request_id \<Rightarrow> json_rpc_response) \<Rightarrow> 's harness \<Rightarrow> 's harness" where
  "respond E i resp h = (case i of Some i \<Rightarrow> harness_write E (Ev_Response (resp i)) h | None \<Rightarrow> h)"

definition dispatch_initialize ::
  "harness_env \<Rightarrow> 's channel_impl \<Rightarrow> request_id option \<Rightarrow> json \<Rightarrow> 's harness \<Rightarrow> 's harness" where
  "dispatch_initialize E C i params h =
     (let result = \<lparr>cir_protocol_version = 1, cir_capabilities = ci_capabilities C (hs_channel h),
                    cir_defaults = ci_defaults C (hs_channel h)\<rparr>;
          ready = call_channel (ci_on_ready C)
            (respond E i (\<lambda>i. response_success (Some i) (he_init_result_json E result)))
      in case he_init_params E params of
           Some p \<Rightarrow> call_channel (ci_on_initialize C p) ready h
         | None \<Rightarrow> ready h)"

definition dispatch_permission ::
  "harness_env \<Rightarrow> 's channel_impl \<Rightarrow> request_id option \<Rightarrow> json \<Rightarrow> 's harness \<Rightarrow> 's harness" where
  "dispatch_permission E C i params h =
     (case he_request_permission E params of
        None \<Rightarrow> h
      | Some req \<Rightarrow>
          call_channel (ci_show_permission_prompt C req) id
            (case i of
               Some i \<Rightarrow> h\<lparr>hs_pending := hm_insert (crp_request_id req) i (hs_pending h),
                          hs_trace := hs_trace h @ [Ev_Registered (crp_request_id req) i]\<rparr>
             | None \<Rightarrow> h))"

definition dispatch_other ::
  "harness_env \<Rightarrow> 's channel_impl \<Rightarrow> string \<Rightarrow> request_id option \<Rightarrow> json \<Rightarrow> 's harness \<Rightarrow> 's harness" where
  "dispatch_other E C meth i params h =
     (case ci_handle_unknown C meth params (hs_channel h) of
        (r, c) \<Rightarrow>
          respond E i (\<lambda>i. case r of
              Inr v \<Rightarrow> response_success (Some i) v
            | Inl e \<Rightarrow> response_error (Some i)
                \<lparr>err_code = -32601, err_message = channel_sdk_error_str e, err_data = None\<rparr>)
            (h\<lparr>hs_channel := c\<rparr>))"

definition dispatch :: "harness_env \<Rightarrow> 's channel_impl \<Rightarrow> json_rpc_request \<Rightarrow> 's harness \<Rightarrow> 's harness" where
  "dispatch E C req h =
     (let i = req_id req; params = unwrap_or (req_params req) JNull
      in if req_method req = ''initialize'' then dispatch_initialize E C i params h
         else if req_method req = ''channel/deliverMessage''
         then (case he_deliver E params of
                 Some d \<Rightarrow> call_channel (ci_deliver_message C d) id h
               | None \<Rightarrow> h)
         else if req_method req = ''channel/sessionCreated''
         then (case he_session_created E params of
                 Some m \<Rightarrow> call_channel (ci_on_session_created C m) id h
               | None \<Rightarrow> h)
         else if req_method req = ''channel/requestPermission'' then dispatch_permission E C i params h
         else dispatch_other E C (req_method req) i params h)"

text \<open>Phase 2 ends as soon as no permission is pending.\<close>

definition drained :: "'s harness \<Rightarrow> 's harness" where
  "drained h = (if hs_phase h = Drain \<and> hs_pending h = [] then h\<lparr>hs_phase := Returned (Inr ())\<rparr> else h)"

text \<open>
  One iteration of a loop of \<open>run\<close>.  The harness keeps senders of both queues itself, so in the drain
  phase the \<open>else\<close> branch, for queues that are closed, is never taken.
\<close>

definition harness_step :: "harness_env \<Rightarrow> 's channel_impl \<Rightarrow> harness_input \<Rightarrow> 's harness \<Rightarrow> 's harness" where
  "harness_step E C x h =
     (case hs_phase h of
        Returned r \<Rightarrow> h
      | Main_Loop \<Rightarrow>
          (case x of
             In_Line line \<Rightarrow>
               if str_trim line = [] then h
               else (case he_parse E line of None \<Rightarrow> h | Some req \<Rightarrow> dispatch E C req h)
           | In_Closed \<Rightarrow> drained (h\<lparr>hs_phase := Drain\<rparr>)
           | In_Outbound m \<Rightarrow> write_outbound E m h
           | In_Permission r \<Rightarrow> flush_permission E r h)
      | Drain \<Rightarrow>
          (case x of
             In_Outbound m \<Rightarrow> write_outbound E m h
           | In_Permission r \<Rightarrow> drained (flush_permission E r h)
           | _ \<Rightarrow> h))"

definition harness_run :: "harness_env \<Rightarrow> 's channel_impl \<Rightarrow> harness_input list \<Rightarrow> 's \<Rightarrow> 's harness" where
  "harness_run E C xs c = fold (harness_step E C) xs (harness_new c)"


section \<open>Specifications\<close>

text \<open>The JSON-RPC request to which each permission request owes an answer, after a trace.\<close>

definition owe :: "harness_event \<Rightarrow> (string \<Rightarrow> request_id option) \<Rightarrow> string \<Rightarrow> request_id option" where
  "owe ev m = (case ev of Ev_Registered r i \<Rightarrow> m(r \<mapsto> i) | Ev_Answer r _ \<Rightarrow> m(r := None) | _ \<Rightarrow> m)"

definition owed :: "harness_event list \<Rightarrow> string \<Rightarrow> request_id option" where
  "owed tr = fold owe tr Map.empty"

text \<open>Every answer is for a request that is owed one, under its JSON-RPC identifier.\<close>

definition answer_ok :: "(string \<Rightarrow> request_id option) \<Rightarrow> harness_event \<Rightarrow> bool" where
  "answer_ok m ev \<longleftrightarrow>
     (case ev of
        Ev_Answer r resp \<Rightarrow>
          (\<exists>i opt. m r = Some i \<and>
             resp = response_success (Some i) (permission_response_json \<lparr>pr_request_id = r, pr_option_id = opt\<rparr>))
      | _ \<Rightarrow> True)"

definition answers_ok :: "harness_event list \<Rightarrow> bool" where
  "answers_ok tr \<longleftrightarrow> (\<forall>n < length tr. answer_ok (owed (take n tr)) (tr ! n))"


section \<open>An example\<close>

text \<open>A channel that accepts everything, and one permission request per line.\<close>

definition quiet_channel :: "unit channel_impl" where
  "quiet_channel =
     \<lparr>ci_capabilities = (\<lambda>_. \<lparr>ccap_streaming = True, ccap_rich_text = True, ccap_media = True\<rparr>),
      ci_defaults = (\<lambda>_. None), ci_on_initialize = (\<lambda>_ s. (Inr (), s)), ci_on_ready = (\<lambda>s. (Inr (), s)),
      ci_deliver_message = (\<lambda>_ s. (Inr (), s)), ci_on_session_created = (\<lambda>_ s. (Inr (), s)),
      ci_show_permission_prompt = (\<lambda>_ s. (Inr (), s)), ci_handle_unknown = default_handle_unknown\<rparr>"

definition permission_env :: harness_env where
  "permission_env =
     \<lparr>he_parse = (\<lambda>l. Some (request_new ''channel/requestPermission'' (Some (Id_String l)) None)),
      he_init_params = (\<lambda>_. None), he_deliver = (\<lambda>_. None), he_session_created = (\<lambda>_. None),
      he_request_permission = (\<lambda>_. Some \<lparr>crp_request_id = ''r1'', crp_session_id = ''s'',
        crp_description = ''write'', crp_options = []\<rparr>),
      he_init_result_json = (\<lambda>_. JNull), he_send_message_json = (\<lambda>_. JNull), he_write = (\<lambda>_. None)\<rparr>"

definition answered_run :: "unit harness" where
  "answered_run = harness_run permission_env quiet_channel
     [In_Line ''q'', In_Closed, In_Permission \<lparr>pr_request_id = ''r1'', pr_option_id = ''once''\<rparr>] ()"


section \<open>The invariant of the harness\<close>

definition harness_inv :: "'s harness \<Rightarrow> bool" where
  "harness_inv h \<longleftrightarrow>
     answers_ok (hs_trace h) \<and> hm_ok (hs_pending h)
     \<and> ((\<forall>e. hs_phase h \<noteq> Returned (Inl e)) \<longrightarrow> hm_get (hs_pending h) = owed (hs_trace h))
     \<and> (hs_phase h = Returned (Inr ()) \<longrightarrow> hs_pending h = [])"

lemma owed_snoc: "owed (tr @ [ev]) = owe ev (owed tr)"
  by (simp add: owed_def)

lemma answers_ok_snoc: "answers_ok (tr @ [ev]) \<longleftrightarrow> answers_ok tr \<and> answer_ok (owed tr) ev"
  by (auto simp: answers_ok_def less_Suc_eq nth_append)

lemma hm_get_remove_fun: "hm_get (hm_remove k m) = (hm_get m)(k := None)"
  by auto

lemma hm_get_insert_fun: "hm_get (hm_insert k v m) = (hm_get m)(k \<mapsto> v)"
  by auto

lemma inv_write:
  assumes "harness_inv h" "hs_phase h = Main_Loop \<or> hs_phase h = Drain" "\<And>r resp. ev \<noteq> Ev_Answer r resp" "\<And>r i. ev \<noteq> Ev_Registered r i"
  shows "harness_inv (harness_write E ev h)"
  using assms by (cases ev)
    (auto simp: harness_inv_def harness_write_def owed_snoc answers_ok_snoc owe_def answer_ok_def split: option.splits)

lemma inv_flush:
  assumes "harness_inv h" "hs_phase h = Main_Loop \<or> hs_phase h = Drain"
  shows "harness_inv (flush_permission E r h)"
proof (cases "hm_get (hs_pending h) (pr_request_id r)")
  case (Some i)
  obtain q opt where "r = \<lparr>pr_request_id = q, pr_option_id = opt\<rparr>" by (cases r) simp
  then show ?thesis
    using assms Some by (auto simp: flush_permission_def harness_write_def harness_inv_def owed_snoc
      answers_ok_snoc owe_def answer_ok_def hm_get_remove_fun split: option.splits)
qed (use assms in \<open>simp add: flush_permission_def\<close>)

lemma inv_call:
  assumes "harness_inv h" "hs_phase h = Main_Loop"
    and k: "\<And>h'. harness_inv h' \<Longrightarrow> hs_phase h' = Main_Loop \<Longrightarrow> harness_inv (k h')"
  shows "harness_inv (call_channel f k h)"
proof -
  have "harness_inv (h\<lparr>hs_channel := c\<rparr>)" "harness_inv (h\<lparr>hs_channel := c, hs_phase := Returned (Inl e)\<rparr>)"
    for c e using assms(1) by (auto simp: harness_inv_def)
  then show ?thesis using assms(2) k by (auto simp: call_channel_def split: prod.splits sum.splits)
qed

lemma inv_respond:
  "harness_inv h \<Longrightarrow> hs_phase h = Main_Loop \<Longrightarrow> harness_inv (respond E i resp h)"
  by (auto simp: respond_def intro: inv_write split: option.splits)

lemma inv_dispatch:
  assumes "harness_inv h" "hs_phase h = Main_Loop"
  shows "harness_inv (dispatch E C req h)"
proof -
  have channel: "harness_inv (h\<lparr>hs_channel := c\<rparr>)" for c using assms(1) by (auto simp: harness_inv_def)
  have registered: "harness_inv (h\<lparr>hs_pending := hm_insert r i (hs_pending h),
      hs_trace := hs_trace h @ [Ev_Registered r i]\<rparr>)" for r i
    using assms by (auto simp: harness_inv_def owed_snoc answers_ok_snoc owe_def answer_ok_def hm_get_insert_fun)
  show ?thesis
    using assms channel registered
    by (auto simp: dispatch_def dispatch_initialize_def dispatch_permission_def dispatch_other_def Let_def
      intro!: inv_call inv_respond split: option.splits prod.splits)
qed

lemma harness_inv_step: "harness_inv h \<Longrightarrow> harness_inv (harness_step E C x h)"
proof -
  have drained: "harness_inv h' \<Longrightarrow> harness_inv (drained h')" for h' :: "'a harness"
    by (auto simp: drained_def harness_inv_def)
  have drain: "harness_inv h' \<Longrightarrow> hs_phase h' = Main_Loop \<Longrightarrow> harness_inv (h'\<lparr>hs_phase := Drain\<rparr>)" for h' :: "'a harness"
    by (auto simp: harness_inv_def)
  assume "harness_inv h"
  then show ?thesis
    by (auto simp: harness_step_def write_outbound_def drained drain inv_flush
      intro: inv_dispatch intro!: inv_write split: harness_phase.splits harness_input.splits option.splits)
qed

lemma harness_inv_run: "harness_inv (harness_run E C xs c)"
proof -
  have "harness_inv h \<Longrightarrow> harness_inv (fold (harness_step E C) xs h)" for h
    by (induction xs arbitrary: h) (auto simp: harness_inv_step)
  moreover have "harness_inv (harness_new c)"
    by (simp add: harness_inv_def harness_new_def answers_ok_def owed_def fun_eq_iff)
  ultimately show ?thesis by (simp add: harness_run_def)
qed

text \<open>
  Over every run of the harness, with any channel and any input, a permission response is
  written only for a request that was registered and not answered since, under its JSON-RPC identifier;
  what is pending is what the trace still owes; and \<open>run\<close> returns without an error only when every
  permission request has been answered.
\<close>

lemma harness_answers_permissions:
  "answers_ok (hs_trace (harness_run E C xs c))
    \<and> ((\<forall>e. hs_phase (harness_run E C xs c) \<noteq> Returned (Inl e)) \<longrightarrow>
         hm_get (hs_pending (harness_run E C xs c)) = owed (hs_trace (harness_run E C xs c)))
    \<and> (hs_phase (harness_run E C xs c) = Returned (Inr ()) \<longrightarrow>
         owed (hs_trace (harness_run E C xs c)) = Map.empty)"
  using harness_inv_run [of E C xs c] by (auto simp: harness_inv_def fun_eq_iff)

lemma example_runs:
  "hs_phase answered_run = Returned (Inr ())"
  "hs_trace answered_run = [Ev_Registered ''r1'' (Id_String ''q''),
     Ev_Answer ''r1'' (response_success (Some (Id_String ''q''))
       (permission_response_json \<lparr>pr_request_id = ''r1'', pr_option_id = ''once''\<rparr>))]"
proof -
  have "str_trim ''q'' \<noteq> []"
    by (simp add: trim_graphic graphic_def)
  note defs = this answered_run_def harness_run_def harness_new_def harness_step_def dispatch_def
    dispatch_permission_def call_channel_def permission_env_def quiet_channel_def request_new_def
    drained_def flush_permission_def harness_write_def hm_remove_def hm_get_def
  show "hs_phase answered_run = Returned (Inr ())" by (simp add: defs)
  show "hs_trace answered_run = [Ev_Registered ''r1'' (Id_String ''q''),
     Ev_Answer ''r1'' (response_success (Some (Id_String ''q''))
       (permission_response_json \<lparr>pr_request_id = ''r1'', pr_option_id = ''once''\<rparr>))]" by (simp add: defs)
qed

lemma drain_step_keys:
  assumes "hs_phase h = Drain" "hs_pending h \<noteq> []" "\<And>n. he_write E n = None"
  shows "hs_pending (harness_step E C x h) =
      (case x of In_Permission r \<Rightarrow> hm_remove (pr_request_id r) (hs_pending h) | _ \<Rightarrow> hs_pending h)
    \<and> hs_phase (harness_step E C x h) = (if hs_pending (harness_step E C x h) = [] then Returned (Inr ()) else Drain)"
proof -
  have "hm_remove k m = m" if "hm_get m k = None" for k and m :: "(string, request_id) hmap"
    using that by (auto simp: hm_remove_def hm_get_def map_of_eq_None_iff filter_id_conv image_iff)
  then show ?thesis using assms
    by (auto simp: harness_step_def write_outbound_def harness_write_def flush_permission_def drained_def
      split: harness_input.splits option.splits)
qed

lemma drain_run:
  assumes "hs_phase h = Drain" "hs_pending h \<noteq> []" "\<And>n. he_write E n = None"
  shows "hs_phase (fold (harness_step E C) xs h) =
    (if fst ` set (hs_pending h) \<subseteq> {pr_request_id r |r. In_Permission r \<in> set xs} then Returned (Inr ()) else Drain)"
  using assms
proof (induction xs arbitrary: h)
  case Nil
  then show ?case by auto
next
  case (Cons x xs)
  let ?h = "harness_step E C x h"
  note s = drain_step_keys [OF Cons.prems(1,2) Cons.prems(3), of C x]
  have keys: "fst ` set (hm_remove k m) = fst ` set m - {k}" for k and m :: "(string, request_id) hmap"
    by (auto simp: hm_remove_def)
  have sub: "fst ` set (hs_pending h) \<subseteq> {pr_request_id r |r. In_Permission r \<in> set (x # xs)}
      \<longleftrightarrow> fst ` set (hs_pending ?h) \<subseteq> {pr_request_id r |r. In_Permission r \<in> set xs}"
    using s by (cases x) (auto simp: keys)
  show ?case
  proof (cases "hs_pending ?h = []")
    case True
    then have "hs_phase ?h = Returned (Inr ())" using s by simp
    moreover have "fold (harness_step E C) ys h' = h'" if "hs_phase h' = Returned (Inr ())" for ys h'
      using that by (induction ys) (auto simp: harness_step_def)
    ultimately show ?thesis using sub True by simp
  next
    case False
    then show ?thesis using Cons.IH [of ?h] s sub Cons.prems(3) by simp
  qed
qed

text \<open>
  Once the input is closed, and while writing works, the harness returns exactly when
  every permission request that was pending has been answered; until then it waits, whatever
  else arrives.
\<close>

lemma drain_returns_iff:
  assumes "hs_phase h = Drain" "hs_pending h \<noteq> []" "\<And>n. he_write E n = None"
  shows "(hs_phase (fold (harness_step E C) xs h) = Returned (Inr ()) \<longleftrightarrow>
      (\<forall>r i. (r, i) \<in> set (hs_pending h) \<longrightarrow> (\<exists>opt. In_Permission \<lparr>pr_request_id = r, pr_option_id = opt\<rparr> \<in> set xs)))
    \<and> hs_phase (fold (harness_step E C) xs h) \<in> {Drain, Returned (Inr ())}"
proof -
  have "fst ` set (hs_pending h) \<subseteq> {pr_request_id r |r. In_Permission r \<in> set xs} \<longleftrightarrow>
      (\<forall>r i. (r, i) \<in> set (hs_pending h) \<longrightarrow> (\<exists>opt. In_Permission \<lparr>pr_request_id = r, pr_option_id = opt\<rparr> \<in> set xs))"
    (is "?l = ?r")
  proof
    assume ?l
    show ?r
    proof (intro allI impI)
      fix r i assume "(r, i) \<in> set (hs_pending h)"
      then have "r \<in> {pr_request_id r |r. In_Permission r \<in> set xs}" using \<open>?l\<close> by (force simp only: image_iff fst_conv)
      then obtain q where q: "In_Permission q \<in> set xs" "r = pr_request_id q" by blast
      then have "q = \<lparr>pr_request_id = r, pr_option_id = pr_option_id q\<rparr>" by simp
      then show "\<exists>opt. In_Permission \<lparr>pr_request_id = r, pr_option_id = opt\<rparr> \<in> set xs"
        using q(1) by metis
    qed
  next
    assume ?r
    show ?l
    proof
      fix k assume "k \<in> fst ` set (hs_pending h)"
      then obtain i where "(k, i) \<in> set (hs_pending h)" by auto
      with \<open>?r\<close> obtain opt where "In_Permission \<lparr>pr_request_id = k, pr_option_id = opt\<rparr> \<in> set xs" by blast
      then show "k \<in> {pr_request_id r |r. In_Permission r \<in> set xs}"
        by (intro CollectI exI conjI) (rule permission_response.select_convs(1) [symmetric])
    qed
  qed
  then show ?thesis unfolding drain_run [OF assms, of C xs] by simp
qed

end
