(* ===== verification/Telegram_Deliver.thy ===== *)
theory Telegram_Deliver
  imports Telegram_Turn Channel_Sdk
begin

text \<open>
  Delivery to Telegram, \<open>src/ext/channels/telegram/src/deliver.rs\<close> with the shared state of
  \<open>state.rs\<close>.

  \<open>deliver_to_chat\<close> and the tasks it spawns (the two debounce timers and the finalization timers)
  run concurrently; each takes the lock of the turns for a short section, and other tasks may run
  between two sections and while a request to Telegram is under way.  A program is therefore a list
  of instructions: a section (\<open>Act\<close>), executed at once, which may put instructions in front of the
  rest or return; a request (\<open>Call\<close>) with the retries of \<open>retry_telegram_op\<close>; a sleep; a spawn.  One
  step of the machine runs one instruction of one program, whichever the schedule names.

  \<open>abort\<close> only marks a task.  A marked task may be dropped at any time; until then it can run on, but
  not past a sleep or a request it waits for.  Timers fire whenever the schedule says so: nothing
  depends on the lengths of the delays.  Regular expressions, the number format of seconds, the
  clocks, Telegram's answers and the URL parser are parameters.
\<close>

section \<open>The state\<close>

datatype api_call =
    Send_Message int string
  | Edit_Message int int string
  | Send_Photo int string
  | Send_Document int string "string option"
  | Send_Voice int string
  | Send_Audio int string
  | Set_My_Commands "(string \<times> string) list"

datatype api_outcome = Api_Ok int | Api_Retry_After duration | Api_Network | Api_Error

datatype store = Ignore | Store_Thought | Store_Response | Store_Tools

datatype spawn_kind = Thought_Debounce | Response_Debounce | Finalize

datatype act =
    Flush_If_Different "string option"
  | Return_If_Suppressed
  | Flush_If_Finalizing
  | Thought_Append "string option" string "int option"
  | Chunk_Append "string option" string
  | Edit_If_Cooled string int
  | Debounce_First
  | Discard_Stale_Result "string option"
  | Collapse_For_Result
  | Record_Result "string option" bool string
  | Tool_Call "string option" string string "json option"
  | Tool_Call_Update string string "string option" "json option" "int option"
  | Set_Handle spawn_kind nat
  | Store_Id store int
  | Thought_Debounce_Edit
  | Thought_Debounce_Clear
  | Response_Debounce_Read
  | Response_Debounce_Claim string
  | Finalize_Take
  | Remove_Turn

datatype instr =
    Sleep
  | Act act
  | Spawn spawn_kind
  | Call bool nat api_call "instr list" store
  | Panic

datatype flow = Go "instr list" | Return

record tg_task =
  tk_chat :: int
  tk_prog :: "instr list"
  tk_aborted :: bool

datatype tg_event =
    Ev_Call api_call api_outcome
  | Ev_Turn_New int
  | Ev_Turn_End int
  | Ev_Claim int
  | Ev_Panic

record tg =
  tg_turns :: "(int, chat_turn) hmap"
  tg_session_chat_map :: "(string, int) hmap"
  tg_thought_emoji :: string
  tg_response_edit_cooldown_ms :: u64
  tg_main :: "(int \<times> instr list) option"
  tg_tasks :: "(nat, tg_task) hmap"
  tg_next :: nat
  tg_tick :: nat
  tg_trace :: "tg_event list"

record tg_env =
  tv_rx :: re_find
  tv_ser :: "json \<Rightarrow> string"
  tv_secs :: "duration \<Rightarrow> string"
  tv_now :: "nat \<Rightarrow> int"
  tv_now_ms :: "nat \<Rightarrow> nat"
  tv_api :: "nat \<Rightarrow> api_call \<Rightarrow> api_outcome"
  tv_url :: "string \<Rightarrow> bool"

definition tg_new :: tg where
  "tg_new =
     \<lparr>tg_turns = [], tg_session_chat_map = [], tg_thought_emoji = [CHR 0xF0, CHR 0x9F, CHR 0xA7, CHR 0xA0],
      tg_response_edit_cooldown_ms = 500, tg_main = None, tg_tasks = [], tg_next = 0, tg_tick = 0,
      tg_trace = []\<rparr>"

section \<open>Requests\<close>

definition MAX_RETRY_ATTEMPTS :: nat where
  "MAX_RETRY_ATTEMPTS = 3"

fun is_retryable :: "api_outcome \<Rightarrow> bool" where
  "is_retryable (Api_Retry_After _) = True"
| "is_retryable Api_Network = True"
| "is_retryable _ = False"

text \<open>A request whose result is dropped; one that is sent a single time.\<close>

definition retry_op :: "api_call \<Rightarrow> instr" where
  "retry_op c = Call True 0 c [] Ignore"

definition plain_op :: "api_call \<Rightarrow> instr" where
  "plain_op c = Call False 0 c [] Ignore"

text \<open>\<open>split_message(..)\<close>, then \<open>k\<close> on the chunks; slicing may panic.\<close>

definition with_chunks :: "string \<Rightarrow> (string list \<Rightarrow> instr list) \<Rightarrow> instr list" where
  "with_chunks text k =
     (case split_message text TELEGRAM_MAX_MESSAGE_LEN of Some cs \<Rightarrow> k cs | None \<Rightarrow> [Panic])"

definition send_or_edit_final :: "tg_env \<Rightarrow> int \<Rightarrow> string \<Rightarrow> int \<Rightarrow> instr list" where
  "send_or_edit_final E chat text msg_id =
     with_chunks (format_telegram_html (tv_rx E) text) (\<lambda>cs.
       (if msg_id \<noteq> 0 then Call True 0 (Edit_Message chat msg_id (hd cs)) [retry_op (Send_Message chat (hd cs))] Ignore
        else retry_op (Send_Message chat (hd cs)))
       # map (\<lambda>c. retry_op (Send_Message chat c)) (tl cs))"

record pending_flush =
  pf_response :: "(string \<times> int) option"
  pf_thought_collapse :: "(int \<times> duration) option"

definition flush_turn_data :: "int \<Rightarrow> chat_turn \<Rightarrow> pending_flush \<times> nat list" where
  "flush_turn_data now tu =
     (let response = take_response_for_finalize tu; (collapse, ab, tu') = collapse_thought now tu
      in (\<lparr>pf_response = response, pf_thought_collapse = collapse\<rparr>, ab @ fst (turn_cleanup tu')))"

definition collapse_op :: "tg_env \<Rightarrow> string \<Rightarrow> int \<Rightarrow> (int \<times> duration) option \<Rightarrow> instr list" where
  "collapse_op E emoji chat collapse =
     (case collapse of
        Some (msg_id, secs) \<Rightarrow>
          if msg_id \<noteq> 0
          then [retry_op (Edit_Message chat msg_id (emoji @ '' Thought for '' @ tv_secs E secs @ ''s''))] else []
      | None \<Rightarrow> [])"

definition send_flush :: "tg_env \<Rightarrow> string \<Rightarrow> int \<Rightarrow> pending_flush \<Rightarrow> instr list" where
  "send_flush E emoji chat f =
     (case pf_response f of
        Some (text, msg_id) \<Rightarrow>
          if text \<noteq> [] \<and> msg_id \<noteq> 0
          then with_chunks (format_telegram_html (tv_rx E) text) (\<lambda>cs.
                 retry_op (Edit_Message chat msg_id (hd cs)) # map (\<lambda>c. retry_op (Send_Message chat c)) (tl cs))
          else if text \<noteq> []
          then with_chunks (format_telegram_html (tv_rx E) text) (map (\<lambda>c. retry_op (Send_Message chat c)))
          else []
      | None \<Rightarrow> [])
     @ collapse_op E emoji chat (pf_thought_collapse f)"


section \<open>Sections\<close>

definition now :: "tg_env \<Rightarrow> tg \<Rightarrow> int" where
  "now E s = tv_now E (tg_tick s)"

definition log_ev :: "tg_event \<Rightarrow> tg \<Rightarrow> tg" where
  "log_ev ev s = s\<lparr>tg_trace := tg_trace s @ [ev]\<rparr>"

definition abort_tasks :: "nat list \<Rightarrow> tg \<Rightarrow> tg" where
  "abort_tasks hs s =
     s\<lparr>tg_tasks := map (\<lambda>(n, t). (n, if n \<in> set hs then t\<lparr>tk_aborted := True\<rparr> else t)) (tg_tasks s)\<rparr>"

definition put_turn :: "int \<Rightarrow> chat_turn \<Rightarrow> tg \<Rightarrow> tg" where
  "put_turn chat tu s = s\<lparr>tg_turns := hm_insert chat tu (tg_turns s)\<rparr>"

definition remove_turn :: "int \<Rightarrow> tg \<Rightarrow> tg" where
  "remove_turn chat s =
     (if hm_has (tg_turns s) chat
      then log_ev (Ev_Turn_End chat) (s\<lparr>tg_turns := hm_remove chat (tg_turns s)\<rparr>) else s)"

text \<open>\<open>turns.entry(chat_id).or_insert_with(..)\<close>, and the message id when there is one.\<close>

definition enter_turn :: "tg_env \<Rightarrow> int \<Rightarrow> string option \<Rightarrow> tg \<Rightarrow> chat_turn \<times> tg" where
  "enter_turn E chat mid s =
     (let m = unwrap_or mid '''';
          (tu, s') = (case hm_get (tg_turns s) chat of
                        Some tu \<Rightarrow> (tu, s)
                      | None \<Rightarrow> (chat_turn_new (now E s) m, log_ev (Ev_Turn_New chat) s));
          tu' = (if m \<noteq> '''' then tu\<lparr>tu_message_id := m\<rparr> else tu)
      in (tu', put_turn chat tu' s'))"

text \<open>\<open>flush_turn_data\<close> of a turn, which is then removed.\<close>

definition flush_turn :: "tg_env \<Rightarrow> int \<Rightarrow> chat_turn \<Rightarrow> tg \<Rightarrow> tg \<times> flow" where
  "flush_turn E chat tu s =
     (let (f, hs) = flush_turn_data (now E s) tu
      in (remove_turn chat (abort_tasks hs s), Go (send_flush E (tg_thought_emoji s) chat f)))"

definition sec_flush_if_different :: "tg_env \<Rightarrow> int \<Rightarrow> string option \<Rightarrow> tg \<Rightarrow> tg \<times> flow" where
  "sec_flush_if_different E chat mid s =
     (case (mid, hm_get (tg_turns s) chat) of
        (Some m, Some tu) \<Rightarrow> if is_different_turn m tu then flush_turn E chat tu s else (s, Go [])
      | _ \<Rightarrow> (s, Go []))"

definition sec_return_if_suppressed :: "int \<Rightarrow> tg \<Rightarrow> tg \<times> flow" where
  "sec_return_if_suppressed chat s =
     (case Option.bind (hm_get (tg_turns s) chat) tu_thought of
        Some t \<Rightarrow> if tt_suppressed t then (s, Return) else (s, Go [])
      | None \<Rightarrow> (s, Go []))"

definition sec_flush_if_finalizing :: "tg_env \<Rightarrow> int \<Rightarrow> tg \<Rightarrow> tg \<times> flow" where
  "sec_flush_if_finalizing E chat s =
     (case hm_get (tg_turns s) chat of
        Some tu \<Rightarrow> if is_finalizing tu then flush_turn E chat tu s else (s, Go [])
      | None \<Rightarrow> (s, Go []))"

definition thought_text :: "string \<Rightarrow> string \<Rightarrow> string" where
  "thought_text emoji buffer = emoji @ '' '' @ escape_html buffer"

definition sec_thought_append :: "tg_env \<Rightarrow> int \<Rightarrow> string option \<Rightarrow> string \<Rightarrow> int option \<Rightarrow> tg \<Rightarrow> tg \<times> flow" where
  "sec_thought_append E chat mid text origin s =
     (let (tu, s1) = enter_turn E chat mid s;
          tu1 = append_thought (now E s) text 0 origin tu;
          t = the (tu_thought tu1);
          s2 = abort_tasks (opt_list (tt_debounce_handle t)) s1;
          s3 = put_turn chat (tu1\<lparr>tu_thought := Some (t\<lparr>tt_debounce_handle := None\<rparr>)\<rparr>) s2
      in (s3, Go (if tt_msg_id t = 0
                  then [Call True 0 (Send_Message chat (thought_text (tg_thought_emoji s) (tt_buffer t))) [] Store_Thought]
                  else [Spawn Thought_Debounce])))"

definition sec_chunk_append :: "tg_env \<Rightarrow> int \<Rightarrow> string option \<Rightarrow> string \<Rightarrow> tg \<Rightarrow> tg \<times> flow" where
  "sec_chunk_append E chat mid text s =
     (let (tu, s1) = enter_turn E chat mid s;
          tu1 = append_response (now E s) text 0
            (tu\<lparr>tu_thought := map_option (\<lambda>t. t\<lparr>tt_suppressed := False\<rparr>) (tu_thought tu)\<rparr>);
          r = the (tu_response tu1); acc = rt_buffer r; msg_id = rt_msg_id r
      in (put_turn chat tu1 s1,
          if acc = [] then Return
          else if is_finalizing tu1
          then Go ((if msg_id \<noteq> 0
                    then with_chunks (format_telegram_html (tv_rx E) acc) (\<lambda>cs.
                      retry_op (Edit_Message chat msg_id (hd cs)) # map (\<lambda>c. retry_op (Send_Message chat c)) (tl cs))
                    else []) @ [Spawn Finalize])
          else if msg_id \<noteq> 0 then Go [Act (Edit_If_Cooled acc msg_id)]
          else Go [Act Debounce_First]))"

definition sec_edit_if_cooled :: "tg_env \<Rightarrow> int \<Rightarrow> string \<Rightarrow> int \<Rightarrow> tg \<Rightarrow> tg \<times> flow" where
  "sec_edit_if_cooled E chat acc msg_id s =
     (case hm_get (tg_turns s) chat of
        None \<Rightarrow> (s, Go [])
      | Some tu \<Rightarrow>
          (let (can, tu') = can_edit_response (now E s) (from_millis (tg_response_edit_cooldown_ms s)) tu
           in (put_turn chat tu' s,
               Go (if can
                   then with_chunks (close_open_tags (format_telegram_html (tv_rx E) acc))
                     (\<lambda>cs. [retry_op (Edit_Message chat msg_id (hd cs))])
                   else []))))"

definition sec_debounce_first :: "int \<Rightarrow> tg \<Rightarrow> tg \<times> flow" where
  "sec_debounce_first chat s =
     (case Option.bind (Option.bind (hm_get (tg_turns s) chat) tu_response) rt_debounce_handle of
        Some _ \<Rightarrow> (s, Return)
      | None \<Rightarrow> (s, Go [Spawn Response_Debounce]))"

definition sec_discard_stale_result :: "int \<Rightarrow> string option \<Rightarrow> tg \<Rightarrow> tg \<times> flow" where
  "sec_discard_stale_result chat mid s =
     (case (mid, hm_get (tg_turns s) chat) of
        (Some m, Some tu) \<Rightarrow> if is_different_turn m tu then (s, Return) else (s, Go [])
      | _ \<Rightarrow> (s, Go []))"

definition sec_collapse_for_result :: "tg_env \<Rightarrow> int \<Rightarrow> tg \<Rightarrow> tg \<times> flow" where
  "sec_collapse_for_result E chat s =
     (case hm_get (tg_turns s) chat of
        None \<Rightarrow> (s, Go [])
      | Some tu \<Rightarrow>
          (let (collapse, hs, tu') = collapse_thought (now E s) tu
           in (put_turn chat tu' (abort_tasks hs s), Go (collapse_op E (tg_thought_emoji s) chat collapse))))"

definition sec_record_result :: "tg_env \<Rightarrow> int \<Rightarrow> string option \<Rightarrow> bool \<Rightarrow> string \<Rightarrow> tg \<Rightarrow> tg \<times> flow" where
  "sec_record_result E chat mid is_error text s =
     (let (tu, s1) = enter_turn E chat mid s;
          tu1 = tu\<lparr>tu_last_result_was_error := is_error\<rparr>;
          tu2 = (if is_error \<and> text \<noteq> []
                 then append_response (now E s)
                   ([CHR 0xE2, CHR 0x9A, CHR 0xA0, CHR 0xEF, CHR 0xB8, CHR 0x8F, CHR '' ''] @ text) 0 tu1
                 else tu1);
          th = (case tu_thought tu2 of
                  Some t \<Rightarrow> t\<lparr>tt_suppressed := True\<rparr>
                | None \<Rightarrow> \<lparr>tt_msg_id = 0, tt_started_at = now E s, tt_buffer = '''',
                            tt_debounce_handle = None, tt_suppressed = True\<rparr>)
      in (put_turn chat (tu2\<lparr>tu_thought := Some th\<rparr>) s1, Go []))"

text \<open>A tool call enters the turn.\<close>

definition start_tool_call :: "string option \<Rightarrow> string \<Rightarrow> string \<Rightarrow> json option \<Rightarrow> chat_turn \<Rightarrow> chat_turn" where
  "start_tool_call mid name tool_call_id input tu =
     (let display_name = (if name = [] then ''tool'' else name);
          m = unwrap_or mid '''';
          tu1 = (if m \<noteq> '''' then tu\<lparr>tu_message_id := m\<rparr> else tu);
          tu2 = tu1\<lparr>tu_thought := map_option (\<lambda>t. t\<lparr>tt_suppressed := False\<rparr>) (tu_thought tu1)\<rparr>
      in if tool_call_id \<noteq> ''''
         then tu2\<lparr>tu_tool_call_order := tu_tool_call_order tu2 @ [tool_call_id],
           tu_tool_calls := hm_insert tool_call_id
             \<lparr>tct_name = display_name, tct_status = Started, tct_input = input\<rparr> (tu_tool_calls tu2)\<rparr>
         else tu2)"

definition sec_tool_call ::
  "tg_env \<Rightarrow> int \<Rightarrow> string option \<Rightarrow> string \<Rightarrow> string \<Rightarrow> json option \<Rightarrow> tg \<Rightarrow> tg \<times> flow" where
  "sec_tool_call E chat mid name tool_call_id input s =
     (case hm_get (tg_turns s) chat of
        None \<Rightarrow> (s, Return)
      | Some tu \<Rightarrow>
          if is_finalizing tu then (s, Return)
          else
            (let (text, tu') = render_tools_text (tv_ser E) (start_tool_call mid name tool_call_id input tu)
             in (put_turn chat tu' s,
                 if text = [] then Return
                 else if tu_tools_msg_id tu' = 0 then Go [Call True 0 (Send_Message chat text) [] Store_Tools]
                 else Go [retry_op (Edit_Message chat (tu_tools_msg_id tu') text)])))"

definition status_of_update :: "string \<Rightarrow> string option \<Rightarrow> int option \<Rightarrow> call_status" where
  "status_of_update status output exit_code =
     (if status = ''completed'' \<and> (case exit_code of Some c \<Rightarrow> c \<noteq> 0 | None \<Rightarrow> False) then Failed output
      else if status = ''in_progress'' then InProgress
      else if status = ''completed'' then Completed
      else if status = ''failed'' then Failed output
      else InProgress)"

definition sec_tool_call_update ::
  "tg_env \<Rightarrow> int \<Rightarrow> string \<Rightarrow> string \<Rightarrow> string option \<Rightarrow> json option \<Rightarrow> int option \<Rightarrow> tg \<Rightarrow> tg \<times> flow" where
  "sec_tool_call_update E chat tool_call_id status output input exit_code s =
     (case hm_get (tg_turns s) chat of
        None \<Rightarrow> (s, Return)
      | Some tu \<Rightarrow>
          if is_finalizing tu then (s, Return)
          else
            (case hm_get (tu_tool_calls tu) tool_call_id of
               None \<Rightarrow> (s, Return)
             | Some t \<Rightarrow>
                 if is_terminal (tct_status t) then (s, Return)
                 else
                   (let t1 = (if tct_input t = None then t\<lparr>tct_input := input\<rparr> else t);
                        t2 = t1\<lparr>tct_status := status_of_update status output exit_code\<rparr>;
                        tu1 = tu\<lparr>tu_tool_calls := hm_insert tool_call_id t2 (tu_tool_calls tu)\<rparr>;
                        (can, tu2) =
                          (if is_terminal (tct_status t2) then (True, tu1)
                           else can_edit_tools (now E s) (from_millis (tg_response_edit_cooldown_ms s)) tu1)
                    in if \<not> can then (put_turn chat tu2 s, Return)
                       else
                         (let (text, tu3) = render_tools_text (tv_ser E) tu2
                          in (put_turn chat tu3 s,
                              Go (if tu_tools_msg_id tu3 \<noteq> 0 \<and> text \<noteq> []
                                  then [retry_op (Edit_Message chat (tu_tools_msg_id tu3) text)] else []))))))"

text \<open>Updates of a track of the turn, where there is one.\<close>

definition upd_turn :: "int \<Rightarrow> (chat_turn \<Rightarrow> chat_turn) \<Rightarrow> tg \<Rightarrow> tg" where
  "upd_turn chat f s = (case hm_get (tg_turns s) chat of Some tu \<Rightarrow> put_turn chat (f tu) s | None \<Rightarrow> s)"

definition upd_thought :: "(thought_track \<Rightarrow> thought_track) \<Rightarrow> chat_turn \<Rightarrow> chat_turn" where
  "upd_thought f tu = tu\<lparr>tu_thought := map_option f (tu_thought tu)\<rparr>"

definition upd_response :: "(response_track \<Rightarrow> response_track) \<Rightarrow> chat_turn \<Rightarrow> chat_turn" where
  "upd_response f tu = tu\<lparr>tu_response := map_option f (tu_response tu)\<rparr>"

definition sec_set_handle :: "int \<Rightarrow> spawn_kind \<Rightarrow> nat \<Rightarrow> tg \<Rightarrow> tg \<times> flow" where
  "sec_set_handle chat k n s =
     (case k of
        Thought_Debounce \<Rightarrow> (upd_turn chat (upd_thought (\<lambda>t. t\<lparr>tt_debounce_handle := Some n\<rparr>)) s, Go [])
      | Response_Debounce \<Rightarrow> (upd_turn chat (upd_response (\<lambda>t. t\<lparr>rt_debounce_handle := Some n\<rparr>)) s, Go [])
      | Finalize \<Rightarrow>
          (case hm_get (tg_turns s) chat of
             None \<Rightarrow> (s, Go [])
           | Some tu \<Rightarrow>
               (let (hs, tu') = begin_finalizing n tu in (put_turn chat tu' (abort_tasks hs s), Go []))))"

definition sec_store_id :: "int \<Rightarrow> store \<Rightarrow> int \<Rightarrow> tg \<Rightarrow> tg \<times> flow" where
  "sec_store_id chat st i s =
     (case st of
        Ignore \<Rightarrow> (s, Go [])
      | Store_Thought \<Rightarrow> (upd_turn chat (upd_thought (\<lambda>t. t\<lparr>tt_msg_id := i\<rparr>)) s, Go [])
      | Store_Response \<Rightarrow>
          (upd_turn chat (upd_response (\<lambda>t. t\<lparr>rt_msg_id := i, rt_debounce_handle := None\<rparr>)) s, Go [])
      | Store_Tools \<Rightarrow> (upd_turn chat (\<lambda>tu. tu\<lparr>tu_tools_msg_id := i\<rparr>) s, Go []))"

definition sec_thought_debounce_edit :: "int \<Rightarrow> tg \<Rightarrow> tg \<times> flow" where
  "sec_thought_debounce_edit chat s =
     (case Option.bind (hm_get (tg_turns s) chat) tu_thought of
        None \<Rightarrow> (s, Return)
      | Some t \<Rightarrow>
          (s, Go (if tt_msg_id t \<noteq> 0
                  then [retry_op (Edit_Message chat (tt_msg_id t) (thought_text (tg_thought_emoji s) (tt_buffer t)))]
                  else [])))"

definition sec_response_debounce_read :: "int \<Rightarrow> tg \<Rightarrow> tg \<times> flow" where
  "sec_response_debounce_read chat s =
     (case Option.bind (hm_get (tg_turns s) chat) tu_response of
        None \<Rightarrow> (s, Return)
      | Some r \<Rightarrow>
          if rt_buffer r = [] \<or> rt_msg_id r \<noteq> 0 then (s, Return)
          else (s, Go [Act (Response_Debounce_Claim (rt_buffer r))]))"

definition claim_turn :: "int \<Rightarrow> chat_turn \<Rightarrow> tg \<Rightarrow> bool \<times> tg" where
  "claim_turn chat tu s =
     (let (won, tu') = try_finalize_response tu
      in (won, (if won then log_ev (Ev_Claim chat) else id) (put_turn chat tu' s)))"

definition sec_response_debounce_claim :: "tg_env \<Rightarrow> int \<Rightarrow> string \<Rightarrow> tg \<Rightarrow> tg \<times> flow" where
  "sec_response_debounce_claim E chat acc s =
     (case hm_get (tg_turns s) chat of
        None \<Rightarrow> (s, Return)
      | Some tu \<Rightarrow>
          (let (won, s') = claim_turn chat tu s
           in (s', if won
                   then Go (with_chunks (close_open_tags (format_telegram_html (tv_rx E) acc))
                     (\<lambda>cs. [Call True 0 (Send_Message chat (hd cs)) [] Store_Response]))
                   else Return)))"

definition sec_finalize_take :: "tg_env \<Rightarrow> int \<Rightarrow> tg \<Rightarrow> tg \<times> flow" where
  "sec_finalize_take E chat s =
     (case hm_get (tg_turns s) chat of
        None \<Rightarrow> (s, Go [])
      | Some tu \<Rightarrow>
          (let (won, s') = claim_turn chat tu s
           in (s', Go (if won
                       then (case take_response_for_finalize tu of
                               Some (text, msg_id) \<Rightarrow> if text \<noteq> [] then send_or_edit_final E chat text msg_id else []
                             | None \<Rightarrow> [])
                       else []))))"

fun run_section :: "tg_env \<Rightarrow> int \<Rightarrow> act \<Rightarrow> tg \<Rightarrow> tg \<times> flow" where
  "run_section E chat (Flush_If_Different mid) s = sec_flush_if_different E chat mid s"
| "run_section E chat Return_If_Suppressed s = sec_return_if_suppressed chat s"
| "run_section E chat Flush_If_Finalizing s = sec_flush_if_finalizing E chat s"
| "run_section E chat (Thought_Append mid text origin) s = sec_thought_append E chat mid text origin s"
| "run_section E chat (Chunk_Append mid text) s = sec_chunk_append E chat mid text s"
| "run_section E chat (Edit_If_Cooled acc msg_id) s = sec_edit_if_cooled E chat acc msg_id s"
| "run_section E chat Debounce_First s = sec_debounce_first chat s"
| "run_section E chat (Discard_Stale_Result mid) s = sec_discard_stale_result chat mid s"
| "run_section E chat Collapse_For_Result s = sec_collapse_for_result E chat s"
| "run_section E chat (Record_Result mid err text) s = sec_record_result E chat mid err text s"
| "run_section E chat (Tool_Call mid name i input) s = sec_tool_call E chat mid name i input s"
| "run_section E chat (Tool_Call_Update i st out input ex) s = sec_tool_call_update E chat i st out input ex s"
| "run_section E chat (Set_Handle k n) s = sec_set_handle chat k n s"
| "run_section E chat (Store_Id st i) s = sec_store_id chat st i s"
| "run_section E chat Thought_Debounce_Edit s = sec_thought_debounce_edit chat s"
| "run_section E chat Thought_Debounce_Clear s =
     (upd_turn chat (upd_thought (\<lambda>t. t\<lparr>tt_debounce_handle := None\<rparr>)) s, Go [])"
| "run_section E chat Response_Debounce_Read s = sec_response_debounce_read chat s"
| "run_section E chat (Response_Debounce_Claim acc) s = sec_response_debounce_claim E chat acc s"
| "run_section E chat Finalize_Take s = sec_finalize_take E chat s"
| "run_section E chat Remove_Turn s = (remove_turn chat s, Go [])"


section \<open>Programs\<close>

fun task_prog :: "spawn_kind \<Rightarrow> instr list" where
  "task_prog Thought_Debounce = [Sleep, Act Thought_Debounce_Edit, Act Thought_Debounce_Clear]"
| "task_prog Response_Debounce = [Sleep, Act Response_Debounce_Read]"
| "task_prog Finalize = [Sleep, Act Finalize_Take, Act Remove_Turn]"

definition bot_commands :: "json list \<Rightarrow> (string \<times> string) list" where
  "bot_commands cmds =
     List.map_filter (\<lambda>cmd.
       Option.bind (Option.bind (jget cmd ''name'') as_str) (\<lambda>name.
         map_option (\<lambda>d. (name, unwrap_or (as_str d) name)) (jget cmd ''description''))) cmds"

definition is_voice :: "string option \<Rightarrow> bool" where
  "is_voice mime = (case mime of Some m \<Rightarrow> str_contains ''ogg'' m \<or> str_contains ''opus'' m | None \<Rightarrow> False)"

fun deliver_prog :: "tg_env \<Rightarrow> int \<Rightarrow> string option \<Rightarrow> int option \<Rightarrow> content_kind \<Rightarrow> instr list" where
  "deliver_prog E chat mid origin (Kind_Thought t) =
     [Act (Flush_If_Different mid), Act Return_If_Suppressed, Act Flush_If_Finalizing,
      Act (Thought_Append mid (tht_content t) origin)]"
| "deliver_prog E chat mid origin (Kind_MessageChunk text) =
     [Act (Flush_If_Different mid), Act (Chunk_Append mid text)]"
| "deliver_prog E chat mid origin (Kind_Result text is_error) =
     [Act (Discard_Stale_Result mid), Act Collapse_For_Result, Act (Record_Result mid is_error text), Spawn Finalize]"
| "deliver_prog E chat mid origin (Kind_ToolCall name i input) = [Act (Tool_Call mid name i input)]"
| "deliver_prog E chat mid origin (Kind_ToolCallUpdate name i status output input exit_code) =
     [Act (Tool_Call_Update i status output input exit_code)]"
| "deliver_prog E chat mid origin (Kind_AvailableCommands commands) =
     (case as_array commands of
        Some cmds \<Rightarrow> if bot_commands cmds \<noteq> [] then [plain_op (Set_My_Commands (bot_commands cmds))] else []
      | None \<Rightarrow> [])"
| "deliver_prog E chat mid origin (Kind_Image url) =
     (if tv_url E url then [plain_op (Send_Photo chat url)] else [])"
| "deliver_prog E chat mid origin (Kind_File url name mime) =
     (if tv_url E url then [plain_op (Send_Document chat url name)] else [])"
| "deliver_prog E chat mid origin (Kind_Audio url mime) =
     (if tv_url E url then [plain_op (if is_voice mime then Send_Voice chat url else Send_Audio chat url)] else [])"
| "deliver_prog E chat mid origin _ = []"

definition message_id_of :: "json \<Rightarrow> string option" where
  "message_id_of content = Option.bind (Option.bind (jget content ''update'') (\<lambda>u. jget u ''messageId'')) as_str"

definition origin_instant :: "tg_env \<Rightarrow> nat \<Rightarrow> json \<Rightarrow> int option" where
  "origin_instant E n content =
     map_option (\<lambda>received. tv_now E n - int (tv_now_ms E n - received) * 10 ^ 6)
       (Option.bind (jget content ''_received_at_ms'') as_u64)"

definition deliver_to_chat :: "tg_env \<Rightarrow> string \<Rightarrow> json \<Rightarrow> tg \<Rightarrow> channel_sdk_error + tg" where
  "deliver_to_chat E session_id content s =
     (case hm_get (tg_session_chat_map s) session_id of
        None \<Rightarrow> Inl (Sdk_Protocol (''unknown session: '' @ session_id))
      | Some chat \<Rightarrow>
          Inr (s\<lparr>tg_main := Some (chat, deliver_prog E chat (message_id_of content)
                   (origin_instant E (tg_tick s) content) (from_content content)),
                 tg_tick := Suc (tg_tick s)\<rparr>))"


section \<open>The machine\<close>

definition store_instrs :: "store \<Rightarrow> int \<Rightarrow> instr list" where
  "store_instrs st i = (if st = Ignore then [] else [Act (Store_Id st i)])"

fun run_instr :: "tg_env \<Rightarrow> int \<Rightarrow> instr \<Rightarrow> instr list \<Rightarrow> tg \<Rightarrow> tg \<times> instr list" where
  "run_instr E chat Sleep rest s = (s, rest)"
| "run_instr E chat (Act a) rest s =
     (case run_section E chat a s of (s', Go is) \<Rightarrow> (s', is @ rest) | (s', Return) \<Rightarrow> (s', []))"
| "run_instr E chat (Spawn k) rest s =
     (s\<lparr>tg_tasks := hm_insert (tg_next s) \<lparr>tk_chat = chat, tk_prog = task_prog k, tk_aborted = False\<rparr> (tg_tasks s),
        tg_next := Suc (tg_next s)\<rparr>,
      Act (Set_Handle k (tg_next s)) # rest)"
| "run_instr E chat (Call retry n c err st) rest s =
     (let r = tv_api E (tg_tick s) c; s' = log_ev (Ev_Call c r) s
      in case r of
           Api_Ok i \<Rightarrow> (s', store_instrs st i @ rest)
         | _ \<Rightarrow> if retry \<and> is_retryable r \<and> Suc n < MAX_RETRY_ATTEMPTS
                then (s', Call retry (Suc n) c err st # rest) else (s', err @ rest))"
| "run_instr E chat Panic rest s = (log_ev Ev_Panic s, [])"

datatype choice =
    Deliver string json
  | Run_Main
  | Run_Task nat
  | Drop_Task nat

definition step_main :: "tg_env \<Rightarrow> tg \<Rightarrow> tg" where
  "step_main E s =
     (case tg_main s of
        None \<Rightarrow> s
      | Some (chat, []) \<Rightarrow> s\<lparr>tg_main := None\<rparr>
      | Some (chat, i # rest) \<Rightarrow>
          (let (s', rest') = run_instr E chat i rest s in s'\<lparr>tg_main := Some (chat, rest'), tg_tick := Suc (tg_tick s)\<rparr>))"

text \<open>A task that waits in a sleep or for the answer to a request stops there when it is aborted.\<close>

fun waits :: "instr \<Rightarrow> bool" where
  "waits Sleep = True"
| "waits (Call _ _ _ _ _) = True"
| "waits _ = False"

definition drop_task :: "nat \<Rightarrow> tg \<Rightarrow> tg" where
  "drop_task n s = s\<lparr>tg_tasks := hm_remove n (tg_tasks s)\<rparr>"

definition put_prog :: "nat \<Rightarrow> instr list \<Rightarrow> tg \<Rightarrow> tg" where
  "put_prog n prog s =
     s\<lparr>tg_tasks := map (\<lambda>(k, t). (k, if k = n then t\<lparr>tk_prog := prog\<rparr> else t)) (tg_tasks s)\<rparr>"

definition step_task :: "tg_env \<Rightarrow> nat \<Rightarrow> tg \<Rightarrow> tg" where
  "step_task E n s =
     (case hm_get (tg_tasks s) n of
        None \<Rightarrow> s
      | Some t \<Rightarrow>
          (case tk_prog t of
             [] \<Rightarrow> drop_task n s
           | i # rest \<Rightarrow>
               if tk_aborted t \<and> i = Sleep then drop_task n s
               else
                 (let (s', rest') = run_instr E (tk_chat t) i rest s;
                      s'' = s'\<lparr>tg_tick := Suc (tg_tick s)\<rparr>
                  in if tk_aborted t \<and> waits i then drop_task n s'' else put_prog n rest' s'')))"

definition tg_step :: "tg_env \<Rightarrow> choice \<Rightarrow> tg \<Rightarrow> tg" where
  "tg_step E c s =
     (case c of
        Deliver session_id content \<Rightarrow>
          (if tg_main s \<noteq> None then s
           else (case deliver_to_chat E session_id content s of Inr s' \<Rightarrow> s' | Inl _ \<Rightarrow> s))
      | Run_Main \<Rightarrow> step_main E s
      | Run_Task n \<Rightarrow> step_task E n s
      | Drop_Task n \<Rightarrow>
          (case hm_get (tg_tasks s) n of
             Some t \<Rightarrow> if tk_aborted t then drop_task n s else s
           | None \<Rightarrow> s))"

definition tg_run :: "tg_env \<Rightarrow> choice list \<Rightarrow> tg \<Rightarrow> tg" where
  "tg_run E = fold (tg_step E)"

end
