(* ===== verification/Telegram_Frames.thy ===== *)
theory Telegram_Frames
  imports Telegram_Deliver
begin

text \<open>
  What the steps of the Telegram channel may change: a section changes the turn of its own chat and marks
  tasks; a step of a program makes requests for the chat it works for.  The consequence is that chats
  do not touch each other.
\<close>

section \<open>What a section may change\<close>

text \<open>The chat a request is for; setting the commands of the bot is for none.\<close>

fun call_chat :: "api_call \<Rightarrow> int option" where
  "call_chat (Send_Message c _) = Some c"
| "call_chat (Edit_Message c _ _) = Some c"
| "call_chat (Send_Photo c _) = Some c"
| "call_chat (Send_Document c _ _) = Some c"
| "call_chat (Send_Voice c _) = Some c"
| "call_chat (Send_Audio c _) = Some c"
| "call_chat (Set_My_Commands _) = None"

fun event_chat :: "tg_event \<Rightarrow> int option" where
  "event_chat (Ev_Call c _) = call_chat c"
| "event_chat (Ev_Turn_New c) = Some c"
| "event_chat (Ev_Turn_End c) = Some c"
| "event_chat (Ev_Claim c) = Some c"
| "event_chat Ev_Panic = None"

text \<open>All requests of an instruction are for one chat, and it starts tool calls that \<open>ok\<close> admits only.\<close>

fun instr_for :: "(int \<Rightarrow> string \<Rightarrow> bool) \<Rightarrow> int \<Rightarrow> instr \<Rightarrow> bool" where
  "instr_for ok c (Call _ _ a err _) \<longleftrightarrow> call_chat a \<in> {None, Some c} \<and> list_all (instr_for ok c) err"
| "instr_for ok c (Act (Tool_Call _ _ i _)) \<longleftrightarrow> ok c i"
| "instr_for ok c _ \<longleftrightarrow> True"

fun flow_for :: "(int \<Rightarrow> string \<Rightarrow> bool) \<Rightarrow> int \<Rightarrow> flow \<Rightarrow> bool" where
  "flow_for ok c (Go is) \<longleftrightarrow> list_all (instr_for ok c) is"
| "flow_for ok c Return \<longleftrightarrow> True"

definition only_marked :: "(nat, tg_task) hmap \<Rightarrow> (nat, tg_task) hmap \<Rightarrow> bool" where
  "only_marked ts ts' \<longleftrightarrow>
     list_all2 (\<lambda>(n, t) (n', t'). n' = n \<and> tk_chat t' = tk_chat t \<and> tk_prog t' = tk_prog t \<and> (tk_aborted t \<longrightarrow> tk_aborted t')) ts ts'"

definition sec_frame :: "int \<Rightarrow> tg \<Rightarrow> tg \<Rightarrow> bool" where
  "sec_frame c s s' \<longleftrightarrow>
     tg_session_chat_map s' = tg_session_chat_map s \<and> tg_main s' = tg_main s
     \<and> tg_next s' = tg_next s \<and> tg_tick s' = tg_tick s \<and> only_marked (tg_tasks s) (tg_tasks s')
     \<and> (hm_ok (tg_turns s) \<longrightarrow> hm_ok (tg_turns s'))
     \<and> (\<forall>c'. c' \<noteq> c \<longrightarrow> hm_get (tg_turns s') c' = hm_get (tg_turns s) c')
     \<and> (\<exists>evs. tg_trace s' = tg_trace s @ evs \<and> (\<forall>e\<in>set evs. event_chat e = Some c \<and> (\<forall>a r. e \<noteq> Ev_Call a r)))"

lemma only_marked_refl [simp]: "only_marked ts ts"
  by (auto simp: only_marked_def intro: list_all2_refl)

lemma only_marked_trans: "only_marked a b \<Longrightarrow> only_marked b c \<Longrightarrow> only_marked a c"
  unfolding only_marked_def by (erule (1) list_all2_trans [rotated]) auto

lemma frame_refl [simp]: "sec_frame c s s"
  by (simp add: sec_frame_def)

lemma frame_trans: "sec_frame c s s' \<Longrightarrow> sec_frame c s' s'' \<Longrightarrow> sec_frame c s s''"
  unfolding sec_frame_def using only_marked_trans by (fastforce simp: Un_iff)

lemma frame_put [simp]: "sec_frame c s (put_turn c tu s)"
  by (simp add: sec_frame_def put_turn_def)

lemma frame_abort [simp]: "sec_frame c s (abort_tasks hs s)"
  by (auto simp: sec_frame_def abort_tasks_def only_marked_def list_all2_map2 intro: list_all2_refl)

lemma frame_remove [simp]: "sec_frame c s (remove_turn c s)"
  by (simp add: sec_frame_def remove_turn_def log_ev_def)

lemma frame_log: "event_chat ev = Some c \<Longrightarrow> (\<And>a r. ev \<noteq> Ev_Call a r) \<Longrightarrow> sec_frame c s (log_ev ev s)"
  by (simp add: sec_frame_def log_ev_def)

lemma frame_upd [simp]: "sec_frame c s (upd_turn c f s)"
  by (simp add: upd_turn_def split: option.splits)

lemma frame_put_after: "sec_frame c s s' \<Longrightarrow> sec_frame c s (put_turn c tu s')"
  by (rule frame_trans [OF _ frame_put])

lemma frame_remove_after: "sec_frame c s s' \<Longrightarrow> sec_frame c s (remove_turn c s')"
  by (rule frame_trans [OF _ frame_remove])

lemma frame_abort_after: "sec_frame c s s' \<Longrightarrow> sec_frame c s (abort_tasks hs s')"
  by (rule frame_trans [OF _ frame_abort])

lemma frame_enter: "enter_turn E c mid s = (tu, s') \<Longrightarrow> sec_frame c s s'"
  by (auto simp: enter_turn_def Let_def intro!: frame_put_after frame_log split: option.splits)

lemma frame_claim: "claim_turn c tu s = (won, s') \<Longrightarrow> sec_frame c s s'"
  by (auto simp: claim_turn_def Let_def intro!: frame_trans [OF frame_put frame_log] split: prod.splits if_splits)

lemmas frame_rules = frame_put_after frame_remove_after frame_abort_after

lemma instr_for_ops [simp]:
  "instr_for ok c (retry_op a) = (call_chat a \<in> {None, Some c})"
  "instr_for ok c (plain_op a) = (call_chat a \<in> {None, Some c})"
  by (simp_all add: retry_op_def plain_op_def)

lemma with_chunks_for: "(\<And>cs. list_all (instr_for ok c) (k cs)) \<Longrightarrow> list_all (instr_for ok c) (with_chunks t k)"
  by (simp add: with_chunks_def split: option.splits)

lemma sends_for [simp]: "list_all (instr_for ok c) (map (\<lambda>x. retry_op (Send_Message c x)) xs)"
  by (simp add: list_all_iff)

lemma flush_for [simp]: "list_all (instr_for ok c) (send_flush E emoji c f)"
  by (auto simp: send_flush_def collapse_op_def intro!: with_chunks_for split: option.splits)

lemma final_for [simp]: "list_all (instr_for ok c) (send_or_edit_final E c text m)"
  by (auto simp: send_or_edit_final_def intro!: with_chunks_for)

lemma frame_flush: "flush_turn E c tu s = (s', fl) \<Longrightarrow> sec_frame c s s' \<and> flow_for ok c fl"
  by (auto simp: flush_turn_def Let_def intro: frame_enter frame_claim intro!: frame_rules split: prod.splits)

text \<open>A section of a program of a chat changes that chat's turn only, and continues with requests for it.\<close>

lemma section_frame:
  assumes "run_section E c a s = (s', fl)"
  shows "sec_frame c s s' \<and> flow_for ok c fl"
proof (cases a)
  case (Thought_Append mid tx origin)
  then show ?thesis using assms
    by (auto simp: sec_thought_append_def Let_def intro: frame_enter frame_claim intro!: frame_rules split: prod.splits)
next
  case (Chunk_Append mid tx)
  then show ?thesis using assms
    by (auto simp: sec_chunk_append_def Let_def intro: frame_enter frame_claim intro!: frame_rules with_chunks_for split: prod.splits if_splits)
next
  case (Tool_Call mid name i input)
  then show ?thesis using assms
    by (auto simp: sec_tool_call_def Let_def split: prod.splits if_splits option.splits)
next
  case (Tool_Call_Update i st out input ex)
  then show ?thesis using assms
    by (auto simp: sec_tool_call_update_def Let_def split: prod.splits if_splits option.splits)
next
  case (Record_Result mid err tx)
  then show ?thesis using assms
    by (auto simp: sec_record_result_def Let_def intro: frame_enter frame_claim intro!: frame_rules split: prod.splits)
next
  case (Set_Handle k n)
  then show ?thesis using assms
    by (auto simp: sec_set_handle_def Let_def intro: frame_enter frame_claim intro!: frame_rules split: prod.splits spawn_kind.splits option.splits)
next
  case (Finalize_Take)
  then show ?thesis using assms
    by (auto simp: sec_finalize_take_def Let_def intro: frame_enter frame_claim intro!: frame_rules split: prod.splits option.splits if_splits)
next
  case (Response_Debounce_Claim acc)
  then show ?thesis using assms
    by (auto simp: sec_response_debounce_claim_def Let_def intro: frame_enter frame_claim intro!: frame_rules with_chunks_for
      split: prod.splits option.splits if_splits)
qed (use assms in \<open>auto simp: sec_flush_if_different_def sec_return_if_suppressed_def sec_flush_if_finalizing_def
  sec_edit_if_cooled_def sec_debounce_first_def sec_discard_stale_result_def sec_collapse_for_result_def
  collapse_op_def sec_store_id_def sec_thought_debounce_edit_def sec_response_debounce_read_def Let_def
  intro: frame_enter frame_claim intro!: frame_rules with_chunks_for dest: frame_flush
  split: prod.splits option.splits if_splits store.splits\<close>)

section \<open>What a step may change\<close>

text \<open>Task numbers are fresh, and every program makes requests for its own chat only.\<close>

definition tg_ok :: "(int \<Rightarrow> string \<Rightarrow> bool) \<Rightarrow> tg \<Rightarrow> bool" where
  "tg_ok ok s \<longleftrightarrow>
     hm_ok (tg_tasks s) \<and> (\<forall>n t. (n, t) \<in> set (tg_tasks s) \<longrightarrow> n < tg_next s)
     \<and> (\<forall>c p. tg_main s = Some (c, p) \<longrightarrow> list_all (instr_for ok c) p)
     \<and> (\<forall>n t. (n, t) \<in> set (tg_tasks s) \<longrightarrow> list_all (instr_for ok (tk_chat t)) (tk_prog t))"

text \<open>The chats a program works for.\<close>

definition chats :: "tg \<Rightarrow> int set" where
  "chats s = {c. \<exists>p. tg_main s = Some (c, p)} \<union> tk_chat ` snd ` set (tg_tasks s)"

definition tasks_frame :: "(int \<Rightarrow> string \<Rightarrow> bool) \<Rightarrow> int \<Rightarrow> tg \<Rightarrow> tg \<Rightarrow> bool" where
  "tasks_frame ok c s s' \<longleftrightarrow>
     (hm_ok (tg_tasks s) \<longrightarrow> hm_ok (tg_tasks s')) \<and> tg_next s \<le> tg_next s'
     \<and> (\<forall>n t'. (n, t') \<in> set (tg_tasks s') \<longrightarrow>
          (\<exists>t. (n, t) \<in> set (tg_tasks s) \<and> tk_chat t' = tk_chat t \<and> tk_prog t' = tk_prog t)
          \<or> (n = tg_next s \<and> tg_next s' = Suc n \<and> tk_chat t' = c \<and> list_all (instr_for ok c) (tk_prog t')))"

text \<open>The turns of the other chats stay, and the new events are of one chat or of none.\<close>

definition turns_frame :: "int \<Rightarrow> tg \<Rightarrow> tg \<Rightarrow> bool" where
  "turns_frame c s s' \<longleftrightarrow>
     (\<forall>c'. c' \<noteq> c \<longrightarrow> hm_get (tg_turns s') c' = hm_get (tg_turns s) c')
     \<and> (\<exists>evs. tg_trace s' = tg_trace s @ evs \<and> (\<forall>e\<in>set evs. event_chat e \<in> {None, Some c}))"

definition step_frame :: "(int \<Rightarrow> string \<Rightarrow> bool) \<Rightarrow> int \<Rightarrow> tg \<Rightarrow> tg \<Rightarrow> bool" where
  "step_frame ok c s s' \<longleftrightarrow>
     tg_session_chat_map s' = tg_session_chat_map s \<and> tg_main s' = tg_main s
     \<and> tasks_frame ok c s s' \<and> turns_frame c s s'"

lemma only_marked_set:
  assumes "only_marked ts ts'" "(n, t') \<in> set ts'"
  shows "\<exists>t. (n, t) \<in> set ts \<and> tk_chat t' = tk_chat t \<and> tk_prog t' = tk_prog t"
proof -
  obtain i where i: "i < length ts'" "ts' ! i = (n, t')" using assms(2) by (auto simp: in_set_conv_nth)
  then have "i < length ts" "fst (ts ! i) = n" "tk_chat t' = tk_chat (snd (ts ! i))" "tk_prog t' = tk_prog (snd (ts ! i))"
    using assms(1) by (cases "ts ! i"; force simp: only_marked_def list_all2_conv_all_nth)+
  then show ?thesis by (metis nth_mem prod.collapse)
qed

lemma only_marked_keys: "only_marked ts ts' \<Longrightarrow> map fst ts' = map fst ts"
  unfolding only_marked_def by (induction rule: list_all2_induct) auto

lemma marked_tasks_frame: "only_marked (tg_tasks s) (tg_tasks s') \<Longrightarrow> tg_next s' = tg_next s \<Longrightarrow> tasks_frame ok c s s'"
  unfolding tasks_frame_def hm_ok_def using only_marked_set only_marked_keys by fastforce

lemma sec_step_frame:
  assumes "sec_frame c s s'"
  shows "step_frame ok c s s'"
proof -
  obtain evs where "tg_trace s' = tg_trace s @ evs" "\<forall>e\<in>set evs. event_chat e = Some c"
    using assms by (auto simp: sec_frame_def)
  then show ?thesis using assms marked_tasks_frame [of s s' ok c]
    by (auto simp: sec_frame_def step_frame_def turns_frame_def)
qed

lemma hm_insert_set: "(n, t') \<in> set (hm_insert k v m) \<Longrightarrow> (n, t') \<in> set m \<or> (n = k \<and> t' = v)"
  by (induction m) (auto split: if_splits)

lemma task_prog_for: "list_all (instr_for ok c) (task_prog k)"
  by (cases k) auto

lemma spawn_frame:
  "run_instr E c (Spawn k) rest s = (s', rest') \<Longrightarrow> step_frame ok c s s'"
  using task_prog_for by (auto simp: step_frame_def tasks_frame_def turns_frame_def dest!: hm_insert_set)

lemma instr_frame:
  assumes "run_instr E c i rest s = (s', rest')" "instr_for ok c i" "list_all (instr_for ok c) rest"
  shows "step_frame ok c s s' \<and> list_all (instr_for ok c) rest'"
proof (cases i)
  case (Act a)
  obtain s1 fl where r: "run_section E c a s = (s1, fl)" by fastforce
  then show ?thesis using section_frame [OF r, of ok] assms Act sec_step_frame by (cases fl) auto
next
  case (Spawn k)
  then show ?thesis using assms spawn_frame by auto
next
  case (Call retry n a err st)
  then show ?thesis using assms
    by (auto simp: step_frame_def tasks_frame_def turns_frame_def log_ev_def Let_def store_instrs_def
      split: api_outcome.splits if_splits)
qed (use assms in \<open>auto simp: step_frame_def tasks_frame_def turns_frame_def log_ev_def\<close>)

lemma deliver_prog_for:
  "(\<And>name i input. k = Kind_ToolCall name i input \<Longrightarrow> ok c i) \<Longrightarrow> list_all (instr_for ok c) (deliver_prog E c mid origin k)"
  by (cases k) (auto split: option.splits)

text \<open>One step of a program: it is of one of the chats that are at work.\<close>

definition work_step :: "(int \<Rightarrow> string \<Rightarrow> bool) \<Rightarrow> tg \<Rightarrow> tg \<Rightarrow> bool" where
  "work_step ok s s' \<longleftrightarrow>
     tg_ok ok s' \<and> chats s' \<subseteq> chats s \<and> tg_session_chat_map s' = tg_session_chat_map s
     \<and> ((tg_turns s' = tg_turns s \<and> tg_trace s' = tg_trace s) \<or> (\<exists>c\<in>chats s. turns_frame c s s'))"

lemma work_refl: "tg_ok ok s \<Longrightarrow> work_step ok s s"
  by (simp add: work_step_def)

lemma chats_main: "tg_main s = Some (c, p) \<Longrightarrow> c \<in> chats s"
  by (simp add: chats_def)

lemma chats_task: "(n, t) \<in> set (tg_tasks s) \<Longrightarrow> tk_chat t \<in> chats s"
  by (force simp: chats_def)

lemma chats_subI:
  "(\<And>c p. tg_main s = Some (c, p) \<Longrightarrow> c \<in> X) \<Longrightarrow> (\<And>n t. (n, t) \<in> set (tg_tasks s) \<Longrightarrow> tk_chat t \<in> X) \<Longrightarrow> chats s \<subseteq> X"
  by (auto simp: chats_def)

lemma tg_okI:
  assumes "hm_ok (tg_tasks s)" "\<And>n t. (n, t) \<in> set (tg_tasks s) \<Longrightarrow> n < tg_next s \<and> list_all (instr_for ok (tk_chat t)) (tk_prog t)"
    and "\<And>c p. tg_main s = Some (c, p) \<Longrightarrow> list_all (instr_for ok c) p"
  shows "tg_ok ok s"
  using assms unfolding tg_ok_def by blast

lemma tg_okD:
  assumes "tg_ok ok s"
  shows "hm_ok (tg_tasks s)" "(n, t) \<in> set (tg_tasks s) \<Longrightarrow> n < tg_next s \<and> list_all (instr_for ok (tk_chat t)) (tk_prog t)"
    "tg_main s = Some (c, p) \<Longrightarrow> list_all (instr_for ok c) p"
  using assms unfolding tg_ok_def by blast+

lemma frame_task:
  assumes "tasks_frame ok c s s'" "(n, t') \<in> set (tg_tasks s')"
  obtains t where "(n, t) \<in> set (tg_tasks s)" "tk_chat t' = tk_chat t" "tk_prog t' = tk_prog t"
  | "n = tg_next s" "tg_next s' = Suc n" "tk_chat t' = c" "list_all (instr_for ok c) (tk_prog t')"
  using assms unfolding tasks_frame_def by blast

lemma frame_work:
  assumes f: "step_frame ok c s s'" and c: "c \<in> chats s" and s: "tg_ok ok s"
  shows "work_step ok s s'"
proof -
  have tf: "tasks_frame ok c s s'" and main: "tg_main s' = tg_main s" using f by (simp_all add: step_frame_def)
  have le: "tg_next s \<le> tg_next s'" and ok: "hm_ok (tg_tasks s')"
    using tf tg_okD(1) [OF s] by (simp_all add: tasks_frame_def)
  have task: "n < tg_next s' \<and> list_all (instr_for ok (tk_chat t')) (tk_prog t') \<and> tk_chat t' \<in> chats s"
    if "(n, t') \<in> set (tg_tasks s')" for n t'
    using tf that
  proof (cases rule: frame_task)
    case (1 t)
    then show ?thesis using tg_okD(2) [OF s 1(1)] chats_task [OF 1(1)] le by simp
  next
    case 2
    then show ?thesis using c by simp
  qed
  have "tg_ok ok s'" using ok task tg_okD(3) [OF s] main by (intro tg_okI) auto
  moreover have "chats s' \<subseteq> chats s" using task chats_main [of s] unfolding main [symmetric] by (intro chats_subI) blast+
  ultimately show ?thesis using f c by (auto simp: work_step_def step_frame_def)
qed

lemma work_change:
  assumes "work_step ok s s'" "tg_ok ok s''" "chats s'' \<subseteq> chats s"
    and "tg_turns s'' = tg_turns s'" "tg_trace s'' = tg_trace s'" "tg_session_chat_map s'' = tg_session_chat_map s'"
  shows "work_step ok s s''"
  using assms unfolding work_step_def turns_frame_def by simp

lemma work_tick: "work_step ok s s' \<Longrightarrow> work_step ok s (s'\<lparr>tg_tick := k\<rparr>)"
  by (rule work_change, assumption) (simp_all add: work_step_def tg_ok_def chats_def)

lemma tg_ok_drop: "tg_ok ok s \<Longrightarrow> tg_ok ok (drop_task n s)"
  by (rule tg_okI) (auto simp: drop_task_def hm_remove_def dest: tg_okD)

lemma chats_drop: "chats (drop_task n s) \<subseteq> chats s"
  by (rule chats_subI) (auto simp: drop_task_def hm_remove_def dest: chats_main chats_task)

lemma work_drop:
  assumes "work_step ok s s'"
  shows "work_step ok s (drop_task n s')"
proof (rule work_change [OF assms])
  show "tg_ok ok (drop_task n s')" "chats (drop_task n s') \<subseteq> chats s"
    using assms tg_ok_drop chats_drop [of n s'] unfolding work_step_def by blast+
qed (simp_all add: drop_task_def)

lemma work_main:
  assumes "work_step ok s s'" "\<And>c p. m = Some (c, p) \<Longrightarrow> c \<in> chats s \<and> list_all (instr_for ok c) p"
  shows "work_step ok s (s'\<lparr>tg_main := m\<rparr>)"
proof (rule work_change [OF assms(1)])
  have s': "tg_ok ok s'" "chats s' \<subseteq> chats s" using assms(1) by (simp_all add: work_step_def)
  then show "tg_ok ok (s'\<lparr>tg_main := m\<rparr>)" using assms(2) by (intro tg_okI) (auto dest: tg_okD)
  show "chats (s'\<lparr>tg_main := m\<rparr>) \<subseteq> chats s" using assms(2) s'(2) chats_task by (intro chats_subI) auto
qed simp_all

lemma put_prog_fields [simp]:
  "tg_main (put_prog n p s) = tg_main s" "tg_next (put_prog n p s) = tg_next s"
  "tg_turns (put_prog n p s) = tg_turns s" "tg_trace (put_prog n p s) = tg_trace s"
  "tg_session_chat_map (put_prog n p s) = tg_session_chat_map s"
  "map fst (tg_tasks (put_prog n p s)) = map fst (tg_tasks s)"
  by (simp_all add: put_prog_def case_prod_beta comp_def)

lemma put_prog_task:
  assumes "(k, t) \<in> set (tg_tasks (put_prog n p s))"
  obtains t' where "(k, t') \<in> set (tg_tasks s)" "tk_chat t = tk_chat t'" "tk_prog t = (if k = n then p else tk_prog t')"
  using assms by (auto simp: put_prog_def)

lemma work_put_prog:
  assumes "work_step ok s s'" "\<And>t. (n, t) \<in> set (tg_tasks s') \<Longrightarrow> list_all (instr_for ok (tk_chat t)) p"
  shows "work_step ok s (put_prog n p s')"
proof (rule work_change [OF assms(1)])
  have s': "tg_ok ok s'" "chats s' \<subseteq> chats s" using assms(1) by (simp_all add: work_step_def)
  have "k < tg_next s' \<and> list_all (instr_for ok (tk_chat t)) (tk_prog t) \<and> tk_chat t \<in> chats s"
    if "(k, t) \<in> set (tg_tasks (put_prog n p s'))" for k t
    using that
  proof (rule put_prog_task)
    fix t' assume t': "(k, t') \<in> set (tg_tasks s')" "tk_chat t = tk_chat t'" "tk_prog t = (if k = n then p else tk_prog t')"
    then show ?thesis using tg_okD(2) [OF s'(1) t'(1)] assms(2) [of t'] chats_task [OF t'(1)] s'(2) by auto
  qed
  moreover have "hm_ok (tg_tasks (put_prog n p s'))" using tg_okD(1) [OF s'(1)] by (simp add: hm_ok_def)
  ultimately have *: "tg_ok ok (put_prog n p s')" "\<And>k t. (k, t) \<in> set (tg_tasks (put_prog n p s')) \<Longrightarrow> tk_chat t \<in> chats s"
    using tg_okD(3) [OF s'(1)] by (auto intro!: tg_okI)
  then show "tg_ok ok (put_prog n p s')" "chats (put_prog n p s') \<subseteq> chats s"
    using s'(2) chats_main [of s'] by (simp, intro chats_subI) auto
qed simp_all

lemma main_step_work:
  assumes "tg_ok ok s"
  shows "work_step ok s (step_main E s)"
proof (cases "tg_main s")
  case None
  then show ?thesis using assms by (simp add: step_main_def work_refl)
next
  case (Some cp)
  obtain c p where m: "tg_main s = Some (c, p)" using Some by (cases cp) auto
  show ?thesis
  proof (cases p)
    case Nil
    then show ?thesis using work_main [OF work_refl [OF assms], of None] m by (simp add: step_main_def)
  next
    case (Cons i rest)
    obtain s1 rest' where r: "run_instr E c i rest s = (s1, rest')" by fastforce
    have c: "c \<in> chats s" using m by (auto simp: chats_def)
    have f: "step_frame ok c s s1" "list_all (instr_for ok c) rest'"
      using instr_frame [OF r, of ok] assms(1) m Cons by (auto simp: tg_ok_def)
    have "work_step ok s (s1\<lparr>tg_main := Some (c, rest')\<rparr>)"
      by (rule work_main [OF frame_work [OF f(1) c assms]]) (use f(2) c in auto)
    from work_tick [OF this] show ?thesis using m Cons r by (simp add: step_main_def)
  qed
qed

lemma task_step_work:
  assumes "tg_ok ok s"
  shows "work_step ok s (step_task E n s)"
proof (cases "hm_get (tg_tasks s) n")
  case None
  then show ?thesis using assms by (simp add: step_task_def work_refl)
next
  case (Some t)
  show ?thesis
  proof (cases "tk_prog t")
    case Nil
    then show ?thesis using Some work_drop [OF work_refl [OF assms]] by (simp add: step_task_def)
  next
    case (Cons i rest)
    obtain s1 rest' where r: "run_instr E (tk_chat t) i rest s = (s1, rest')" by fastforce
    have mem: "(n, t) \<in> set (tg_tasks s)" using Some by (rule hm_get_set)
    have c: "tk_chat t \<in> chats s" using mem by (force simp: chats_def)
    have f: "step_frame ok (tk_chat t) s s1" "list_all (instr_for ok (tk_chat t)) rest'"
      using instr_frame [OF r, of ok] assms(1) mem Cons by (fastforce simp: tg_ok_def)+
    have n: "n < tg_next s" "hm_ok (tg_tasks s)" using assms(1) mem by (auto simp: tg_ok_def)
    have same_chat: "tk_chat t' = tk_chat t" if t': "(n, t') \<in> set (tg_tasks s1)" for t'
    proof -
      have "\<exists>t0. (n, t0) \<in> set (tg_tasks s) \<and> tk_chat t' = tk_chat t0"
        using f(1) t' n(1) by (fastforce simp: step_frame_def tasks_frame_def)
      then obtain t0 where t0: "(n, t0) \<in> set (tg_tasks s)" "tk_chat t' = tk_chat t0" by blast
      then have "t0 = t" using n(2) Some by (metis hm_get_iff option.inject)
      then show ?thesis using t0(2) by simp
    qed
    note w = work_tick [OF frame_work [OF f(1) c assms], of "Suc (tg_tick s)"]
    have "work_step ok s (put_prog n rest' (s1\<lparr>tg_tick := Suc (tg_tick s)\<rparr>))"
      by (rule work_put_prog [OF w]) (use f(2) same_chat in auto)
    then show ?thesis
      using Some Cons r work_drop [OF work_refl [OF assms]] work_drop [OF w] by (simp add: step_task_def Let_def)
  qed
qed

text \<open>Every step but a delivery is the step of a program.\<close>

lemma step_work:
  assumes "tg_ok ok s" "\<And>sid content. ch \<noteq> Deliver sid content"
  shows "work_step ok s (tg_step E ch s)"
proof (cases ch)
  case (Drop_Task n)
  then show ?thesis using work_refl [OF assms(1)] work_drop by (auto simp: tg_step_def split: option.splits)
qed (simp_all add: tg_step_def main_step_work task_step_work assms)

text \<open>A delivery to a known session gives the chat of the session a program.\<close>

lemma deliver_step:
  assumes "tg_ok ok s"
    and "\<And>c name i input. hm_get (tg_session_chat_map s) sid = Some c \<Longrightarrow> from_content content = Kind_ToolCall name i input \<Longrightarrow> ok c i"
  shows "tg_ok ok (tg_step E (Deliver sid content) s)
    \<and> chats (tg_step E (Deliver sid content) s) \<subseteq> chats s \<union> set_option (hm_get (tg_session_chat_map s) sid)
    \<and> tg_session_chat_map (tg_step E (Deliver sid content) s) = tg_session_chat_map s
    \<and> tg_turns (tg_step E (Deliver sid content) s) = tg_turns s \<and> tg_trace (tg_step E (Deliver sid content) s) = tg_trace s"
  using assms deliver_prog_for [of "from_content content" ok]
  by (auto simp: tg_step_def deliver_to_chat_def tg_ok_def chats_def split: option.splits)

lemma step_ok:
  assumes "tg_ok ok s"
    and "\<And>sid content c name i input. ch = Deliver sid content \<Longrightarrow> hm_get (tg_session_chat_map s) sid = Some c
      \<Longrightarrow> from_content content = Kind_ToolCall name i input \<Longrightarrow> ok c i"
  shows "tg_ok ok (tg_step E ch s) \<and> tg_session_chat_map (tg_step E ch s) = tg_session_chat_map s"
  using step_work [OF assms(1), of ch E] deliver_step [OF assms(1)] assms(2)
  by (cases ch) (auto simp: work_step_def)


section \<open>Chats do not touch each other\<close>

definition untouched :: "int \<Rightarrow> tg \<Rightarrow> tg \<Rightarrow> bool" where
  "untouched c s s' \<longleftrightarrow>
     hm_get (tg_turns s') c = hm_get (tg_turns s) c
     \<and> (\<exists>evs. tg_trace s' = tg_trace s @ evs \<and> (\<forall>e\<in>set evs. event_chat e \<noteq> Some c))"

lemma untouched_trans:
  assumes "untouched c s s'" "untouched c s' s''"
  shows "untouched c s s''"
proof -
  obtain e1 e2 where "tg_trace s' = tg_trace s @ e1" "\<forall>e\<in>set e1. event_chat e \<noteq> Some c"
    "tg_trace s'' = tg_trace s' @ e2" "\<forall>e\<in>set e2. event_chat e \<noteq> Some c"
    using assms by (auto simp: untouched_def)
  then show ?thesis using assms by (auto simp: untouched_def)
qed

lemma work_untouched:
  assumes "work_step ok s s'" "c \<notin> chats s"
  shows "untouched c s s'"
proof (cases "tg_turns s' = tg_turns s \<and> tg_trace s' = tg_trace s")
  case True
  then show ?thesis by (simp add: untouched_def)
next
  case False
  then obtain c' where c': "c' \<in> chats s" "turns_frame c' s s'" using assms(1) by (auto simp: work_step_def)
  then obtain evs where "tg_trace s' = tg_trace s @ evs" "\<forall>e\<in>set evs. event_chat e \<in> {None, Some c'}"
    by (auto simp: turns_frame_def)
  moreover have "c' \<noteq> c" using c' assms(2) by blast
  ultimately show ?thesis using c'(2) by (auto simp: untouched_def turns_frame_def)
qed

lemma run_untouched:
  assumes "tg_ok (\<lambda>_ _. True) s" "c \<notin> chats s"
    and "\<And>sid content. Deliver sid content \<in> set cs \<Longrightarrow> hm_get (tg_session_chat_map s) sid \<noteq> Some c"
  shows "untouched c s (tg_run E cs s)"
  using assms
proof (induction cs arbitrary: s)
  case Nil
  then show ?case by (simp add: tg_run_def untouched_def)
next
  case (Cons ch cs)
  let ?s = "tg_step E ch s"
  have ok: "tg_ok (\<lambda>_ _. True) ?s" "tg_session_chat_map ?s = tg_session_chat_map s"
    using step_ok [OF Cons.prems(1), of ch] by auto
  have 1: "untouched c s ?s \<and> c \<notin> chats ?s"
  proof (cases "\<exists>sid content. ch = Deliver sid content")
    case True
    then obtain sid content where ch: "ch = Deliver sid content" by blast
    then have "hm_get (tg_session_chat_map s) sid \<noteq> Some c" using Cons.prems(3) by auto
    then have "c \<notin> set_option (hm_get (tg_session_chat_map s) sid)" by (auto simp: elem_set)
    then show ?thesis using deliver_step [OF Cons.prems(1), of sid content E] Cons.prems(2) ch
      by (auto simp: untouched_def)
  next
    case False
    then have "work_step (\<lambda>_ _. True) s ?s" using step_work [OF Cons.prems(1)] by blast
    then show ?thesis using work_untouched [OF _ Cons.prems(2)] Cons.prems(2) unfolding work_step_def by blast
  qed
  have "untouched c ?s (tg_run E cs ?s)"
    using Cons.IH [OF ok(1)] 1 ok(2) Cons.prems(3) by (metis list.set_intros(2))
  then show ?case using untouched_trans 1 by (auto simp: tg_run_def)
qed

end
