(* ===== verification/Telegram_Runs.thy ===== *)
theory Telegram_Runs
  imports Telegram_Frames
begin

text \<open>
  Invariants of every run of the Telegram channel, whatever the schedule: the life of a turn, from its
  beginning over the one claim of its response to its end, and the tool calls of a turn.
\<close>

section \<open>The life of a turn\<close>

text \<open>For each chat: whether it has a turn, and whether the response of the turn is claimed.\<close>

definition live :: "tg_event \<Rightarrow> (int \<Rightarrow> bool option) \<Rightarrow> int \<Rightarrow> bool option" where
  "live ev m =
     (case ev of
        Ev_Turn_New c \<Rightarrow> m(c \<mapsto> False)
      | Ev_Claim c \<Rightarrow> m(c \<mapsto> True)
      | Ev_Turn_End c \<Rightarrow> m(c := None)
      | _ \<Rightarrow> m)"

definition lives :: "tg_event list \<Rightarrow> int \<Rightarrow> bool option" where
  "lives tr = fold live tr Map.empty"

text \<open>A turn begins where there is none, and its response is claimed once.\<close>

definition legal :: "(int \<Rightarrow> bool option) \<Rightarrow> tg_event \<Rightarrow> bool" where
  "legal m ev \<longleftrightarrow>
     (case ev of
        Ev_Turn_New c \<Rightarrow> m c = None
      | Ev_Claim c \<Rightarrow> m c = Some False
      | Ev_Turn_End c \<Rightarrow> m c \<noteq> None
      | _ \<Rightarrow> True)"

definition all_legal :: "tg_event list \<Rightarrow> bool" where
  "all_legal tr \<longleftrightarrow> (\<forall>n < length tr. legal (lives (take n tr)) (tr ! n))"

definition life_inv :: "tg \<Rightarrow> bool" where
  "life_inv s \<longleftrightarrow>
     all_legal (tg_trace s) \<and> lives (tg_trace s) = (\<lambda>c. map_option tu_response_finalized (hm_get (tg_turns s) c))"

lemma lives_snoc: "lives (tr @ [ev]) = live ev (lives tr)"
  by (simp add: lives_def)

lemma all_legal_snoc: "all_legal (tr @ [ev]) \<longleftrightarrow> all_legal tr \<and> legal (lives tr) ev"
  by (auto simp: all_legal_def less_Suc_eq nth_append)

lemma finalized_ops [simp]:
  "tu_response_finalized (append_response n text m tu) = tu_response_finalized tu"
  "tu_response_finalized (append_thought n text m o' tu) = tu_response_finalized tu"
  "can_edit_response n d tu = (b, tu') \<Longrightarrow> tu_response_finalized tu' = tu_response_finalized tu"
  "can_edit_tools n d tu = (b, tu') \<Longrightarrow> tu_response_finalized tu' = tu_response_finalized tu"
  "begin_finalizing h tu = (hs, tu') \<Longrightarrow> tu_response_finalized tu' = tu_response_finalized tu"
  "collapse_thought n tu = (x, hs, tu') \<Longrightarrow> tu_response_finalized tu' = tu_response_finalized tu"
  "render_tools_text ser tu = (txt, tu') \<Longrightarrow> tu_response_finalized tu' = tu_response_finalized tu"
  "tu_response_finalized (upd_thought f tu) = tu_response_finalized tu"
  "tu_response_finalized (upd_response g tu) = tu_response_finalized tu"
  by (auto simp: append_response_def append_thought_def can_edit_response_def can_edit_tools_def
    begin_finalizing_def collapse_thought_def render_tools_text_def Let_def upd_thought_def upd_response_def
    split: option.splits if_splits)

lemma life_put:
  "life_inv s \<Longrightarrow> hm_get (tg_turns s) c = Some tu \<Longrightarrow> tu_response_finalized tu' = tu_response_finalized tu
    \<Longrightarrow> life_inv (put_turn c tu' s)"
  by (auto simp: life_inv_def put_turn_def fun_eq_iff)

lemma life_abort: "life_inv s \<Longrightarrow> life_inv (abort_tasks hs s)"
  by (simp add: life_inv_def abort_tasks_def)

lemma life_remove: "life_inv s \<Longrightarrow> life_inv (remove_turn c s)"
  by (auto simp: life_inv_def remove_turn_def log_ev_def lives_snoc all_legal_snoc live_def legal_def hm_has_iff fun_eq_iff)

lemma life_upd:
  "life_inv s \<Longrightarrow> (\<And>tu. tu_response_finalized (f tu) = tu_response_finalized tu) \<Longrightarrow> life_inv (upd_turn c f s)"
  by (auto simp: upd_turn_def intro: life_put split: option.splits)

lemma life_enter:
  assumes "life_inv s" "enter_turn E c mid s = (tu, s')"
  shows "life_inv s' \<and> hm_get (tg_turns s') c = Some tu"
  using assms
  by (auto simp: enter_turn_def Let_def life_inv_def put_turn_def log_ev_def lives_snoc all_legal_snoc
    live_def legal_def chat_turn_new_def fun_eq_iff split: option.splits if_splits)

lemma life_claim:
  assumes "life_inv s" "hm_get (tg_turns s) c = Some tu" "claim_turn c tu s = (won, s')"
  shows "life_inv s'"
  using assms
  by (auto simp: claim_turn_def try_finalize_response_def life_inv_def put_turn_def log_ev_def lives_snoc
    all_legal_snoc live_def legal_def fun_eq_iff split: if_splits)

lemma life_put_entered:
  assumes "life_inv s" "enter_turn E c mid s = (tu, s')" "tu_response_finalized tu' = tu_response_finalized tu"
  shows "life_inv (put_turn c tu' s')" "life_inv (put_turn c tu' (abort_tasks hs s'))"
  using life_enter [OF assms(1,2)] assms(3) life_put life_abort by (auto simp: abort_tasks_def intro!: life_put)

lemma life_put_abort:
  "life_inv s \<Longrightarrow> hm_get (tg_turns s) c = Some tu \<Longrightarrow> tu_response_finalized tu' = tu_response_finalized tu
    \<Longrightarrow> life_inv (put_turn c tu' (abort_tasks hs s))"
  by (rule life_put [OF life_abort]) (auto simp: abort_tasks_def)

lemma life_flush: "life_inv s \<Longrightarrow> flush_turn E c tu s = (s', fl) \<Longrightarrow> life_inv s'"
  by (auto simp: flush_turn_def Let_def intro: life_remove life_abort split: prod.splits)

lemma life_section:
  assumes "life_inv s" "run_section E c a s = (s', fl)"
  shows "life_inv s'"
proof (cases a)
  case (Thought_Append mid tx origin)
  then show ?thesis using assms
    by (auto simp: sec_thought_append_def Let_def intro: life_put_entered split: prod.splits)
next
  case (Chunk_Append mid tx)
  then show ?thesis using assms
    by (auto simp: sec_chunk_append_def Let_def intro: life_put_entered split: prod.splits)
next
  case (Record_Result mid err tx)
  obtain tu s1 where e: "enter_turn E c mid s = (tu, s1)" by fastforce
  show ?thesis using assms(2) Record_Result e
    by (cases "err \<and> tx \<noteq> []") (auto simp: sec_record_result_def Let_def intro!: life_put_entered(1) [OF assms(1) e])
next
  case (Tool_Call mid name i input)
  then show ?thesis using assms
    by (auto simp: sec_tool_call_def start_tool_call_def Let_def intro!: life_put split: prod.splits if_splits option.splits)
next
  case (Tool_Call_Update i st out input ex)
  then show ?thesis using assms
    by (auto simp: sec_tool_call_update_def Let_def intro!: life_put split: prod.splits if_splits option.splits)
next
  case (Set_Handle k n)
  then show ?thesis using assms
    by (auto simp: sec_set_handle_def Let_def intro!: life_upd intro: life_put_abort
      split: prod.splits spawn_kind.splits option.splits)
next
  case (Store_Id st i)
  then show ?thesis using assms by (auto simp: sec_store_id_def intro!: life_upd split: store.splits)
next
  case (Finalize_Take)
  then show ?thesis using assms
    by (auto simp: sec_finalize_take_def Let_def intro: life_claim split: prod.splits option.splits if_splits)
next
  case (Response_Debounce_Claim acc)
  then show ?thesis using assms
    by (auto simp: sec_response_debounce_claim_def Let_def intro: life_claim split: prod.splits option.splits if_splits)
qed (use assms in \<open>auto simp: sec_flush_if_different_def sec_return_if_suppressed_def sec_flush_if_finalizing_def
  sec_edit_if_cooled_def sec_debounce_first_def sec_discard_stale_result_def sec_collapse_for_result_def
  sec_thought_debounce_edit_def sec_response_debounce_read_def Let_def
  intro!: life_upd intro: life_put life_put_abort life_remove dest: life_flush
  split: prod.splits option.splits if_splits\<close>)

text \<open>Requests, spawning and the bookkeeping of the tasks do not matter to the life of a turn.\<close>

lemma life_same:
  "tg_turns s' = tg_turns s \<Longrightarrow> tg_trace s' = tg_trace s \<Longrightarrow> life_inv s' = life_inv s"
  by (simp add: life_inv_def)

lemma life_log_call: "life_inv (log_ev (Ev_Call c r) s) = life_inv s" "life_inv (log_ev Ev_Panic s) = life_inv s"
  by (simp_all add: life_inv_def log_ev_def lives_snoc all_legal_snoc live_def legal_def)

lemma life_instr:
  assumes "life_inv s" "run_instr E c i rest s = (s', rest')"
  shows "life_inv s'"
proof (cases i)
  case (Act a)
  obtain s1 fl where r: "run_section E c a s = (s1, fl)" by fastforce
  then show ?thesis using life_section [OF assms(1) r] assms(2) Act by (cases fl) auto
next
  case (Call retry n a err st)
  then show ?thesis using assms by (auto simp: Let_def life_log_call split: api_outcome.splits if_splits)
next
  case Panic
  then show ?thesis using assms by (auto simp: life_log_call)
qed (use assms in \<open>auto simp: life_inv_def\<close>)

lemma life_step:
  assumes "life_inv s"
  shows "life_inv (tg_step E ch s)"
proof -
  have fields: "life_inv (s'\<lparr>tg_main := m, tg_tick := k\<rparr>) = life_inv s'" "life_inv (s'\<lparr>tg_main := m\<rparr>) = life_inv s'"
    "life_inv (s'\<lparr>tg_tick := k\<rparr>) = life_inv s'"
    "life_inv (drop_task n s') = life_inv s'" "life_inv (put_prog n p s') = life_inv s'" for s' m k n p
    by (simp_all add: life_inv_def drop_task_def put_prog_def)
  show ?thesis
    using assms by (auto simp: tg_step_def step_main_def step_task_def deliver_to_chat_def Let_def fields
      dest: life_instr split: choice.splits option.splits list.splits prod.splits)
qed

lemma life_run: "life_inv s \<Longrightarrow> life_inv (tg_run E cs s)"
  by (induction cs arbitrary: s) (auto simp: tg_run_def life_step)


section \<open>Tool calls\<close>

lemma tools_append_response [simp]:
  "tu_tool_calls (append_response n x m tu) = tu_tool_calls tu"
  "tu_tool_call_order (append_response n x m tu) = tu_tool_call_order tu"
  by (auto simp: append_response_def split: option.splits if_splits)

lemma tools_append_thought [simp]:
  "tu_tool_calls (append_thought n x m o' tu) = tu_tool_calls tu"
  "tu_tool_call_order (append_thought n x m o' tu) = tu_tool_call_order tu"
  by (auto simp: append_thought_def split: option.splits if_splits)

lemma tools_can_edit_response [simp]:
  "can_edit_response n d tu = (b, tu') \<Longrightarrow> tu_tool_calls tu' = tu_tool_calls tu"
  "can_edit_response n d tu = (b, tu') \<Longrightarrow> tu_tool_call_order tu' = tu_tool_call_order tu"
  by (auto simp: can_edit_response_def split: option.splits if_splits)

lemma tools_can_edit_tools [simp]:
  "can_edit_tools n d tu = (b, tu') \<Longrightarrow> tu_tool_calls tu' = tu_tool_calls tu"
  "can_edit_tools n d tu = (b, tu') \<Longrightarrow> tu_tool_call_order tu' = tu_tool_call_order tu"
  by (auto simp: can_edit_tools_def split: option.splits if_splits)

lemma tools_begin_finalizing [simp]:
  "begin_finalizing h tu = (hs, tu') \<Longrightarrow> tu_tool_calls tu' = tu_tool_calls tu"
  "begin_finalizing h tu = (hs, tu') \<Longrightarrow> tu_tool_call_order tu' = tu_tool_call_order tu"
  by (auto simp: begin_finalizing_def split: option.splits if_splits)

lemma tools_collapse_thought [simp]:
  "collapse_thought n tu = (y, hs, tu') \<Longrightarrow> tu_tool_calls tu' = tu_tool_calls tu"
  "collapse_thought n tu = (y, hs, tu') \<Longrightarrow> tu_tool_call_order tu' = tu_tool_call_order tu"
  by (auto simp: collapse_thought_def split: option.splits if_splits)

lemma tools_render_tools_text [simp]:
  "render_tools_text ser tu = (x, tu') \<Longrightarrow> tu_tool_calls tu' = tu_tool_calls tu"
  "render_tools_text ser tu = (x, tu') \<Longrightarrow> tu_tool_call_order tu' = tu_tool_call_order tu"
  by (auto simp: render_tools_text_def Let_def split: option.splits if_splits)

lemma tools_try_finalize_response [simp]:
  "try_finalize_response tu = (b, tu') \<Longrightarrow> tu_tool_calls tu' = tu_tool_calls tu"
  "try_finalize_response tu = (b, tu') \<Longrightarrow> tu_tool_call_order tu' = tu_tool_call_order tu"
  by (auto simp: try_finalize_response_def split: option.splits if_splits)

lemma tools_upd_thought [simp]:
  "tu_tool_calls (upd_thought f tu) = tu_tool_calls tu"
  "tu_tool_call_order (upd_thought f tu) = tu_tool_call_order tu"
  by (auto simp: upd_thought_def split: option.splits if_splits)

lemma tools_upd_response [simp]:
  "tu_tool_calls (upd_response g tu) = tu_tool_calls tu"
  "tu_tool_call_order (upd_response g tu) = tu_tool_call_order tu"
  by (auto simp: upd_response_def split: option.splits if_splits)

text \<open>
  An invariant \<open>Q\<close> of the tool calls of a chat's turn and their order: it holds for a new turn, and is kept when a
  tool call starts (for the identifiers \<open>ok\<close> admits) and when a call that is not finished is updated.
\<close>

locale tools_invariant =
  fixes Q :: "int \<Rightarrow> (string, tool_call_track) hmap \<Rightarrow> string list \<Rightarrow> bool" and ok :: "int \<Rightarrow> string \<Rightarrow> bool"
  assumes tools_new: "Q c [] []"
    and tools_start: "ok c i \<Longrightarrow> Q c m ids \<Longrightarrow> tct_status t = Started \<Longrightarrow> Q c (hm_insert i t m) (ids @ [i])"
    and tools_update: "Q c m ids \<Longrightarrow> hm_get m i = Some t \<Longrightarrow> \<not> is_terminal (tct_status t) \<Longrightarrow> Q c (hm_insert i t' m) ids"
begin

definition turns_inv :: "tg \<Rightarrow> bool" where
  "turns_inv s \<longleftrightarrow> (\<forall>c tu. hm_get (tg_turns s) c = Some tu \<longrightarrow> Q c (tu_tool_calls tu) (tu_tool_call_order tu))"

lemma turns_inv_put: "turns_inv s \<Longrightarrow> Q c (tu_tool_calls tu) (tu_tool_call_order tu) \<Longrightarrow> turns_inv (put_turn c tu s)"
  by (simp add: turns_inv_def put_turn_def)

lemma turns_inv_get: "turns_inv s \<Longrightarrow> hm_get (tg_turns s) c = Some tu \<Longrightarrow> Q c (tu_tool_calls tu) (tu_tool_call_order tu)"
  by (simp add: turns_inv_def)

lemma turns_inv_same: "tg_turns s' = tg_turns s \<Longrightarrow> turns_inv s' = turns_inv s"
  by (simp add: turns_inv_def)

lemma turns_inv_abort: "turns_inv (abort_tasks hs s) = turns_inv s"
  by (simp add: turns_inv_def abort_tasks_def)

lemma turns_inv_remove: "turns_inv s \<Longrightarrow> turns_inv (remove_turn c s)"
  by (simp add: turns_inv_def remove_turn_def log_ev_def)

lemma turns_inv_log: "turns_inv (log_ev ev s) = turns_inv s"
  by (simp add: turns_inv_def log_ev_def)

lemma put_get:
  "turns_inv s \<Longrightarrow> hm_get (tg_turns s) c = Some tu \<Longrightarrow> tu_tool_calls tu' = tu_tool_calls tu
    \<Longrightarrow> tu_tool_call_order tu' = tu_tool_call_order tu \<Longrightarrow> turns_inv (put_turn c tu' s)"
  using turns_inv_get turns_inv_put by metis

lemma put_get_abort:
  "turns_inv s \<Longrightarrow> hm_get (tg_turns s) c = Some tu \<Longrightarrow> tu_tool_calls tu' = tu_tool_calls tu
    \<Longrightarrow> tu_tool_call_order tu' = tu_tool_call_order tu \<Longrightarrow> turns_inv (put_turn c tu' (abort_tasks hs s))"
  using turns_inv_get turns_inv_put turns_inv_abort by metis

lemma enter_inv:
  assumes "turns_inv s" "enter_turn E c mid s = (tu, s')"
  shows "turns_inv s' \<and> Q c (tu_tool_calls tu) (tu_tool_call_order tu)"
proof -
  have "Q c (tu_tool_calls (chat_turn_new n m)) (tu_tool_call_order (chat_turn_new n m))" for n m
    using tools_new by (simp add: chat_turn_new_def)
  then show ?thesis using assms
    by (auto simp: enter_turn_def Let_def turns_inv_log turns_inv_put turns_inv_get split: option.splits if_splits)
qed

lemma put_entered:
  assumes "turns_inv s" "enter_turn E c mid s = (tu, s')" "tu_tool_calls tu' = tu_tool_calls tu" "tu_tool_call_order tu' = tu_tool_call_order tu"
  shows "turns_inv (put_turn c tu' s')" "turns_inv (put_turn c tu' (abort_tasks hs s'))"
  using enter_inv [OF assms(1,2)] assms(3,4) by (auto intro!: turns_inv_put simp: turns_inv_abort)

lemma claim_inv:
  assumes "turns_inv s" "hm_get (tg_turns s) c = Some tu" "claim_turn c tu s = (won, s')"
  shows "turns_inv s'"
proof -
  have "turns_inv (put_turn c tu s)" "turns_inv (put_turn c (tu\<lparr>tu_response_finalized := True\<rparr>) s)"
    using turns_inv_get [OF assms(1,2)] by (intro turns_inv_put assms(1), simp)+
  then show ?thesis using assms(3)
    by (auto simp: claim_turn_def try_finalize_response_def turns_inv_log split: if_splits)
qed

lemma upd_inv:
  "turns_inv s \<Longrightarrow> (\<And>tu. tu_tool_calls (f tu) = tu_tool_calls tu \<and> tu_tool_call_order (f tu) = tu_tool_call_order tu)
    \<Longrightarrow> turns_inv (upd_turn c f s)"
  by (auto simp: upd_turn_def intro: put_get split: option.splits)

lemma flush_inv: "turns_inv s \<Longrightarrow> flush_turn E c tu s = (s', fl) \<Longrightarrow> turns_inv s'"
  by (auto simp: flush_turn_def Let_def turns_inv_abort intro!: turns_inv_remove split: prod.splits)

lemma start_inv:
  assumes "turns_inv s" "sec_tool_call E c mid name i input s = (s', fl)" "ok c i"
  shows "turns_inv s'"
proof (cases "\<exists>tu. hm_get (tg_turns s) c = Some tu \<and> \<not> is_finalizing tu")
  case True
  then obtain tu where tu: "hm_get (tg_turns s) c = Some tu" "\<not> is_finalizing tu" by blast
  let ?tu = "start_tool_call mid name i input tu"
  have "Q c (tu_tool_calls ?tu) (tu_tool_call_order ?tu)"
    using turns_inv_get [OF assms(1) tu(1)] tools_start assms(3)
    by (simp add: start_tool_call_def Let_def)
  then show ?thesis using assms(1,2) tu
    by (auto simp: sec_tool_call_def intro!: turns_inv_put split: prod.splits)
next
  case False
  then show ?thesis using assms by (auto simp: sec_tool_call_def split: option.splits if_splits)
qed

lemma update_inv:
  assumes "turns_inv s" "sec_tool_call_update E c i st out input ex s = (s', fl)"
  shows "turns_inv s'"
proof (cases "\<exists>tu t. hm_get (tg_turns s) c = Some tu \<and> \<not> is_finalizing tu \<and> hm_get (tu_tool_calls tu) i = Some t
    \<and> \<not> is_terminal (tct_status t)")
  case True
  then obtain tu t where t: "hm_get (tg_turns s) c = Some tu" "\<not> is_finalizing tu"
    "hm_get (tu_tool_calls tu) i = Some t" "\<not> is_terminal (tct_status t)" by blast
  have "Q c (hm_insert i t' (tu_tool_calls tu)) (tu_tool_call_order tu)" for t'
    using tools_update turns_inv_get assms(1) t by blast
  then show ?thesis using assms t
    by (auto simp: sec_tool_call_update_def Let_def intro!: turns_inv_put split: prod.splits if_splits)
next
  case False
  then show ?thesis using assms
    by (auto simp: sec_tool_call_update_def split: prod.splits if_splits option.splits)
qed

lemma section_inv:
  assumes "turns_inv s" "run_section E c a s = (s', fl)" "\<And>mid name i input. a = Tool_Call mid name i input \<Longrightarrow> ok c i"
  shows "turns_inv s'"
proof (cases a)
  case (Thought_Append mid tx origin)
  then show ?thesis using assms
    by (auto simp: sec_thought_append_def Let_def intro: put_entered split: prod.splits)
next
  case (Chunk_Append mid tx)
  then show ?thesis using assms
    by (auto simp: sec_chunk_append_def Let_def intro: put_entered split: prod.splits)
next
  case (Record_Result mid err tx)
  obtain tu s1 where e: "enter_turn E c mid s = (tu, s1)" by fastforce
  show ?thesis using assms(2) Record_Result e
    by (cases "err \<and> tx \<noteq> []") (auto simp: sec_record_result_def Let_def intro!: put_entered(1) [OF assms(1) e])
next
  case (Set_Handle k n)
  then show ?thesis using assms
    by (auto simp: sec_set_handle_def Let_def intro!: upd_inv intro: put_get_abort
      split: prod.splits spawn_kind.splits option.splits)
next
  case (Store_Id st i)
  then show ?thesis using assms by (auto simp: sec_store_id_def intro!: upd_inv split: store.splits)
next
  case (Finalize_Take)
  then show ?thesis using assms
    by (auto simp: sec_finalize_take_def Let_def intro: claim_inv split: prod.splits option.splits if_splits)
next
  case (Response_Debounce_Claim acc)
  then show ?thesis using assms
    by (auto simp: sec_response_debounce_claim_def Let_def intro: claim_inv split: prod.splits option.splits if_splits)
next
  case (Tool_Call mid name i input)
  then show ?thesis using assms start_inv [OF assms(1)] by auto
next
  case (Tool_Call_Update i st out input ex)
  then show ?thesis using assms update_inv [OF assms(1)] by auto
qed (use assms(1,2) in \<open>auto simp: sec_flush_if_different_def sec_return_if_suppressed_def sec_flush_if_finalizing_def
  sec_edit_if_cooled_def sec_debounce_first_def sec_discard_stale_result_def sec_collapse_for_result_def
  sec_thought_debounce_edit_def sec_response_debounce_read_def Let_def
  intro!: upd_inv turns_inv_remove intro: put_get put_get_abort dest: flush_inv
  split: prod.splits option.splits if_splits\<close>)

lemma instr_inv:
  assumes "turns_inv s" "run_instr E c i rest s = (s', rest')" "instr_for ok c i"
  shows "turns_inv s'"
proof (cases i)
  case (Act a)
  obtain s1 fl where r: "run_section E c a s = (s1, fl)" by fastforce
  have "turns_inv s1" by (rule section_inv [OF assms(1) r]) (use assms(3) Act in auto)
  then show ?thesis using assms(2) Act r by (cases fl) auto
next
  case (Call retry n a err st)
  then show ?thesis using assms by (auto simp: Let_def turns_inv_log split: api_outcome.splits if_splits)
next
  case (Spawn k)
  then show ?thesis using assms by (auto simp: turns_inv_def)
qed (use assms in \<open>auto simp: turns_inv_log\<close>)

lemma step_inv:
  assumes "turns_inv s" "tg_ok ok s"
  shows "turns_inv (tg_step E ch s)"
proof -
  have fields: "turns_inv (s'\<lparr>tg_main := m, tg_tick := k\<rparr>) = turns_inv s'" "turns_inv (s'\<lparr>tg_main := m\<rparr>) = turns_inv s'"
    "turns_inv (s'\<lparr>tg_tick := k\<rparr>) = turns_inv s'"
    "turns_inv (drop_task n s') = turns_inv s'" "turns_inv (put_prog n p s') = turns_inv s'" for s' m k n p
    by (simp_all add: turns_inv_def drop_task_def)
  have main: "turns_inv s'" if "tg_main s = Some (c, i # rest)" "run_instr E c i rest s = (s', rest')" for c i rest s' rest'
    using instr_inv [OF assms(1) that(2)] tg_okD(3) [OF assms(2) that(1)] by simp
  have task: "turns_inv s'" if "hm_get (tg_tasks s) n = Some t" "tk_prog t = i # rest" "run_instr E (tk_chat t) i rest s = (s', rest')"
    for n t i rest s' rest'
    using instr_inv [OF assms(1) that(3)] tg_okD(2) [OF assms(2) hm_get_set [OF that(1)]] that(2) by simp
  show ?thesis
    using assms(1) main task
    by (auto simp: tg_step_def step_main_def step_task_def deliver_to_chat_def Let_def fields
      split: choice.splits option.splits list.splits prod.splits)
qed

lemma run_inv:
  assumes "turns_inv s" "tg_ok ok s"
    and "\<And>sid content c name i input. Deliver sid content \<in> set cs \<Longrightarrow> hm_get (tg_session_chat_map s) sid = Some c
      \<Longrightarrow> from_content content = Kind_ToolCall name i input \<Longrightarrow> ok c i"
  shows "turns_inv (tg_run E cs s)"
  using assms
proof (induction cs arbitrary: s)
  case (Cons ch cs)
  have ok: "tg_ok ok (tg_step E ch s)" "tg_session_chat_map (tg_step E ch s) = tg_session_chat_map s"
    using step_ok [OF Cons.prems(2), of ch E] Cons.prems(3) by (metis list.set_intros(1))+
  have "turns_inv (tg_run E cs (tg_step E ch s))"
    by (rule Cons.IH [OF step_inv [OF Cons.prems(1,2)] ok(1)]) (metis Cons.prems(3) ok(2) list.set_intros(2))
  then show ?case by (simp add: tg_run_def)
qed (simp add: tg_run_def)

end

text \<open>A listed tool call is tracked: rendering shows every call of the turn.\<close>

interpretation listed: tools_invariant
  "\<lambda>c m ids. hm_ok m \<and> set ids = fst ` set m" "\<lambda>_ _. True"
proof (unfold_locales, goal_cases)
  case (3 c m ids i t t')
  then have "i \<in> fst ` set m" using hm_get_set by (metis fst_conv image_eqI)
  then show ?case using 3 by (auto simp: hm_keys_insert)
qed (auto simp: hm_keys_insert)

text \<open>A finished tool call keeps its status unless it is started again.\<close>

definition status_in :: "string \<Rightarrow> call_status \<Rightarrow> (string, tool_call_track) hmap \<Rightarrow> bool" where
  "status_in i st m \<longleftrightarrow> (\<forall>t. hm_get m i = Some t \<longrightarrow> tct_status t = st)"

interpretation finished: tools_invariant
  "\<lambda>c' m ids. c' = c \<and> is_terminal st \<longrightarrow> status_in i st m" "\<lambda>c' i'. \<not> (c' = c \<and> i' = i)" for c i st
  by unfold_locales (auto simp: status_in_def)

end
