(* ===== verification/Telegram_Progress.thy ===== *)
theory Telegram_Progress
  imports Telegram_Runs "HOL-Library.Multiset"
begin

text \<open>
  The programs of the Telegram channel end.  An instruction has a rank; running it puts only
  instructions of a smaller rank in its place, so the ranks of what is left of a program decrease in the
  multiset order, however long a text has to be split and whatever Telegram answers.
\<close>

section \<open>Ranks\<close>

fun act_rank :: "act \<Rightarrow> nat" where
  "act_rank (Set_Handle k n) = 0"
| "act_rank (Store_Id st i) = 0"
| "act_rank (Chunk_Append mid t) = 12"
| "act_rank Response_Debounce_Read = 12"
| "act_rank _ = 11"

fun instr_rank :: "instr \<Rightarrow> nat" where
  "instr_rank Sleep = 0"
| "instr_rank Panic = 0"
| "instr_rank (Act a) = act_rank a"
| "instr_rank (Spawn k) = 1"
| "instr_rank (Call retry n c err st) = 1 + (MAX_RETRY_ATTEMPTS - n) + sum_list (map instr_rank err)"

definition work_left :: "instr list \<Rightarrow> nat multiset" where
  "work_left p = mset (map instr_rank p)"

definition below :: "nat \<Rightarrow> instr list \<Rightarrow> bool" where
  "below r p \<longleftrightarrow> (\<forall>i\<in>set p. instr_rank i < r)"

lemma below_simps [simp]:
  "below r []" "below r (i # p) \<longleftrightarrow> instr_rank i < r \<and> below r p" "below r (p @ q) \<longleftrightarrow> below r p \<and> below r q"
  by (auto simp: below_def)

lemma below_map: "(\<And>x. instr_rank (f x) < r) \<Longrightarrow> below r (map f xs)"
  by (simp add: below_def)

lemma op_rank [simp]: "instr_rank (retry_op c) = 4" "instr_rank (plain_op c) = 4"
  by (simp_all add: retry_op_def plain_op_def MAX_RETRY_ATTEMPTS_def)

lemma below_chunks: "0 < r \<Longrightarrow> (\<And>cs. below r (k cs)) \<Longrightarrow> below r (with_chunks t k)"
  by (simp add: with_chunks_def split: option.splits)

lemma below_flush: "4 < r \<Longrightarrow> below r (send_flush E emoji c f)"
  by (auto simp: send_flush_def collapse_op_def intro!: below_chunks below_map split: option.splits)

lemma below_final: "10 < r \<Longrightarrow> below r (send_or_edit_final E c text m)"
  by (auto simp: send_or_edit_final_def MAX_RETRY_ATTEMPTS_def intro!: below_chunks below_map)

lemma below_flush_turn: "flush_turn E c tu s = (s', Go is) \<Longrightarrow> below 11 is"
  by (auto simp: flush_turn_def Let_def below_flush split: prod.splits)

lemma section_below:
  assumes "run_section E c a s = (s', Go is)"
  shows "below (act_rank a) is"
proof (cases a)
  case (Chunk_Append mid t)
  then show ?thesis using assms
    by (auto simp: sec_chunk_append_def Let_def intro!: below_chunks below_map split: prod.splits if_splits)
next
  case (Tool_Call mid name i input)
  then show ?thesis using assms
    by (auto simp: sec_tool_call_def Let_def MAX_RETRY_ATTEMPTS_def split: prod.splits if_splits option.splits)
next
  case (Tool_Call_Update i st out input ex)
  then show ?thesis using assms
    by (auto simp: sec_tool_call_update_def Let_def split: prod.splits if_splits option.splits)
next
  case Finalize_Take
  then show ?thesis using assms
    by (auto simp: sec_finalize_take_def below_final split: prod.splits if_splits option.splits)
next
  case (Response_Debounce_Claim acc)
  then show ?thesis using assms
    by (auto simp: sec_response_debounce_claim_def MAX_RETRY_ATTEMPTS_def intro!: below_chunks
      split: prod.splits if_splits option.splits)
qed (use assms in \<open>auto simp: sec_flush_if_different_def sec_return_if_suppressed_def sec_flush_if_finalizing_def
  sec_thought_append_def sec_edit_if_cooled_def sec_debounce_first_def sec_discard_stale_result_def
  sec_collapse_for_result_def sec_record_result_def collapse_op_def sec_set_handle_def sec_store_id_def
  sec_thought_debounce_edit_def sec_response_debounce_read_def Let_def MAX_RETRY_ATTEMPTS_def
  intro!: below_chunks dest!: below_flush_turn
  split: prod.splits option.splits if_splits store.splits spawn_kind.splits\<close>)

lemma work_left_decreases:
  assumes "below (instr_rank i) is"
  shows "(work_left (is @ rest), work_left (i # rest)) \<in> mult less_than"
  using one_step_implies_mult [of "{#instr_rank i#}" "work_left is" less_than "work_left rest"] assms
  by (auto simp: work_left_def below_def ac_simps)

lemma work_left_empty: "(work_left [], work_left (i # rest)) \<in> mult less_than"
  using one_step_implies_mult [of "work_left (i # rest)" "{#}" less_than "{#}"] by (simp add: work_left_def)

lemma call_below:
  assumes "run_instr E c (Call retry n a err st) rest s = (s', rest')"
  obtains "is" where "rest' = is @ rest" "below (instr_rank (Call retry n a err st)) is"
proof -
  have "instr_rank i \<le> sum_list (map instr_rank err)" if "i \<in> set err" for i
    using that by (simp add: member_le_sum_list)
  then have "below (instr_rank (Call retry n a err st)) err" by (fastforce simp: below_def)
  then show thesis using assms that
    by (auto simp: Let_def store_instrs_def split: api_outcome.splits if_splits)
qed

lemma instr_decreases:
  assumes "run_instr E c i rest s = (s', rest')"
  shows "(work_left rest', work_left (i # rest)) \<in> mult less_than"
proof (cases i)
  case (Act a)
  obtain s1 fl where r: "run_section E c a s = (s1, fl)" by fastforce
  show ?thesis
  proof (cases fl)
    case (Go "is")
    then show ?thesis using section_below r assms Act work_left_decreases [of i "is" rest] by auto
  next
    case Return
    then show ?thesis using r assms Act work_left_empty by auto
  qed
next
  case (Call retry n a err st)
  then show ?thesis using assms work_left_decreases by (metis call_below)
next
  case (Spawn k)
  then show ?thesis using assms work_left_decreases [of i "[Act (Set_Handle k (tg_next s))]" rest] by auto
next
  case Sleep
  then show ?thesis using assms work_left_decreases [of i "[]" rest] by auto
next
  case Panic
  then show ?thesis using assms work_left_empty by auto
qed


section \<open>Fair schedules\<close>

text \<open>
  Something is left to do, each of its own steps makes that smaller and no other step makes it
  larger: under a schedule that comes back to it again and again it ends.
\<close>

locale progress =
  fixes step :: "'c \<Rightarrow> 's \<Rightarrow> 's" and left :: "'s \<Rightarrow> 'm option" and r :: "'m rel" and mine :: 'c and inv :: "'s \<Rightarrow> bool"
  assumes wf_left: "wf r"
    and own_step: "inv s \<Longrightarrow> left s = Some w \<Longrightarrow> left (step mine s) = Some w' \<Longrightarrow> (w', w) \<in> r"
    and other_step: "inv s \<Longrightarrow> c \<noteq> mine \<Longrightarrow> left s = Some w \<Longrightarrow> left (step c s) \<in> {None, Some w}"
    and inv_step: "inv s \<Longrightarrow> inv (step c s)"
begin

definition state :: "(nat \<Rightarrow> 'c) \<Rightarrow> 's \<Rightarrow> nat \<Rightarrow> 's" where
  "state sched s n = fold step (map sched [0..<n]) s"

lemma state_Suc: "state sched s (Suc n) = step (sched n) (state sched s n)"
  by (simp add: state_def)

lemma inv_state: "inv s \<Longrightarrow> inv (state sched s n)"
  by (induction n) (simp_all add: state_def inv_step)

lemma waits_own:
  assumes "inv s" "left (state sched s n) = Some w" "\<And>k. n \<le> k \<Longrightarrow> k < n + d \<Longrightarrow> sched k \<noteq> mine"
    and "\<And>k. n \<le> k \<Longrightarrow> left (state sched s k) \<noteq> None"
  shows "left (state sched s (n + d)) = Some w"
  using assms(3)
proof (induction d)
  case 0
  then show ?case using assms(2) by simp
next
  case (Suc d)
  then have IH: "left (state sched s (n + d)) = Some w" by simp
  have "sched (n + d) \<noteq> mine" using Suc.prems by simp
  from other_step [OF inv_state [OF assms(1)] this IH] assms(4) [of "n + Suc d"] show ?case
    by (auto simp: state_Suc)
qed

lemma ends:
  assumes "inv s" and fair: "\<And>n. \<exists>m\<ge>n. sched m = mine"
  shows "\<exists>m\<ge>n. left (state sched s m) = None"
proof (rule ccontr)
  assume "\<not> ?thesis"
  then have busy: "left (state sched s k) \<noteq> None" if "n \<le> k" for k using that by auto
  have "n \<le> k \<Longrightarrow> left (state sched s k) \<noteq> Some w" for k w
    using wf_left
  proof (induction w arbitrary: k)
    case (less w)
    show ?case
    proof
      assume w: "left (state sched s k) = Some w"
      define d where "d = (LEAST d. sched (k + d) = mine)"
      have ex: "\<exists>d. sched (k + d) = mine" using fair [of k] by (metis le_Suc_ex)
      then have d: "sched (k + d) = mine" unfolding d_def by (rule LeastI_ex)
      have before: "sched j \<noteq> mine" if "k \<le> j" "j < k + d" for j
        using not_less_Least [of "j - k" "\<lambda>d. sched (k + d) = mine"] that by (auto simp: d_def [symmetric])
      have at: "left (state sched s (k + d)) = Some w"
        by (rule waits_own [OF assms(1) w before]) (use busy less.prems in auto)
      obtain w' where w': "left (state sched s (Suc (k + d))) = Some w'" using busy [of "Suc (k + d)"] less.prems by auto
      then have "(w', w) \<in> r"
        using own_step [OF inv_state [OF assms(1)] at] d by (simp add: state_Suc)
      from less.IH [OF this, of "Suc (k + d)"] w' less.prems show False by simp
    qed
  qed
  then show False using busy [of n] by auto
qed

end


section \<open>Deliveries and timers end\<close>

definition main_left :: "tg \<Rightarrow> nat multiset option" where
  "main_left s = map_option (work_left \<circ> snd) (tg_main s)"

definition task_left :: "nat \<Rightarrow> tg \<Rightarrow> nat multiset option" where
  "task_left n s = map_option (work_left \<circ> tk_prog) (hm_get (tg_tasks s) n)"

lemma instr_keeps:
  assumes "run_instr E c i rest s = (s', rest')"
  shows "tg_main s' = tg_main s \<and> tasks_frame ok c s s'"
proof (cases i)
  case (Act a)
  obtain s1 fl where r: "run_section E c a s = (s1, fl)" by fastforce
  then have "step_frame ok c s s1" using section_frame sec_step_frame by blast
  then show ?thesis using assms Act r by (cases fl) (auto simp: step_frame_def)
next
  case (Spawn k)
  then show ?thesis using assms spawn_frame [of E c k rest s s' rest'] by (auto simp: step_frame_def)
qed (use assms in \<open>auto simp: Let_def log_ev_def tasks_frame_def split: api_outcome.splits if_splits\<close>)

lemma main_decreases:
  assumes "main_left s = Some w" "main_left (step_main E s) = Some w'"
  shows "(w', w) \<in> mult less_than"
proof -
  obtain c p where m: "tg_main s = Some (c, p)" "w = work_left p" using assms(1) by (auto simp: main_left_def)
  then obtain i rest where p: "p = i # rest" using assms(2) by (cases p) (auto simp: main_left_def step_main_def)
  obtain s1 rest' where r: "run_instr E c i rest s = (s1, rest')" by fastforce
  have "w' = work_left rest'" using assms(2) m p r by (auto simp: main_left_def step_main_def)
  then show ?thesis using instr_decreases [OF r] m p by simp
qed

lemma step_task_main: "tg_main (step_task E n s) = tg_main s"
  by (auto simp: step_task_def drop_task_def Let_def split: option.splits list.splits prod.splits dest: instr_keeps)

lemma main_waits:
  assumes "ch \<noteq> Run_Main" "main_left s = Some w"
  shows "main_left (tg_step E ch s) \<in> {None, Some w}"
  using assms
  by (cases ch) (auto simp: tg_step_def main_left_def step_task_main drop_task_def split: option.splits)

lemma hm_get_map_entry: "hm_get (map (\<lambda>(k, t). (k, f k t)) m) n = map_option (f n) (hm_get m n)"
  by (induction m) (auto simp: hm_get_def)

lemma put_prog_get:
  "hm_get (tg_tasks (put_prog n p s)) k
    = map_option (\<lambda>t. if k = n then t\<lparr>tk_prog := p\<rparr> else t) (hm_get (tg_tasks s) k)"
  unfolding put_prog_def by (simp add: hm_get_map_entry)

lemma task_decreases:
  assumes "task_left n s = Some w" "task_left n (step_task E n s) = Some w'"
  shows "(w', w) \<in> mult less_than"
proof -
  obtain t where t: "hm_get (tg_tasks s) n = Some t" "w = work_left (tk_prog t)"
    using assms(1) by (auto simp: task_left_def)
  then obtain i rest where p: "tk_prog t = i # rest"
    using assms(2) by (cases "tk_prog t") (auto simp: task_left_def step_task_def drop_task_def)
  obtain s1 rest' where r: "run_instr E (tk_chat t) i rest s = (s1, rest')" by fastforce
  have "w' = work_left rest'" using assms(2) t p r
    by (auto simp: task_left_def step_task_def drop_task_def put_prog_get Let_def split: if_splits)
  then show ?thesis using instr_decreases [OF r] t p by simp
qed

lemma frame_task_left:
  assumes "tg_ok ok s" "tasks_frame ok c s s'" "task_left n s = Some w"
  shows "task_left n s' \<in> {None, Some w}"
proof (cases "hm_get (tg_tasks s') n")
  case None
  then show ?thesis by (simp add: task_left_def)
next
  case (Some t')
  obtain t where t: "hm_get (tg_tasks s) n = Some t" "w = work_left (tk_prog t)" using assms(3) by (auto simp: task_left_def)
  have "n < tg_next s" using tg_okD(2) [OF assms(1) hm_get_set [OF t(1)]] by simp
  then obtain t0 where "(n, t0) \<in> set (tg_tasks s)" "tk_prog t' = tk_prog t0"
    using frame_task [OF assms(2) hm_get_set [OF Some]] by (metis less_irrefl)
  moreover have "t0 = t" using calculation(1) t(1) hm_get_iff [OF tg_okD(1) [OF assms(1)]] by (metis option.inject)
  ultimately show ?thesis using Some t(2) by (simp add: task_left_def)
qed

lemma left_after [simp]:
  "task_left n (s\<lparr>tg_main := m, tg_tick := k\<rparr>) = task_left n s"  "task_left n (s\<lparr>tg_tick := k\<rparr>) = task_left n s"
  "task_left n (s\<lparr>tg_main := m\<rparr>) = task_left n s"
  "task_left n (drop_task i s) = (if i = n then None else task_left n s)"
  "i \<noteq> n \<Longrightarrow> task_left n (put_prog i p s) = task_left n s"
  by (auto simp: task_left_def drop_task_def put_prog_get option.map_comp comp_def)

lemma other_task:
  assumes "tg_ok ok s" "i \<noteq> n" "task_left n s = Some w"
  shows "task_left n (step_task E i s) \<in> {None, Some w}"
proof (cases "hm_get (tg_tasks s) i")
  case (Some t)
  show ?thesis
  proof (cases "tk_prog t")
    case (Cons j rest)
    obtain s1 rest' where r: "run_instr E (tk_chat t) j rest s = (s1, rest')" by fastforce
    have "task_left n s1 \<in> {None, Some w}" using frame_task_left [OF assms(1) _ assms(3)] instr_keeps [OF r] by blast
    then show ?thesis using Some Cons r assms(2,3) by (simp add: step_task_def Let_def)
  qed (use Some assms in \<open>simp add: step_task_def\<close>)
qed (use assms in \<open>simp add: step_task_def\<close>)

lemma task_waits:
  assumes "tg_ok ok s" "ch \<noteq> Run_Task n" "task_left n s = Some w"
  shows "task_left n (tg_step E ch s) \<in> {None, Some w}"
proof (cases ch)
  case Run_Main
  show ?thesis
  proof (cases "tg_main s")
    case (Some cp)
    obtain c p where m: "tg_main s = Some (c, p)" using Some by (cases cp) auto
    show ?thesis
    proof (cases p)
      case (Cons j rest)
      obtain s1 rest' where r: "run_instr E c j rest s = (s1, rest')" by fastforce
      have "task_left n s1 \<in> {None, Some w}" using frame_task_left [OF assms(1) _ assms(3)] instr_keeps [OF r] by blast
      then show ?thesis using Run_Main m Cons r by (simp add: tg_step_def step_main_def)
    qed (use Run_Main m assms in \<open>simp add: tg_step_def step_main_def\<close>)
  qed (use Run_Main assms in \<open>simp add: tg_step_def step_main_def\<close>)
next
  case (Run_Task i)
  then show ?thesis using other_task [OF assms(1) _ assms(3)] assms(2) by (simp add: tg_step_def)
qed (use assms(3) in \<open>auto simp: tg_step_def deliver_to_chat_def split: option.splits\<close>)

lemma any_step_ok: "tg_ok (\<lambda>_ _. True) s \<Longrightarrow> tg_ok (\<lambda>_ _. True) (tg_step E ch s)"
  using step_ok by blast

interpretation delivery: progress "tg_step E" main_left "mult less_than" Run_Main "\<lambda>_. True" for E
proof
  show "(w', w) \<in> mult less_than" if "main_left s = Some w" "main_left (tg_step E Run_Main s) = Some w'" for s w w'
    using that main_decreases [of s w E w'] by (simp add: tg_step_def)
qed (use main_waits wf_mult [OF wf_less_than] in auto)

interpretation timer: progress "tg_step E" "task_left n" "mult less_than" "Run_Task n" "tg_ok (\<lambda>_ _. True)" for E n
proof
  show "(w', w) \<in> mult less_than" if "task_left n s = Some w" "task_left n (tg_step E (Run_Task n) s) = Some w'" for s w w'
    using that task_decreases [of n s w E w'] by (simp add: tg_step_def)
qed (use task_waits any_step_ok wf_mult [OF wf_less_than] in auto)
end
