(* ===== verification/Channel_Contract.thy ===== *)
theory Channel_Contract
  imports Channel_Sdk
begin

text \<open>
  What the harness does to the channel it drives (\<open>crates/anyclaw-sdk-channel/src/harness.rs\<close>): a part of the
  channel's state that the methods of the trait leave alone is left alone by the harness, and a line of input
  only makes it register permission requests and write responses.
\<close>

section \<open>What a channel leaves alone\<close>

text \<open>
  A part of the state of a channel that none of its methods changes: no input of the harness changes it
  either.
\<close>

locale channel_keeps =
  fixes C :: "'s channel_impl" and part :: "'s \<Rightarrow> 'a"
  assumes keeps_initialize: "part (snd (ci_on_initialize C p s)) = part s"
    and keeps_ready: "part (snd (ci_on_ready C s)) = part s"
    and keeps_deliver: "part (snd (ci_deliver_message C d s)) = part s"
    and keeps_session: "part (snd (ci_on_session_created C m s)) = part s"
    and keeps_prompt: "part (snd (ci_show_permission_prompt C req s)) = part s"
    and keeps_unknown: "part (snd (ci_handle_unknown C meth v s)) = part s"
begin

lemma call_keeps:
  assumes "\<And>s. part (snd (f s)) = part s" and "\<And>h. part (hs_channel (k h)) = part (hs_channel h)"
  shows "part (hs_channel (call_channel f k h)) = part (hs_channel h)"
proof -
  obtain r c where r: "f (hs_channel h) = (r, c)" by fastforce
  then show ?thesis using assms(1) [of "hs_channel h"] assms(2) by (cases r) (simp_all add: call_channel_def)
qed

lemma write_channel [simp]: "hs_channel (harness_write E ev h) = hs_channel h"
  by (simp add: harness_write_def split: option.splits)

lemma respond_channel [simp]: "hs_channel (respond E i resp h) = hs_channel h"
  by (simp add: respond_def split: option.splits)

lemma initialize_keeps: "part (hs_channel (dispatch_initialize E C i v h)) = part (hs_channel h)"
  by (auto simp: dispatch_initialize_def Let_def keeps_initialize keeps_ready intro!: call_keeps split: option.splits)

lemma permission_keeps: "part (hs_channel (dispatch_permission E C i v h)) = part (hs_channel h)"
  using call_keeps [of "ci_show_permission_prompt C req" id for req]
  by (simp add: dispatch_permission_def keeps_prompt split: option.splits)

lemma other_keeps: "part (hs_channel (dispatch_other E C meth i v h)) = part (hs_channel h)"
  using keeps_unknown [of meth v "hs_channel h"] by (auto simp: dispatch_other_def split: prod.splits)

lemma dispatch_keeps: "part (hs_channel (dispatch E C req h)) = part (hs_channel h)"
  using call_keeps [of "ci_deliver_message C d" id for d] call_keeps [of "ci_on_session_created C m" id for m]
  by (simp add: dispatch_def Let_def initialize_keeps permission_keeps other_keeps keeps_deliver keeps_session
    split: option.splits)

lemma step_keeps: "part (hs_channel (harness_step E C x h)) = part (hs_channel h)"
  by (simp add: harness_step_def drained_def write_outbound_def flush_permission_def dispatch_keeps
    split: harness_phase.splits harness_input.splits option.splits)

end

text \<open>A line makes the harness register requests and write responses, nothing else.\<close>

definition line_event :: "harness_event \<Rightarrow> bool" where
  "line_event ev \<longleftrightarrow> (case ev of Ev_Registered _ _ \<Rightarrow> True | Ev_Response _ \<Rightarrow> True | _ \<Rightarrow> False)"

definition line_events :: "'s harness \<Rightarrow> 's harness \<Rightarrow> bool" where
  "line_events h h' \<longleftrightarrow> (\<exists>evs. hs_trace h' = hs_trace h @ evs \<and> list_all line_event evs)"

lemma line_events_refl: "hs_trace h' = hs_trace h \<Longrightarrow> line_events h h'"
  by (simp add: line_events_def)

lemma line_events_trans: "line_events h h' \<Longrightarrow> line_events h' h'' \<Longrightarrow> line_events h h''"
  by (fastforce simp: line_events_def)

lemma line_write: "line_event ev \<Longrightarrow> line_events h (harness_write E ev h)"
  by (auto simp: harness_write_def line_events_def split: option.splits)

lemma line_respond: "line_events h (respond E i resp h)"
  by (simp add: respond_def line_write line_event_def line_events_refl split: option.splits)

lemma line_channel: "line_events (h\<lparr>hs_channel := c\<rparr>) h' = line_events h h'"
  by (simp add: line_events_def)

lemma line_call:
  assumes "\<And>h'. line_events h' (k h')"
  shows "line_events h (call_channel f k h)"
proof -
  obtain r c where r: "f (hs_channel h) = (r, c)" by fastforce
  then show ?thesis using assms [of "h\<lparr>hs_channel := c\<rparr>"]
    by (cases r) (simp_all add: call_channel_def line_channel line_events_refl)
qed

lemma line_id: "line_events h (id h)"
  by (simp add: line_events_refl)

lemma line_permission: "line_events h (dispatch_permission E C i v h)"
proof -
  have "line_events h (h\<lparr>hs_pending := p, hs_trace := hs_trace h @ [Ev_Registered r j]\<rparr>)" for p r j
    by (simp add: line_events_def line_event_def)
  then have "line_events h (call_channel (ci_show_permission_prompt C x) id
      (h\<lparr>hs_pending := p, hs_trace := hs_trace h @ [Ev_Registered r j]\<rparr>))" for x p r j
    by (rule line_events_trans) (rule line_call [OF line_id])
  then show ?thesis
    by (simp add: dispatch_permission_def line_events_refl line_call [OF line_id] split: option.splits)
qed

lemma line_dispatch: "line_events h (dispatch E C req h)"
proof -
  have other: "line_events h (dispatch_other E C meth i v h)" for meth i v
    using line_respond [of "h\<lparr>hs_channel := c\<rparr>" for c] by (simp add: dispatch_other_def line_channel split: prod.splits)
  show ?thesis
    by (auto simp: dispatch_def dispatch_initialize_def Let_def
      intro: other line_permission line_events_refl line_id intro!: line_call line_respond split: option.splits)
qed

lemma line_step: "line_events h (harness_step E C (In_Line l) h)" "line_events h (harness_step E C In_Closed h)"
  by (auto simp: harness_step_def drained_def intro: line_dispatch line_events_refl
    split: harness_phase.splits option.splits)

end
