(* ===== verification/Channel_Process.thy ===== *)
theory Channel_Process
  imports Channel_Contract
begin

text \<open>
  A channel process: the harness of \<open>crates/anyclaw-sdk-channel/src/harness.rs\<close> driving a channel that has a life
  of its own (a dispatcher, an HTTP server, timers).  The channel sends messages and permission responses
  through the two queues it was given in \<open>on_ready\<close>; the harness takes them in the order in which they were sent.

  The contract of such a channel says what each event of its own puts into the queues and that the
  methods of the trait put nothing there.  From it follow, once for all channels, that messages reach the
  supervisor once and in order and that a permission is answered only by a response the channel gave.
\<close>

section \<open>The process\<close>

record ('s, 'u) channel_process =
  cp_channel :: "'s channel_impl"
  cp_out :: "'s \<Rightarrow> channel_send_message list"
  cp_perm :: "'s \<Rightarrow> permission_response list"
  cp_set_out :: "channel_send_message list \<Rightarrow> 's \<Rightarrow> 's"
  cp_set_perm :: "permission_response list \<Rightarrow> 's \<Rightarrow> 's"
  cp_event :: "'u \<Rightarrow> 's \<Rightarrow> 's"

datatype 'u process_input =
    Stdin string
  | Stdin_Closed
  | Take_Outbound
  | Take_Permission
  | Event 'u

definition running :: "'s harness \<Rightarrow> bool" where
  "running h \<longleftrightarrow> (case hs_phase h of Returned _ \<Rightarrow> False | _ \<Rightarrow> True)"

definition upd_channel :: "('s \<Rightarrow> 's) \<Rightarrow> 's harness \<Rightarrow> 's harness" where
  "upd_channel f h = h\<lparr>hs_channel := f (hs_channel h)\<rparr>"

definition process_step ::
  "harness_env \<Rightarrow> ('s, 'u) channel_process \<Rightarrow> 'u process_input \<Rightarrow> 's harness \<Rightarrow> 's harness" where
  "process_step H P x h =
     (if \<not> running h then h
      else (case x of
              Stdin line \<Rightarrow> harness_step H (cp_channel P) (In_Line line) h
            | Stdin_Closed \<Rightarrow> harness_step H (cp_channel P) In_Closed h
            | Take_Outbound \<Rightarrow>
                (case cp_out P (hs_channel h) of
                   [] \<Rightarrow> h
                 | m # ms \<Rightarrow> harness_step H (cp_channel P) (In_Outbound m) (upd_channel (cp_set_out P ms) h))
            | Take_Permission \<Rightarrow>
                (case cp_perm P (hs_channel h) of
                   [] \<Rightarrow> h
                 | r # rs \<Rightarrow> harness_step H (cp_channel P) (In_Permission r) (upd_channel (cp_set_perm P rs) h))
            | Event u \<Rightarrow> upd_channel (cp_event P u) h))"

definition process_run ::
  "harness_env \<Rightarrow> ('s, 'u) channel_process \<Rightarrow> 'u process_input list \<Rightarrow> 's \<Rightarrow> 's harness" where
  "process_run H P xs s = fold (process_step H P) xs (harness_new s)"


section \<open>Specifications\<close>

text \<open>The notifications in a trace, and the one a message is sent as.\<close>

definition notified :: "harness_event list \<Rightarrow> json_rpc_request list" where
  "notified tr = List.map_filter (\<lambda>e. case e of Ev_Request r \<Rightarrow> Some r | _ \<Rightarrow> None) tr"

definition send_request :: "harness_env \<Rightarrow> channel_send_message \<Rightarrow> json_rpc_request" where
  "send_request H m = request_new ''channel/sendMessage'' None (Some (he_send_message_json H m))"

text \<open>The messages of the events of a run, as they come in: \<open>sent u s\<close> are those of an event in a state.\<close>

fun accepted ::
  "('u \<Rightarrow> 's \<Rightarrow> channel_send_message list) \<Rightarrow> harness_env \<Rightarrow> ('s, 'u) channel_process \<Rightarrow> 'u process_input list
    \<Rightarrow> 's harness \<Rightarrow> channel_send_message list" where
  "accepted sent H P [] h = []"
| "accepted sent H P (x # xs) h =
     (case x of Event u \<Rightarrow> if running h then sent u (hs_channel h) else [] | _ \<Rightarrow> [])
     @ accepted sent H P xs (process_step H P x h)"

text \<open>An event gave a response to a request.\<close>

definition responded :: "('u \<Rightarrow> permission_response option) \<Rightarrow> 'u process_input list \<Rightarrow> string \<Rightarrow> string \<Rightarrow> bool" where
  "responded answer xs r opt \<longleftrightarrow>
     list_ex (\<lambda>x. case x of
         Event u \<Rightarrow> answer u = Some \<lparr>pr_request_id = r, pr_option_id = opt\<rparr>
       | _ \<Rightarrow> False) xs"

definition registered :: "'s harness \<Rightarrow> bool" where
  "registered h \<longleftrightarrow> (\<forall>r i. hm_get (hs_pending h) r = Some i \<longrightarrow> Ev_Registered r i \<in> set (hs_trace h))"


section \<open>The harness\<close>

lemma notified_append: "notified (a @ b) = notified a @ notified b"
  by (simp add: notified_def List.map_filter_def)

lemma notified_line: "line_events h h' \<Longrightarrow> notified (hs_trace h') = notified (hs_trace h)"
proof -
  assume "line_events h h'"
  then obtain evs where evs: "hs_trace h' = hs_trace h @ evs" "list_all line_event evs" by (auto simp: line_events_def)
  have "notified evs = []" using evs(2)
    by (induction evs) (auto simp: notified_def line_event_def List.map_filter_simps split: harness_event.splits)
  then show ?thesis using evs(1) by (simp add: notified_append)
qed

lemma take_outbound:
  assumes "running h" "\<And>n. he_write H n = None"
  shows "harness_step H C (In_Outbound m) h = h\<lparr>hs_trace := hs_trace h @ [Ev_Request (send_request H m)]\<rparr>"
  using assms by (auto simp: harness_step_def running_def write_outbound_def harness_write_def send_request_def
    split: harness_phase.splits)

lemma take_permission_trace:
  assumes "\<And>n. he_write H n = None"
  shows "notified (hs_trace (harness_step H C (In_Permission r) h)) = notified (hs_trace h)"
  using assms by (simp add: harness_step_def flush_permission_def harness_write_def drained_def notified_append
    split: harness_phase.splits option.splits) (simp add: notified_def List.map_filter_simps)

lemma running_upd [simp]: "running (upd_channel f h) = running h"
  by (simp add: running_def upd_channel_def)

text \<open>Every pending request was registered.\<close>

lemma registered_write: "registered h \<Longrightarrow> registered (harness_write E ev h)"
  by (auto simp: registered_def harness_write_def split: option.splits)

lemma registered_call: "registered h \<Longrightarrow> (\<And>h'. registered h' \<Longrightarrow> registered (k h')) \<Longrightarrow> registered (call_channel f k h)"
proof -
  assume h: "registered h" and k: "\<And>h'. registered h' \<Longrightarrow> registered (k h')"
  obtain r c where r: "f (hs_channel h) = (r, c)" by fastforce
  have "registered (h\<lparr>hs_channel := c\<rparr>)" using h by (simp add: registered_def)
  then show ?thesis using r k h by (cases r) (simp_all add: call_channel_def registered_def)
qed

lemma registered_respond: "registered h \<Longrightarrow> registered (respond E i resp h)"
  by (simp add: respond_def registered_write split: option.splits)

lemma registered_permission: "registered h \<Longrightarrow> registered (dispatch_permission E C i v h)"
  by (auto simp: dispatch_permission_def intro!: registered_call split: option.splits)
    (auto simp: registered_def)

lemma registered_dispatch:
  assumes "registered h"
  shows "registered (dispatch E C req h)"
proof -
  have "registered (h\<lparr>hs_channel := c\<rparr>)" for c using assms by (simp add: registered_def)
  then have "registered (dispatch_other E C meth i v h)" for meth i v
    by (simp add: dispatch_other_def registered_respond split: prod.splits)
  then show ?thesis
    using assms by (auto simp: dispatch_def dispatch_initialize_def Let_def
      intro: registered_permission intro!: registered_call registered_respond split: option.splits)
qed

lemma registered_flush: "registered h \<Longrightarrow> registered (flush_permission E r h)"
  by (auto simp: flush_permission_def registered_def harness_write_def split: option.splits)

lemma registered_step: "registered h \<Longrightarrow> registered (harness_step E C x h)"
proof -
  have phase: "registered (h\<lparr>hs_phase := p\<rparr>) = registered h" for h :: "'a harness" and p by (simp add: registered_def)
  assume "registered h"
  then show ?thesis
    by (auto simp: harness_step_def drained_def write_outbound_def phase registered_flush
      intro: registered_dispatch registered_write split: harness_phase.splits harness_input.splits option.splits)
qed

lemma registered_upd [simp]: "registered (upd_channel f h) = registered h"
  by (simp add: registered_def upd_channel_def)

lemma registered_process: "registered h \<Longrightarrow> registered (process_step H P x h)"
  by (auto simp: process_step_def registered_step split: process_input.splits list.splits)

lemma responded_snoc: "responded answer xs r opt \<Longrightarrow> responded answer (xs @ [x]) r opt"
  by (simp add: responded_def)

lemma responded_new:
  "answer u = Some p \<Longrightarrow> responded answer (xs @ [Event u]) (pr_request_id p) (pr_option_id p)"
  by (simp add: responded_def)

lemma accepted_Cons:
  "accepted sent H P (x # xs) h = accepted sent H P [x] h @ accepted sent H P xs (process_step H P x h)"
  by simp


section \<open>The contract\<close>

locale process_contract = queues: channel_keeps "cp_channel P" "\<lambda>s. (cp_out P s, cp_perm P s)"
  for P :: "('s, 'u) channel_process" +
  fixes sent :: "'u \<Rightarrow> 's \<Rightarrow> channel_send_message list" and answer :: "'u \<Rightarrow> permission_response option"
  assumes out_taken: "cp_out P (cp_set_out P ms s) = ms" "cp_perm P (cp_set_out P ms s) = cp_perm P s"
    and perm_taken: "cp_perm P (cp_set_perm P rs s) = rs" "cp_out P (cp_set_perm P rs s) = cp_out P s"
    and event_out: "cp_out P (cp_event P u s) = cp_out P s @ sent u s"
    and event_perm: "\<exists>rs. cp_perm P (cp_event P u s) = cp_perm P s @ rs \<and> set rs \<subseteq> set_option (answer u)"
begin

lemma out_step: "cp_out P (hs_channel (harness_step H (cp_channel P) x h)) = cp_out P (hs_channel h)"
  and perm_step: "cp_perm P (hs_channel (harness_step H (cp_channel P) x h)) = cp_perm P (hs_channel h)"
  using queues.step_keeps [of H x h] by simp_all

lemma conserves_step:
  assumes "\<And>n. he_write H n = None"
  shows "notified (hs_trace (process_step H P x h)) @ map (send_request H) (cp_out P (hs_channel (process_step H P x h)))
    = notified (hs_trace h) @ map (send_request H) (cp_out P (hs_channel h) @ accepted sent H P [x] h)"
proof (cases "running h")
  case running: True
  show ?thesis
  proof (cases x)
    case (Stdin line)
    then show ?thesis
      using running notified_line [OF line_step(1), of H "cp_channel P" line h] by (simp add: process_step_def out_step)
  next
    case Stdin_Closed
    then show ?thesis
      using running notified_line [OF line_step(2), of H "cp_channel P" h] by (simp add: process_step_def out_step)
  next
    case Take_Outbound
    show ?thesis
    proof (cases "cp_out P (hs_channel h)")
      case (Cons m ms)
      have "running (upd_channel (cp_set_out P ms) h)" using running by simp
      from take_outbound [OF this assms] show ?thesis
        using Take_Outbound Cons running
        by (simp add: process_step_def upd_channel_def notified_append out_taken) (simp add: notified_def List.map_filter_simps)
    qed (use Take_Outbound running in \<open>simp add: process_step_def\<close>)
  next
    case Take_Permission
    show ?thesis
    proof (cases "cp_perm P (hs_channel h)")
      case (Cons r rs)
      then show ?thesis
        using Take_Permission running take_permission_trace [OF assms, of "cp_channel P" r "upd_channel (cp_set_perm P rs) h"]
        by (simp add: process_step_def out_step) (simp add: upd_channel_def perm_taken)
    qed (use Take_Permission running in \<open>simp add: process_step_def\<close>)
  next
    case (Event u)
    then show ?thesis using running by (simp add: process_step_def upd_channel_def event_out)
  qed
next
  case False
  then show ?thesis by (simp add: process_step_def split: process_input.splits)
qed

lemma conserves_run:
  assumes "\<And>n. he_write H n = None"
  shows "notified (hs_trace (fold (process_step H P) xs h))
      @ map (send_request H) (cp_out P (hs_channel (fold (process_step H P) xs h)))
    = notified (hs_trace h) @ map (send_request H) (cp_out P (hs_channel h) @ accepted sent H P xs h)"
proof (induction xs arbitrary: h)
  case (Cons x xs)
  show ?case using Cons.IH [of "process_step H P x h"] conserves_step [OF assms, of x h]
    unfolding accepted_Cons [of sent H P x xs] by simp
qed simp

text \<open>Every response that waits or was written was given by an event.\<close>

definition given :: "'u process_input list \<Rightarrow> 's harness \<Rightarrow> bool" where
  "given xs h \<longleftrightarrow>
     (\<forall>p\<in>set (cp_perm P (hs_channel h)). responded answer xs (pr_request_id p) (pr_option_id p))
     \<and> (\<forall>r resp. Ev_Answer r resp \<in> set (hs_trace h) \<longrightarrow>
          (\<exists>opt i. responded answer xs r opt \<and> Ev_Registered r i \<in> set (hs_trace h)
             \<and> resp = response_success (Some i) (permission_response_json \<lparr>pr_request_id = r, pr_option_id = opt\<rparr>)))"

lemma given_more: "given xs h \<Longrightarrow> given (xs @ [x]) h"
  unfolding given_def using responded_snoc by metis

lemma given_line:
  assumes "given xs h" "line_events h h'" "cp_perm P (hs_channel h') = cp_perm P (hs_channel h)"
  shows "given xs h'"
proof -
  obtain evs where evs: "hs_trace h' = hs_trace h @ evs" "list_all line_event evs" using assms(2) by (auto simp: line_events_def)
  have "Ev_Answer r resp \<in> set (hs_trace h') \<longleftrightarrow> Ev_Answer r resp \<in> set (hs_trace h)" for r resp
    using evs by (auto simp: list_all_iff line_event_def)
  then show ?thesis using assms(1,3) evs(1) by (simp add: given_def) fast
qed

lemma given_flush:
  assumes inv: "given xs h" "registered h" and q: "cp_perm P (hs_channel h) = r # rs"
  shows "given xs (flush_permission H r (upd_channel (cp_set_perm P rs) h))"
proof (cases "hm_get (hs_pending h) (pr_request_id r)")
  case (Some i)
  have "responded answer xs (pr_request_id r) (pr_option_id r)" using inv(1) q by (simp add: given_def)
  moreover have "Ev_Registered (pr_request_id r) i \<in> set (hs_trace h)" using inv(2) Some by (simp add: registered_def)
  moreover have "r = \<lparr>pr_request_id = pr_request_id r, pr_option_id = pr_option_id r\<rparr>" by simp
  ultimately have new: "\<exists>opt j. responded answer xs (pr_request_id r) opt \<and> Ev_Registered (pr_request_id r) j \<in> set (hs_trace h)
      \<and> response_success (Some i) (permission_response_json r)
        = response_success (Some j) (permission_response_json \<lparr>pr_request_id = pr_request_id r, pr_option_id = opt\<rparr>)"
    by metis
  have "given xs (upd_channel (cp_set_perm P rs) h)"
    using inv(1) q by (simp add: given_def upd_channel_def perm_taken)
  then show ?thesis using Some new
    by (auto simp: flush_permission_def harness_write_def given_def upd_channel_def split: option.splits)
next
  case None
  then show ?thesis using inv(1) q by (auto simp: flush_permission_def given_def upd_channel_def perm_taken)
qed

lemma given_drained: "given xs (drained h) = given xs h"
  by (simp add: drained_def given_def)

lemma given_outbound: "given xs (harness_step H C (In_Outbound m) h) = given xs h"
  by (simp add: harness_step_def write_outbound_def harness_write_def given_def split: harness_phase.splits option.splits)

lemma given_event:
  assumes "given xs h"
  shows "given (xs @ [Event u]) (upd_channel (cp_event P u) h)"
proof -
  obtain rs where rs: "cp_perm P (cp_event P u (hs_channel h)) = cp_perm P (hs_channel h) @ rs" "set rs \<subseteq> set_option (answer u)"
    using event_perm by blast
  have "responded answer (xs @ [Event u]) (pr_request_id p) (pr_option_id p)" if "p \<in> set rs" for p
    by (rule responded_new) (use rs(2) that in \<open>cases "answer u"; auto\<close>)
  then show ?thesis using rs(1) given_more [OF assms, of "Event u"] by (auto simp: given_def upd_channel_def)
qed

lemma given_step:
  assumes "given xs h" "registered h"
  shows "given (xs @ [x]) (process_step H P x h)"
proof (cases "running h")
  case running: True
  show ?thesis
  proof (cases x)
    case (Stdin line)
    have "given xs (harness_step H (cp_channel P) (In_Line line) h)"
      by (rule given_line [OF assms(1) line_step(1) perm_step])
    then show ?thesis using Stdin running given_more by (simp add: process_step_def)
  next
    case Stdin_Closed
    have "given xs (harness_step H (cp_channel P) In_Closed h)"
      by (rule given_line [OF assms(1) line_step(2) perm_step])
    then show ?thesis using Stdin_Closed running given_more by (simp add: process_step_def)
  next
    case Take_Outbound
    have "given xs (upd_channel (cp_set_out P ms) h)" for ms
      using assms(1) by (simp add: given_def upd_channel_def out_taken)
    then show ?thesis using Take_Outbound running given_more [OF assms(1)] given_more
      by (simp add: process_step_def given_outbound split: list.splits)
  next
    case Take_Permission
    show ?thesis
    proof (cases "cp_perm P (hs_channel h)")
      case (Cons r rs)
      let ?h = "upd_channel (cp_set_perm P rs) h"
      have "hs_phase ?h = Main_Loop \<or> hs_phase ?h = Drain"
        using running by (auto simp: running_def upd_channel_def split: harness_phase.splits)
      then have "given xs (harness_step H (cp_channel P) (In_Permission r) ?h)"
        using given_flush [OF assms Cons] by (auto simp: harness_step_def given_drained)
      then show ?thesis using Take_Permission Cons running given_more by (simp add: process_step_def)
    qed (use Take_Permission running given_more [OF assms(1)] in \<open>simp add: process_step_def\<close>)
  next
    case (Event u)
    then show ?thesis using running given_event [OF assms(1)] by (simp add: process_step_def)
  qed
qed (use given_more [OF assms(1)] in \<open>simp add: process_step_def\<close>)

lemma given_run:
  assumes "cp_perm P s = []"
  shows "given xs (process_run H P xs s) \<and> registered (process_run H P xs s)"
proof (induction xs rule: rev_induct)
  case Nil
  then show ?case using assms by (simp add: process_run_def given_def registered_def harness_new_def)
next
  case (snoc x xs)
  then show ?case
    using given_step [of xs "process_run H P xs s" x H] registered_process [of "process_run H P xs s" H P x]
    by (simp add: process_run_def)
qed

lemma messages_in_order:
  assumes "\<And>n. he_write H n = None" "cp_out P s = []"
  shows "map (send_request H) (accepted sent H P xs (harness_new s))
    = notified (hs_trace (process_run H P xs s)) @ map (send_request H) (cp_out P (hs_channel (process_run H P xs s)))"
  using conserves_run [OF assms(1), of xs "harness_new s"] assms(2)
  by (simp add: process_run_def harness_new_def notified_def List.map_filter_simps)

lemma answer_given:
  assumes "cp_perm P s = []" "Ev_Answer r resp \<in> set (hs_trace (process_run H P xs s))"
  shows "\<exists>opt i. responded answer xs r opt \<and> Ev_Registered r i \<in> set (hs_trace (process_run H P xs s))
    \<and> resp = response_success (Some i) (permission_response_json \<lparr>pr_request_id = r, pr_option_id = opt\<rparr>)"
  using given_run [OF assms(1), of xs H] assms(2) by (simp add: given_def)

end

end
