(* ===== verification/Telegram_Channel.thy ===== *)
theory Telegram_Channel
  imports Telegram_Progress Channel_Process
begin

text \<open>
  The Telegram channel as the harness sees it and its dispatcher of incoming updates:
  \<open>channel.rs\<close>, \<open>dispatcher.rs\<close> and \<open>process_callback\<close> of \<open>permissions.rs\<close>
  (\<open>src/ext/channels/telegram/src\<close>).

  The fields of a message are what the accessors of the Telegram library return.  The library's
  requests, the regular expressions and clocks of the delivery, lower-casing, base64 and the decoding of
  notifications are parameters.  While a delivery is awaited its timers go on: \<open>cv_sched\<close> says
  which of them run between two steps of the delivery.  The queues to the harness hold what was sent
  and not yet taken; a method and the handler of an update run in one step otherwise.
\<close>

section \<open>Messages\<close>

record tg_user =
  us_id :: nat
  us_username :: "string option"
  us_first_name :: string

datatype chat_kind = Private_Chat | Public_Group | Public_Supergroup | Public_Channel

record tg_chat =
  cha_id :: int
  cha_kind :: chat_kind

record photo_size =
  ph_file_id :: string
  ph_width :: u32
  ph_height :: u32

datatype media_kind =
    Media_Photo "photo_size list"
  | Media_Video
  | Media_Audio
  | Media_Voice
  | Media_VideoNote
  | Media_Animation
  | Media_Document
  | Media_Sticker
  | Media_Location
  | Media_Contact
  | Media_Other

record message_entity =
  ent_mention :: bool
  ent_offset :: nat
  ent_length :: nat

text \<open>What is read of the message replied to; then of the message itself.  A message that is not a common one has no media.\<close>

record tg_reply =
  mg_id :: int
  mg_from :: "tg_user option"
  mg_text :: "string option"
  mg_caption :: "string option"
  mg_media :: "media_kind option"

record tg_message = tg_reply +
  mg_chat :: tg_chat
  mg_thread_id :: "int option"
  mg_quote :: "string option"
  mg_entities :: "message_entity list option"
  mg_caption_entities :: "message_entity list option"
  mg_reply_to :: "tg_reply option"

record callback_query =
  cq_id :: string
  cq_data :: "string option"

datatype tg_update = Up_Message tg_message | Up_Callback callback_query

record ack_notification =
  an_session_id :: string
  an_channel_name :: string
  an_peer_id :: string
  an_message_id :: "string option"

record ack_lifecycle_notification =
  al_session_id :: string
  al_action :: string
  al_stop_reason :: "stop_reason option"


section \<open>State\<close>

datatype bot_call =
    Set_Reaction int int "string list"
  | Send_Typing int
  | Send_Prompt int string "(string \<times> string) list"
  | Answer_Callback string
  | Clear_Keyboard int int

record telegram =
  tc_core :: tg
  tc_bot :: "string option"
  tc_outbound :: bool
  tc_permission_tx :: bool
  tc_broker :: broker
  tc_permission_messages :: "(string, int \<times> int) hmap"
  tc_last_message_ids :: "(int, int) hmap"
  tc_ack_config :: "channel_ack_config option"
  tc_thought_debounce_ms :: u64
  tc_finalization_delay_ms :: u64
  tc_bot_username :: "string option"
  tc_bot_id :: "nat option"
  tc_dispatching :: bool
  tc_out_queue :: "channel_send_message list"
  tc_perm_queue :: "permission_response list"
  tc_calls :: "(bot_call \<times> api_outcome) list"

record chan_env =
  cv_tg :: tg_env
  cv_sched :: "nat \<Rightarrow> choice list"
  cv_lower :: "string \<Rightarrow> string"
  cv_get_me :: "(nat \<times> string option) option"
  cv_get_file :: "string \<Rightarrow> string option"
  cv_download :: "string \<Rightarrow> string option"
  cv_base64 :: "string \<Rightarrow> string"
  cv_call :: "nat \<Rightarrow> bot_call \<Rightarrow> api_outcome"
  cv_error :: "api_outcome \<Rightarrow> string"
  cv_ack :: "json \<Rightarrow> ack_notification option"
  cv_lifecycle :: "json \<Rightarrow> ack_lifecycle_notification option"

definition telegram_new :: telegram where
  "telegram_new =
     \<lparr>tc_core = tg_new, tc_bot = None, tc_outbound = False, tc_permission_tx = False, tc_broker = broker_new,
      tc_permission_messages = [], tc_last_message_ids = [], tc_ack_config = None,
      tc_thought_debounce_ms = 200, tc_finalization_delay_ms = 200, tc_bot_username = None, tc_bot_id = None,
      tc_dispatching = False, tc_out_queue = [], tc_perm_queue = [], tc_calls = []\<rparr>"

definition bot_request :: "chan_env \<Rightarrow> bot_call \<Rightarrow> telegram \<Rightarrow> api_outcome \<times> telegram" where
  "bot_request E c s =
     (let r = cv_call E (length (tc_calls s)) c in (r, s\<lparr>tc_calls := tc_calls s @ [(c, r)]\<rparr>))"

text \<open>\<open>retry_telegram_op\<close>, with so many attempts left.\<close>

fun retry_bot :: "chan_env \<Rightarrow> bot_call \<Rightarrow> nat \<Rightarrow> telegram \<Rightarrow> telegram" where
  "retry_bot E c 0 s = s"
| "retry_bot E c (Suc n) s =
     (let (r, s') = bot_request E c s in if is_retryable r then retry_bot E c n s' else s')"

definition retry_telegram_op :: "chan_env \<Rightarrow> bot_call \<Rightarrow> telegram \<Rightarrow> telegram" where
  "retry_telegram_op E c = retry_bot E c MAX_RETRY_ATTEMPTS"


section \<open>The delivery, awaited\<close>

fun background :: "choice \<Rightarrow> bool" where
  "background (Run_Task n) = True"
| "background (Drop_Task n) = True"
| "background _ = False"

definition main_work :: "tg \<Rightarrow> nat multiset" where
  "main_work s = (case main_left s of None \<Rightarrow> {#} | Some w \<Rightarrow> add_mset 0 w)"

lemma background_main: "list_all background cs \<Longrightarrow> tg_main (tg_run E cs s) = tg_main s"
proof (induction cs arbitrary: s)
  case (Cons c cs)
  have "tg_main (tg_step E c s) = tg_main s"
    using Cons.prems by (cases c) (auto simp: tg_step_def step_task_main drop_task_def split: option.splits)
  then show ?case using Cons by (simp add: tg_run_def)
qed (simp add: tg_run_def)

lemma main_work_decreases:
  assumes "tg_main s \<noteq> None"
  shows "(main_work (step_main E s), main_work s) \<in> mult less_than"
proof -
  obtain w where w: "main_left s = Some w" using assms by (auto simp: main_left_def)
  have irr: "irrefl_on {0} less_than" by (simp add: irrefl_on_def)
  show ?thesis
  proof (cases "main_left (step_main E s)")
    case None
    then show ?thesis using w one_step_implies_mult [of "add_mset 0 w" "{#}" less_than "{#}"]
      by (simp add: main_work_def)
  next
    case (Some w')
    then show ?thesis using w main_decreases [OF w Some] mult_cancel_add_mset [OF trans_less_than irr]
      by (simp add: main_work_def)
  qed
qed

lemma main_work_cong: "tg_main s' = tg_main s \<Longrightarrow> main_work s' = main_work s"
  by (simp add: main_work_def main_left_def)

function drive :: "tg_env \<Rightarrow> (nat \<Rightarrow> choice list) \<Rightarrow> tg \<Rightarrow> tg" where
  "drive E sched s =
     (if tg_main s = None then s
      else drive E sched (step_main E (tg_run E (filter background (sched (tg_tick s))) s)))"
  by pat_completeness auto
termination
proof (relation "inv_image (mult less_than) (\<lambda>(E, sched, s). main_work s)")
  show "wf (inv_image (mult less_than) (\<lambda>(E :: tg_env, sched :: nat \<Rightarrow> choice list, s). main_work s))"
    by (simp add: wf_mult)
next
  fix E sched and s :: tg
  assume s: "tg_main s \<noteq> None"
  let ?s = "tg_run E (filter background (sched (tg_tick s))) s"
  have same: "tg_main ?s = tg_main s" by (rule background_main) (simp add: list_all_iff)
  then show "((E, sched, step_main E ?s), E, sched, s) \<in> inv_image (mult less_than) (\<lambda>(E, sched, s). main_work s)"
    using main_work_decreases [of ?s E] s by (simp add: main_work_cong [OF same])
qed


section \<open>The channel\<close>

definition bot_of :: "telegram \<Rightarrow> channel_sdk_error + string" where
  "bot_of s = (case tc_bot s of Some b \<Rightarrow> Inr b | None \<Rightarrow> Inl (Sdk_Protocol ''bot not initialized''))"

definition handle_ack_message :: "chan_env \<Rightarrow> ack_notification \<Rightarrow> telegram \<Rightarrow> telegram" where
  "handle_ack_message E ack s =
     (case (tc_ack_config s, tc_bot s, parse_chat_id (an_peer_id ack)) of
        (Some cfg, Some token, Some chat) \<Rightarrow>
          (let s1 = (case hm_get (tc_last_message_ids s) chat of
                       Some msg \<Rightarrow>
                         if cac_reaction cfg
                         then retry_telegram_op E (Set_Reaction chat msg [cac_reaction_emoji cfg]) s else s
                     | None \<Rightarrow> s)
           in if cac_typing cfg then retry_telegram_op E (Send_Typing chat) s1 else s1)
      | _ \<Rightarrow> s)"

definition done_emoji :: "stop_reason option \<Rightarrow> string" where
  "done_emoji r =
     (case r of
        Some MaxTokens \<Rightarrow> [CHR 0xE2, CHR 0x9A, CHR 0xA0, CHR 0xEF, CHR 0xB8, CHR 0x8F]
      | Some MaxTurnRequests \<Rightarrow> [CHR 0xE2, CHR 0x9A, CHR 0xA0, CHR 0xEF, CHR 0xB8, CHR 0x8F]
      | Some Refusal \<Rightarrow> [CHR 0xE2, CHR 0x9D, CHR 0x8C]
      | Some Cancelled \<Rightarrow> [CHR 0xF0, CHR 0x9F, CHR 0x9A, CHR 0xAB]
      | _ \<Rightarrow> [CHR 0xE2, CHR 0x9C, CHR 0x85])"

definition handle_ack_lifecycle :: "chan_env \<Rightarrow> ack_lifecycle_notification \<Rightarrow> telegram \<Rightarrow> telegram" where
  "handle_ack_lifecycle E l s =
     (if al_action l \<noteq> ''response_completed'' then s
      else (case (tc_bot s, tc_ack_config s) of
              (Some token, Some cfg) \<Rightarrow>
                if \<not> cac_reaction cfg then s
                else (case hm_get (tg_session_chat_map (tc_core s)) (al_session_id l) of
                        None \<Rightarrow> s
                      | Some chat \<Rightarrow>
                          (case hm_get (tc_last_message_ids s) chat of
                             None \<Rightarrow> s
                           | Some msg \<Rightarrow>
                               if cac_reaction_lifecycle cfg = ''remove''
                               then retry_telegram_op E (Set_Reaction chat msg []) s
                               else if cac_reaction_lifecycle cfg = ''replace_done''
                               then retry_telegram_op E (Set_Reaction chat msg [done_emoji (al_stop_reason l)]) s
                               else s))
            | _ \<Rightarrow> s))"

text \<open>\<open>defaults.yaml\<close>.\<close>

definition telegram_defaults :: "(string, json) hmap" where
  "telegram_defaults =
     [(''thought_emoji'', JStr [CHR 0xF0, CHR 0x9F, CHR 0xA7, CHR 0xA0]),
      (''response_edit_cooldown_ms'', JInt 500),
      (''thought_debounce_ms'', JInt 200),
      (''finalization_delay_ms'', JInt 200),
      (''ack'', JObj [(''reaction'', JBool False), (''typing'', JBool False),
         (''reaction_emoji'', JStr [CHR 0xF0, CHR 0x9F, CHR 0x91, CHR 0x80]),
         (''reaction_lifecycle'', JStr ''remove'')]),
      (''access_control'', JObj [(''group_policy'', JStr ''open''),
         (''allowed_users'', JArr [JStr ''*'']), (''require_mention'', JBool False), (''groups'', JObj [])])]"

definition on_initialize :: "channel_initialize_params \<Rightarrow> telegram \<Rightarrow> (channel_sdk_error + unit) \<times> telegram" where
  "on_initialize p s =
     (let str = (\<lambda>k. Option.bind (hm_get (cip_options p) k) as_str);
          num = (\<lambda>k old. case Option.bind (hm_get (cip_options p) k) as_u64 of Some v \<Rightarrow> of_nat v | None \<Rightarrow> old);
          s1 = s\<lparr>tc_ack_config := (case cip_ack p of Some a \<Rightarrow> Some a | None \<Rightarrow> tc_ack_config s),
                 tc_core := (tc_core s)
                   \<lparr>tg_thought_emoji := unwrap_or (str ''thought_emoji'') (tg_thought_emoji (tc_core s)),
                    tg_response_edit_cooldown_ms :=
                      num ''response_edit_cooldown_ms'' (tg_response_edit_cooldown_ms (tc_core s))\<rparr>,
                 tc_thought_debounce_ms := num ''thought_debounce_ms'' (tc_thought_debounce_ms s),
                 tc_finalization_delay_ms := num ''finalization_delay_ms'' (tc_finalization_delay_ms s)\<rparr>
      in case str ''bot_token'' of
           None \<Rightarrow> (Inl (Sdk_Protocol ''bot_token must be set in channel options''), s1)
         | Some token \<Rightarrow> (Inr (), s1\<lparr>tc_bot := Some token\<rparr>))"

definition on_ready :: "chan_env \<Rightarrow> telegram \<Rightarrow> (channel_sdk_error + unit) \<times> telegram" where
  "on_ready E s =
     (case bot_of s of
        Inl e \<Rightarrow> (Inl e, s)
      | Inr token \<Rightarrow>
          (let s1 = s\<lparr>tc_outbound := True, tc_permission_tx := True\<rparr>;
               s2 = (case cv_get_me E of
                       Some (i, name) \<Rightarrow>
                         s1\<lparr>tc_bot_id := Some i,
                            tc_bot_username := (case name of Some u \<Rightarrow> Some u | None \<Rightarrow> tc_bot_username s1)\<rparr>
                     | None \<Rightarrow> s1)
           in (Inr (), s2\<lparr>tc_dispatching := True\<rparr>)))"

definition deliver_message :: "chan_env \<Rightarrow> deliver_msg \<Rightarrow> telegram \<Rightarrow> (channel_sdk_error + unit) \<times> telegram" where
  "deliver_message E msg s =
     (case bot_of s of
        Inl e \<Rightarrow> (Inl e, s)
      | Inr token \<Rightarrow>
          (case deliver_to_chat (cv_tg E) (dm_session_id msg) (dm_content msg) (tc_core s) of
             Inl e \<Rightarrow> (Inl e, s)
           | Inr core \<Rightarrow> (Inr (), s\<lparr>tc_core := drive (cv_tg E) (cv_sched E) core\<rparr>)))"

definition on_session_created :: "session_created \<Rightarrow> telegram \<Rightarrow> (channel_sdk_error + unit) \<times> telegram" where
  "on_session_created msg s =
     (case parse_chat_id (pi_peer_id (sc_peer_info msg)) of
        None \<Rightarrow> (Inl (Sdk_Protocol (''invalid peer_id for telegram: '' @ pi_peer_id (sc_peer_info msg))), s)
      | Some chat \<Rightarrow>
          (Inr (), s\<lparr>tc_core := (tc_core s)
             \<lparr>tg_session_chat_map := hm_insert (sc_session_id msg) chat (tg_session_chat_map (tc_core s))\<rparr>\<rparr>))"

definition tool_context :: "(json \<Rightarrow> string) \<Rightarrow> chat_turn \<Rightarrow> string option" where
  "tool_context ser tu =
     (if tu_tool_call_order tu = [] then None
      else map_option (\<lambda>t.
        tct_name t @
          (case tct_input t of
             Some (JObj m) \<Rightarrow>
               (let value = (\<lambda>v. case v of
                        JStr s \<Rightarrow> if 80 < length s then ''('' @ digits_of (length s) @ ''b)'' else s
                      | _ \<Rightarrow> ser v);
                    summary = map (\<lambda>(k, v). k @ '': '' @ value v) (filter (\<lambda>(k, v). k \<noteq> ''timeout'') m)
                in if summary \<noteq> [] then [CHR 0x0A] @ str_join '', '' summary else '''')
           | _ \<Rightarrow> ''''))
        (hm_get (tu_tool_calls tu) (last (tu_tool_call_order tu))))"

definition prompt_text :: "(json \<Rightarrow> string) \<Rightarrow> string \<Rightarrow> chat_turn option \<Rightarrow> string" where
  "prompt_text ser description tu =
     (let label = (if description = [] then ''Permission requested'' else description)
      in case Option.bind tu (tool_context ser) of
           Some ctx \<Rightarrow> label @ [CHR 0x0A] @ ctx
         | None \<Rightarrow> label)"

text \<open>
  The keyboard is built before the bot is looked up: where its construction overflows the process panics,
  which is \<open>None\<close>.
\<close>

definition show_prompt ::
  "chan_env \<Rightarrow> channel_request_permission \<Rightarrow> telegram \<Rightarrow> ((channel_sdk_error + unit) \<times> telegram) option" where
  "show_prompt E req s =
     (case hm_get (tg_session_chat_map (tc_core s)) (crp_session_id req) of
        None \<Rightarrow> Some (Inl (Sdk_Protocol (''unknown session for permission: '' @ crp_session_id req)), s)
      | Some chat \<Rightarrow>
          (case build_permission_keyboard (crp_request_id req) (crp_options req) of
             None \<Rightarrow> None
           | Some keyboard \<Rightarrow>
               (case bot_of s of
                  Inl e \<Rightarrow> Some (Inl e, s)
                | Inr token \<Rightarrow>
                    (let descr = prompt_text (tv_ser (cv_tg E)) (crp_description req) (hm_get (tg_turns (tc_core s)) chat);
                         (r, s1) = bot_request E (Send_Prompt chat descr keyboard) s
                     in case r of
                          Api_Ok msg \<Rightarrow>
                            Some (Inr (), s1\<lparr>tc_permission_messages :=
                                    hm_insert (crp_request_id req) (chat, msg) (tc_permission_messages s1),
                                  tc_broker := snd (broker_register (crp_request_id req) (tc_broker s1))\<rparr>)
                        | _ \<Rightarrow> Some (Inl (Sdk_Protocol (''telegram send error: '' @ cv_error E r)), s1)))))"

text \<open>A panic ends the process, as an error does; it is reported under a name of its own.\<close>

definition show_permission_prompt ::
  "chan_env \<Rightarrow> channel_request_permission \<Rightarrow> telegram \<Rightarrow> (channel_sdk_error + unit) \<times> telegram" where
  "show_permission_prompt E req s =
     (case show_prompt E req s of Some r \<Rightarrow> r | None \<Rightarrow> (Inl (Sdk_Io ''panic''), s))"

definition handle_unknown :: "chan_env \<Rightarrow> string \<Rightarrow> json \<Rightarrow> telegram \<Rightarrow> (channel_sdk_error + json) \<times> telegram" where
  "handle_unknown E meth params s =
     (if meth = ''channel/ackMessage''
      then (Inr JNull, case cv_ack E params of Some ack \<Rightarrow> handle_ack_message E ack s | None \<Rightarrow> s)
      else if meth = ''channel/ackLifecycle''
      then (Inr JNull, case cv_lifecycle E params of Some l \<Rightarrow> handle_ack_lifecycle E l s | None \<Rightarrow> s)
      else (Inl (Sdk_Protocol (''unknown method: '' @ meth)), s))"

definition telegram_channel :: "chan_env \<Rightarrow> telegram channel_impl" where
  "telegram_channel E =
     \<lparr>ci_capabilities = (\<lambda>_. \<lparr>ccap_streaming = True, ccap_rich_text = True, ccap_media = True\<rparr>),
      ci_defaults = (\<lambda>_. Some telegram_defaults),
      ci_on_initialize = on_initialize,
      ci_on_ready = on_ready E,
      ci_deliver_message = deliver_message E,
      ci_on_session_created = on_session_created,
      ci_show_permission_prompt = show_permission_prompt E,
      ci_handle_unknown = handle_unknown E\<rparr>"


section \<open>The dispatcher\<close>

fun media_type :: "media_kind \<Rightarrow> string option" where
  "media_type (Media_Photo _) = Some ''image''"
| "media_type Media_Video = Some ''video''"
| "media_type Media_Audio = Some ''audio''"
| "media_type Media_Voice = Some ''voice''"
| "media_type Media_VideoNote = Some ''video_note''"
| "media_type Media_Animation = Some ''animation''"
| "media_type Media_Document = Some ''document''"
| "media_type Media_Sticker = Some ''sticker''"
| "media_type Media_Location = Some ''location''"
| "media_type Media_Contact = Some ''contact''"
| "media_type Media_Other = None"

definition media_type_from_message :: "'a tg_reply_scheme \<Rightarrow> string option" where
  "media_type_from_message msg = Option.bind (mg_media msg) media_type"

definition user_name :: "tg_user \<Rightarrow> string" where
  "user_name u = unwrap_or (us_username u) (us_first_name u)"

definition reply_metadata_from_message :: "tg_message \<Rightarrow> message_metadata option" where
  "reply_metadata_from_message msg =
     (let reply_msg = mg_reply_to msg;
          reply_id = map_option (\<lambda>r. show_int (mg_id r)) reply_msg;
          thread = map_option show_int (mg_thread_id msg);
          (reply_text, is_quote) =
            (case mg_quote msg of
               Some q \<Rightarrow> (Some q, Some True)
             | None \<Rightarrow> (Option.bind reply_msg (\<lambda>r. opt_or (mg_text r) (mg_caption r)), None));
          from_user = Option.bind reply_msg mg_from
      in if reply_id = None \<and> thread = None then None
         else Some \<lparr>reply_to_message_id = reply_id, reply_to_text = reply_text,
                    reply_to_sender = map_option user_name from_user,
                    reply_to_sender_id = map_option (\<lambda>u. digits_of (us_id u)) from_user,
                    reply_to_is_quote = is_quote,
                    reply_to_media_type =
                      (if reply_text = None then Option.bind reply_msg media_type_from_message else None),
                    thread_id = thread\<rparr>)"

definition is_group_chat :: "tg_chat \<Rightarrow> bool" where
  "is_group_chat c \<longleftrightarrow> cha_kind c \<noteq> Private_Chat"

definition text_mentions_bot :: "(string \<Rightarrow> string) \<Rightarrow> string \<Rightarrow> string \<Rightarrow> bool" where
  "text_mentions_bot lower text name = str_contains (''@'' @ lower name) (lower text)"

text \<open>The UTF-16 code units of a character, by its first byte.\<close>

definition len_utf16 :: "char \<Rightarrow> nat" where
  "len_utf16 c = (if utf8_len c = 4 then 2 else 1)"

text \<open>The loop of \<open>slice_utf16\<close> over the characters: the byte and the UTF-16 position, the start found so far.\<close>

function slice_loop :: "string \<Rightarrow> nat \<Rightarrow> nat \<Rightarrow> nat \<Rightarrow> nat \<Rightarrow> nat option \<Rightarrow> string option" where
  "slice_loop text off len i pos start =
     (if length text \<le> i
      then (if pos = off + len then map_option (\<lambda>b. drop b text) start else None)
      else
        (let start' = (if pos = off then Some i else start)
         in if pos = off + len then map_option (\<lambda>b. drop b (take i text)) start'
            else slice_loop text off len (i + max 1 (utf8_len (text ! i))) (pos + len_utf16 (text ! i)) start'))"
  by pat_completeness auto
termination by (relation "measure (\<lambda>(text, off, len, i, pos, start). length text - i)") auto

definition slice_utf16 :: "string \<Rightarrow> nat \<Rightarrow> nat \<Rightarrow> string option" where
  "slice_utf16 text off len = slice_loop text off len 0 0 None"

definition entity_mentions_bot :: "(string \<Rightarrow> string) \<Rightarrow> tg_message \<Rightarrow> string \<Rightarrow> bool" where
  "entity_mentions_bot lower msg name =
     (case opt_or (mg_text msg) (mg_caption msg) of
        None \<Rightarrow> False
      | Some text \<Rightarrow>
          list_ex (\<lambda>e. ent_mention e \<and>
              (case slice_utf16 text (ent_offset e) (ent_length e) of
                 Some s \<Rightarrow> lower s = ''@'' @ lower name
               | None \<Rightarrow> False))
            (unwrap_or (opt_or (mg_entities msg) (mg_caption_entities msg)) []))"

definition is_reply_to_bot :: "tg_message \<Rightarrow> nat option \<Rightarrow> bool" where
  "is_reply_to_bot msg bot_id =
     (case (bot_id, Option.bind (mg_reply_to msg) mg_from) of
        (Some b, Some u) \<Rightarrow> us_id u = b
      | _ \<Rightarrow> False)"

definition sender_info_from_message :: "tg_message \<Rightarrow> sender_info option" where
  "sender_info_from_message msg =
     map_option (\<lambda>u. \<lparr>si_sender_id = Some (digits_of (us_id u)), si_sender_name = us_username u\<rparr>) (mg_from msg)"

definition bot_mentioned :: "chan_env \<Rightarrow> tg_message \<Rightarrow> telegram \<Rightarrow> bool" where
  "bot_mentioned E msg s =
     (is_group_chat (mg_chat msg) \<and>
      ((case tc_bot_username s of
          Some name \<Rightarrow>
            entity_mentions_bot (cv_lower E) msg name
            \<or> text_mentions_bot (cv_lower E) (unwrap_or (opt_or (mg_text msg) (mg_caption msg)) '''') name
        | None \<Rightarrow> False)
       \<or> is_reply_to_bot msg (tc_bot_id s)))"

fun chat_type_str :: "chat_kind \<Rightarrow> string" where
  "chat_type_str Private_Chat = ''private''"
| "chat_type_str Public_Group = ''group''"
| "chat_type_str Public_Supergroup = ''supergroup''"
| "chat_type_str Public_Channel = ''channel''"

text \<open>The sender of the outbound queue is there from \<open>on_ready\<close> on.\<close>

definition send_outbound :: "channel_send_message \<Rightarrow> telegram \<Rightarrow> telegram" where
  "send_outbound m s = (if tc_outbound s then s\<lparr>tc_out_queue := tc_out_queue s @ [m]\<rparr> else s)"

definition image_part :: "string option \<Rightarrow> content_part list" where
  "image_part url = (case url of Some u \<Rightarrow> [Part_Image u] | None \<Rightarrow> [])"

definition process_text_message ::
  "int \<Rightarrow> string \<Rightarrow> string \<Rightarrow> string option \<Rightarrow> message_metadata option \<Rightarrow> sender_info option \<Rightarrow> bool option
    \<Rightarrow> telegram \<Rightarrow> telegram" where
  "process_text_message chat chat_type text reply_image metadata sender mentioned =
     send_outbound \<lparr>csm_peer_info = peer_info_from_chat chat chat_type,
       csm_content = image_part reply_image @ [Part_Text text], csm_metadata = metadata, csm_meta = None,
       csm_sender_info = sender, csm_was_mentioned = mentioned\<rparr>"

text \<open>The last of the largest photos; then its file, downloaded.\<close>

definition largest_photo :: "photo_size list \<Rightarrow> photo_size option" where
  "largest_photo ps =
     (case ps of [] \<Rightarrow> None
      | p # ps \<Rightarrow>
          Some (fold (\<lambda>q best. if ph_width best * ph_height best \<le> ph_width q * ph_height q then q else best) ps p))"

definition resolve_photo_url :: "chan_env \<Rightarrow> 'a tg_reply_scheme \<Rightarrow> string option" where
  "resolve_photo_url E msg =
     (case mg_media msg of
        Some (Media_Photo ps) \<Rightarrow>
          Option.bind (largest_photo ps) (\<lambda>p.
            Option.bind (cv_get_file E (ph_file_id p)) (\<lambda>path.
              map_option (\<lambda>buf. ''data:image/jpeg;base64,'' @ cv_base64 E buf) (cv_download E path)))
      | _ \<Rightarrow> None)"

definition resolve_reply_photo :: "chan_env \<Rightarrow> tg_message \<Rightarrow> string option" where
  "resolve_reply_photo E msg = Option.bind (mg_reply_to msg) (resolve_photo_url E)"

definition media_label_from_type :: "string \<Rightarrow> string" where
  "media_label_from_type t =
     (if t = ''image'' then [CHR 0xF0, CHR 0x9F, CHR 0x93, CHR 0xB7] @ '' Photo''
      else if t = ''video'' then [CHR 0xF0, CHR 0x9F, CHR 0x8E, CHR 0xAC] @ '' Video''
      else if t = ''audio'' then [CHR 0xF0, CHR 0x9F, CHR 0x8E, CHR 0xB5] @ '' Audio''
      else if t = ''voice'' then [CHR 0xF0, CHR 0x9F, CHR 0x8E, CHR 0xA4] @ '' Voice''
      else if t = ''video_note'' then [CHR 0xF0, CHR 0x9F, CHR 0x93, CHR 0xB9] @ '' Video note''
      else if t = ''animation'' then [CHR 0xF0, CHR 0x9F, CHR 0x8E, CHR 0x9E] @ '' GIF''
      else if t = ''document'' then [CHR 0xF0, CHR 0x9F, CHR 0x93, CHR 0x8E] @ '' Document''
      else if t = ''sticker'' then [CHR 0xF0, CHR 0x9F, CHR 0x8F, CHR 0xB7] @ '' Sticker''
      else if t = ''location'' then [CHR 0xF0, CHR 0x9F, CHR 0x93, CHR 0x8D] @ '' Location''
      else if t = ''contact'' then [CHR 0xF0, CHR 0x9F, CHR 0x91, CHR 0xA4] @ '' Contact''
      else [CHR 0xF0, CHR 0x9F, CHR 0x93, CHR 0x8E] @ '' Media'')"

definition process_media_message ::
  "int \<Rightarrow> string \<Rightarrow> string \<Rightarrow> string option \<Rightarrow> string option \<Rightarrow> string option \<Rightarrow> message_metadata option
    \<Rightarrow> sender_info option \<Rightarrow> bool option \<Rightarrow> telegram \<Rightarrow> telegram" where
  "process_media_message chat chat_type media caption photo reply_image metadata sender mentioned =
     (let label = media_label_from_type media;
          body = (case photo of
              Some url \<Rightarrow> Part_Image url # (case caption of Some c \<Rightarrow> [Part_Text c] | None \<Rightarrow> [])
            | None \<Rightarrow> [Part_Text (case caption of
                  Some c \<Rightarrow> ''['' @ label @ ''] '' @ c
                | None \<Rightarrow> ''['' @ label @ '']'')])
      in send_outbound \<lparr>csm_peer_info = peer_info_from_chat chat chat_type,
           csm_content = image_part reply_image @ body, csm_metadata = metadata, csm_meta = None,
           csm_sender_info = sender, csm_was_mentioned = mentioned\<rparr>)"

definition note_message :: "tg_message \<Rightarrow> telegram \<Rightarrow> telegram" where
  "note_message msg s =
     s\<lparr>tc_last_message_ids := hm_insert (cha_id (mg_chat msg)) (mg_id msg) (tc_last_message_ids s)\<rparr>"

definition handle_media_message :: "chan_env \<Rightarrow> tg_message \<Rightarrow> telegram \<Rightarrow> telegram" where
  "handle_media_message E msg s =
     (case media_type_from_message msg of
        None \<Rightarrow> s
      | Some media \<Rightarrow>
          (let s1 = note_message msg s;
               photo = (if media = ''image'' then resolve_photo_url E msg else None)
           in process_media_message (cha_id (mg_chat msg)) (chat_type_str (cha_kind (mg_chat msg))) media
                (mg_caption msg) photo (resolve_reply_photo E msg) (reply_metadata_from_message msg)
                (sender_info_from_message msg) (Some (bot_mentioned E msg s1)) s1))"

definition handle_text_message :: "chan_env \<Rightarrow> tg_message \<Rightarrow> telegram \<Rightarrow> telegram" where
  "handle_text_message E msg s =
     (case mg_text msg of
        Some text \<Rightarrow>
          (let s1 = note_message msg s
           in process_text_message (cha_id (mg_chat msg)) (chat_type_str (cha_kind (mg_chat msg))) text
                (resolve_reply_photo E msg) (reply_metadata_from_message msg) (sender_info_from_message msg)
                (Some (bot_mentioned E msg s1)) s1)
      | None \<Rightarrow> if media_type_from_message msg \<noteq> None then handle_media_message E msg s else s)"

definition process_callback :: "string \<Rightarrow> string \<Rightarrow> telegram \<Rightarrow> telegram" where
  "process_callback request_id option_id s =
     (let s1 = s\<lparr>tc_broker := snd (broker_resolve request_id option_id (tc_broker s)),
                 tc_permission_messages := hm_remove request_id (tc_permission_messages s)\<rparr>
      in if tc_permission_tx s1
         then s1\<lparr>tc_perm_queue := tc_perm_queue s1 @ [\<lparr>pr_request_id = request_id, pr_option_id = option_id\<rparr>]\<rparr>
         else s1)"

definition handle_callback_query :: "chan_env \<Rightarrow> callback_query \<Rightarrow> telegram \<Rightarrow> telegram" where
  "handle_callback_query E q s =
     (case Option.bind (cq_data q) parse_callback_data of
        None \<Rightarrow> s
      | Some (request_id, option_id) \<Rightarrow>
          (let s1 = retry_telegram_op E (Answer_Callback (cq_id q)) s;
               s2 = (case hm_get (tc_permission_messages s1) request_id of
                       Some (chat, msg) \<Rightarrow> retry_telegram_op E (Clear_Keyboard chat msg) s1
                     | None \<Rightarrow> s1)
           in process_callback request_id option_id s2))"

fun handle_update :: "chan_env \<Rightarrow> tg_update \<Rightarrow> telegram \<Rightarrow> telegram" where
  "handle_update E (Up_Message msg) s = handle_text_message E msg s"
| "handle_update E (Up_Callback q) s = handle_callback_query E q s"


section \<open>The process\<close>

text \<open>
  What happens besides the harness: updates are handled once the dispatcher runs, and the timers go on.
\<close>

datatype tg_outside = Update tg_update | Background choice

definition telegram_event :: "chan_env \<Rightarrow> tg_outside \<Rightarrow> telegram \<Rightarrow> telegram" where
  "telegram_event E x s =
     (case x of
        Update u \<Rightarrow> if tc_dispatching s then handle_update E u s else s
      | Background c \<Rightarrow> if background c then s\<lparr>tc_core := tg_step (cv_tg E) c (tc_core s)\<rparr> else s)"

definition telegram_process :: "chan_env \<Rightarrow> (telegram, tg_outside) channel_process" where
  "telegram_process E =
     \<lparr>cp_channel = telegram_channel E, cp_out = tc_out_queue, cp_perm = tc_perm_queue,
      cp_set_out = (\<lambda>ms s. s\<lparr>tc_out_queue := ms\<rparr>), cp_set_perm = (\<lambda>rs s. s\<lparr>tc_perm_queue := rs\<rparr>),
      cp_event = telegram_event E\<rparr>"


section \<open>UTF-16 positions\<close>

text \<open>The length of a string in UTF-16 code units.\<close>

function utf16_len :: "string \<Rightarrow> nat" where
  "utf16_len [] = 0"
| "utf16_len (c # s) = len_utf16 c + utf16_len (drop (utf8_len c - 1) s)"
  by pat_completeness auto
termination by (relation "measure length") auto

lemma len_utf16_pos: "0 < len_utf16 c"
  by (simp add: len_utf16_def)

lemma utf16_len_pos: "s \<noteq> [] \<Longrightarrow> 0 < utf16_len s"
  by (cases s) (simp_all add: len_utf16_pos)

text \<open>One step of the loop over a character.\<close>

lemma char_split:
  assumes "utf8_ok (c # s)"
  obtains w rest where "s = w @ rest" "length w = utf8_len c - 1" "0 < utf8_len c" "utf8_ok rest"
    "utf16_len (c # s) = len_utf16 c + utf16_len rest"
proof
  show "s = take (utf8_len c - 1) s @ drop (utf8_len c - 1) s" by simp
qed (use assms in auto)

lemma slice_step:
  assumes "0 < utf8_len c" "length w = utf8_len c - 1" "pos \<noteq> off + len" "pos \<noteq> off"
  shows "slice_loop (p @ c # w @ t) off len (length p) pos start
    = slice_loop ((p @ c # w) @ t) off len (length (p @ c # w)) (pos + len_utf16 c) start"
  using assms by (subst slice_loop.simps) (simp add: Let_def max_def nth_append)

lemma slice_enter:
  assumes "0 < utf8_len c" "length w = utf8_len c - 1" "0 < len"
  shows "slice_loop (p @ c # w @ t) off len (length p) off start
    = slice_loop ((p @ c # w) @ t) off len (length (p @ c # w)) (off + len_utf16 c) (Some (length p))"
  using assms by (subst slice_loop.simps) (simp add: Let_def max_def nth_append)

lemma slice_leave:
  "0 < len \<Longrightarrow> slice_loop ((a @ b) @ t) off len (length (a @ b)) (off + len) (Some (length a)) = Some b"
  by (subst slice_loop.simps) (simp add: Let_def)

lemma slice_before:
  assumes "utf8_ok a" "pos + utf16_len a \<le> off" "0 < len"
  shows "slice_loop (p @ a @ t) off len (length p) pos start
    = slice_loop ((p @ a) @ t) off len (length (p @ a)) (pos + utf16_len a) start"
  using assms
proof (induction "length a" arbitrary: a p pos rule: less_induct)
  case less
  show ?case
  proof (cases a)
    case (Cons c s)
    obtain w rest where w: "s = w @ rest" "length w = utf8_len c - 1" "0 < utf8_len c" "utf8_ok rest"
      "utf16_len (c # s) = len_utf16 c + utf16_len rest"
      using char_split less.prems(1) Cons by metis
    have "utf16_len a = len_utf16 c + utf16_len rest" using Cons w(5) by simp
    then have "pos < off" using less.prems(2) len_utf16_pos [of c] by linarith
    then have "slice_loop (p @ a @ t) off len (length p) pos start
        = slice_loop ((p @ c # w) @ rest @ t) off len (length (p @ c # w)) (pos + len_utf16 c) start"
      using slice_step [OF w(3,2), of pos off len p "rest @ t" start] less.prems(3) Cons w(1) by simp
    also have "\<dots> = slice_loop (((p @ c # w) @ rest) @ t) off len (length ((p @ c # w) @ rest))
        (pos + len_utf16 c + utf16_len rest) start"
      using less.hyps [of rest "pos + len_utf16 c" "p @ c # w"] less.prems(2,3) Cons w by simp
    finally show ?thesis using Cons w(1,5) by (simp add: add.assoc)
  qed simp
qed

lemma slice_inside:
  assumes "utf8_ok b" "off < pos" "pos + utf16_len b = off + len"
  shows "slice_loop (p @ b @ t) off len (length p) pos start
    = slice_loop ((p @ b) @ t) off len (length (p @ b)) (off + len) start"
  using assms
proof (induction "length b" arbitrary: b p pos rule: less_induct)
  case less
  show ?case
  proof (cases b)
    case (Cons c s)
    obtain w rest where w: "s = w @ rest" "length w = utf8_len c - 1" "0 < utf8_len c" "utf8_ok rest"
      "utf16_len (c # s) = len_utf16 c + utf16_len rest"
      using char_split less.prems(1) Cons by metis
    have "utf16_len b = len_utf16 c + utf16_len rest" using Cons w(5) by simp
    then have "pos \<noteq> off + len" using less.prems(3) len_utf16_pos [of c] by linarith
    then have "slice_loop (p @ b @ t) off len (length p) pos start
        = slice_loop ((p @ c # w) @ rest @ t) off len (length (p @ c # w)) (pos + len_utf16 c) start"
      using slice_step [OF w(3,2), of pos off len p "rest @ t" start] less.prems(2) Cons w(1) by simp
    also have "\<dots> = slice_loop (((p @ c # w) @ rest) @ t) off len (length ((p @ c # w) @ rest)) (off + len) start"
      using less.hyps [of rest "pos + len_utf16 c" "p @ c # w"] less.prems(2,3) Cons w by simp
    finally show ?thesis using Cons w(1) by simp
  qed (use less.prems in simp)
qed

text \<open>\<open>slice_utf16\<close> cuts out the part of the text at a UTF-16 position.\<close>

lemma slice_utf16_part:
  assumes "utf8_ok a" "utf8_ok b" "b \<noteq> []"
  shows "slice_utf16 (a @ b @ t) (utf16_len a) (utf16_len b) = Some b"
proof -
  let ?o = "utf16_len a" and ?n = "utf16_len b"
  have n: "0 < ?n" using utf16_len_pos [OF assms(3)] .
  obtain c s where b: "b = c # s" using assms(3) by (cases b) auto
  obtain w rest where w: "s = w @ rest" "length w = utf8_len c - 1" "0 < utf8_len c" "utf8_ok rest"
      "?n = len_utf16 c + utf16_len rest"
    using char_split [of c s] assms(2) b by metis
  have "slice_utf16 (a @ b @ t) ?o ?n = slice_loop (a @ b @ t) ?o ?n (length a) ?o None"
    using slice_before [OF assms(1), of 0 ?o ?n "[]" "b @ t" None] n by (simp add: slice_utf16_def)
  also have "\<dots> = slice_loop ((a @ c # w) @ rest @ t) ?o ?n (length (a @ c # w)) (?o + len_utf16 c) (Some (length a))"
    using slice_enter [OF w(3,2) n, of a "rest @ t" ?o None] b w(1) by simp
  also have "\<dots> = slice_loop ((a @ b) @ t) ?o ?n (length (a @ b)) (?o + ?n) (Some (length a))"
    using slice_inside [OF w(4), of ?o "?o + len_utf16 c" ?n "a @ c # w" t "Some (length a)"] w len_utf16_pos [of c] b
    by simp
  also have "\<dots> = Some b" using slice_leave [OF n, of a b t ?o] by simp
  finally show ?thesis .
qed

end
