(* ===== verification/Telegram_Properties.thy ===== *)
theory Telegram_Properties
  imports Telegram_Progress
begin

text \<open>
  What the Telegram channel shows its users, over every schedule of the delivery and its timers.
\<close>

section \<open>Contents and states\<close>

definition text_chunk :: "string \<Rightarrow> json" where
  "text_chunk text =
     JObj [(''update'', JObj [(''sessionUpdate'', JStr ''agent_message_chunk''),
       (''content'', JObj [(''text'', JStr text)])])]"

definition result_content :: json where
  "result_content = JObj [(''update'', JObj [(''sessionUpdate'', JStr ''result'')])]"

text \<open>The channel after its sessions were announced.\<close>

definition tg_start :: "(string, int) hmap \<Rightarrow> tg" where
  "tg_start m = tg_new\<lparr>tg_session_chat_map := m\<rparr>"

text \<open>
  A response in two chunks: the first is sent by the debounce timer, the second arrives, then the
  result, and the finalization timer fires.
\<close>

definition two_chunks :: "string \<Rightarrow> string \<Rightarrow> string \<Rightarrow> choice list" where
  "two_chunks session a b =
     [Deliver session (text_chunk a), Run_Main, Run_Main, Run_Main, Run_Main, Run_Main, Run_Main]
     @ replicate 6 (Run_Task 0)
     @ [Deliver session (text_chunk b), Run_Main, Run_Main, Run_Main, Run_Main]
     @ [Deliver session result_content, Run_Main, Run_Main, Run_Main, Run_Main, Run_Main, Run_Main]
     @ replicate 4 (Run_Task 1)"

text \<open>The requests made, in order.\<close>

definition calls :: "tg_event list \<Rightarrow> api_call list" where
  "calls tr = List.map_filter (\<lambda>e. case e of Ev_Call c r \<Rightarrow> Some c | _ \<Rightarrow> None) tr"

text \<open>An environment in which no regular expression matches, every request succeeds and time stands still.\<close>

definition calm_env :: tg_env where
  "calm_env =
     \<lparr>tv_rx = (\<lambda>r s. ([], s)), tv_ser = (\<lambda>_. ''0''), tv_secs = (\<lambda>_. ''0.0''), tv_now = (\<lambda>_. 0), tv_now_ms = (\<lambda>_. 0),
      tv_api = (\<lambda>_ _. Api_Ok 7), tv_url = (\<lambda>_. True)\<rparr>"

definition status_content :: "string \<Rightarrow> string \<Rightarrow> json" where
  "status_content i status = JObj [(''update'', JObj [(''sessionUpdate'', JStr ''tool_call_update''),
     (''toolCallId'', JStr i), (''status'', JStr status)])]"

text \<open>A turn whose tool call \<open>t1\<close> is completed.\<close>

definition finished_turn :: chat_turn where
  "finished_turn = (chat_turn_new 0 ''m'')\<lparr>tu_tool_call_order := [''t1''],
     tu_tool_calls := [(''t1'', \<lparr>tct_name = ''ls'', tct_status = Completed, tct_input = None\<rparr>)]\<rparr>"

definition finished_state :: tg where
  "finished_state = tg_new\<lparr>tg_session_chat_map := [(''s'', 1)], tg_turns := [(1, finished_turn)]\<rparr>"


section \<open>Properties\<close>

lemma contents [simp]:
  "from_content (text_chunk a) = Kind_MessageChunk a" "message_id_of (text_chunk a) = None"
  "from_content result_content = Kind_Result '''' False" "message_id_of result_content = None"
  by (simp_all add: text_chunk_def result_content_def from_content_def message_chunk_kind_def str_field_def
    extract_content_text_def message_id_of_def hm_get_def)

lemma tg_ok_start: "tg_ok ok (tg_start m)" "chats (tg_start m) = {}"
  by (auto simp: tg_ok_def chats_def tg_start_def tg_new_def)

lemmas exec_defs = tg_run_def tg_step_def deliver_to_chat_def step_main_def step_task_def hm_get_def
  sec_flush_if_different_def sec_chunk_append_def sec_debounce_first_def sec_set_handle_def
  sec_response_debounce_read_def sec_response_debounce_claim_def sec_store_id_def sec_edit_if_cooled_def
  sec_discard_stale_result_def sec_collapse_for_result_def sec_record_result_def sec_finalize_take_def
  enter_turn_def put_turn_def upd_turn_def upd_response_def upd_thought_def abort_tasks_def log_ev_def put_prog_def drop_task_def
  hm_remove_def remove_turn_def hm_has_def claim_turn_def try_finalize_response_def append_response_def is_finalizing_def
  chat_turn_new_def with_chunks_def split_message_def store_instrs_def now_def collapse_thought_def collapse_op_def
  can_edit_response_def begin_finalizing_def Let_def

text \<open>
  Property C17.  The end of a response can be lost.  The debounce timer claims the right to finalize the
  response when it sends the first chunk; a chunk that arrives within the edit cooldown is not
  shown at once, and the finalization timer, which would show it, finds the right taken: at the end
  nothing is left to do, and Telegram has been sent the first chunk only.
\<close>

theorem final_text_lost:
  assumes "a \<noteq> []" and "k \<noteq> 0"
    and "length (close_open_tags (format_telegram_html (tv_rx E) a)) \<le> TELEGRAM_MAX_MESSAGE_LEN"
    and "\<And>n c. tv_api E n c = Api_Ok k" and "\<And>m n. elapsed (tv_now E m) (tv_now E n) < from_millis 500"
  shows "calls (tg_trace (tg_run E (two_chunks session a b) (tg_start [(session, chat)])))
      = [Send_Message chat (close_open_tags (format_telegram_html (tv_rx E) a))]
    \<and> tg_turns (tg_run E (two_chunks session a b) (tg_start [(session, chat)])) = []
    \<and> tg_tasks (tg_run E (two_chunks session a b) (tg_start [(session, chat)])) = []
    \<and> tg_main (tg_run E (two_chunks session a b) (tg_start [(session, chat)])) = None"
  using assms(1-3)
  by (simp add: exec_defs two_chunks_def tg_start_def tg_new_def numeral_eq_Suc assms(4,5) calls_def)

lemma calm_format: "format_telegram_html (tv_rx calm_env) ''Hello'' = ''Hello''" "close_open_tags ''Hello'' = ''Hello''"
  by (simp_all add: format_telegram_html_def calm_env_def extract_all_def replace_all_def restore_def escape_html_def
    replace_char_def close_open_tags_def)

theorem final_text_lost_witness:
  "calls (tg_trace (tg_run calm_env (two_chunks ''s'' ''Hello'' '' world'') (tg_start [(''s'', 1)])))
     = [Send_Message 1 ''Hello'']
   \<and> tg_turns (tg_run calm_env (two_chunks ''s'' ''Hello'' '' world'') (tg_start [(''s'', 1)])) = []"
proof -
  have "tv_api calm_env n c = Api_Ok 7" "elapsed (tv_now calm_env n) (tv_now calm_env n') < from_millis 500" for n c n'
    by (simp_all add: calm_env_def elapsed_def from_millis_def)
  from final_text_lost [OF _ _ _ this, of "''Hello''" "''s''" "'' world''" 1] show ?thesis
    by (simp add: calm_format TELEGRAM_MAX_MESSAGE_LEN_def)
qed

text \<open>
  Property C15.  Chats are isolated.  Whatever the schedule, as long as no session of a chat is delivered to
  and no program works for it, its turn stays as it is and no request is made for it.
\<close>

theorem chats_isolated:
  assumes "tg_ok (\<lambda>_ _. True) s" and "chat \<notin> chats s"
    and "\<And>session content. Deliver session content \<in> set cs \<Longrightarrow> hm_get (tg_session_chat_map s) session \<noteq> Some chat"
  shows "hm_get (tg_turns (tg_run E cs s)) chat = hm_get (tg_turns s) chat
    \<and> (\<exists>evs. tg_trace (tg_run E cs s) = tg_trace s @ evs \<and> (\<forall>e\<in>set evs. event_chat e \<noteq> Some chat))"
  using run_untouched [OF assms(1,2,3)] by (simp add: untouched_def)

theorem chats_isolated_witness:
  "hm_get (tg_turns (tg_run calm_env (two_chunks ''s'' ''Hello'' '' world'') (tg_start [(''s'', 1), (''q'', 2)]))) 2 = None
   \<and> list_all (\<lambda>e. event_chat e \<noteq> Some 2)
        (tg_trace (tg_run calm_env (two_chunks ''s'' ''Hello'' '' world'') (tg_start [(''s'', 1), (''q'', 2)])))"
proof -
  have "hm_get (tg_session_chat_map (tg_start [(''s'', 1), (''q'', 2)])) session \<noteq> Some 2"
    if "Deliver session content \<in> set (two_chunks ''s'' ''Hello'' '' world'')" for session content
    using that by (auto simp: two_chunks_def tg_start_def hm_get_def)
  from chats_isolated [OF tg_ok_start(1) _ this, where E = calm_env] tg_ok_start(2) show ?thesis
    by (auto simp: tg_start_def tg_new_def list_all_iff)
qed


text \<open>
  Property C16.  A tool call that is completed or failed keeps that status for the rest of its turn: late updates do
  not change it; only a new tool call under the same identifier does.
\<close>

theorem finished_tool_calls_stay:
  assumes "tg_ok (\<lambda>c' i'. \<not> (c' = chat \<and> i' = i)) s"
    and "hm_get (tg_turns s) chat = Some tu" and "hm_get (tu_tool_calls tu) i = Some t" and "is_terminal (tct_status t)"
    and "\<And>session content name input. Deliver session content \<in> set cs \<Longrightarrow>
      hm_get (tg_session_chat_map s) session = Some chat \<Longrightarrow> from_content content \<noteq> Kind_ToolCall name i input"
    and "hm_get (tg_turns (tg_run E cs s)) chat = Some tu'" and "hm_get (tu_tool_calls tu') i = Some t'"
  shows "tct_status t' = tct_status t"
proof -
  have s: "finished.turns_inv chat (tct_status t) i s"
    using assms(2,3) unfolding finished.turns_inv_def by (auto simp: status_in_def)
  have "finished.turns_inv chat (tct_status t) i (tg_run E cs s)"
    by (rule finished.run_inv [OF s assms(1)]) (use assms(5) in auto)
  from finished.turns_inv_get [OF this assms(6)] show ?thesis using assms(4,7) by (simp add: status_in_def)
qed

lemma late_update:
  "hm_get (tg_turns (tg_run calm_env [Deliver ''s'' (status_content ''t1'' ''in_progress''), Run_Main] finished_state)) 1
     = Some finished_turn"
  by (simp add: tg_run_def tg_step_def deliver_to_chat_def finished_state_def tg_new_def hm_get_def status_content_def
    from_content_def str_field_def tool_call_update_kind_def step_main_def sec_tool_call_update_def
    finished_turn_def chat_turn_new_def is_finalizing_def)

theorem finished_tool_calls_stay_witness:
  "map_option (\<lambda>tu. map_option tct_status (hm_get (tu_tool_calls tu) ''t1''))
     (hm_get (tg_turns (tg_run calm_env [Deliver ''s'' (status_content ''t1'' ''in_progress''), Run_Main] finished_state)) 1)
   = Some (Some Completed)"
proof -
  obtain t where t: "hm_get (tu_tool_calls finished_turn) ''t1'' = Some t"
    by (simp add: finished_turn_def hm_get_def)
  have "tg_ok (\<lambda>c' i'. \<not> (c' = 1 \<and> i' = ''t1'')) finished_state"
    by (simp add: tg_ok_def finished_state_def tg_new_def)
  then have "tct_status t = tct_status \<lparr>tct_name = ''ls'', tct_status = Completed, tct_input = None\<rparr>"
    by (rule finished_tool_calls_stay [OF _ _ _ _ _ late_update t, of finished_turn])
      (auto simp: finished_state_def finished_turn_def hm_get_def status_content_def from_content_def str_field_def
        tool_call_update_kind_def)
  then show ?thesis by (simp add: late_update t)
qed

text \<open>
  Property C24.  Nothing the channel starts runs for ever.  Under every schedule that comes back to the delivery and to
  a timer again and again, whatever is delivered meanwhile and whatever Telegram answers, there is
  always a later moment at which no delivery is under way and one at which the timer is gone.
\<close>

theorem deliveries_and_timers_end:
  assumes "\<And>n. \<exists>m\<ge>n. sched m = Run_Main" and "\<And>n. \<exists>m\<ge>n. sched m = Run_Task k"
  shows "(\<exists>m\<ge>n. tg_main (tg_run E (map sched [0..<m]) (tg_start chat_map)) = None)
    \<and> (\<exists>m\<ge>n. hm_get (tg_tasks (tg_run E (map sched [0..<m]) (tg_start chat_map))) k = None)"
proof
  have "\<exists>m\<ge>n. main_left (delivery.state E sched (tg_start chat_map) m) = None"
    by (rule delivery.ends) (use assms(1) in auto)
  then show "\<exists>m\<ge>n. tg_main (tg_run E (map sched [0..<m]) (tg_start chat_map)) = None"
    by (simp add: tg_run_def delivery.state_def main_left_def)
  have "\<exists>m\<ge>n. task_left k (timer.state E sched (tg_start chat_map) m) = None"
    by (rule timer.ends) (use assms(2) tg_ok_start in auto)
  then show "\<exists>m\<ge>n. hm_get (tg_tasks (tg_run E (map sched [0..<m]) (tg_start chat_map))) k = None"
    by (simp add: tg_run_def timer.state_def task_left_def)
qed

definition one_delivery :: "nat \<Rightarrow> choice" where
  "one_delivery i = (if i = 0 then Deliver ''s'' (text_chunk ''Hello'') else if even i then Run_Main else Run_Task 0)"

theorem deliveries_and_timers_end_witness:
  "\<exists>m\<ge>100. tg_main (tg_run calm_env (map one_delivery [0..<m]) (tg_start [(''s'', 1)])) = None"
proof -
  have "\<exists>m\<ge>n. one_delivery m = Run_Main" "\<exists>m\<ge>n. one_delivery m = Run_Task 0" for n
    by (rule exI [of _ "2 * n + 2"], simp add: one_delivery_def) (rule exI [of _ "2 * n + 1"], simp add: one_delivery_def)
  from deliveries_and_timers_end [OF this, of 100] show ?thesis by blast
qed

end
