(* ===== verification/Telegram_Process.thy ===== *)
theory Telegram_Process
  imports Telegram_Channel Telegram_Properties Channels_Manager
begin

text \<open>
  The Telegram process: what users write reaches the supervisor once and in order, and a permission is
  answered by the button that was pressed.
\<close>

section \<open>Specifications\<close>

text \<open>What the body of a message says, and the message it is forwarded as.\<close>

definition message_body :: "chan_env \<Rightarrow> tg_message \<Rightarrow> content_part list" where
  "message_body E msg =
     (case (mg_text msg, media_type_from_message msg) of
        (Some t, _) \<Rightarrow> [Part_Text t]
      | (None, Some media) \<Rightarrow>
          (let label = ''['' @ media_label_from_type media @ '']'';
               photo = (if media = ''image'' then resolve_photo_url E msg else None)
           in case (photo, mg_caption msg) of
                (Some url, Some c) \<Rightarrow> [Part_Image url, Part_Text c]
              | (Some url, None) \<Rightarrow> [Part_Image url]
              | (None, Some c) \<Rightarrow> [Part_Text (label @ '' '' @ c)]
              | (None, None) \<Rightarrow> [Part_Text label])
      | (None, None) \<Rightarrow> [])"

definition forwarded :: "chan_env \<Rightarrow> tg_update \<Rightarrow> telegram \<Rightarrow> channel_send_message list" where
  "forwarded E u s =
     (case u of
        Up_Callback q \<Rightarrow> []
      | Up_Message msg \<Rightarrow>
          if \<not> tc_outbound s \<or> message_body E msg = [] then []
          else [\<lparr>csm_peer_info = peer_info_from_chat (cha_id (mg_chat msg)) (chat_type_str (cha_kind (mg_chat msg))),
                 csm_content = image_part (resolve_reply_photo E msg) @ message_body E msg,
                 csm_metadata = reply_metadata_from_message msg, csm_meta = None,
                 csm_sender_info = sender_info_from_message msg,
                 csm_was_mentioned = Some (bot_mentioned E msg s)\<rparr>])"

text \<open>The messages of an event, and the response a pressed button gives.\<close>

definition sent_by :: "chan_env \<Rightarrow> tg_outside \<Rightarrow> telegram \<Rightarrow> channel_send_message list" where
  "sent_by E x s = (case x of Update u \<Rightarrow> if tc_dispatching s then forwarded E u s else [] | Background c \<Rightarrow> [])"

definition press_answer :: "tg_outside \<Rightarrow> permission_response option" where
  "press_answer x =
     (case x of
        Update (Up_Callback q) \<Rightarrow>
          map_option (\<lambda>(r, opt). \<lparr>pr_request_id = r, pr_option_id = opt\<rparr>) (Option.bind (cq_data q) parse_callback_data)
      | _ \<Rightarrow> None)"


section \<open>An example\<close>

text \<open>A chat with one session, a permission request on it and a user who says hello.\<close>

definition ask_env :: harness_env where
  "ask_env =
     \<lparr>he_parse = (\<lambda>l.
        if l = ''init'' then Some (request_new ''initialize'' (Some (Id_Number 0)) None)
        else if l = ''session'' then Some (request_new ''channel/sessionCreated'' None None)
        else Some (request_new ''channel/requestPermission'' (Some (Id_Number 1)) (Some JNull))),
      he_init_params = (\<lambda>_. Some \<lparr>cip_protocol_version = 1, cip_channel_id = ''telegram'', cip_ack = None,
        cip_options = [(''bot_token'', JStr ''t'')]\<rparr>),
      he_deliver = (\<lambda>_. None),
      he_session_created = (\<lambda>_. Some \<lparr>sc_session_id = ''s'', sc_peer_info = peer_info_from_chat 7 ''private''\<rparr>),
      he_request_permission = (\<lambda>_. Some \<lparr>crp_request_id = ''r1'', crp_session_id = ''s'', crp_description = ''write'',
        crp_options = [\<lparr>po_option_id = ''once'', po_label = ''Once''\<rparr>]\<rparr>),
      he_init_result_json = (\<lambda>_. JNull), he_send_message_json = (\<lambda>_. JNull), he_write = (\<lambda>_. None)\<rparr>"

definition chat_env :: chan_env where
  "chat_env =
     \<lparr>cv_tg = calm_env, cv_sched = (\<lambda>_. []), cv_lower = id, cv_get_me = Some (9, Some ''bot''),
      cv_get_file = (\<lambda>_. None), cv_download = (\<lambda>_. None), cv_base64 = id, cv_call = (\<lambda>_ _. Api_Ok 3),
      cv_error = (\<lambda>_. ''error''), cv_ack = (\<lambda>_. None), cv_lifecycle = (\<lambda>_. None)\<rparr>"

definition hello :: tg_update where
  "hello = Up_Message \<lparr>mg_id = 5, mg_from = None, mg_text = Some ''hello'', mg_caption = None, mg_media = Some Media_Other,
     mg_chat = \<lparr>cha_id = 7, cha_kind = Private_Chat\<rparr>, mg_thread_id = None, mg_quote = None, mg_entities = None,
     mg_caption_entities = None, mg_reply_to = None\<rparr>"

definition press :: tg_update where
  "press = Up_Callback \<lparr>cq_id = ''q'', cq_data = callback_data ''r1'' ''once''\<rparr>"

definition group_message :: tg_message where
  "group_message = \<lparr>mg_id = 6, mg_from = Some \<lparr>us_id = 12, us_username = Some ''ada'', us_first_name = ''Ada''\<rparr>,
     mg_text = Some ''hi'', mg_caption = None, mg_media = Some Media_Other,
     mg_chat = \<lparr>cha_id = -42, cha_kind = Public_Supergroup\<rparr>, mg_thread_id = None, mg_quote = None, mg_entities = None,
     mg_caption_entities = None, mg_reply_to = None\<rparr>"

text \<open>The harness once the session is announced.\<close>

definition chat_ready :: "telegram harness" where
  "chat_ready = process_run ask_env (telegram_process chat_env) [Stdin ''init'', Stdin ''session''] telegram_new"



section \<open>The queues\<close>

definition queues :: "telegram \<Rightarrow> channel_send_message list \<times> permission_response list" where
  "queues s = (tc_out_queue s, tc_perm_queue s)"

lemma retry_queues [simp]:
  "tc_out_queue (retry_bot E c n s) = tc_out_queue s" "tc_perm_queue (retry_bot E c n s) = tc_perm_queue s"
  "tc_permission_tx (retry_bot E c n s) = tc_permission_tx s"
  "tc_permission_messages (retry_bot E c n s) = tc_permission_messages s"
  by (induction n arbitrary: s) (simp_all add: bot_request_def Let_def)

lemma op_queues [simp]:
  "queues (retry_telegram_op E c s) = queues s"
  "tc_out_queue (retry_telegram_op E c s) = tc_out_queue s" "tc_perm_queue (retry_telegram_op E c s) = tc_perm_queue s"
  "tc_permission_tx (retry_telegram_op E c s) = tc_permission_tx s"
  "tc_permission_messages (retry_telegram_op E c s) = tc_permission_messages s"
  by (simp_all add: retry_telegram_op_def queues_def)

lemma ack_queues: "queues (handle_ack_message E a s) = queues s" "queues (handle_ack_lifecycle E l s) = queues s"
  by (simp_all add: handle_ack_message_def handle_ack_lifecycle_def Let_def split: option.splits)

lemma prompt_queues: "queues (snd (show_permission_prompt E req s)) = queues s"
  by (auto simp: show_permission_prompt_def show_prompt_def bot_request_def queues_def Let_def
    split: option.splits sum.splits api_outcome.splits)

text \<open>An update puts the message it is forwarded as at the end of the queue.\<close>

lemma mentioned_noted [simp]: "bot_mentioned E msg (note_message msg' s) = bot_mentioned E msg s"
  by (simp add: bot_mentioned_def note_message_def)

lemma update_out_queue: "tc_out_queue (handle_update E u s) = tc_out_queue s @ forwarded E u s"
proof (cases u)
  case (Up_Message msg)
  have [simp]: "tc_outbound (note_message msg s) = tc_outbound s" "tc_out_queue (note_message msg s) = tc_out_queue s"
    by (simp_all add: note_message_def)
  show ?thesis
    using Up_Message
    by (auto simp: handle_text_message_def handle_media_message_def process_text_message_def process_media_message_def
      send_outbound_def forwarded_def message_body_def Let_def split: option.splits)
next
  case (Up_Callback q)
  then show ?thesis
    by (auto simp: handle_callback_query_def process_callback_def forwarded_def Let_def split: option.splits)
qed

lemma update_perm_queue:
  "tc_perm_queue (handle_update E u s) = tc_perm_queue s @
     (case u of
        Up_Callback q \<Rightarrow>
          (case Option.bind (cq_data q) parse_callback_data of
             Some (r, opt) \<Rightarrow> if tc_permission_tx s then [\<lparr>pr_request_id = r, pr_option_id = opt\<rparr>] else []
           | None \<Rightarrow> [])
      | Up_Message msg \<Rightarrow> [])"
  by (cases u) (auto simp: handle_text_message_def handle_media_message_def process_text_message_def
    process_media_message_def send_outbound_def note_message_def handle_callback_query_def process_callback_def Let_def
    split: option.splits)

text \<open>The Telegram process keeps the contract.\<close>

lemma method_queues:
  "queues (snd (on_initialize p s)) = queues s" "queues (snd (on_ready E s)) = queues s"
  "queues (snd (deliver_message E d s)) = queues s" "queues (snd (on_session_created m s)) = queues s"
  by (auto simp: on_initialize_def on_ready_def deliver_message_def on_session_created_def queues_def Let_def
    split: option.splits sum.splits prod.splits)

lemma unknown_queues: "queues (snd (handle_unknown E meth v s)) = queues s"
  by (simp add: handle_unknown_def ack_queues split: option.splits)

lemma telegram_process_simps [simp]:
  "cp_channel (telegram_process E) = telegram_channel E" "cp_out (telegram_process E) = tc_out_queue"
  "cp_perm (telegram_process E) = tc_perm_queue" "cp_set_out (telegram_process E) ms s = s\<lparr>tc_out_queue := ms\<rparr>"
  "cp_set_perm (telegram_process E) rs s = s\<lparr>tc_perm_queue := rs\<rparr>" "cp_event (telegram_process E) = telegram_event E"
  by (simp_all add: telegram_process_def)

interpretation telegram: process_contract "telegram_process E" "sent_by E" press_answer for E
proof
  show "\<exists>rs. cp_perm (telegram_process E) (cp_event (telegram_process E) u s) = cp_perm (telegram_process E) s @ rs
      \<and> set rs \<subseteq> set_option (press_answer u)" for u s
    by (cases u) (auto simp: telegram_event_def press_answer_def update_perm_queue
      split: tg_update.splits option.splits simp del: handle_update.simps)
  show "cp_out (telegram_process E) (cp_event (telegram_process E) u s) = cp_out (telegram_process E) s @ sent_by E u s" for u s
    by (cases u) (simp_all add: telegram_event_def sent_by_def update_out_queue del: handle_update.simps)
qed (use method_queues prompt_queues unknown_queues in \<open>simp_all add: telegram_channel_def queues_def\<close>)


section \<open>Properties\<close>

lemma keyboard_built:
  "(\<And>x. x \<in> set options \<Longrightarrow> length (po_option_id x) \<le> 63) \<Longrightarrow> \<exists>kb. build_permission_keyboard r options = Some kb"
proof (induction options)
  case (Cons a options)
  then obtain kb where "build_permission_keyboard r options = Some kb" by auto
  moreover have "length (po_option_id a) \<le> 63" using Cons.prems by simp
  ultimately show ?case by (simp add: build_permission_keyboard_def callback_data_def Let_def)
qed (simp add: build_permission_keyboard_def)

lemma prompt_shown:
  assumes "tc_bot s = Some token" "hm_get (tg_session_chat_map (tc_core s)) (crp_session_id p) = Some chat"
    and "\<And>n c. cv_call E n c = Api_Ok m" "\<And>x. x \<in> set (crp_options p) \<Longrightarrow> length (po_option_id x) \<le> 63"
  shows "\<exists>s'. show_permission_prompt E p s = (Inr (), s') \<and> queues s' = queues s \<and> tc_dispatching s' = tc_dispatching s
    \<and> tc_permission_tx s' = tc_permission_tx s"
proof -
  obtain kb where "build_permission_keyboard (crp_request_id p) (crp_options p) = Some kb" using keyboard_built [OF assms(4)] by blast
  then show ?thesis using assms(1-3)
    by (simp add: show_permission_prompt_def show_prompt_def bot_of_def bot_request_def queues_def Let_def)
qed

lemma callback_fits: "length r + length opt < 64 \<Longrightarrow> callback_data r opt = Some (r @ '':'' @ opt)"
  by (simp add: callback_data_def)

text \<open>
  Property C18.  What users write reaches the supervisor once and in order.  Over every run of the process,
  while writing works, the messages the updates stand for are those the harness has sent as notifications,
  in that order, followed by those that wait in the queue.
\<close>

theorem messages_forwarded_in_order:
  assumes "\<And>n. he_write H n = None"
  shows "map (send_request H) (accepted (sent_by E) H (telegram_process E) xs (harness_new telegram_new))
    = notified (hs_trace (process_run H (telegram_process E) xs telegram_new)) @ map (send_request H) (tc_out_queue (hs_channel (process_run H (telegram_process E) xs telegram_new)))"
proof -
  have "cp_out (telegram_process E) telegram_new = []" by (simp add: telegram_new_def)
  from telegram.messages_in_order [OF assms this, of xs] show ?thesis by simp
qed

text \<open>
  Property C19.  No permission is granted that no user granted.  Over every run of the process an answer to a
  permission request was registered under the JSON-RPC request it answers, and carries an option for
  which a button with that request was pressed.
\<close>

theorem no_answer_without_press:
  assumes "Ev_Answer r resp \<in> set (hs_trace (process_run H (telegram_process E) xs telegram_new))"
  shows "\<exists>opt i. responded press_answer xs r opt \<and> Ev_Registered r i \<in> set (hs_trace (process_run H (telegram_process E) xs telegram_new))
    \<and> resp = response_success (Some i) (permission_response_json \<lparr>pr_request_id = r, pr_option_id = opt\<rparr>)"
proof (rule telegram.answer_given [OF _ assms])
  show "cp_perm (telegram_process E) telegram_new = []" by (simp add: telegram_new_def)
qed


lemma parse_i64_digits: "int n \<le> i64_max \<Longrightarrow> parse_i64 (digits_of n) = Some (int n)"
  using parse_i64_show [of "int n"] by (simp add: show_int_def i64_min_def)

lemma peer_chat: "i64_min \<le> c \<Longrightarrow> c \<le> i64_max \<Longrightarrow> parse_chat_id (pi_peer_id (peer_info_from_chat c k)) = Some c"
  by (simp add: parse_chat_id_def peer_info_from_chat_def strip_prefix_def parse_i64_show)

lemma peer_chat_id:
  "i64_min \<le> chat \<Longrightarrow> chat \<le> i64_max \<Longrightarrow> csm_peer_info m = peer_info_from_chat chat k \<Longrightarrow> chat_id_of m = chat"
  by (simp add: chat_id_of_def peer_info_from_chat_def parse_i64_show)

lemma peer_group:
  "csm_peer_info m = peer_info_from_chat chat (chat_type_str k)
    \<Longrightarrow> is_group_message m \<longleftrightarrow> k \<in> {Public_Group, Public_Supergroup}"
  by (cases k) (simp_all add: is_group_message_def peer_info_from_chat_def)

lemma lines_nonempty: "str_trim ''init'' \<noteq> []" "str_trim ''session'' \<noteq> []" "str_trim ''ask'' \<noteq> []"
  by (simp_all add: trim_graphic graphic_def)

lemma chat_ready_is:
  "chat_ready = (harness_new telegram_new)\<lparr>
     hs_trace := [Ev_Response (response_success (Some (Id_Number 0)) JNull)],
     hs_channel := telegram_new\<lparr>tc_bot := Some ''t'', tc_outbound := True, tc_permission_tx := True, tc_bot_id := Some 9,
       tc_bot_username := Some ''bot'', tc_dispatching := True, tc_core := tg_new\<lparr>tg_session_chat_map := [(''s'', 7)]\<rparr>\<rparr>\<rparr>"
  using lines_nonempty peer_chat [of 7 "''private''"]
  by (simp add: chat_ready_def process_run_def process_step_def running_def harness_new_def harness_step_def ask_env_def
    dispatch_def dispatch_initialize_def request_new_def call_channel_def telegram_channel_def on_initialize_def
    hm_get_def on_ready_def bot_of_def chat_env_def respond_def harness_write_def on_session_created_def
    telegram_new_def tg_new_def Let_def i64_min_def i64_max_def)

lemma answered_trace:
  "hs_trace (fold (process_step ask_env (telegram_process chat_env)) [Stdin ''ask'', Event (Update press), Take_Permission] chat_ready)
    = [Ev_Response (response_success (Some (Id_Number 0)) JNull), Ev_Registered ''r1'' (Id_Number 1),
       Ev_Answer ''r1'' (response_success (Some (Id_Number 1))
         (permission_response_json \<lparr>pr_request_id = ''r1'', pr_option_id = ''once''\<rparr>))]"
proof -
  have kb: "build_permission_keyboard ''r1'' [\<lparr>po_option_id = ''once'', po_label = ''Once''\<rparr>] = Some [(''Once'', ''r1:once'')]"
    by (simp add: build_permission_keyboard_def callback_fits)
  have parse: "parse_callback_data ''r1:once'' = Some (''r1'', ''once'')"
    using parse_callback_append [of "''once''" "''r1''"] by simp
  show ?thesis
    using lines_nonempty(3) callback_fits [of "''r1''" "''once''"] parse
    by (simp add: chat_ready_is telegram_event_def process_step_def running_def harness_new_def harness_step_def ask_env_def dispatch_def
      request_new_def dispatch_permission_def call_channel_def telegram_channel_def show_permission_prompt_def show_prompt_def
      kb bot_of_def bot_request_def chat_env_def telegram_new_def hm_get_def tg_new_def prompt_text_def upd_channel_def press_def
      handle_callback_query_def process_callback_def retry_telegram_op_def MAX_RETRY_ATTEMPTS_def eval_nat_numeral
      flush_permission_def harness_write_def Let_def)
qed

text \<open>
  Property C21.  A message keeps its identity on its way through the channel and the channels manager.  What is forwarded
  for a message carries the chat and the sender that access control will see, the manager and the channel
  agree on the chat (the session announced for it is delivered to that chat), and only in a group can
  it count as a mention of the bot.
\<close>

theorem message_identity_kept:
  assumes "forwarded E (Up_Message msg) s = [m]"
    and "i64_min \<le> cha_id (mg_chat msg)" "cha_id (mg_chat msg) \<le> i64_max"
    and "mg_from msg = Some u" "int (us_id u) \<le> i64_max"
  shows "chat_id_of m = cha_id (mg_chat msg)
    \<and> message_sender m = \<lparr>user_id = Some (int (us_id u)), username = us_username u\<rparr>
    \<and> (is_group_message m \<longleftrightarrow> cha_kind (mg_chat msg) \<in> {Public_Group, Public_Supergroup})
    \<and> (csm_was_mentioned m = Some True \<longrightarrow> cha_kind (mg_chat msg) \<noteq> Private_Chat)
    \<and> hm_get (tg_session_chat_map (tc_core (snd (on_session_created
        \<lparr>sc_session_id = session, sc_peer_info = csm_peer_info m\<rparr> s')))) session = Some (cha_id (mg_chat msg))"
proof -
  have m: "csm_peer_info m = peer_info_from_chat (cha_id (mg_chat msg)) (chat_type_str (cha_kind (mg_chat msg)))"
    "csm_sender_info m = sender_info_from_message msg" "csm_was_mentioned m = Some (bot_mentioned E msg s)"
    using assms(1) by (auto simp: forwarded_def split: if_splits)
  show ?thesis
    using peer_chat_id [OF assms(2,3) m(1)] peer_group [OF m(1)] m assms(4) parse_i64_digits [OF assms(5)]
      peer_chat [OF assms(2,3)]
    by (simp add: message_sender_def sender_info_from_message_def bot_mentioned_def is_group_chat_def on_session_created_def)
qed

theorem message_identity_kept_witness:
  "chat_id_of (hd (forwarded chat_env (Up_Message group_message) (hs_channel chat_ready))) = -42
   \<and> message_sender (hd (forwarded chat_env (Up_Message group_message) (hs_channel chat_ready)))
     = \<lparr>user_id = Some 12, username = Some ''ada''\<rparr>"
proof -
  have "forwarded chat_env (Up_Message group_message) (hs_channel chat_ready)
      = [hd (forwarded chat_env (Up_Message group_message) (hs_channel chat_ready))]"
    by (simp add: forwarded_def group_message_def message_body_def chat_ready_is)
  from message_identity_kept [OF this, of "\<lparr>us_id = 12, us_username = Some ''ada'', us_first_name = ''Ada''\<rparr>"]
  show ?thesis by (simp add: group_message_def i64_min_def i64_max_def)
qed

theorem messages_forwarded_in_order_witness:
  "map (send_request ask_env) (accepted (sent_by chat_env) ask_env (telegram_process chat_env)
       [Stdin ''init'', Stdin ''session'', Event (Update hello), Take_Outbound, Event (Update hello)] (harness_new telegram_new))
     = notified (hs_trace (process_run ask_env (telegram_process chat_env)
         [Stdin ''init'', Stdin ''session'', Event (Update hello), Take_Outbound, Event (Update hello)] telegram_new))
       @ map (send_request ask_env) (tc_out_queue (hs_channel (process_run ask_env (telegram_process chat_env)
         [Stdin ''init'', Stdin ''session'', Event (Update hello), Take_Outbound, Event (Update hello)] telegram_new)))
   \<and> forwarded chat_env hello (hs_channel chat_ready) \<noteq> []"
proof
  have "he_write ask_env n = None" for n by (simp add: ask_env_def)
  from messages_forwarded_in_order [OF this]
  show "map (send_request ask_env) (accepted (sent_by chat_env) ask_env (telegram_process chat_env)
       [Stdin ''init'', Stdin ''session'', Event (Update hello), Take_Outbound, Event (Update hello)] (harness_new telegram_new))
     = notified (hs_trace (process_run ask_env (telegram_process chat_env)
         [Stdin ''init'', Stdin ''session'', Event (Update hello), Take_Outbound, Event (Update hello)] telegram_new))
       @ map (send_request ask_env) (tc_out_queue (hs_channel (process_run ask_env (telegram_process chat_env)
         [Stdin ''init'', Stdin ''session'', Event (Update hello), Take_Outbound, Event (Update hello)] telegram_new)))" .
  show "forwarded chat_env hello (hs_channel chat_ready) \<noteq> []"
    by (simp add: forwarded_def hello_def message_body_def chat_ready_is)
qed


theorem no_answer_without_press_witness:
  "responded press_answer [Stdin ''init'', Stdin ''session'', Stdin ''ask'', Event (Update press), Take_Permission] ''r1'' ''once''"
proof -
  let ?xs = "[Stdin ''init'', Stdin ''session'', Stdin ''ask'', Event (Update press), Take_Permission]"
  have "process_run ask_env (telegram_process chat_env) ?xs telegram_new
      = fold (process_step ask_env (telegram_process chat_env)) [Stdin ''ask'', Event (Update press), Take_Permission] chat_ready"
    by (simp add: process_run_def chat_ready_def)
  then have tr: "hs_trace (process_run ask_env (telegram_process chat_env) ?xs telegram_new)
     = [Ev_Response (response_success (Some (Id_Number 0)) JNull), Ev_Registered ''r1'' (Id_Number 1),
       Ev_Answer ''r1'' (response_success (Some (Id_Number 1))
         (permission_response_json \<lparr>pr_request_id = ''r1'', pr_option_id = ''once''\<rparr>))]"
    using answered_trace by simp
  then have "Ev_Answer ''r1'' (response_success (Some (Id_Number 1))
      (permission_response_json \<lparr>pr_request_id = ''r1'', pr_option_id = ''once''\<rparr>)) \<in> set (hs_trace (process_run ask_env (telegram_process chat_env) ?xs telegram_new))"
    by simp
  from no_answer_without_press [OF this] show ?thesis
    by (auto simp: response_success_def permission_response_json_def)
qed

end
