(* ===== verification/Debug_Http.thy ===== *)
theory Debug_Http
  imports Channel_Process
begin

text \<open>
  The debug HTTP channel, \<open>ext/channels/debug-http/src/main.rs\<close>: a channel whose user is an HTTP client.  It posts
  messages and permission responses and reads what the agent says as a stream of server-sent events.

  A request is handled in one step.  Every \<open>on_ready\<close> makes a new shared state and a server of its own; the shared
  states are numbered in the order in which they are made, and an event names the server it goes to.  The
  matching of a path against a pattern, the decoding of bodies (with the status of a rejected one) and the
  binding of the socket are parameters.
\<close>

section \<open>State\<close>

record sse_payload =
  sse_event_type :: "string option"
  sse_data :: string

record debug_pending_permission =
  pp_request_id :: string
  pp_session_id :: string
  pp_description :: string
  pp_options :: "permission_option list"

text \<open>
  A receiver of the broadcast channel: the number of payloads that had been sent when it subscribed and
  those it has passed, what its stream has yielded and the lags it has logged.
\<close>

record subscriber =
  sub_start :: nat
  sub_pos :: nat
  sub_yielded :: "sse_payload list"
  sub_lags :: "nat list"

definition BROADCAST_CAPACITY :: nat where
  "BROADCAST_CAPACITY = 256"

record shared_state =
  sh_outbound :: bool
  sh_sent :: "sse_payload list"
  sh_subscribers :: "subscriber list"
  sh_pending :: "debug_pending_permission list"
  sh_broker :: broker
  sh_permission_tx :: bool
  sh_api_key :: "string option"
  sh_serving :: bool

text \<open>A request, and what a handler answers.\<close>

record http_request =
  rq_method :: string
  rq_path :: string
  rq_authorization :: "string option"
  rq_body :: string

datatype http_body =
    Body_Json json
  | Body_Pending "debug_pending_permission list"
  | Body_Stream nat
  | Body_Empty

record http_response =
  hr_status :: nat
  hr_body :: http_body

record debug_http =
  dh_shared :: "shared_state list"
  dh_host :: string
  dh_port :: u16
  dh_api_key :: "string option"
  dh_stderr :: "string list"
  dh_out :: "channel_send_message list"
  dh_perm :: "permission_response list"
  dh_answers :: "(nat \<times> http_request \<times> http_response) list"

record http_env =
  hv_ser :: "json \<Rightarrow> string"
  hv_bind :: "string \<Rightarrow> u16 \<Rightarrow> string + u16"
  hv_match :: "string \<Rightarrow> string \<Rightarrow> string list option"
  hv_message_body :: "string \<Rightarrow> nat + string"
  hv_response_body :: "string \<Rightarrow> nat + string"

definition shared_new :: "bool \<Rightarrow> string option \<Rightarrow> shared_state" where
  "shared_new ready key =
     \<lparr>sh_outbound = ready, sh_sent = [], sh_subscribers = [], sh_pending = [], sh_broker = broker_new,
      sh_permission_tx = ready, sh_api_key = key, sh_serving = False\<rparr>"

definition debug_http_new :: debug_http where
  "debug_http_new =
     \<lparr>dh_shared = [shared_new False None], dh_host = ''127.0.0.1'', dh_port = 0, dh_api_key = None, dh_stderr = [],
      dh_out = [], dh_perm = [], dh_answers = []\<rparr>"

text \<open>The shared state the channel holds is the one made last.\<close>

definition upd_shared :: "nat \<Rightarrow> (shared_state \<Rightarrow> shared_state) \<Rightarrow> debug_http \<Rightarrow> debug_http" where
  "upd_shared k f s = (if k < length (dh_shared s) then s\<lparr>dh_shared := (dh_shared s)[k := f (dh_shared s ! k)]\<rparr> else s)"

definition upd_current :: "(shared_state \<Rightarrow> shared_state) \<Rightarrow> debug_http \<Rightarrow> debug_http" where
  "upd_current f s = upd_shared (length (dh_shared s) - 1) f s"


section \<open>The channel\<close>

definition debug_defaults :: "(string, json) hmap" where
  "debug_defaults =
     [(''host'', JStr ''127.0.0.1''), (''port'', JInt 0),
      (''ack'', JObj [(''reaction'', JBool False), (''typing'', JBool False),
         (''reaction_emoji'', JStr [CHR 0xF0, CHR 0x9F, CHR 0x91, CHR 0x80]),
         (''reaction_lifecycle'', JStr ''remove'')])]"

text \<open>\<open>str::parse::<u64>\<close>.\<close>

definition parse_u64 :: "string \<Rightarrow> nat option" where
  "parse_u64 s =
     (let ds = (case s of c # cs \<Rightarrow> if c = CHR ''+'' then cs else s | [] \<Rightarrow> s)
      in if ds = [] then None
         else (case parse_digits 0 ds of Some n \<Rightarrow> if n < 2 ^ 64 then Some n else None | None \<Rightarrow> None))"

text \<open>The option \<open>port\<close>, a number or a string; the conversion to 16 bits truncates.\<close>

definition port_option :: "(string, json) hmap \<Rightarrow> nat option" where
  "port_option opts =
     Option.bind (hm_get opts ''port'') (\<lambda>v. opt_or (as_u64 v) (Option.bind (as_str v) parse_u64))"

definition debug_on_initialize ::
  "channel_initialize_params \<Rightarrow> debug_http \<Rightarrow> (channel_sdk_error + unit) \<times> debug_http" where
  "debug_on_initialize p s =
     (let str = (\<lambda>k. Option.bind (hm_get (cip_options p) k) as_str)
      in (Inr (), s\<lparr>dh_host := unwrap_or (str ''host'') (dh_host s),
                   dh_port := (case port_option (cip_options p) of Some n \<Rightarrow> of_nat n | None \<Rightarrow> dh_port s),
                   dh_api_key := (case str ''api_key'' of Some k \<Rightarrow> Some k | None \<Rightarrow> dh_api_key s)\<rparr>))"

definition debug_on_ready :: "http_env \<Rightarrow> debug_http \<Rightarrow> (channel_sdk_error + unit) \<times> debug_http" where
  "debug_on_ready E s =
     (let s1 = s\<lparr>dh_shared := dh_shared s @ [shared_new True (dh_api_key s)]\<rparr>
      in case hv_bind E (dh_host s1) (dh_port s1) of
           Inl e \<Rightarrow> (Inl (Sdk_Io e), s1)
         | Inr bound \<Rightarrow>
             (Inr (), upd_current (\<lambda>h. h\<lparr>sh_serving := True\<rparr>)
                (s1\<lparr>dh_stderr := dh_stderr s1 @ [''PORT:'' @ digits_of (unat bound)]\<rparr>)))"

definition opt_json :: "string option \<Rightarrow> json" where
  "opt_json x = (case x of Some s \<Rightarrow> JStr s | None \<Rightarrow> JNull)"

definition payload_of :: "(json \<Rightarrow> string) \<Rightarrow> json \<Rightarrow> sse_payload" where
  "payload_of ser content =
     (case from_content content of
        Kind_Thought t \<Rightarrow> \<lparr>sse_event_type = Some ''thought'', sse_data = tht_content t\<rparr>
      | Kind_UserMessageChunk t \<Rightarrow> \<lparr>sse_event_type = Some ''user_message_chunk'', sse_data = t\<rparr>
      | Kind_MessageChunk t \<Rightarrow> \<lparr>sse_event_type = None, sse_data = t\<rparr>
      | Kind_Result t _ \<Rightarrow> \<lparr>sse_event_type = None, sse_data = t\<rparr>
      | Kind_ToolCall name i input \<Rightarrow>
          \<lparr>sse_event_type = Some ''tool_call'',
           sse_data = ser (JObj [(''toolCallId'', JStr i), (''name'', JStr name), (''input'', unwrap_or input JNull)])\<rparr>
      | Kind_ToolCallUpdate name i status out _ _ \<Rightarrow>
          \<lparr>sse_event_type = Some ''tool_call_update'',
           sse_data = ser (JObj [(''toolCallId'', JStr i), (''name'', JStr name), (''status'', JStr status),
             (''output'', opt_json out)])\<rparr>
      | Kind_AvailableCommands cmds \<Rightarrow> \<lparr>sse_event_type = Some ''available_commands'', sse_data = ser cmds\<rparr>
      | Kind_UsageUpdate \<Rightarrow> \<lparr>sse_event_type = Some ''usage'', sse_data = ''''\<rparr>
      | Kind_Image url \<Rightarrow> \<lparr>sse_event_type = Some ''image'', sse_data = ser (JObj [(''url'', JStr url)])\<rparr>
      | Kind_File url name mime \<Rightarrow>
          \<lparr>sse_event_type = Some ''file'',
           sse_data = ser (JObj [(''url'', JStr url), (''filename'', opt_json name), (''mimeType'', opt_json mime)])\<rparr>
      | Kind_Audio url mime \<Rightarrow>
          \<lparr>sse_event_type = Some ''audio'', sse_data = ser (JObj [(''url'', JStr url), (''mimeType'', opt_json mime)])\<rparr>
      | Kind_Unknown \<Rightarrow> \<lparr>sse_event_type = None, sse_data = content_to_string ser content\<rparr>)"

definition debug_deliver_message ::
  "http_env \<Rightarrow> deliver_msg \<Rightarrow> debug_http \<Rightarrow> (channel_sdk_error + unit) \<times> debug_http" where
  "debug_deliver_message E msg s =
     (Inr (), upd_current (\<lambda>h. h\<lparr>sh_sent := sh_sent h @ [payload_of (hv_ser E) (dm_content msg)]\<rparr>) s)"

definition debug_show_permission_prompt ::
  "channel_request_permission \<Rightarrow> debug_http \<Rightarrow> (channel_sdk_error + unit) \<times> debug_http" where
  "debug_show_permission_prompt req s =
     (Inr (), upd_current (\<lambda>h. h\<lparr>sh_pending := sh_pending h @
         [\<lparr>pp_request_id = crp_request_id req, pp_session_id = crp_session_id req,
           pp_description = crp_description req, pp_options = crp_options req\<rparr>],
       sh_broker := snd (broker_register (crp_request_id req) (sh_broker h))\<rparr>) s)"

definition debug_channel :: "http_env \<Rightarrow> debug_http channel_impl" where
  "debug_channel E =
     \<lparr>ci_capabilities = (\<lambda>_. \<lparr>ccap_streaming = True, ccap_rich_text = False, ccap_media = True\<rparr>),
      ci_defaults = (\<lambda>_. Some debug_defaults),
      ci_on_initialize = debug_on_initialize,
      ci_on_ready = debug_on_ready E,
      ci_deliver_message = debug_deliver_message E,
      ci_on_session_created = (\<lambda>_ s. (Inr (), s)),
      ci_show_permission_prompt = debug_show_permission_prompt,
      ci_handle_unknown = default_handle_unknown\<rparr>"


section \<open>The server\<close>

definition debug_message :: "string \<Rightarrow> channel_send_message" where
  "debug_message t =
     \<lparr>csm_peer_info = \<lparr>pi_channel_name = ''debug-http'', pi_peer_id = ''local'', pi_kind = ''local''\<rparr>,
      csm_content = [Part_Text t], csm_metadata = None, csm_meta = None, csm_sender_info = None,
      csm_was_mentioned = None\<rparr>"

definition send_if :: "bool \<Rightarrow> channel_send_message \<Rightarrow> debug_http \<Rightarrow> debug_http" where
  "send_if ready m s = (if ready then s\<lparr>dh_out := dh_out s @ [m]\<rparr> else s)"

definition status_json :: "string \<Rightarrow> (string \<times> json) list \<Rightarrow> http_response" where
  "status_json st fs = \<lparr>hr_status = 200, hr_body = Body_Json (JObj ((''status'', JStr st) # fs))\<rparr>"

definition handle_health :: "http_response" where
  "handle_health = status_json ''ok'' []"

definition handle_message :: "shared_state \<Rightarrow> string \<Rightarrow> debug_http \<Rightarrow> http_response \<times> debug_http" where
  "handle_message h message s =
     (status_json ''queued'' [(''message'', JStr ''Message received and queued for processing'')],
      send_if (sh_outbound h) (debug_message message) s)"

definition handle_events :: "nat \<Rightarrow> shared_state \<Rightarrow> debug_http \<Rightarrow> http_response \<times> debug_http" where
  "handle_events k h s =
     (\<lparr>hr_status = 200, hr_body = Body_Stream (length (sh_subscribers h))\<rparr>,
      upd_shared k (\<lambda>h. h\<lparr>sh_subscribers := sh_subscribers h @
        [\<lparr>sub_start = length (sh_sent h), sub_pos = length (sh_sent h), sub_yielded = [], sub_lags = []\<rparr>]\<rparr>) s)"

text \<open>
  The stream of a subscriber takes the next payload; one that is too far behind first learns how many it
  has lost, logs it and goes on with the oldest the channel still holds.
\<close>

definition stream_next :: "sse_payload list \<Rightarrow> subscriber \<Rightarrow> subscriber" where
  "stream_next sent r =
     (if length sent \<le> sub_pos r then r
      else if BROADCAST_CAPACITY < length sent - sub_pos r
      then r\<lparr>sub_pos := length sent - BROADCAST_CAPACITY,
             sub_lags := sub_lags r @ [length sent - BROADCAST_CAPACITY - sub_pos r]\<rparr>
      else r\<lparr>sub_pos := Suc (sub_pos r), sub_yielded := sub_yielded r @ [sent ! sub_pos r]\<rparr>)"

definition poll_stream :: "nat \<Rightarrow> shared_state \<Rightarrow> shared_state" where
  "poll_stream i h =
     (if i < length (sh_subscribers h)
      then h\<lparr>sh_subscribers := (sh_subscribers h)[i := stream_next (sh_sent h) (sh_subscribers h ! i)]\<rparr> else h)"

definition handle_cancel :: "shared_state \<Rightarrow> debug_http \<Rightarrow> http_response \<times> debug_http" where
  "handle_cancel h s = (status_json ''cancelled'' [], send_if (sh_outbound h) (debug_message ''__cancel__'') s)"

definition handle_permissions_pending :: "shared_state \<Rightarrow> http_response" where
  "handle_permissions_pending h = \<lparr>hr_status = 200, hr_body = Body_Pending (sh_pending h)\<rparr>"

definition handle_permission_respond ::
  "nat \<Rightarrow> shared_state \<Rightarrow> string \<Rightarrow> string \<Rightarrow> debug_http \<Rightarrow> http_response \<times> debug_http" where
  "handle_permission_respond k h i option_id s =
     (let s1 = upd_shared k (\<lambda>h. h\<lparr>sh_pending := filter (\<lambda>p. pp_request_id p \<noteq> i) (sh_pending h),
                                  sh_broker := snd (broker_resolve i option_id (sh_broker h))\<rparr>) s;
          s2 = (if sh_permission_tx h then s1\<lparr>dh_perm := dh_perm s1 @ [\<lparr>pr_request_id = i, pr_option_id = option_id\<rparr>]\<rparr> else s1)
      in (status_json ''responded'' [], s2))"

text \<open>The routing table: pattern, whether the method is \<open>get\<close> (else \<open>post\<close>), handler.\<close>

datatype route = R_Health | R_Message | R_Events | R_Cancel | R_Pending | R_Respond

definition build_router :: "(string \<times> bool \<times> route) list" where
  "build_router =
     [(''/health'', True, R_Health), (''/message'', False, R_Message), (''/events'', True, R_Events),
      (''/cancel'', False, R_Cancel), (''/permissions/pending'', True, R_Pending),
      (''/permissions/{id}/respond'', False, R_Respond)]"

definition method_allowed :: "bool \<Rightarrow> string \<Rightarrow> bool" where
  "method_allowed is_get m = (if is_get then m \<in> {''GET'', ''HEAD''} else m = ''POST'')"

definition refuse :: "nat \<Rightarrow> http_response" where
  "refuse status = \<lparr>hr_status = status, hr_body = Body_Empty\<rparr>"

fun call_handler ::
  "http_env \<Rightarrow> nat \<Rightarrow> shared_state \<Rightarrow> route \<Rightarrow> string list \<Rightarrow> string \<Rightarrow> debug_http \<Rightarrow> http_response \<times> debug_http" where
  "call_handler E k h R_Health ps body s = (handle_health, s)"
| "call_handler E k h R_Message ps body s =
     (case hv_message_body E body of Inr m \<Rightarrow> handle_message h m s | Inl status \<Rightarrow> (refuse status, s))"
| "call_handler E k h R_Events ps body s = handle_events k h s"
| "call_handler E k h R_Cancel ps body s = handle_cancel h s"
| "call_handler E k h R_Pending ps body s = (handle_permissions_pending h, s)"
| "call_handler E k h R_Respond ps body s =
     (case (ps, hv_response_body E body) of
        ([i], Inr opt) \<Rightarrow> handle_permission_respond k h i opt s
      | ([i], Inl status) \<Rightarrow> (refuse status, s)
      | _ \<Rightarrow> (refuse 400, s))"

definition find_route :: "http_env \<Rightarrow> string \<Rightarrow> (bool \<times> route \<times> string list) option" where
  "find_route E path =
     (case List.map_filter (\<lambda>(pat, is_get, r). map_option (\<lambda>ps. (is_get, r, ps)) (hv_match E pat path)) build_router of
        [] \<Rightarrow> None | x # _ \<Rightarrow> Some x)"

definition run_route :: "http_env \<Rightarrow> nat \<Rightarrow> shared_state \<Rightarrow> http_request \<Rightarrow> debug_http \<Rightarrow> http_response \<times> debug_http" where
  "run_route E k h rq s =
     (case find_route E (rq_path rq) of
        None \<Rightarrow> (refuse 404, s)
      | Some (is_get, r, ps) \<Rightarrow>
          if method_allowed is_get (rq_method rq) then call_handler E k h r ps (rq_body rq) s else (refuse 405, s))"

definition authorized :: "string \<Rightarrow> http_request \<Rightarrow> bool" where
  "authorized key rq =
     (case rq_authorization rq of
        Some a \<Rightarrow> starts_with ''Bearer '' a \<and> drop 7 a = key
      | None \<Rightarrow> False)"

definition auth_middleware :: "http_env \<Rightarrow> nat \<Rightarrow> shared_state \<Rightarrow> http_request \<Rightarrow> debug_http \<Rightarrow> http_response \<times> debug_http" where
  "auth_middleware E k h rq s =
     (case sh_api_key h of
        None \<Rightarrow> run_route E k h rq s
      | Some key \<Rightarrow>
          if rq_path rq = ''/health'' then run_route E k h rq s
          else if authorized key rq then run_route E k h rq s
          else (\<lparr>hr_status = 401, hr_body = Body_Json (JObj [(''error'', JStr ''unauthorized'')])\<rparr>, s))"


section \<open>The process\<close>

datatype http_event = Http nat http_request | Poll nat nat

definition debug_event :: "http_env \<Rightarrow> http_event \<Rightarrow> debug_http \<Rightarrow> debug_http" where
  "debug_event E x s =
     (case x of
        Http k rq \<Rightarrow>
          if k < length (dh_shared s) \<and> sh_serving (dh_shared s ! k)
          then (let (resp, s') = auth_middleware E k (dh_shared s ! k) rq s
                in s'\<lparr>dh_answers := dh_answers s' @ [(k, rq, resp)]\<rparr>)
          else s
      | Poll k i \<Rightarrow> upd_shared k (poll_stream i) s)"

definition debug_process :: "http_env \<Rightarrow> (debug_http, http_event) channel_process" where
  "debug_process E =
     \<lparr>cp_channel = debug_channel E, cp_out = dh_out, cp_perm = dh_perm,
      cp_set_out = (\<lambda>ms s. s\<lparr>dh_out := ms\<rparr>), cp_set_perm = (\<lambda>rs s. s\<lparr>dh_perm := rs\<rparr>),
      cp_event = debug_event E\<rparr>"

end
