(* ===== verification/Channel_Invariant.thy ===== *)
theory Channel_Invariant
  imports Channel_Process
begin

section \<open>Invariants of a channel\<close>

text \<open>
  A condition on the state of the channel that every method and every event keeps.  \<open>on_ready\<close> follows
  \<open>on_initialize\<close>, so it may rely on a stronger condition, which \<open>on_initialize\<close> establishes; initialization
  parameters that cannot be decoded leave \<open>on_initialize\<close> out.
\<close>

locale process_invariant =
  fixes H :: harness_env and P :: "('s, 'u) channel_process" and initialized inv :: "'s \<Rightarrow> bool" and allowed :: "'u \<Rightarrow> bool"
  assumes inv_initialized: "initialized s \<Longrightarrow> inv s"
    and inv_initialize: "inv s \<Longrightarrow> he_init_params H v = Some p \<Longrightarrow> initialized (snd (ci_on_initialize (cp_channel P) p s))"
    and inv_uninitialized: "inv s \<Longrightarrow> he_init_params H v = None \<Longrightarrow> initialized s"
    and inv_ready: "initialized s \<Longrightarrow> inv (snd (ci_on_ready (cp_channel P) s))"
    and inv_deliver: "inv s \<Longrightarrow> inv (snd (ci_deliver_message (cp_channel P) d s))"
    and inv_session: "inv s \<Longrightarrow> inv (snd (ci_on_session_created (cp_channel P) m s))"
    and inv_prompt: "inv s \<Longrightarrow> inv (snd (ci_show_permission_prompt (cp_channel P) req s))"
    and inv_unknown: "inv s \<Longrightarrow> inv (snd (ci_handle_unknown (cp_channel P) meth w s))"
    and inv_set_out: "inv s \<Longrightarrow> cp_out P s = out # outs \<Longrightarrow> inv (cp_set_out P outs s)"
    and inv_set_perm: "inv s \<Longrightarrow> cp_perm P s = r # rs \<Longrightarrow> inv (cp_set_perm P rs s)"
    and inv_event: "inv s \<Longrightarrow> allowed u \<Longrightarrow> inv (cp_event P u s)"
begin

lemma kept_call:
  assumes "inv (snd (f (hs_channel h)))"
    and "\<And>h' c. f (hs_channel h) = (Inr (), c) \<Longrightarrow> h' = h\<lparr>hs_channel := c\<rparr> \<Longrightarrow> inv (hs_channel (k h'))"
  shows "inv (hs_channel (call_channel f k h))"
proof -
  obtain r c where r: "f (hs_channel h) = (r, c)" by fastforce
  then show ?thesis using assms by (cases r) (simp_all add: call_channel_def)
qed

lemma kept_write [simp]: "hs_channel (harness_write E ev h) = hs_channel h"
  by (simp add: harness_write_def split: option.splits)

lemma kept_respond [simp]: "hs_channel (respond E i resp h) = hs_channel h"
  by (simp add: respond_def split: option.splits)

lemma kept_dispatch_initialize:
  assumes "inv (hs_channel h)"
  shows "inv (hs_channel (dispatch_initialize H (cp_channel P) i v h))"
proof -
  have ready: "inv (hs_channel (call_channel (ci_on_ready (cp_channel P)) (respond H i g) h'))" if "initialized (hs_channel h')" for g h'
    using inv_ready [OF that] by (intro kept_call) auto
  show ?thesis
  proof (cases "he_init_params H v")
    case None
    then show ?thesis using ready [OF inv_uninitialized [OF assms None]] by (simp add: dispatch_initialize_def Let_def)
  next
    case (Some p)
    have ok: "initialized (snd (ci_on_initialize (cp_channel P) p (hs_channel h)))" by (rule inv_initialize [OF assms Some])
    show ?thesis using Some ready inv_initialized [OF ok] ok
      by (auto simp: dispatch_initialize_def Let_def intro!: kept_call dest: inv_ready)
  qed
qed

lemma kept_dispatch: "inv (hs_channel h) \<Longrightarrow> inv (hs_channel (dispatch H (cp_channel P) req h))"
  using inv_deliver inv_session inv_prompt inv_unknown
  by (auto simp: dispatch_def dispatch_permission_def dispatch_other_def Let_def kept_dispatch_initialize
    intro!: kept_call split: option.splits prod.splits) (metis snd_conv)+

lemma inv_harness: "inv (hs_channel h) \<Longrightarrow> inv (hs_channel (harness_step H (cp_channel P) x h))"
  by (auto simp: harness_step_def drained_def write_outbound_def flush_permission_def kept_dispatch
    split: harness_phase.splits harness_input.splits option.splits)

lemma inv_process_step:
  assumes "inv (hs_channel h)" "\<And>u. x = Event u \<Longrightarrow> allowed u"
  shows "inv (hs_channel (process_step H P x h))"
  using assms inv_harness inv_event inv_set_out inv_set_perm
  by (auto simp: process_step_def upd_channel_def split: process_input.splits list.splits)

lemma inv_process_run:
  assumes "inv s" "\<And>u. Event u \<in> set xs \<Longrightarrow> allowed u"
  shows "inv (hs_channel (process_run H P xs s))"
  using assms(2)
proof (induction xs rule: rev_induct)
  case Nil
  then show ?case using assms(1) by (simp add: process_run_def harness_new_def)
next
  case (snoc x xs)
  then have "inv (hs_channel (process_run H P xs s))" by simp
  then show ?case using inv_process_step [of "process_run H P xs s" x] snoc.prems by (simp add: process_run_def)
qed

end

end
