(* ===== verification/Debug_Process.thy ===== *)
theory Debug_Process
  imports Debug_Http Channel_Invariant Agent_Text "HOL-Library.Sublist"
begin

text \<open>
  The debug HTTP channel under the harness: what its client posts reaches the supervisor once and in order,
  a server with an API key does nothing for a client that does not know it, and a stream yields what was
  delivered, in order.
\<close>

section \<open>Specifications\<close>

text \<open>The handler a request reaches, with the parameters of its path.\<close>

definition routed :: "http_env \<Rightarrow> shared_state \<Rightarrow> http_request \<Rightarrow> (route \<times> string list) option" where
  "routed E h rq =
     (case (sh_api_key h, find_route E (rq_path rq)) of
        (_, None) \<Rightarrow> None
      | (key, Some (is_get, r, ps)) \<Rightarrow>
          if (\<exists>k \<in> set_option key. rq_path rq \<noteq> ''/health'' \<and> rq_authorization rq \<noteq> Some (''Bearer '' @ k))
            \<or> \<not> method_allowed is_get (rq_method rq)
          then None else Some (r, ps))"

definition posted :: "http_env \<Rightarrow> http_event \<Rightarrow> debug_http \<Rightarrow> channel_send_message list" where
  "posted E x s =
     (case x of
        Poll k i \<Rightarrow> []
      | Http k rq \<Rightarrow>
          if k < length (dh_shared s) \<and> sh_serving (dh_shared s ! k) \<and> sh_outbound (dh_shared s ! k)
          then (case routed E (dh_shared s ! k) rq of
                  Some (R_Message, _) \<Rightarrow> (case hv_message_body E (rq_body rq) of Inr m \<Rightarrow> [debug_message m] | Inl _ \<Rightarrow> [])
                | Some (R_Cancel, _) \<Rightarrow> [debug_message ''__cancel__'']
                | _ \<Rightarrow> [])
          else [])"

definition response_of :: "http_env \<Rightarrow> http_event \<Rightarrow> permission_response option" where
  "response_of E x =
     (case x of
        Poll k i \<Rightarrow> None
      | Http k rq \<Rightarrow>
          (case (find_route E (rq_path rq), hv_response_body E (rq_body rq)) of
             (Some (_, R_Respond, [i]), Inr opt) \<Rightarrow> Some \<lparr>pr_request_id = i, pr_option_id = opt\<rparr>
           | _ \<Rightarrow> None))"


section \<open>The contract\<close>

lemma starts_drop: "starts_with p a \<and> drop (length p) a = key \<longleftrightarrow> a = p @ key"
  using append_take_drop_id [of "length p" a] by (auto simp: starts_with_def simp del: append_take_drop_id)

lemma authorized_iff: "authorized key rq \<longleftrightarrow> rq_authorization rq = Some (''Bearer '' @ key)"
proof (cases "rq_authorization rq")
  case (Some a)
  have "length ''Bearer '' = 7" by simp
  then have "starts_with ''Bearer '' a \<and> drop 7 a = key \<longleftrightarrow> a = ''Bearer '' @ key"
    using starts_drop [of "''Bearer ''" a key] by metis
  then show ?thesis using Some by (simp add: authorized_def)
qed (simp add: authorized_def)

lemma shared_queues [simp]:
  "dh_out (upd_shared k f s) = dh_out s" "dh_perm (upd_shared k f s) = dh_perm s"
  "dh_out (upd_current f s) = dh_out s" "dh_perm (upd_current f s) = dh_perm s"
  by (simp_all add: upd_current_def upd_shared_def)

lemma middleware_routed:
  "snd (auth_middleware E k h rq s) =
     (case routed E h rq of Some (r, ps) \<Rightarrow> snd (call_handler E k h r ps (rq_body rq) s) | None \<Rightarrow> s)"
  by (auto simp: auth_middleware_def run_route_def routed_def authorized_iff split: option.splits)

lemma event_http:
  "debug_event E (Http k rq) s =
     (if k < length (dh_shared s) \<and> sh_serving (dh_shared s ! k)
      then (let (resp, s') = auth_middleware E k (dh_shared s ! k) rq s
            in s'\<lparr>dh_answers := dh_answers s' @ [(k, rq, resp)]\<rparr>)
      else s)"
  by (simp add: debug_event_def)

lemma handler_out:
  "dh_out (snd (call_handler E k h r ps body s)) =
     dh_out s @ (if \<not> sh_outbound h then []
                 else case r of
                   R_Message \<Rightarrow> (case hv_message_body E body of Inr m \<Rightarrow> [debug_message m] | Inl _ \<Rightarrow> [])
                 | R_Cancel \<Rightarrow> [debug_message ''__cancel__'']
                 | _ \<Rightarrow> [])"
  by (cases r) (auto simp: handle_message_def handle_events_def handle_cancel_def handle_permission_respond_def
    send_if_def Let_def split: sum.splits list.splits)

lemma http_out: "dh_out (debug_event E x s) = dh_out s @ posted E x s"
proof (cases x)
  case (Http k rq)
  show ?thesis
  proof (cases "k < length (dh_shared s) \<and> sh_serving (dh_shared s ! k)")
    case serving: True
    let ?h = "dh_shared s ! k"
    have out: "dh_out (debug_event E x s) = dh_out (snd (auth_middleware E k ?h rq s))"
      using Http serving by (simp add: event_http split: prod.splits)
    show ?thesis unfolding out middleware_routed [of E k ?h rq s] using Http serving
      by (auto simp: posted_def handler_out split: option.splits prod.splits route.splits)
  qed (use Http in \<open>auto simp: event_http posted_def\<close>)
qed (simp add: debug_event_def posted_def)

lemma handler_perm:
  "\<exists>rs. dh_perm (snd (call_handler E k h r ps (rq_body rq) s)) = dh_perm s @ rs
     \<and> (rs \<noteq> [] \<longrightarrow> r = R_Respond \<and> (\<exists>i opt. ps = [i] \<and> hv_response_body E (rq_body rq) = Inr opt
         \<and> rs = [\<lparr>pr_request_id = i, pr_option_id = opt\<rparr>]))"
  by (cases r) (auto simp: handle_message_def handle_events_def handle_cancel_def handle_permission_respond_def
    send_if_def Let_def split: sum.splits list.splits)

lemma routed_found: "routed E h rq = Some (r, ps) \<Longrightarrow> \<exists>b. find_route E (rq_path rq) = Some (b, r, ps)"
  by (cases "find_route E (rq_path rq)") (simp_all add: routed_def split: prod.splits if_split_asm)

lemma http_perm: "\<exists>rs. dh_perm (debug_event E x s) = dh_perm s @ rs \<and> set rs \<subseteq> set_option (response_of E x)"
proof (cases x)
  case (Http k rq)
  show ?thesis
  proof (cases "k < length (dh_shared s) \<and> sh_serving (dh_shared s ! k)")
    case serving: True
    let ?h = "dh_shared s ! k"
    have out: "dh_perm (debug_event E x s) = dh_perm (snd (auth_middleware E k ?h rq s))"
      using Http serving by (simp add: event_http split: prod.splits)
    show ?thesis
    proof (cases "routed E ?h rq")
      case None
      then show ?thesis unfolding out middleware_routed [of E k ?h rq s] by simp
    next
      case (Some rp)
      obtain r ps where rp: "rp = (r, ps)" by (cases rp)
      obtain b where b: "find_route E (rq_path rq) = Some (b, r, ps)" using routed_found Some rp by blast
      obtain rs where rs: "dh_perm (snd (call_handler E k ?h r ps (rq_body rq) s)) = dh_perm s @ rs"
        "rs \<noteq> [] \<Longrightarrow> r = R_Respond \<and> (\<exists>i opt. ps = [i] \<and> hv_response_body E (rq_body rq) = Inr opt
           \<and> rs = [\<lparr>pr_request_id = i, pr_option_id = opt\<rparr>])"
        using handler_perm [of E k ?h r ps rq s] by (elim exE conjE) blast
      have "set rs \<subseteq> set_option (response_of E x)"
      proof (cases "rs = []")
        case False
        then obtain i opt where "r = R_Respond" "ps = [i]" "hv_response_body E (rq_body rq) = Inr opt"
          "rs = [\<lparr>pr_request_id = i, pr_option_id = opt\<rparr>]" using rs(2) by blast
        then show ?thesis using b Http by (simp add: response_of_def)
      qed simp
      moreover have "dh_perm (debug_event E x s) = dh_perm s @ rs"
        unfolding out middleware_routed [of E k ?h rq s] using Some rp rs(1) by simp
      ultimately show ?thesis by blast
    qed
  qed (use Http in \<open>auto simp: event_http\<close>)
qed (simp add: debug_event_def)

lemma ready_queues [simp]:
  "dh_out (snd (debug_on_ready E s)) = dh_out s" "dh_perm (snd (debug_on_ready E s)) = dh_perm s"
  by (simp_all add: debug_on_ready_def Let_def split: sum.splits)

interpretation debug: process_contract "debug_process E" "posted E" "response_of E" for E
proof
  fix u s
  show "cp_out (debug_process E) (cp_event (debug_process E) u s) = cp_out (debug_process E) s @ posted E u s"
    by (simp add: debug_process_def http_out)
  show "\<exists>rs. cp_perm (debug_process E) (cp_event (debug_process E) u s) = cp_perm (debug_process E) s @ rs
      \<and> set rs \<subseteq> set_option (response_of E u)"
    using http_perm by (simp add: debug_process_def)
qed (simp_all add: debug_process_def debug_channel_def debug_on_initialize_def debug_deliver_message_def
  debug_show_permission_prompt_def default_handle_unknown_def Let_def)

section \<open>The API key\<close>

text \<open>Nothing was done for a client without the key.\<close>

definition untouched_by_strangers :: "string \<Rightarrow> debug_http \<Rightarrow> bool" where
  "untouched_by_strangers key s \<longleftrightarrow>
     dh_out s = [] \<and> dh_perm s = []
     \<and> (\<forall>h\<in>set (dh_shared s). sh_subscribers h = [] \<and> (sh_serving h \<longrightarrow> sh_api_key h = Some key))
     \<and> (\<forall>(k, rq, resp)\<in>set (dh_answers s). rq_path rq = ''/health'' \<or> hr_status resp = 401)"

lemma upd_shared_all:
  assumes "\<forall>h\<in>set (dh_shared s). Q h" "\<And>h. Q h \<Longrightarrow> Q (f h)"
  shows "\<forall>h\<in>set (dh_shared (upd_shared k f s)). Q h"
  using assms by (auto simp: upd_shared_def set_conv_nth nth_list_update)

lemma upd_shared_answers [simp]:
  "dh_answers (upd_shared k f s) = dh_answers s" "dh_answers (upd_current f s) = dh_answers s"
  by (simp_all add: upd_current_def upd_shared_def)

lemma upd_untouched:
  assumes "untouched_by_strangers key s"
    and "\<And>h. sh_subscribers h = [] \<Longrightarrow> sh_subscribers (f h) = [] \<and> sh_serving (f h) = sh_serving h \<and> sh_api_key (f h) = sh_api_key h"
  shows "untouched_by_strangers key (upd_shared k f s)"
proof -
  have "\<forall>h\<in>set (dh_shared (upd_shared k f s)). sh_subscribers h = [] \<and> (sh_serving h \<longrightarrow> sh_api_key h = Some key)"
  proof (rule upd_shared_all)
    show "\<forall>h\<in>set (dh_shared s). sh_subscribers h = [] \<and> (sh_serving h \<longrightarrow> sh_api_key h = Some key)"
      using assms(1) by (simp add: untouched_by_strangers_def)
  qed (use assms(2) in simp)
  then show ?thesis using assms(1) by (simp add: untouched_by_strangers_def)
qed

lemma health_route:
  assumes "hv_match E ''/health'' ''/health'' = Some ps"
  shows "find_route E ''/health'' = Some (True, R_Health, ps)"
  using assms by (simp add: find_route_def build_router_def List.map_filter_simps)

lemma stranger_rejected:
  assumes "sh_api_key h = Some key" "\<not> authorized key rq" "hv_match E ''/health'' ''/health'' = Some ps"
  shows "snd (auth_middleware E k h rq s) = s
    \<and> (rq_path rq = ''/health'' \<or> hr_status (fst (auth_middleware E k h rq s)) = 401)"
  using assms by (auto simp: auth_middleware_def run_route_def health_route)

lemma event_untouched:
  assumes "untouched_by_strangers key s" "hv_match E ''/health'' ''/health'' = Some ps"
    and "\<And>k rq. x = Http k rq \<Longrightarrow> \<not> authorized key rq"
  shows "untouched_by_strangers key (debug_event E x s)"
proof (cases x)
  case (Http k rq)
  show ?thesis
  proof (cases "k < length (dh_shared s) \<and> sh_serving (dh_shared s ! k)")
    case True
    then have "sh_api_key (dh_shared s ! k) = Some key" using assms(1) by (simp add: untouched_by_strangers_def)
    from stranger_rejected [OF this assms(3) [OF Http] assms(2), of k s]
    obtain resp where resp: "auth_middleware E k (dh_shared s ! k) rq s = (resp, s)" "rq_path rq = ''/health'' \<or> hr_status resp = 401"
      by (metis prod.collapse)
    then show ?thesis using Http True assms(1) by (simp add: event_http untouched_by_strangers_def)
  qed (use Http assms(1) in \<open>auto simp: event_http\<close>)
next
  case (Poll k i)
  then show ?thesis using upd_untouched [OF assms(1), of "poll_stream i" k] by (simp add: debug_event_def poll_stream_def)
qed

lemma strangers_invariant:
  assumes "\<And>v. \<exists>p. he_init_params H v = Some p \<and> hm_get (cip_options p) ''api_key'' = Some (JStr key)"
    and "hv_match E ''/health'' ''/health'' = Some ps"
  shows "process_invariant H (debug_process E) (\<lambda>s. untouched_by_strangers key s \<and> dh_api_key s = Some key)
    (untouched_by_strangers key) (\<lambda>u. \<forall>k rq. u = Http k rq \<longrightarrow> \<not> authorized key rq)"
proof
  fix s v p
  assume "untouched_by_strangers key s" "he_init_params H v = Some p"
  then show "untouched_by_strangers key (snd (ci_on_initialize (cp_channel (debug_process E)) p s))
      \<and> dh_api_key (snd (ci_on_initialize (cp_channel (debug_process E)) p s)) = Some key"
    using assms(1) [of v] by (auto simp: debug_process_def debug_channel_def debug_on_initialize_def untouched_by_strangers_def)
next
  fix s
  assume s: "untouched_by_strangers key s \<and> dh_api_key s = Some key"
  then have "untouched_by_strangers key (s\<lparr>dh_stderr := e, dh_shared := dh_shared s @ [(shared_new True (Some key))\<lparr>sh_serving := b\<rparr>]\<rparr>)" for b e
    by (simp add: untouched_by_strangers_def shared_new_def)
  from this [where e = "dh_stderr s" and b = False] this [where b = True] s
  show "untouched_by_strangers key (snd (ci_on_ready (cp_channel (debug_process E)) s))"
    by (simp add: debug_process_def debug_channel_def debug_on_ready_def Let_def upd_current_def upd_shared_def
      shared_new_def split: sum.splits)
next
  fix s u
  assume "untouched_by_strangers key s" "\<forall>k rq. u = Http k rq \<longrightarrow> \<not> authorized key rq"
  then show "untouched_by_strangers key (cp_event (debug_process E) u s)"
    using event_untouched [OF _ assms(2)] by (simp add: debug_process_def)
next
  fix s :: debug_http and v
  assume "he_init_params H v = None"
  then show "untouched_by_strangers key s \<and> dh_api_key s = Some key" using assms(1) [of v] by simp
qed (simp_all add: debug_process_def debug_channel_def debug_deliver_message_def debug_show_permission_prompt_def
  default_handle_unknown_def upd_current_def upd_untouched, simp_all add: untouched_by_strangers_def)

text \<open>A channel whose queues are empty makes the harness write responses only.\<close>

lemma quiet_step:
  assumes "cp_out P (hs_channel h) = []" "cp_perm P (hs_channel h) = []"
  shows "line_events h (process_step H P x h)"
  using assms line_step [where h = h and C = "cp_channel P" and E = H]
  by (auto simp: process_step_def upd_channel_def intro: line_events_refl split: process_input.splits)

text \<open>
  Property C22.  A server with an API key does nothing for strangers.  In every run of the debug HTTP process whose
  initialization sets the key and in which no request carries it as its bearer token, no message is sent
  to the supervisor, no permission request is answered, no stream is opened, and every request but one for
  \<open>/health\<close> is answered with status 401.
\<close>

theorem strangers_locked_out:
  assumes init: "\<And>v. \<exists>p. he_init_params H v = Some p \<and> hm_get (cip_options p) ''api_key'' = Some (JStr key)"
    and health: "hv_match E ''/health'' ''/health'' = Some ps"
    and strangers: "\<And>k rq. Event (Http k rq) \<in> set xs \<Longrightarrow> rq_authorization rq \<noteq> Some (''Bearer '' @ key)"
  shows "list_all line_event (hs_trace (process_run H (debug_process E) xs debug_http_new))
    \<and> untouched_by_strangers key (hs_channel (process_run H (debug_process E) xs debug_http_new))"
proof -
  have quiet: "untouched_by_strangers key (hs_channel (process_run H (debug_process E) ys debug_http_new))"
    if "set ys \<subseteq> set xs" for ys
    by (rule process_invariant.inv_process_run [OF strangers_invariant [OF init health]])
      (use strangers that in \<open>auto simp: authorized_iff untouched_by_strangers_def debug_http_new_def shared_new_def\<close>)
  have "list_all line_event (hs_trace (process_run H (debug_process E) ys debug_http_new))" if "set ys \<subseteq> set xs" for ys
    using that
  proof (induction ys rule: rev_induct)
    case (snoc y ys)
    let ?h = "process_run H (debug_process E) ys debug_http_new"
    have "line_events ?h (process_step H (debug_process E) y ?h)"
      by (rule quiet_step) (use quiet [of ys] snoc.prems in \<open>auto simp: untouched_by_strangers_def debug_process_def\<close>)
    then show ?case using snoc by (auto simp: line_events_def process_run_def)
  qed (simp add: process_run_def harness_new_def)
  then show ?thesis using quiet by blast
qed

section \<open>The streams\<close>

text \<open>
  What a stream has yielded comes from what was sent since it was opened, in order, and together with the
  logged losses accounts for everything it has passed.
\<close>

definition stream_ok :: "sse_payload list \<Rightarrow> subscriber \<Rightarrow> bool" where
  "stream_ok sent r \<longleftrightarrow>
     sub_start r \<le> sub_pos r \<and> sub_pos r \<le> length sent
     \<and> subseq (sub_yielded r) (drop (sub_start r) (take (sub_pos r) sent))
     \<and> length (sub_yielded r) + sum_list (sub_lags r) = sub_pos r - sub_start r"

definition streams_ok :: "debug_http \<Rightarrow> bool" where
  "streams_ok s \<longleftrightarrow> (\<forall>h\<in>set (dh_shared s). \<forall>r\<in>set (sh_subscribers h). stream_ok (sh_sent h) r)"

lemma stream_ok_more: "stream_ok sent r \<Longrightarrow> stream_ok (sent @ later) r"
  by (simp add: stream_ok_def)

lemma drop_take_Suc:
  "a \<le> n \<Longrightarrow> n < length xs \<Longrightarrow> drop a (take (Suc n) xs) = drop a (take n xs) @ [xs ! n]"
  by (simp add: take_Suc_conv_app_nth)

lemma stream_ok_next:
  assumes "stream_ok sent r"
  shows "stream_ok sent (stream_next sent r)"
proof -
  let ?to = "length sent - BROADCAST_CAPACITY"
  have skip: "subseq (sub_yielded r) (drop (sub_start r) (take n sent))" if "sub_pos r \<le> n" for n
  proof -
    have "take n sent = take (sub_pos r) sent @ take (n - sub_pos r) (drop (sub_pos r) sent)"
      using that by (metis le_add_diff_inverse take_add)
    then have "drop (sub_start r) (take n sent)
        = drop (sub_start r) (take (sub_pos r) sent) @ drop (sub_start r - length (take (sub_pos r) sent))
            (take (n - sub_pos r) (drop (sub_pos r) sent))" by simp
    then show ?thesis using assms by (simp add: stream_ok_def subseq_rev_drop_many)
  qed
  have yield: "subseq (sub_yielded r @ [sent ! sub_pos r]) (drop (sub_start r) (take (Suc (sub_pos r)) sent))"
    if "sub_pos r < length sent"
  proof -
    have "drop (sub_start r) (take (Suc (sub_pos r)) sent) = drop (sub_start r) (take (sub_pos r) sent) @ [sent ! sub_pos r]"
      by (rule drop_take_Suc) (use assms that in \<open>simp_all add: stream_ok_def\<close>)
    then show ?thesis using assms by (simp add: stream_ok_def subseq_append)
  qed
  show ?thesis
    using assms skip [of ?to] yield by (auto simp: stream_next_def stream_ok_def)
qed

lemma upd_streams:
  assumes "streams_ok s" "\<And>h. \<forall>r\<in>set (sh_subscribers h). stream_ok (sh_sent h) r \<Longrightarrow> \<forall>r\<in>set (sh_subscribers (f h)). stream_ok (sh_sent (f h)) r"
  shows "streams_ok (upd_shared k f s)"
  unfolding streams_ok_def by (rule upd_shared_all) (use assms in \<open>simp_all add: streams_ok_def\<close>)

lemma streams_ok_upd [simp]:
  "streams_ok (s\<lparr>dh_out := ms\<rparr>) = streams_ok s" "streams_ok (s\<lparr>dh_perm := rs\<rparr>) = streams_ok s"
  "streams_ok (s\<lparr>dh_answers := answers\<rparr>) = streams_ok s"
  "streams_ok (s\<lparr>dh_host := host, dh_port := port, dh_api_key := key\<rparr>) = streams_ok s"
  by (simp_all add: streams_ok_def)

lemma handler_streams: "streams_ok s \<Longrightarrow> streams_ok (snd (call_handler E k h r ps body s))"
  by (cases r) (auto simp: handle_message_def handle_cancel_def handle_events_def handle_permission_respond_def send_if_def
    Let_def stream_ok_def intro!: upd_streams split: sum.splits list.splits)

lemma poll_streams:
  assumes "\<forall>r\<in>set (sh_subscribers h). stream_ok (sh_sent h) r"
  shows "\<forall>r\<in>set (sh_subscribers (poll_stream i h)). stream_ok (sh_sent (poll_stream i h)) r"
  using assms stream_ok_next by (auto simp: poll_stream_def set_conv_nth nth_list_update)

lemma event_streams: "streams_ok s \<Longrightarrow> streams_ok (debug_event E x s)"
proof (cases x)
  case (Http k rq)
  assume "streams_ok s"
  then have "streams_ok (snd (auth_middleware E k (dh_shared s ! k) rq s))"
    by (simp add: middleware_routed handler_streams split: option.splits)
  then show ?thesis using Http \<open>streams_ok s\<close> by (simp add: event_http case_prod_beta)
next
  case (Poll k i)
  assume "streams_ok s"
  then show ?thesis using Poll poll_streams by (auto simp: debug_event_def intro!: upd_streams)
qed

interpretation streams: process_invariant H "debug_process E" streams_ok streams_ok "\<lambda>_. True" for H E
proof
  fix s :: debug_http
  assume "streams_ok s"
  then have "streams_ok (s\<lparr>dh_stderr := e, dh_shared := dh_shared s @ [(shared_new True key)\<lparr>sh_serving := b\<rparr>]\<rparr>)" for e key b
    by (simp add: streams_ok_def shared_new_def)
  from this [where e = "dh_stderr s" and b = False] this [where b = True]
  show "streams_ok (snd (ci_on_ready (cp_channel (debug_process E)) s))"
    by (simp add: debug_process_def debug_channel_def debug_on_ready_def Let_def upd_current_def upd_shared_def
      shared_new_def split: sum.splits)
qed (auto simp: debug_process_def debug_channel_def debug_on_initialize_def debug_deliver_message_def Let_def
  debug_show_permission_prompt_def default_handle_unknown_def upd_current_def event_streams stream_ok_more
  intro!: upd_streams)
text \<open>
  Property C23.  A stream of server-sent events is faithful.  In every run, what a subscriber has been sent is a
  subsequence, in order, of what was delivered since it subscribed; every payload it has passed was either
  sent to it or counted in a logged lag, and as long as no lag was logged nothing is missing.
\<close>

theorem stream_faithful:
  assumes "h \<in> set (dh_shared (hs_channel (process_run H (debug_process E) xs debug_http_new)))"
    and "r \<in> set (sh_subscribers h)"
  shows "subseq (sub_yielded r) (drop (sub_start r) (sh_sent h))
    \<and> length (sub_yielded r) + sum_list (sub_lags r) = sub_pos r - sub_start r
    \<and> (sub_lags r = [] \<longrightarrow> sub_yielded r @ drop (sub_pos r) (sh_sent h) = drop (sub_start r) (sh_sent h))"
proof -
  have "streams_ok (hs_channel (process_run H (debug_process E) xs debug_http_new))"
    by (rule streams.inv_process_run) (simp_all add: streams_ok_def debug_http_new_def shared_new_def)
  then have r: "stream_ok (sh_sent h) r" using assms by (simp add: streams_ok_def)
  have split: "drop (sub_start r) (sh_sent h)
      = drop (sub_start r) (take (sub_pos r) (sh_sent h)) @ drop (sub_pos r) (sh_sent h)"
    using r append_take_drop_id [of "sub_pos r" "sh_sent h"] drop_append [of "sub_start r" "take (sub_pos r) (sh_sent h)" "drop (sub_pos r) (sh_sent h)"]
    by (simp add: stream_ok_def)
  have "sub_yielded r = drop (sub_start r) (take (sub_pos r) (sh_sent h))" if "sub_lags r = []"
    by (rule subseq_same_length) (use r that in \<open>simp_all add: stream_ok_def\<close>)
  then show ?thesis using r unfolding split by (simp add: stream_ok_def subseq_rev_drop_many)
qed


section \<open>The port\<close>

lemma parse_u16_digits: "parse_u16 (digits_of (unat p)) = Some p"
proof -
  obtain c cs where d: "digits_of (unat p) = c # cs" by (metis digits_of_nonempty neq_Nil_conv)
  have "unat p < 2 ^ 16" using unsigned_less [of p] by simp
  then show ?thesis
    using hd_digits_of [OF d] parse_digits_show [of "unat p"] by (simp add: parse_u16_def d Let_def)
qed

text \<open>
  The port is announced.  Whatever port the operating system binds, the line the channel
  writes to its standard error makes the supervisor's side of the connection record exactly that port.
\<close>

lemma port_announced:
  assumes "hv_bind E (dh_host s) (dh_port s) = Inr bound"
  shows "fst (debug_on_ready E s) = Inr () \<and> cn_port (fold stderr_line (dh_stderr (snd (debug_on_ready E s))) c) = bound"
  using assms
  by (simp add: debug_on_ready_def upd_current_def upd_shared_def stderr_line_def strip_prefix_def trim_digits parse_u16_digits)


section \<open>Cancelling\<close>

text \<open>
  A request to \<open>/cancel\<close> cancels nothing.  It is reported as done, but what it sends is an
  ordinary message: no platform command stands for its text, so the agents manager prompts the
  agent with it.
\<close>

lemma cancel_is_a_message:
  assumes "sh_outbound h"
  shows "fst (handle_cancel h s) = status_json ''cancelled'' []
    \<and> dh_out (snd (handle_cancel h s)) = dh_out s @ [debug_message ''__cancel__'']
    \<and> platform_command_of (csm_content (debug_message ''__cancel__'')) = None"
proof -
  have "platform_command_of [Part_Text ''__cancel__''] \<noteq> Some c" for c
    by (simp add: platform_command_iff)
  then have "platform_command_of [Part_Text ''__cancel__''] = None" by (metis not_None_eq)
  then show ?thesis using assms by (simp add: handle_cancel_def send_if_def debug_message_def)
qed

section \<open>An example\<close>

text \<open>A server with the key \<open>k\<close>, a stranger, and a client that knows the key.\<close>

definition debug_harness :: harness_env where
  "debug_harness =
     \<lparr>he_parse = (\<lambda>l.
        if l = ''init'' then Some (request_new ''initialize'' (Some (Id_Number 0)) None)
        else Some (request_new ''channel/deliverMessage'' None (Some JNull))),
      he_init_params = (\<lambda>_. Some \<lparr>cip_protocol_version = 1, cip_channel_id = ''debug'', cip_ack = None,
        cip_options = [(''api_key'', JStr ''k'')]\<rparr>),
      he_deliver = (\<lambda>_. Some \<lparr>dm_session_id = ''s'', dm_content = JStr ''hello'', dm_meta = None\<rparr>),
      he_session_created = (\<lambda>_. None), he_request_permission = (\<lambda>_. None),
      he_init_result_json = (\<lambda>_. JNull), he_send_message_json = (\<lambda>_. JNull), he_write = (\<lambda>_. None)\<rparr>"

definition debug_env :: http_env where
  "debug_env =
     \<lparr>hv_ser = (\<lambda>_. ''''), hv_bind = (\<lambda>_ _. Inr 8080), hv_match = (\<lambda>pat path. if pat = path then Some [] else None),
      hv_message_body = Inr, hv_response_body = Inr\<rparr>"

definition stranger :: http_request where
  "stranger = \<lparr>rq_method = ''POST'', rq_path = ''/message'', rq_authorization = None, rq_body = ''hello''\<rparr>"

definition listener :: http_request where
  "listener = \<lparr>rq_method = ''GET'', rq_path = ''/events'', rq_authorization = Some ''Bearer k'', rq_body = ''''\<rparr>"

lemma debug_lines: "str_trim ''init'' \<noteq> []" "str_trim ''say'' \<noteq> []"
  by (simp_all add: trim_graphic graphic_def)

definition debug_ready :: "debug_http harness" where
  "debug_ready = process_run debug_harness (debug_process debug_env) [Stdin ''init''] debug_http_new"

lemma debug_ready_is:
  "debug_ready = (harness_new debug_http_new)\<lparr>
     hs_trace := [Ev_Response (response_success (Some (Id_Number 0)) JNull)],
     hs_channel := debug_http_new\<lparr>dh_shared := [shared_new False None, (shared_new True (Some ''k''))\<lparr>sh_serving := True\<rparr>],
       dh_api_key := Some ''k'', dh_stderr := [''PORT:'' @ digits_of 8080]\<rparr>\<rparr>"
  using debug_lines(1)
  by (simp add: debug_ready_def process_run_def process_step_def running_def harness_new_def harness_step_def debug_harness_def
    dispatch_def dispatch_initialize_def request_new_def call_channel_def debug_process_def debug_channel_def debug_on_initialize_def
    hm_get_def debug_on_ready_def debug_env_def debug_http_new_def shared_new_def upd_current_def upd_shared_def port_option_def
    respond_def harness_write_def Let_def)

lemma debug_run_Cons:
  "process_run debug_harness (debug_process debug_env) (Stdin ''init'' # xs) debug_http_new
    = fold (process_step debug_harness (debug_process debug_env)) xs debug_ready"
  by (simp add: process_run_def debug_ready_def)

theorem strangers_locked_out_witness:
  "map (\<lambda>(k, rq, resp). hr_status resp) (dh_answers (hs_channel (process_run debug_harness (debug_process debug_env)
       [Stdin ''init'', Event (Http 1 stranger)] debug_http_new))) = [401]
   \<and> list_all line_event (hs_trace (process_run debug_harness (debug_process debug_env)
       [Stdin ''init'', Event (Http 1 stranger)] debug_http_new))"
proof -
  have init: "\<exists>p. he_init_params debug_harness v = Some p \<and> hm_get (cip_options p) ''api_key'' = Some (JStr ''k'')" for v
    by (simp add: debug_harness_def hm_get_def)
  have health: "hv_match debug_env ''/health'' ''/health'' = Some []" by (simp add: debug_env_def)
  have none: "rq_authorization rq \<noteq> Some (''Bearer '' @ ''k'')"
    if "Event (Http k rq) \<in> set [Stdin ''init'', Event (Http 1 stranger)]" for k rq
    using that by (simp add: stranger_def)
  have asked: "\<exists>resp. dh_answers (hs_channel (process_run debug_harness (debug_process debug_env)
       [Stdin ''init'', Event (Http 1 stranger)] debug_http_new)) = [(1, stranger, resp)]"
    unfolding debug_run_Cons debug_ready_is
    by (simp add: process_step_def running_def harness_new_def upd_channel_def debug_process_def
      debug_event_def shared_new_def debug_http_new_def auth_middleware_def stranger_def authorized_def)
  have "list_all line_event (hs_trace (process_run debug_harness (debug_process debug_env)
       [Stdin ''init'', Event (Http 1 stranger)] debug_http_new))
     \<and> untouched_by_strangers ''k'' (hs_channel (process_run debug_harness (debug_process debug_env)
       [Stdin ''init'', Event (Http 1 stranger)] debug_http_new))"
    by (rule strangers_locked_out [OF init health]) (rule none)
  then show ?thesis using asked by (auto simp: untouched_by_strangers_def stranger_def)
qed

text \<open>The process whose server has the given shared state.\<close>

definition listening :: "shared_state \<Rightarrow> (nat \<times> http_request \<times> http_response) list \<Rightarrow> debug_http harness" where
  "listening h answers = debug_ready\<lparr>hs_channel := (hs_channel debug_ready)
     \<lparr>dh_shared := [shared_new False None, h], dh_answers := answers\<rparr>\<rparr>"

lemma listener_step:
  assumes "sh_serving h" "sh_api_key h = Some ''k''"
  shows "process_step debug_harness (debug_process debug_env) (Event (Http 1 listener)) (listening h a)
    = listening (h\<lparr>sh_subscribers := sh_subscribers h @ [\<lparr>sub_start = length (sh_sent h), sub_pos = length (sh_sent h),
        sub_yielded = [], sub_lags = []\<rparr>]\<rparr>)
      (a @ [(1, listener, \<lparr>hr_status = 200, hr_body = Body_Stream (length (sh_subscribers h))\<rparr>)])"
proof -
  have "find_route debug_env ''/events'' = Some (True, R_Events, [])"
    by (simp add: find_route_def build_router_def List.map_filter_simps debug_env_def)
  then have "auth_middleware debug_env 1 h listener s = handle_events 1 h s" for s
    using assms by (simp add: auth_middleware_def authorized_iff run_route_def listener_def method_allowed_def)
  then show ?thesis
    using assms by (simp add: listening_def debug_ready_is process_step_def running_def harness_new_def upd_channel_def
      debug_process_def debug_event_def handle_events_def upd_shared_def)
qed

lemma say_step:
  "process_step debug_harness (debug_process debug_env) (Stdin ''say'') (listening h a)
    = listening (h\<lparr>sh_sent := sh_sent h @ [\<lparr>sse_event_type = None, sse_data = ''hello''\<rparr>]\<rparr>) a"
proof -
  have "payload_of (hv_ser debug_env) (JStr ''hello'') = \<lparr>sse_event_type = None, sse_data = ''hello''\<rparr>"
    by (simp add: payload_of_def from_content_def content_to_string_def)
  then show ?thesis
    using debug_lines(2) by (simp add: listening_def debug_ready_is process_step_def running_def harness_new_def debug_process_def
      harness_step_def debug_harness_def dispatch_def request_new_def call_channel_def debug_channel_def
      debug_deliver_message_def upd_current_def upd_shared_def)
qed

lemma poll_step:
  "process_step debug_harness (debug_process debug_env) (Event (Poll 1 i)) (listening h a) = listening (poll_stream i h) a"
  by (simp add: listening_def debug_ready_is process_step_def running_def harness_new_def upd_channel_def debug_process_def
    debug_event_def upd_shared_def)

theorem stream_faithful_witness:
  "\<exists>h r. h \<in> set (dh_shared (hs_channel (process_run debug_harness (debug_process debug_env)
      [Stdin ''init'', Event (Http 1 listener), Stdin ''say'', Event (Poll 1 0), Stdin ''say''] debug_http_new)))
    \<and> r \<in> set (sh_subscribers h) \<and> length (sh_sent h) = 2 \<and> sub_pos r = 1
    \<and> sub_yielded r @ drop 1 (sh_sent h) = sh_sent h"
proof -
  let ?run = "process_run debug_harness (debug_process debug_env)
      [Stdin ''init'', Event (Http 1 listener), Stdin ''say'', Event (Poll 1 0), Stdin ''say''] debug_http_new"
  let ?p = "\<lparr>sse_event_type = None, sse_data = ''hello''\<rparr>"
  let ?r = "\<lparr>sub_start = 0, sub_pos = 1, sub_yielded = [?p], sub_lags = []\<rparr>"
  let ?h = "(shared_new True (Some ''k''))\<lparr>sh_sent := [?p, ?p], sh_subscribers := [?r], sh_serving := True\<rparr>"
  have ready: "debug_ready = listening ((shared_new True (Some ''k''))\<lparr>sh_serving := True\<rparr>) []"
    by (simp add: listening_def debug_ready_is debug_http_new_def)
  have "dh_shared (hs_channel ?run) = [shared_new False None, ?h]"
    unfolding debug_run_Cons ready
    by (simp add: listener_step [unfolded One_nat_def] poll_step [unfolded One_nat_def] say_step shared_new_def poll_stream_def
      stream_next_def BROADCAST_CAPACITY_def)
      (simp add: listening_def shared_new_def)
  then have h: "?h \<in> set (dh_shared (hs_channel ?run))" by simp
  from stream_faithful [OF h, of ?r] h show ?thesis by (intro exI [of _ ?h] exI [of _ ?r]) simp
qed

end
