(* ===== verification/Mock_Agent.thy ===== *)
theory Mock_Agent
  imports Agent_Text Content_Kind
begin

text \<open>
  The mock agent, \<open>ext/agents/mock-agent/src/main.rs\<close>: an ACP agent that echoes its prompts.  It is the agent of the
  end-to-end tests, and the other end of the protocol that the agents manager speaks.

  The agent reads a line at a time.  Asking for a permission, it reads one more line before it goes on:
  \<open>ma_waiting\<close> holds the prompt meanwhile.  Parsing a line and the fresh identifiers are parameters; the pauses it makes
  are left out.
\<close>

section \<open>State\<close>

record agent_options =
  ao_exit_after :: "nat option"
  ao_thinking_time_ms :: "nat option"
  ao_request_permission :: bool
  ao_reject_load :: bool
  ao_reject_resume :: bool
  ao_support_resume :: bool
  ao_recovery_new_id :: "string option"
  ao_echo_prefix :: string
  ao_echo_mcp_count :: bool

definition from_initialize_params :: "json \<Rightarrow> agent_options" where
  "from_initialize_params params =
     (let opts = jidx params ''options''; flag = (\<lambda>k. unwrap_or (as_bool (jidx opts k)) False)
      in \<lparr>ao_exit_after = as_u64 (jidx opts ''exit_after''), ao_thinking_time_ms = as_u64 (jidx opts ''thinking_time_ms''),
          ao_request_permission = flag ''request_permission'', ao_reject_load = flag ''reject_load'',
          ao_reject_resume = flag ''reject_resume'', ao_support_resume = flag ''support_resume'',
          ao_recovery_new_id = as_str (jidx opts ''recovery_new_id''),
          ao_echo_prefix = unwrap_or (as_str (jidx opts ''echo_prefix'')) ''Echo'',
          ao_echo_mcp_count = flag ''echo_mcp_count''\<rparr>)"

datatype mock_status = Mock_Running | Mock_Exited | Mock_Panicked | Mock_Ended

record mock_prompt =
  mp_id :: "json option"
  mp_session :: string
  mp_parts :: "json list"
  mp_think :: bool

record mock_agent =
  ma_prompt_count :: nat
  ma_think :: bool
  ma_options :: "agent_options option"
  ma_mcp_count :: nat
  ma_session :: "string option"
  ma_uuids :: nat
  ma_waiting :: "mock_prompt option"
  ma_status :: mock_status
  ma_out :: "json list"

definition mock_new :: mock_agent where
  "mock_new = \<lparr>ma_prompt_count = 0, ma_think = True, ma_options = None, ma_mcp_count = 0, ma_session = None,
     ma_uuids = 0, ma_waiting = None, ma_status = Mock_Running, ma_out = []\<rparr>"


section \<open>Messages\<close>

definition write_message :: "json \<Rightarrow> mock_agent \<Rightarrow> mock_agent" where
  "write_message m s = s\<lparr>ma_out := ma_out s @ [m]\<rparr>"

definition id_json :: "json option \<Rightarrow> json" where
  "id_json i = unwrap_or i JNull"

definition ok_response :: "json option \<Rightarrow> json \<Rightarrow> json" where
  "ok_response i result = JObj [(''jsonrpc'', JStr ''2.0''), (''id'', id_json i), (''result'', result)]"

definition error_response :: "json option \<Rightarrow> int \<Rightarrow> string \<Rightarrow> json" where
  "error_response i code msg =
     JObj [(''jsonrpc'', JStr ''2.0''), (''id'', id_json i),
           (''error'', JObj [(''code'', JInt code), (''message'', JStr msg)])]"

definition update_message :: "string \<Rightarrow> json \<Rightarrow> json" where
  "update_message session_id update =
     JObj [(''jsonrpc'', JStr ''2.0''), (''method'', JStr ''session/update''),
           (''params'', JObj [(''sessionId'', JStr session_id), (''update'', update)])]"

definition mock_text :: "string \<Rightarrow> json" where
  "mock_text t = JObj [(''type'', JStr ''text''), (''text'', JStr t)]"

definition permission_ask :: "string \<Rightarrow> json" where
  "permission_ask session_id =
     JObj [(''jsonrpc'', JStr ''2.0''), (''id'', JInt 9000), (''method'', JStr ''session/request_permission''),
           (''params'', JObj [(''sessionId'', JStr session_id), (''tool'', JStr ''shell''),
              (''description'', JStr ''Run echo command''),
              (''options'', JArr [JObj [(''id'', JStr ''allow_once''), (''label'', JStr ''Allow once'')],
                                  JObj [(''id'', JStr ''reject_once''), (''label'', JStr ''Reject'')]])])]"


section \<open>Handlers\<close>

definition mock_defaults :: json where
  "mock_defaults =
     JObj [(''thinking'', JBool True), (''thinking_time_ms'', JInt 3000), (''echo_prefix'', JStr ''Echo''),
           (''echo_mcp_count'', JBool False), (''request_permission'', JBool False), (''reject_load'', JBool False),
           (''reject_resume'', JBool False), (''support_resume'', JBool False)]"

definition commands_update :: json where
  "commands_update =
     JObj [(''sessionUpdate'', JStr ''available_commands_update''),
           (''commands'', JArr [JObj [(''name'', JStr ''help''), (''description'', JStr ''Show available commands'')],
                                JObj [(''name'', JStr ''status''), (''description'', JStr ''Show agent status'')]])]"

definition handle_initialize :: "json option \<Rightarrow> json \<Rightarrow> mock_agent \<Rightarrow> mock_agent" where
  "handle_initialize i msg s =
     (let params = jidx msg ''params'';
          think = unwrap_or (as_bool (jidx (jidx params ''options'') ''thinking'')) True;
          opts = (case ma_options s of Some o1 \<Rightarrow> o1 | None \<Rightarrow> from_initialize_params params);
          caps = (if ao_support_resume opts then JObj [(''resume'', JObj [])] else JObj []);
          resp = ok_response i (JObj [(''protocolVersion'', JInt 2),
            (''agentCapabilities'', JObj [(''loadSession'', JBool True),
               (''mcpCapabilities'', JObj [(''http'', JBool True), (''sse'', JBool True)]),
               (''promptCapabilities'', JObj [(''embeddedContext'', JBool True)]), (''sessionCapabilities'', caps)]),
            (''defaults'', mock_defaults)])
      in write_message (update_message ''__global__'' commands_update)
           (write_message resp (s\<lparr>ma_think := think, ma_options := Some opts\<rparr>)))"

definition handle_session_new :: "(nat \<Rightarrow> string) \<Rightarrow> json option \<Rightarrow> json \<Rightarrow> mock_agent \<Rightarrow> mock_agent" where
  "handle_session_new uuid i msg s =
     (let params = jidx msg ''params''
      in if Option.bind (jget params ''cwd'') as_str = None
         then write_message (error_response i (-32602) (''session/new requires '' @ [CHR 0x27] @ ''cwd'' @ [CHR 0x27] @ '' (string)''))
                (s\<lparr>ma_session := Some ''''\<rparr>)
         else case Option.bind (jget params ''mcpServers'') as_array of
                None \<Rightarrow>
                  write_message (error_response i (-32602)
                      (''session/new requires '' @ [CHR 0x27] @ ''mcpServers'' @ [CHR 0x27] @ '' (array)''))
                    (s\<lparr>ma_session := Some ''''\<rparr>)
              | Some servers \<Rightarrow>
                  (let sid = uuid (ma_uuids s)
                   in write_message (ok_response i (JObj [(''sessionId'', JStr sid)]))
                        (s\<lparr>ma_mcp_count := length servers, ma_uuids := Suc (ma_uuids s), ma_session := Some sid\<rparr>)))"

definition extract_prompt_parts :: "json \<Rightarrow> json list option" where
  "extract_prompt_parts msg =
     (case as_array (jidx (jidx msg ''params'') ''prompt'') of
        None \<Rightarrow> None
      | Some [] \<Rightarrow> None
      | Some ps \<Rightarrow> Some ps)"

definition echo_content :: "string \<Rightarrow> json \<Rightarrow> json" where
  "echo_content prefix part =
     (let ty = unwrap_or (as_str (jidx part ''type'')) ''''; field = (\<lambda>v k d. unwrap_or (as_str (jidx v k)) d)
      in if ty = ''text'' then mock_text (prefix @ '': '' @ field part ''text'' '''')
         else if ty = ''image''
         then JObj [(''type'', JStr ''image''), (''data'', JStr ''''), (''mimeType'', JStr (field part ''mimeType'' ''image/png'')),
                    (''uri'', JStr (unwrap_or (opt_or (as_str (jidx part ''uri'')) (as_str (jidx part ''url''))) ''''))]
         else if ty = ''resource'' \<or> ty = ''resource_link''
         then (let uri = (if ty = ''resource_link'' then field part ''uri'' '''' else field (jidx part ''resource'') ''uri'' '''')
               in mock_text (prefix @ '': [resource '' @ uri @ '']''))
         else if ty = ''audio''
         then JObj [(''type'', JStr ''audio''), (''data'', jidx part ''data''), (''mimeType'', jidx part ''mimeType'')]
         else mock_text (prefix @ '': [unknown part type '' @ [CHR 0x27] @ ty @ [CHR 0x27] @ '']''))"

definition mock_result_content :: "string \<Rightarrow> json list \<Rightarrow> bool \<Rightarrow> nat \<Rightarrow> string" where
  "mock_result_content prefix parts echo_mcp mcp =
     (case parts of
        [p] \<Rightarrow> if as_str (jidx p ''type'') = Some ''text'' then prefix @ '': '' @ unwrap_or (as_str (jidx p ''text'')) ''''
               else ''Echoed 1 content part''
      | _ \<Rightarrow> ''Echoed '' @ digits_of (length parts) @ '' content parts'')
     @ (if echo_mcp then '' [mcp:'' @ digits_of mcp @ '']'' else '''')"

text \<open>The part of \<open>handle_session_prompt\<close> after the permission, and the end of the arm in \<open>main\<close>.\<close>

definition prompt_messages :: "agent_options \<Rightarrow> nat \<Rightarrow> mock_prompt \<Rightarrow> json list" where
  "prompt_messages opts mcp p =
     (let update = (\<lambda>kind content. update_message (mp_session p) (JObj [(''sessionUpdate'', JStr kind), (''content'', content)]));
          prefix = ao_echo_prefix opts
      in (if mp_think p
          then map (\<lambda>t. update ''agent_thought_chunk'' (mock_text t)) [''Analyzing your message...'', ''Formulating response...'']
          else [])
         @ map (\<lambda>part. update ''agent_message_chunk'' (echo_content prefix part)) (mp_parts p)
         @ [update ''result'' (JStr (mock_result_content prefix (mp_parts p) (ao_echo_mcp_count opts) mcp)),
            ok_response (mp_id p) (JObj [(''stopReason'', JStr ''end_turn'')])])"

definition finish_prompt :: "mock_prompt \<Rightarrow> mock_agent \<Rightarrow> mock_agent" where
  "finish_prompt p s =
     (case ma_options s of
        None \<Rightarrow> s\<lparr>ma_status := Mock_Panicked\<rparr>
      | Some opts \<Rightarrow>
          (let count = Suc (ma_prompt_count s);
               s1 = s\<lparr>ma_out := ma_out s @ prompt_messages opts (ma_mcp_count s) p, ma_prompt_count := count, ma_waiting := None\<rparr>
           in case ao_exit_after opts of
                Some limit \<Rightarrow> if limit \<le> count then s1\<lparr>ma_status := Mock_Exited\<rparr> else s1
              | None \<Rightarrow> s1))"

definition handle_session_prompt :: "json option \<Rightarrow> json \<Rightarrow> mock_agent \<Rightarrow> mock_agent" where
  "handle_session_prompt i msg s =
     (let sid = unwrap_or (ma_session s) ''unknown''
      in case extract_prompt_parts msg of
           None \<Rightarrow>
             write_message (error_response i (-32602)
               (''session/prompt requires '' @ [CHR 0x27] @ ''prompt'' @ [CHR 0x27] @ '' (array of content parts)'')) s
         | Some parts \<Rightarrow>
             (case ma_options s of
                None \<Rightarrow> s\<lparr>ma_status := Mock_Panicked\<rparr>
              | Some opts \<Rightarrow>
                  (let p = \<lparr>mp_id = i, mp_session = sid, mp_parts = parts, mp_think = ma_think s\<rparr>
                   in if ao_request_permission opts \<and> ma_prompt_count s = 0
                      then (write_message (permission_ask sid) s)\<lparr>ma_waiting := Some p\<rparr>
                      else finish_prompt p s)))"

definition handle_session_cancel :: "json option \<Rightarrow> mock_agent \<Rightarrow> mock_agent" where
  "handle_session_cancel i s = write_message (ok_response i (JObj [])) s"

text \<open>\<open>handle_session_load\<close> and \<open>handle_session_resume\<close> differ in the option that rejects and in the message.\<close>

definition handle_session_recover ::
  "(nat \<Rightarrow> string) \<Rightarrow> (agent_options \<Rightarrow> bool) \<Rightarrow> string \<Rightarrow> json option \<Rightarrow> mock_agent \<Rightarrow> mock_agent" where
  "handle_session_recover uuid reject msg i s =
     (case ma_options s of
        None \<Rightarrow> s\<lparr>ma_status := Mock_Panicked\<rparr>
      | Some opts \<Rightarrow>
          if reject opts then write_message (error_response i (-32000) msg) s
          else (let sid = (case opt_or (ao_recovery_new_id opts) (ma_session s) of
                             Some x \<Rightarrow> x | None \<Rightarrow> uuid (ma_uuids s));
                    s1 = (if opt_or (ao_recovery_new_id opts) (ma_session s) = None
                          then s\<lparr>ma_uuids := Suc (ma_uuids s)\<rparr> else s)
                in write_message (ok_response i (JObj [(''sessionId'', JStr sid)])) (s1\<lparr>ma_session := Some sid\<rparr>)))"


section \<open>The main loop\<close>

definition mock_message :: "(nat \<Rightarrow> string) \<Rightarrow> json \<Rightarrow> mock_agent \<Rightarrow> mock_agent" where
  "mock_message uuid msg s =
     (let meth = unwrap_or (as_str (jidx msg ''method'')) ''''; i = jget msg ''id''
      in if meth = ''initialize'' then handle_initialize i msg s
         else if meth = ''session/new'' then handle_session_new uuid i msg s
         else if meth = ''session/prompt'' then handle_session_prompt i msg s
         else if meth = ''session/cancel'' then handle_session_cancel i s
         else if meth = ''session/load'' then handle_session_recover uuid ao_reject_load ''Session load rejected'' i s
         else if meth = ''session/resume'' then handle_session_recover uuid ao_reject_resume ''Session resume rejected'' i s
         else write_message (error_response i (-32601) ''Method not found'') s)"

definition mock_line :: "(string \<Rightarrow> json option) \<Rightarrow> (nat \<Rightarrow> string) \<Rightarrow> string \<Rightarrow> mock_agent \<Rightarrow> mock_agent" where
  "mock_line parse uuid line s =
     (if ma_status s \<noteq> Mock_Running then s
      else case ma_waiting s of
             Some p \<Rightarrow> finish_prompt p s
           | None \<Rightarrow>
               if str_trim line = [] then s
               else (case parse line of None \<Rightarrow> s | Some msg \<Rightarrow> mock_message uuid msg s))"

definition mock_eof :: "mock_agent \<Rightarrow> mock_agent" where
  "mock_eof s =
     (if ma_status s \<noteq> Mock_Running then s
      else (let s1 = (case ma_waiting s of Some p \<Rightarrow> finish_prompt p s | None \<Rightarrow> s)
            in if ma_status s1 = Mock_Running then s1\<lparr>ma_status := Mock_Ended\<rparr> else s1))"

definition mock_run :: "(string \<Rightarrow> json option) \<Rightarrow> (nat \<Rightarrow> string) \<Rightarrow> string list \<Rightarrow> mock_agent \<Rightarrow> mock_agent" where
  "mock_run parse uuid lines s = fold (mock_line parse uuid) lines s"


section \<open>Answers\<close>

text \<open>The identifiers of the responses written, and of the requests read.\<close>

definition answers :: "json list \<Rightarrow> json list" where
  "answers out = List.map_filter (\<lambda>m. if jget m ''method'' = None then Some (jidx m ''id'') else None) out"

fun asked :: "(string \<Rightarrow> json option) \<Rightarrow> (nat \<Rightarrow> string) \<Rightarrow> string list \<Rightarrow> mock_agent \<Rightarrow> json list" where
  "asked parse uuid [] s = []"
| "asked parse uuid (l # ls) s =
     (if ma_status s = Mock_Running \<and> ma_waiting s = None \<and> str_trim l \<noteq> []
      then (case parse l of Some msg \<Rightarrow> [id_json (jget msg ''id'')] | None \<Rightarrow> []) else [])
     @ asked parse uuid ls (mock_line parse uuid l s)"

definition unanswered :: "mock_agent \<Rightarrow> json list" where
  "unanswered s = (case ma_waiting s of Some p \<Rightarrow> [id_json (mp_id p)] | None \<Rightarrow> [])"

lemma answers_append [simp]: "answers (a @ b) = answers a @ answers b"
  by (simp add: answers_def List.map_filter_def)

lemma answers_Cons: "answers (m # ms) = (if jget m ''method'' = None then [jidx m ''id''] else []) @ answers ms"
  by (simp add: answers_def List.map_filter_simps)

lemma answers_Nil [simp]: "answers [] = []"
  by (simp add: answers_def List.map_filter_simps)

lemmas answer_simps = answers_Cons ok_response_def error_response_def update_message_def permission_ask_def jidx_def
  hm_get_def id_json_def

lemma answers_updates: "answers (map (\<lambda>x. update_message sid (f x)) xs) = []"
  by (induction xs) (simp_all add: answer_simps)

lemma answers_prompt: "answers (prompt_messages opts mcp p) = [id_json (mp_id p)]"
  by (simp add: prompt_messages_def Let_def answers_updates del: map_map list.map) (simp add: answer_simps)

lemma finish_answers:
  assumes "ma_status (finish_prompt p s) \<noteq> Mock_Panicked"
  shows "answers (ma_out (finish_prompt p s)) = answers (ma_out s) @ [id_json (mp_id p)] \<and> ma_waiting (finish_prompt p s) = None"
  using assms by (simp add: finish_prompt_def Let_def answers_prompt split: option.splits)

definition answers_one :: "mock_agent \<Rightarrow> json option \<Rightarrow> mock_agent \<Rightarrow> bool" where
  "answers_one s i s' \<longleftrightarrow> answers (ma_out s') @ unanswered s' = answers (ma_out s) @ [id_json i]"

lemma answers_write:
  assumes "ma_waiting s' = None" "ma_out s' = ma_out s" "jget m ''method'' = None" "jidx m ''id'' = id_json i"
  shows "answers_one s i (write_message m s')"
  using assms by (simp add: answers_one_def write_message_def unanswered_def answers_Cons)

lemma response_fields [simp]:
  "jget (ok_response i r) ''method'' = None" "jidx (ok_response i r) ''id'' = id_json i"
  "jget (error_response i c e) ''method'' = None" "jidx (error_response i c e) ''id'' = id_json i"
  by (simp_all add: ok_response_def error_response_def jidx_def hm_get_def)

lemma handler_answers:
  assumes "ma_waiting s = None"
  shows "answers_one s i (handle_session_new uuid i msg s)" "answers_one s i (handle_session_cancel i s)"
    "answers_one s i (handle_initialize i msg s)"
    "ma_status (handle_session_recover uuid rj e i s) \<noteq> Mock_Panicked \<Longrightarrow> answers_one s i (handle_session_recover uuid rj e i s)"
proof -
  show "answers_one s i (handle_session_new uuid i msg s)"
    using assms by (simp add: handle_session_new_def Let_def answers_write split: option.splits)
  show "answers_one s i (handle_session_cancel i s)"
    using assms by (simp add: handle_session_cancel_def answers_write)
  have "answers_one s i (write_message (update_message sid u) (write_message (ok_response i r) s'))"
    if "ma_waiting s' = None" "ma_out s' = ma_out s" for sid u r s'
    using that by (simp add: answers_one_def write_message_def unanswered_def answers_Cons)
      (simp add: update_message_def hm_get_def)
  then show "answers_one s i (handle_initialize i msg s)" using assms by (simp add: handle_initialize_def Let_def)
  show "ma_status (handle_session_recover uuid rj e i s) \<noteq> Mock_Panicked \<Longrightarrow> answers_one s i (handle_session_recover uuid rj e i s)"
    using assms by (simp add: handle_session_recover_def Let_def answers_write split: option.splits)
qed

lemma prompt_answers:
  assumes "ma_waiting s = None" "ma_status (handle_session_prompt i msg s) \<noteq> Mock_Panicked"
  shows "answers_one s i (handle_session_prompt i msg s)"
proof (cases "extract_prompt_parts msg")
  case None
  then show ?thesis using assms by (simp add: handle_session_prompt_def answers_write Let_def)
next
  case (Some parts)
  then obtain opts where opts: "ma_options s = Some opts"
    using assms(2) by (cases "ma_options s") (simp_all add: handle_session_prompt_def)
  let ?p = "\<lparr>mp_id = i, mp_session = unwrap_or (ma_session s) ''unknown'', mp_parts = parts, mp_think = ma_think s\<rparr>"
  show ?thesis
  proof (cases "ao_request_permission opts \<and> ma_prompt_count s = 0")
    case True
    then show ?thesis using Some opts
      by (simp add: handle_session_prompt_def Let_def answers_one_def write_message_def unanswered_def answers_Cons
        permission_ask_def hm_get_def)
  next
    case False
    then have "handle_session_prompt i msg s = finish_prompt ?p s" using Some opts by (auto simp: handle_session_prompt_def Let_def)
    then show ?thesis using finish_answers [of ?p s] assms(2) by (simp add: answers_one_def unanswered_def)
  qed
qed

lemma message_answers:
  assumes "ma_waiting s = None" "ma_status (mock_message uuid msg s) \<noteq> Mock_Panicked"
  shows "answers_one s (jget msg ''id'') (mock_message uuid msg s)"
  using assms handler_answers [OF assms(1)] prompt_answers [OF assms(1)]
  by (simp add: mock_message_def Let_def answers_write split: if_split_asm)

lemma line_answers:
  assumes "ma_status (mock_line parse uuid l s) \<noteq> Mock_Panicked"
  shows "answers (ma_out (mock_line parse uuid l s)) @ unanswered (mock_line parse uuid l s)
    = answers (ma_out s) @ unanswered s @ asked parse uuid [l] s"
proof (cases "ma_status s = Mock_Running")
  case running: True
  show ?thesis
  proof (cases "ma_waiting s")
    case (Some p)
    then show ?thesis using running assms finish_answers [of p s] by (simp add: mock_line_def unanswered_def)
  next
    case None
    show ?thesis
    proof (cases "str_trim l = [] \<or> parse l = None")
      case True
      then show ?thesis using running None by (auto simp: mock_line_def)
    next
      case False
      then obtain msg where "str_trim l \<noteq> []" "parse l = Some msg" by auto
      then show ?thesis using running None assms message_answers [OF None, of uuid msg]
        by (simp add: mock_line_def answers_one_def unanswered_def [of s])
    qed
  qed
qed (simp add: mock_line_def)

lemma panicked_stays: "ma_status s = Mock_Panicked \<Longrightarrow> mock_run parse uuid ls s = s"
  by (induction ls) (simp_all add: mock_run_def mock_line_def)

text \<open>
  The mock agent answers every request exactly once and in order.  As long as it has not
  panicked, the responses it has written carry the identifiers of the requests it has read, in that order;
  only a prompt that waits for a permission is still unanswered.
\<close>

lemma mock_answers_in_order:
  assumes "ma_status (mock_run parse uuid ls mock_new) \<noteq> Mock_Panicked"
  shows "answers (ma_out (mock_run parse uuid ls mock_new)) @ unanswered (mock_run parse uuid ls mock_new)
    = asked parse uuid ls mock_new"
proof -
  have "answers (ma_out (mock_run parse uuid ls s)) @ unanswered (mock_run parse uuid ls s)
    = answers (ma_out s) @ unanswered s @ asked parse uuid ls s" if "ma_status (mock_run parse uuid ls s) \<noteq> Mock_Panicked" for s
    using that
  proof (induction ls arbitrary: s)
    case (Cons l ls)
    have "ma_status (mock_line parse uuid l s) \<noteq> Mock_Panicked"
      using Cons.prems panicked_stays [of "mock_line parse uuid l s" parse uuid ls] by (auto simp: mock_run_def)
    from line_answers [OF this] Cons.IH [of "mock_line parse uuid l s"] Cons.prems
    show ?case by (simp add: mock_run_def)
  qed (simp add: mock_run_def)
  from this [OF assms] show ?thesis by (simp add: mock_new_def unanswered_def)
qed

text \<open>
  The commands the agent announces are under a field the host does not read: it sees none.
\<close>

lemma commands_not_seen:
  "from_content (jidx (update_message ''__global__'' commands_update) ''params'') = Kind_AvailableCommands (JArr [])"
  by (simp add: from_content_def update_message_def jidx_def commands_update_def str_field_def hm_get_def)

text \<open>An example: a handshake and a prompt.\<close>

definition mock_parse :: "string \<Rightarrow> json option" where
  "mock_parse l =
     (if l = ''init'' then Some (JObj [(''id'', JInt 1), (''method'', JStr ''initialize'')])
      else if l = ''prompt''
      then Some (JObj [(''id'', JInt 2), (''method'', JStr ''session/prompt''),
             (''params'', JObj [(''prompt'', JArr [mock_text ''hello''])])])
      else None)"

end
