(* ===== verification/Docker_Backend.thy ===== *)
theory Docker_Backend
  imports Config_Validate Connections
begin

text \<open>
  The process backends of the agents, \<open>docker_backend.rs\<close>, \<open>local_backend.rs\<close> and \<open>build_backend\<close> of \<open>connection.rs\<close>
  in \<open>crates/anyclaw-agents/src\<close>, with \<open>cleanup_stale_containers\<close> of \<open>session_recovery.rs\<close>.

  The Docker daemon, the operating system and the identifiers they give out are parameters: a call is
  answered by its kind and its number.  The state keeps the calls made so far, so that what a backend did to the daemon
  can be read off it.  A panic is \<open>None\<close>.
\<close>

section \<open>The daemon\<close>

record host_config =
  hc_memory :: "int option"
  hc_nano_cpus :: "int option"
  hc_binds :: "string list option"
  hc_network_mode :: "string option"
  hc_extra_hosts :: "string list option"

record container_create_body =
  cb_image :: string
  cb_attach_stdin :: bool
  cb_attach_stdout :: bool
  cb_attach_stderr :: bool
  cb_tty :: bool
  cb_open_stdin :: bool
  cb_env :: "string list option"
  cb_entrypoint :: "string list option"
  cb_labels :: "(string, string) hmap"
  cb_host_config :: host_config
  cb_networks :: "string list option"

datatype docker_call =
    Inspect_Image string
  | Create_Image string
  | Create_Container string container_create_body
  | Start_Container string
  | Attach_Container string
  | Stop_Container string nat
  | Remove_Container string
  | Wait_Container string
  | List_Containers string

record 'f docker_env =
  de_f64 :: "'f f64_ops"
  de_connect :: "string option \<Rightarrow> string + unit"
  de_unit :: "nat \<Rightarrow> docker_call \<Rightarrow> string + unit"
  de_pull :: "nat \<Rightarrow> string \<Rightarrow> (string + unit) list"
  de_create :: "nat \<Rightarrow> string \<Rightarrow> string + string"
  de_wait :: "nat \<Rightarrow> string \<Rightarrow> (string + int) list"
  de_list :: "nat \<Rightarrow> string \<Rightarrow> string + string option list"
  de_uuid :: "nat \<Rightarrow> string"
  de_sh :: "int \<Rightarrow> string + nat"

type_synonym docker_log = "docker_call list"


section \<open>The container\<close>

definition env_entry :: "string \<times> string \<Rightarrow> string" where
  "env_entry kv = fst kv @ ''='' @ snd kv"

definition build_container_config ::
  "docker_workspace_config \<Rightarrow> (string, string) hmap \<Rightarrow> host_config \<Rightarrow> container_create_body" where
  "build_container_config config labels hc =
     (let env = map env_entry (dw_env config)
      in \<lparr>cb_image = dw_image config, cb_attach_stdin = True, cb_attach_stdout = True, cb_attach_stderr = True,
          cb_tty = False, cb_open_stdin = True, cb_env = (if env = [] then None else Some env),
          cb_entrypoint = map_option soa_list (dw_entrypoint config), cb_labels = labels, cb_host_config = hc,
          cb_networks = map_option (\<lambda>n. [n]) (dw_network config)\<rparr>)"

definition some_nonempty :: "'a list \<Rightarrow> 'a list option" where
  "some_nonempty xs = (if xs = [] then None else Some xs)"

text \<open>\<open>.map(parse).transpose().map_err(...)\<close> of a limit.\<close>

definition limit_of :: "(limit_error \<Rightarrow> string) \<Rightarrow> (limit_error + int) option \<Rightarrow> agents_error + int option" where
  "limit_of str r =
     (case r of
        None \<Rightarrow> Inr None
      | Some (Inl e) \<Rightarrow> Inl (DockerError (str e))
      | Some (Inr n) \<Rightarrow> Inr (Some n))"

definition build_host_config :: "'f f64_ops \<Rightarrow> docker_workspace_config \<Rightarrow> (agents_error + host_config) option" where
  "build_host_config F config =
     (let rest = (\<lambda>memory.
            case limit_of cpu_error_str (map_option (parse_cpu_limit F) (dw_cpu_limit config)) of
              Inl e \<Rightarrow> Inl e
            | Inr cpus \<Rightarrow>
                Inr \<lparr>hc_memory = memory, hc_nano_cpus = cpus, hc_binds = some_nonempty (dw_volumes config),
                     hc_network_mode = dw_network config, hc_extra_hosts = some_nonempty (dw_extra_hosts config)\<rparr>);
          done = (\<lambda>r. case limit_of memory_error_str r of Inl e \<Rightarrow> Inl e | Inr memory \<Rightarrow> rest memory)
      in case dw_memory_limit config of
           None \<Rightarrow> Some (done None)
         | Some m \<Rightarrow> map_option (\<lambda>r. done (Some r)) (parse_memory_limit F m))"

definition container_name :: "string \<Rightarrow> string \<Rightarrow> string" where
  "container_name uuid agent = ''anyclaw-'' @ agent @ ''-'' @ take 8 uuid"

definition container_labels :: "string \<Rightarrow> (string, string) hmap" where
  "container_labels agent = [(''anyclaw.managed'', ''true''), (''anyclaw.agent'', agent)]"


section \<open>Spawning\<close>

record docker_backend =
  db_container_id :: "string option"
  db_container_name :: "string option"
  db_alive :: bool
  db_stdin :: bool
  db_stdout :: bool
  db_stderr :: bool

definition docker_call :: "'f docker_env \<Rightarrow> docker_call \<Rightarrow> docker_log \<Rightarrow> (string + unit) \<times> docker_log" where
  "docker_call E c l = (de_unit E (length l) c, l @ [c])"

fun pull_result :: "string \<Rightarrow> (string + unit) list \<Rightarrow> agents_error + unit" where
  "pull_result image_name [] = Inr ()"
| "pull_result image_name (Inr _ # items) = pull_result image_name items"
| "pull_result image_name (Inl e # items) = Inl (ImagePullFailed image_name e)"

definition do_pull :: "'f docker_env \<Rightarrow> string \<Rightarrow> docker_log \<Rightarrow> (agents_error + unit) \<times> docker_log" where
  "do_pull E image_name l =
     (pull_result image_name (de_pull E (length l) image_name), l @ [Create_Image image_name])"

definition pull_image_if_needed ::
  "'f docker_env \<Rightarrow> string \<Rightarrow> pull_policy \<Rightarrow> docker_log \<Rightarrow> (agents_error + unit) \<times> docker_log" where
  "pull_image_if_needed E image_name policy l =
     (case policy of
        Pull_Never \<Rightarrow> (Inr (), l)
      | Pull_IfNotPresent \<Rightarrow>
          (case docker_call E (Inspect_Image image_name) l of
             (Inr _, l') \<Rightarrow> (Inr (), l')
           | (Inl _, l') \<Rightarrow> do_pull E image_name l')
      | Pull_Always \<Rightarrow> do_pull E image_name l)"

definition create_and_start_container ::
  "'f docker_env \<Rightarrow> string \<Rightarrow> container_create_body \<Rightarrow> docker_log \<Rightarrow> (agents_error + string) \<times> docker_log" where
  "create_and_start_container E name body l =
     (case de_create E (length l) name of
        Inl e \<Rightarrow> (Inl (DockerError e), l @ [Create_Container name body])
      | Inr i \<Rightarrow>
          (case docker_call E (Start_Container i) (l @ [Create_Container name body]) of
             (Inl e, l') \<Rightarrow> (Inl (DockerError e), l')
           | (Inr _, l') \<Rightarrow> (Inr i, l')))"

definition attach_container_streams ::
  "'f docker_env \<Rightarrow> string \<Rightarrow> docker_log \<Rightarrow> (agents_error + unit) \<times> docker_log" where
  "attach_container_streams E i l =
     (case docker_call E (Attach_Container i) l of
        (Inl e, l') \<Rightarrow> (Inl (DockerError e), l')
      | (Inr _, l') \<Rightarrow> (Inr (), l'))"

definition docker_spawn ::
  "'f docker_env \<Rightarrow> docker_workspace_config \<Rightarrow> string \<Rightarrow> docker_log \<Rightarrow> ((agents_error + docker_backend) \<times> docker_log) option" where
  "docker_spawn E config agent l =
     (case de_connect E (dw_docker_host config) of
        Inl e \<Rightarrow> Some (Inl (DockerError e), l)
      | Inr _ \<Rightarrow>
          (case pull_image_if_needed E (dw_image config) (dw_pull_policy config) l of
             (Inl e, l1) \<Rightarrow> Some (Inl e, l1)
           | (Inr _, l1) \<Rightarrow>
               (let cname = container_name (de_uuid E (length l1)) agent
                in case build_host_config (de_f64 E) config of
                     None \<Rightarrow> None
                   | Some (Inl e) \<Rightarrow> Some (Inl e, l1)
                   | Some (Inr hc) \<Rightarrow>
                       (case create_and_start_container E cname
                               (build_container_config config (container_labels agent) hc) l1 of
                          (Inl e, l2) \<Rightarrow> Some (Inl e, l2)
                        | (Inr i, l2) \<Rightarrow>
                            (case attach_container_streams E i l2 of
                               (Inl e, l3) \<Rightarrow> Some (Inl e, l3)
                             | (Inr _, l3) \<Rightarrow>
                                 Some (Inr \<lparr>db_container_id = Some i, db_container_name = Some cname, db_alive = True,
                                            db_stdin = True, db_stdout = True, db_stderr = True\<rparr>, l3))))))"


section \<open>The streams\<close>

datatype log_output = Log_StdOut string | Log_StdErr string | Log_Other | Log_Error

text \<open>
  The demultiplexing task: what reaches the two pipes, given whether the \<open>n\<close>-th write to a pipe
  succeeds; it always ends by clearing the flag.
\<close>

fun demux :: "(nat \<Rightarrow> bool) \<Rightarrow> nat \<Rightarrow> log_output list \<Rightarrow> string list \<times> string list" where
  "demux ok n [] = ([], [])"
| "demux ok n (Log_StdOut m # items) =
     (if ok n then (let (out, err) = demux ok (Suc n) items in (m # out, err)) else ([], []))"
| "demux ok n (Log_StdErr m # items) =
     (if ok n then (let (out, err) = demux ok (Suc n) items in (out, m # err)) else ([], []))"
| "demux ok n (Log_Other # items) = demux ok n items"
| "demux ok n (Log_Error # items) = ([], [])"

definition run_demux :: "(nat \<Rightarrow> bool) \<Rightarrow> log_output list \<Rightarrow> docker_backend \<Rightarrow> (string list \<times> string list) \<times> docker_backend" where
  "run_demux ok items b = (demux ok 0 items, b\<lparr>db_alive := False\<rparr>)"

text \<open>
  The bridge to the standard input: chunks are read (an empty one is the end, \<open>None\<close> an error), written
  and flushed until one of these fails.
\<close>

fun stdin_bridge_loop :: "(nat \<Rightarrow> bool) \<Rightarrow> (nat \<Rightarrow> bool) \<Rightarrow> nat \<Rightarrow> string option list \<Rightarrow> string list" where
  "stdin_bridge_loop written flushed n [] = []"
| "stdin_bridge_loop written flushed n (None # reads) = []"
| "stdin_bridge_loop written flushed n (Some buf # reads) =
     (if buf = [] then []
      else if \<not> written n then []
      else if \<not> flushed n then [buf]
      else buf # stdin_bridge_loop written flushed (Suc n) reads)"


section \<open>The process backends\<close>

definition docker_is_alive :: "docker_backend \<Rightarrow> bool" where
  "docker_is_alive b = db_alive b"

definition docker_take_stdin :: "docker_backend \<Rightarrow> bool \<times> docker_backend" where
  "docker_take_stdin b = (db_stdin b, b\<lparr>db_stdin := False\<rparr>)"

definition docker_take_stdout :: "docker_backend \<Rightarrow> bool \<times> docker_backend" where
  "docker_take_stdout b = (db_stdout b, b\<lparr>db_stdout := False\<rparr>)"

definition docker_take_stderr :: "docker_backend \<Rightarrow> bool \<times> docker_backend" where
  "docker_take_stderr b = (db_stderr b, b\<lparr>db_stderr := False\<rparr>)"

definition docker_kill ::
  "'f docker_env \<Rightarrow> docker_backend \<Rightarrow> docker_log \<Rightarrow> (agents_error + unit) \<times> docker_backend \<times> docker_log" where
  "docker_kill E b l =
     (case db_container_id b of
        None \<Rightarrow> (Inr (), b\<lparr>db_alive := False\<rparr>, l)
      | Some i \<Rightarrow>
          (let (_, l1) = docker_call E (Stop_Container i 10) l
           in case docker_call E (Remove_Container i) l1 of
                (Inl e, l2) \<Rightarrow> (Inl (DockerError e), b, l2)
              | (Inr _, l2) \<Rightarrow> (Inr (), b\<lparr>db_alive := False\<rparr>, l2)))"

text \<open>\<open>s.rsplit(p).next()\<close>: what follows the last occurrence of \<open>p\<close>.\<close>

fun after_last :: "string \<Rightarrow> string \<Rightarrow> string" where
  "after_last p [] = []"
| "after_last p (c # cs) =
     (if str_contains p cs then after_last p cs
      else if take (length p) (c # cs) = p then drop (length p) (c # cs) else c # cs)"

definition parse_exit_code_from_error :: "string \<Rightarrow> int option" where
  "parse_exit_code_from_error msg = parse_i64 (str_trim (after_last ''code: '' msg))"

definition docker_wait ::
  "'f docker_env \<Rightarrow> docker_backend \<Rightarrow> docker_log \<Rightarrow> (agents_error + nat) \<times> docker_backend \<times> docker_log" where
  "docker_wait E b l =
     (let (code, l1) =
        (case db_container_id b of
           None \<Rightarrow> (0, l)
         | Some i \<Rightarrow>
             ((case de_wait E (length l) i of
                 Inr code # _ \<Rightarrow> code
               | Inl e # _ \<Rightarrow> unwrap_or (parse_exit_code_from_error e) 1
               | [] \<Rightarrow> 0), l @ [Wait_Container i]))
      in ((case de_sh E code of Inl e \<Rightarrow> Inl (Io e) | Inr st \<Rightarrow> Inr st), b\<lparr>db_alive := False\<rparr>, l1))"

text \<open>A child process: its pipes and whether it has ended.\<close>

record local_backend =
  lb_stdin :: bool
  lb_stdout :: bool
  lb_stderr :: bool
  lb_exited :: bool

record command =
  cmd_name :: string
  cmd_args :: "string list"
  cmd_env :: "(string, string) hmap"
  cmd_dir :: path

definition local_new :: local_backend where
  "local_new = \<lparr>lb_stdin = True, lb_stdout = True, lb_stderr = True, lb_exited = False\<rparr>"

definition local_is_alive :: "local_backend \<Rightarrow> bool" where
  "local_is_alive b = (\<not> lb_exited b)"

definition local_take_stdin :: "local_backend \<Rightarrow> bool \<times> local_backend" where
  "local_take_stdin b = (lb_stdin b, b\<lparr>lb_stdin := False\<rparr>)"

definition local_take_stdout :: "local_backend \<Rightarrow> bool \<times> local_backend" where
  "local_take_stdout b = (lb_stdout b, b\<lparr>lb_stdout := False\<rparr>)"

definition local_take_stderr :: "local_backend \<Rightarrow> bool \<times> local_backend" where
  "local_take_stderr b = (lb_stderr b, b\<lparr>lb_stderr := False\<rparr>)"

text \<open>\<open>Child::kill\<close> kills the process and waits for it.\<close>

definition local_kill :: "(string + unit) \<Rightarrow> local_backend \<Rightarrow> (agents_error + unit) \<times> local_backend" where
  "local_kill r b = (case r of Inl e \<Rightarrow> (Inl (Io e), b) | Inr _ \<Rightarrow> (Inr (), b\<lparr>lb_exited := True\<rparr>))"

definition local_wait :: "(string + nat) \<Rightarrow> local_backend \<Rightarrow> (agents_error + nat) \<times> local_backend" where
  "local_wait r b = (case r of Inl e \<Rightarrow> (Inl (Io e), b) | Inr st \<Rightarrow> (Inr st, b\<lparr>lb_exited := True\<rparr>))"


section \<open>Building the backend of an agent\<close>

datatype process_backend = Backend_Local local_backend | Backend_Docker docker_backend

definition local_command :: "string option \<Rightarrow> local_workspace_config \<Rightarrow> command option" where
  "local_command log_level cfg =
     map_option (\<lambda>(name, args).
       \<lparr>cmd_name = name, cmd_args = args,
        cmd_env = (case log_level of Some level \<Rightarrow> hm_insert ''RUST_LOG'' level (lw_env cfg) | None \<Rightarrow> lw_env cfg),
        cmd_dir = unwrap_or (lw_working_dir cfg) ''.''\<rparr>)
       (command_and_args (lw_binary cfg))"

text \<open>The three pipes are taken, with a panic where one is missing.\<close>

definition local_stdio :: "local_backend \<Rightarrow> local_backend option" where
  "local_stdio b =
     (case local_take_stdin b of (i, b1) \<Rightarrow>
      case local_take_stdout b1 of (out, b2) \<Rightarrow>
      case local_take_stderr b2 of (err, b3) \<Rightarrow> if i \<and> out \<and> err then Some b3 else None)"

definition docker_stdio :: "docker_backend \<Rightarrow> docker_backend option" where
  "docker_stdio b =
     (case docker_take_stdin b of (i, b1) \<Rightarrow>
      case docker_take_stdout b1 of (out, b2) \<Rightarrow>
      case docker_take_stderr b2 of (err, b3) \<Rightarrow> if i \<and> out \<and> err then Some b3 else None)"

definition build_backend ::
  "'f docker_env \<Rightarrow> (command \<Rightarrow> string + unit) \<Rightarrow> agent_config \<Rightarrow> string \<Rightarrow> string option \<Rightarrow> docker_log
    \<Rightarrow> ((agents_error + process_backend) \<times> docker_log) option" where
  "build_backend E spawn config name log_level l =
     (case ac_workspace config of
        Ws_Local cfg \<Rightarrow>
          (case local_command log_level cfg of
             None \<Rightarrow> None
           | Some cmd \<Rightarrow>
               (case spawn cmd of
                  Inl e \<Rightarrow> Some (Inl (SpawnFailed (cmd_name cmd @ '': '' @ e)), l)
                | Inr _ \<Rightarrow> map_option (\<lambda>b. (Inr (Backend_Local b), l)) (local_stdio local_new)))
      | Ws_Docker cfg \<Rightarrow>
          (case docker_spawn E cfg name l of
             None \<Rightarrow> None
           | Some (Inl e, l') \<Rightarrow> Some (Inl e, l')
           | Some (Inr b, l') \<Rightarrow> map_option (\<lambda>b. (Inr (Backend_Docker b), l')) (docker_stdio b)))"


section \<open>The process of a connection\<close>

text \<open>
  \<open>AgentConnection\<close> as its owner sees it: the backend, the state of the protocol, whether its three tasks run,
  and whether the receiver of incoming messages is still there (\<open>None\<close> in bridge mode).
\<close>

record agent_process =
  ap_backend :: process_backend
  ap_connection :: agent_connection
  ap_tasks :: bool
  ap_incoming_rx :: bool

definition spawn_inner ::
  "'f docker_env \<Rightarrow> (command \<Rightarrow> string + unit) \<Rightarrow> agent_config \<Rightarrow> string \<Rightarrow> bool \<Rightarrow> string option \<Rightarrow> docker_log
    \<Rightarrow> ((agents_error + agent_process) \<times> docker_log) option" where
  "spawn_inner E spawn config name bridge log_level l =
     (case build_backend E spawn config name log_level l of
        None \<Rightarrow> None
      | Some (Inl e, l') \<Rightarrow> Some (Inl e, l')
      | Some (Inr b, l') \<Rightarrow>
          Some (Inr \<lparr>ap_backend = b, ap_connection = agent_conn_new, ap_tasks = True, ap_incoming_rx = (\<not> bridge)\<rparr>, l'))"

definition take_incoming_rx :: "agent_process \<Rightarrow> agent_process option" where
  "take_incoming_rx p = (if ap_incoming_rx p then Some (p\<lparr>ap_incoming_rx := False\<rparr>) else None)"

definition process_is_alive :: "agent_process \<Rightarrow> bool" where
  "process_is_alive p =
     (case ap_backend p of Backend_Local b \<Rightarrow> local_is_alive b | Backend_Docker b \<Rightarrow> docker_is_alive b)"

definition process_kill ::
  "'f docker_env \<Rightarrow> (string + unit) \<Rightarrow> agent_process \<Rightarrow> docker_log \<Rightarrow> (agents_error + unit) \<times> agent_process \<times> docker_log" where
  "process_kill E os p l =
     (let (r, b, l') =
        (case ap_backend p of
           Backend_Local b \<Rightarrow> (case local_kill os b of (r, b') \<Rightarrow> (r, Backend_Local b', l))
         | Backend_Docker b \<Rightarrow> (case docker_kill E b l of (r, b', l') \<Rightarrow> (r, Backend_Docker b', l')))
      in (r, p\<lparr>ap_backend := b, ap_tasks := (case r of Inl _ \<Rightarrow> ap_tasks p | Inr _ \<Rightarrow> False)\<rparr>, l'))"

definition process_wait ::
  "'f docker_env \<Rightarrow> (string + nat) \<Rightarrow> agent_process \<Rightarrow> docker_log \<Rightarrow> (agents_error + nat) \<times> agent_process \<times> docker_log" where
  "process_wait E os p l =
     (case ap_backend p of
        Backend_Local b \<Rightarrow> (case local_wait os b of (r, b') \<Rightarrow> (r, p\<lparr>ap_backend := Backend_Local b'\<rparr>, l))
      | Backend_Docker b \<Rightarrow> (case docker_wait E b l of (r, b', l') \<Rightarrow> (r, p\<lparr>ap_backend := Backend_Docker b'\<rparr>, l')))"


section \<open>Stale containers\<close>

fun remove_listed :: "'f docker_env \<Rightarrow> string option list \<Rightarrow> docker_log \<Rightarrow> docker_log" where
  "remove_listed E [] l = l"
| "remove_listed E (None # cs) l = remove_listed E cs l"
| "remove_listed E (Some i # cs) l =
     (let (_, l1) = docker_call E (Stop_Container i 5) l; (_, l2) = docker_call E (Remove_Container i) l1
      in remove_listed E cs l2)"

definition cleanup_agent :: "'f docker_env \<Rightarrow> agent_config \<Rightarrow> docker_log \<Rightarrow> docker_log" where
  "cleanup_agent E config l =
     (case ac_workspace config of
        Ws_Local _ \<Rightarrow> l
      | Ws_Docker d \<Rightarrow>
          (case de_connect E (dw_docker_host d) of
             Inl _ \<Rightarrow> l
           | Inr _ \<Rightarrow>
               (case de_list E (length l) ''anyclaw.managed=true'' of
                  Inl _ \<Rightarrow> l @ [List_Containers ''anyclaw.managed=true'']
                | Inr cs \<Rightarrow> remove_listed E cs (l @ [List_Containers ''anyclaw.managed=true'']))))"

definition cleanup_stale_containers :: "'f docker_env \<Rightarrow> (string, agent_config) hmap \<Rightarrow> docker_log \<Rightarrow> docker_log" where
  "cleanup_stale_containers E configs l = fold (\<lambda>(name, config). cleanup_agent E config) configs l"

section \<open>The interface of a backend\<close>

text \<open>
  What \<open>AgentConnection\<close> relies on: each pipe can be taken once, taking one leaves the others and the
  process alone, and a process that has been killed is not alive.
\<close>

locale backend =
  fixes take_in take_out take_err :: "'b \<Rightarrow> bool \<times> 'b" and alive :: "'b \<Rightarrow> bool"
    and killed :: "'b \<Rightarrow> 'b \<Rightarrow> bool"
  assumes taken: "\<not> fst (take_in (snd (take_in b)))" "\<not> fst (take_out (snd (take_out b)))" "\<not> fst (take_err (snd (take_err b)))"
    and in_keeps: "fst (take_out (snd (take_in b))) = fst (take_out b)" "fst (take_err (snd (take_in b))) = fst (take_err b)"
    and out_keeps: "fst (take_in (snd (take_out b))) = fst (take_in b)" "fst (take_err (snd (take_out b))) = fst (take_err b)"
    and err_keeps: "fst (take_in (snd (take_err b))) = fst (take_in b)" "fst (take_out (snd (take_err b))) = fst (take_out b)"
    and alive_kept: "alive (snd (take_in b)) = alive b" "alive (snd (take_out b)) = alive b" "alive (snd (take_err b)) = alive b"
    and kill_ends: "killed b b' \<Longrightarrow> \<not> alive b'"
begin

definition stdio :: "'b \<Rightarrow> 'b option" where
  "stdio b =
     (case take_in b of (i, b1) \<Rightarrow>
      case take_out b1 of (out, b2) \<Rightarrow>
      case take_err b2 of (err, b3) \<Rightarrow> if i \<and> out \<and> err then Some b3 else None)"

lemma stdio_fresh:
  "stdio b = (if fst (take_in b) \<and> fst (take_out b) \<and> fst (take_err b)
     then Some (snd (take_err (snd (take_out (snd (take_in b)))))) else None)"
  using in_keeps [of b] out_keeps [of "snd (take_in b)"] by (simp add: stdio_def case_prod_beta)

lemma stdio_once: "stdio b = Some b' \<Longrightarrow> stdio b' = None \<and> alive b' = alive b"
  using taken(1) [of b] out_keeps(1) [of "snd (take_in b)"] err_keeps(1) [of "snd (take_out (snd (take_in b)))"]
  by (auto simp: stdio_fresh alive_kept split: if_splits)

end

lemma docker_kill_dead:
  assumes "docker_kill E b l = (Inr (), b', l')"
  shows "\<not> docker_is_alive b'"
proof (cases "db_container_id b")
  case (Some i)
  then show ?thesis using assms
    by (cases "de_unit E (Suc (length l)) (Remove_Container i)") (auto simp: docker_kill_def docker_call_def docker_is_alive_def)
qed (use assms in \<open>auto simp: docker_kill_def docker_is_alive_def\<close>)

interpretation docker: backend docker_take_stdin docker_take_stdout docker_take_stderr docker_is_alive
  "\<lambda>b b'. \<exists>E l l'. docker_kill E b l = (Inr (), b', l')"
  by unfold_locales (auto simp: docker_take_stdin_def docker_take_stdout_def docker_take_stderr_def docker_is_alive_def
    dest: docker_kill_dead [unfolded docker_is_alive_def])

interpretation child: backend local_take_stdin local_take_stdout local_take_stderr local_is_alive
  "\<lambda>b b'. local_kill (Inr ()) b = (Inr (), b')"
  by unfold_locales (auto simp: local_take_stdin_def local_take_stdout_def local_take_stderr_def local_is_alive_def local_kill_def)

lemma docker_stdio_is: "docker_stdio = docker.stdio"
  by (simp add: fun_eq_iff docker_stdio_def docker.stdio_def)

lemma local_stdio_is: "local_stdio = child.stdio"
  by (simp add: fun_eq_iff local_stdio_def child.stdio_def)


section \<open>Validated configurations\<close>

text \<open>The limits of a container are those of its configuration.\<close>

definition held_to :: "'f f64_ops \<Rightarrow> docker_workspace_config \<Rightarrow> host_config \<Rightarrow> bool" where
  "held_to F d hc \<longleftrightarrow>
     (case dw_memory_limit d of None \<Rightarrow> hc_memory hc = None
      | Some m \<Rightarrow> (case parse_memory_limit F m of Some (Inr n) \<Rightarrow> hc_memory hc = Some n | _ \<Rightarrow> False))
     \<and> (case dw_cpu_limit d of None \<Rightarrow> hc_nano_cpus hc = None
      | Some c \<Rightarrow> (case parse_cpu_limit F c of Inr n \<Rightarrow> hc_nano_cpus hc = Some n | _ \<Rightarrow> False))"

lemma limit_of_simps [simp]: "limit_of f None = Inr None" "limit_of f (Some (Inr n)) = Inr (Some n)"
  by (simp_all add: limit_of_def)

lemma host_config_ok:
  assumes "validate_docker_agent V name d = Some []"
  shows "\<exists>hc. build_host_config (ve_f64 V) d = Some (Inr hc) \<and> held_to (ve_f64 V) d hc"
proof -
  have mem: "validate_memory V name (dw_memory_limit d) = Some []"
    and cpu: "\<And>c e. dw_cpu_limit d = Some c \<Longrightarrow> parse_cpu_limit (ve_f64 V) c \<noteq> Inl e"
    using assms by (auto simp: validate_docker_agent_def split: option.splits sum.splits)
  obtain cpus where cpus: "limit_of cpu_error_str (map_option (parse_cpu_limit (ve_f64 V)) (dw_cpu_limit d)) = Inr cpus"
    "case dw_cpu_limit d of None \<Rightarrow> cpus = None | Some c \<Rightarrow> \<exists>n. parse_cpu_limit (ve_f64 V) c = Inr n \<and> cpus = Some n"
  proof (cases "dw_cpu_limit d")
    case (Some c)
    then obtain n where "parse_cpu_limit (ve_f64 V) c = Inr n" using cpu by (cases "parse_cpu_limit (ve_f64 V) c") auto
    then show ?thesis using that [of "Some n"] Some by simp
  qed (use that [of None] in simp)
  show ?thesis
  proof (cases "dw_memory_limit d")
    case None
    then show ?thesis using cpus by (auto simp: build_host_config_def held_to_def split: option.split_asm)
  next
    case (Some m)
    then obtain n where "parse_memory_limit (ve_f64 V) m = Some (Inr n)"
      using mem by (cases "parse_memory_limit (ve_f64 V) m"; cases "the (parse_memory_limit (ve_f64 V) m)")
        (auto simp: validate_memory_def)
    then show ?thesis using Some cpus by (auto simp: build_host_config_def held_to_def split: option.split_asm)
  qed
qed

lemma spawn_no_panic:
  assumes "validate_docker_agent V name d = Some []" "de_f64 E = ve_f64 V"
  shows "\<exists>r l'. docker_spawn E d name l = Some (r, l') \<and> (\<forall>b. r = Inr b \<longrightarrow> db_stdin b \<and> db_stdout b \<and> db_stderr b \<and> db_alive b)"
proof -
  obtain hc where "build_host_config (de_f64 E) d = Some (Inr hc)" using host_config_ok [OF assms(1)] assms(2) by auto
  then show ?thesis
    by (simp add: docker_spawn_def Let_def split: prod.splits sum.splits)
qed
text \<open>
  A validated agent can be built.  When validation finds nothing wrong with an agent, building its
  backend never panics, whatever the daemon and the operating system answer; a backend that is built has
  handed out its three pipes, which cannot be taken again, and is alive.
\<close>

lemma validated_agent_builds:
  assumes "validate_agent V (name, config) = Some []" "de_f64 E = ve_f64 V"
  shows "\<exists>r l'. build_backend E spawn config name log_level l = Some (r, l')
    \<and> (case r of
         Inl e \<Rightarrow> True
       | Inr (Backend_Local b) \<Rightarrow> local_is_alive b \<and> local_stdio b = None
       | Inr (Backend_Docker b) \<Rightarrow> docker_is_alive b \<and> docker_stdio b = None)"
proof (cases "ac_workspace config")
  case (Ws_Local cfg)
  then obtain n args where "command_and_args (lw_binary cfg) = Some (n, args)"
    using assms(1) by (auto simp: validate_agent_def validate_local_agent_def soa_first_def command_and_args_def
      split: option.split_asm list.splits)
  then obtain cmd where cmd: "local_command log_level cfg = Some cmd" by (auto simp: local_command_def)
  obtain b where b: "local_stdio local_new = Some b" "local_stdio b = None \<and> local_is_alive b = local_is_alive local_new"
    using child.stdio_once [of local_new] unfolding local_stdio_is child.stdio_fresh
    by (simp add: local_new_def local_take_stdin_def local_take_stdout_def local_take_stderr_def)
  then show ?thesis
    using Ws_Local cmd by (cases "spawn cmd") (simp_all add: build_backend_def local_is_alive_def local_new_def)
next
  case (Ws_Docker d)
  then obtain r l' where r: "docker_spawn E d name l = Some (r, l')"
    "\<And>b. r = Inr b \<Longrightarrow> db_stdin b \<and> db_stdout b \<and> db_stderr b \<and> db_alive b"
    using assms spawn_no_panic [of V name d E l] by (auto simp: validate_agent_def)
  show ?thesis
  proof (cases r)
    case (Inr b)
    obtain b' where "docker_stdio b = Some b'" "docker_stdio b' = None \<and> docker_is_alive b' = docker_is_alive b"
      using r(2) [OF Inr] docker.stdio_once [of b] unfolding docker_stdio_is docker.stdio_fresh
      by (simp add: docker_take_stdin_def docker_take_stdout_def docker_take_stderr_def)
    then show ?thesis using Ws_Docker r Inr by (simp add: build_backend_def docker_is_alive_def)
  qed (use Ws_Docker r in \<open>simp add: build_backend_def\<close>)
qed


text \<open>
  A container that cannot be started is left behind.  When the daemon creates the container but
  refuses to start it, spawning fails without removing it, and nothing keeps its identifier.
\<close>

lemma failed_start_leaves_container:
  assumes valid: "build_host_config (de_f64 E) d = Some (Inr hc)"
    and daemon: "de_connect E (dw_docker_host d) = Inr ()" "\<And>n c. de_create E n c = Inr i"
      "pull_image_if_needed E (dw_image d) (dw_pull_policy d) l = (Inr (), l1)" "\<And>n. de_unit E n (Start_Container i) = Inl e"
  shows "\<exists>cname body. docker_spawn E d name l
      = Some (Inl (DockerError e), l1 @ [Create_Container cname body, Start_Container i])
    \<and> hm_get (cb_labels body) ''anyclaw.managed'' = Some ''true''"
  using assms
  by (simp add: docker_spawn_def create_and_start_container_def docker_call_def build_container_config_def container_labels_def
    hm_get_def)
text \<open>A kill that succeeds ends the process and its tasks; one that fails leaves the tasks running.\<close>

lemma process_kill_ends:
  assumes "process_kill E os p l = (Inr (), p', l')"
  shows "\<not> process_is_alive p' \<and> \<not> ap_tasks p'"
proof (cases "ap_backend p")
  case (Backend_Local b)
  then show ?thesis using assms child.kill_ends [of b]
    by (cases os) (auto simp: process_kill_def process_is_alive_def local_kill_def local_is_alive_def)
next
  case (Backend_Docker b)
  obtain r b' l'' where k: "docker_kill E b l = (r, b', l'')" by (metis prod_cases3)
  then show ?thesis using Backend_Docker assms docker_kill_dead [of E b l b' l'']
    by (auto simp: process_kill_def process_is_alive_def)
qed

lemma process_kill_failed: "process_kill E os p l = (Inl e, p', l') \<Longrightarrow> ap_tasks p' = ap_tasks p"
  by (auto simp: process_kill_def Let_def split: prod.splits)

section \<open>Cleaning up\<close>

lemma remove_listed_keeps: "set l \<subseteq> set (remove_listed E cs l)"
  by (induction E cs l rule: remove_listed.induct) (auto simp: docker_call_def Let_def)

lemma remove_listed_all: "Some i \<in> set cs \<Longrightarrow> Remove_Container i \<in> set (remove_listed E cs l)"
proof (induction E cs l rule: remove_listed.induct)
  case (3 E j cs l)
  let ?l = "(l @ [Stop_Container j 5]) @ [Remove_Container j]"
  have "remove_listed E (Some j # cs) l = remove_listed E cs ?l" by (simp add: docker_call_def)
  moreover have "Remove_Container j \<in> set (remove_listed E cs ?l)" using remove_listed_keeps [of ?l E cs] by auto
  ultimately show ?case using 3 by (auto simp: docker_call_def)
qed auto

lemma cleanup_agent_keeps: "set l \<subseteq> set (cleanup_agent E config l)"
  using remove_listed_keeps [of "l @ [List_Containers ''anyclaw.managed=true'']" E]
  by (fastforce simp: cleanup_agent_def split: workspace_config.splits sum.splits)

lemma fold_cleanup_keeps: "set l \<subseteq> set (fold (\<lambda>(name, config). cleanup_agent E config) configs l)"
proof (induction configs arbitrary: l)
  case (Cons c configs)
  show ?case using Cons.IH [of "cleanup_agent E (snd c) l"] cleanup_agent_keeps [of l E "snd c"] by (cases c) auto
qed simp

text \<open>
  Every container the daemon lists under the label is removed, whichever agent and whichever anyclaw process
  it belongs to: the filter names neither.
\<close>

lemma cleanup_removes_every_managed_container:
  assumes "(name, config) \<in> set configs" "ac_workspace config = Ws_Docker d" "de_connect E (dw_docker_host d) = Inr ()"
    and "\<And>n. de_list E n ''anyclaw.managed=true'' = Inr cs" "Some i \<in> set cs"
  shows "Remove_Container i \<in> set (cleanup_stale_containers E configs l)"
  using assms(1) unfolding cleanup_stale_containers_def
proof (induction configs arbitrary: l)
  case (Cons c configs)
  show ?case
  proof (cases "c = (name, config)")
    case True
    then have "Remove_Container i \<in> set (cleanup_agent E config l)"
      using assms(2-) remove_listed_all [OF assms(5)] by (simp add: cleanup_agent_def)
    then show ?thesis using True fold_cleanup_keeps [of "cleanup_agent E config l" E configs] by auto
  next
    case False
    then show ?thesis using Cons by simp
  qed
qed simp


section \<open>Streams and exit codes\<close>

lemma bridge_in_order: "\<exists>rest. map (\<lambda>r. case r of Some b \<Rightarrow> b | None \<Rightarrow> []) reads
    = stdin_bridge_loop written flushed n reads @ rest"
proof (induction written flushed n reads rule: stdin_bridge_loop.induct)
  case (3 written flushed n buf reads)
  then show ?case by auto
qed auto

text \<open>The demultiplexer keeps the order on each pipe and stops once: what it forwards is what the first items say.\<close>

lemma demux_prefix:
  "\<exists>k. demux ok n items =
     (List.map_filter (\<lambda>i. case i of Log_StdOut m \<Rightarrow> Some m | _ \<Rightarrow> None) (take k items),
      List.map_filter (\<lambda>i. case i of Log_StdErr m \<Rightarrow> Some m | _ \<Rightarrow> None) (take k items))"
proof (induction ok n items rule: demux.induct)
  case (2 ok n m items)
  show ?case
  proof (cases "ok n")
    case True
    from 2 [OF True] obtain k where "demux ok (Suc n) items =
     (List.map_filter (\<lambda>i. case i of Log_StdOut m \<Rightarrow> Some m | _ \<Rightarrow> None) (take k items),
      List.map_filter (\<lambda>i. case i of Log_StdErr m \<Rightarrow> Some m | _ \<Rightarrow> None) (take k items))" by blast
    then show ?thesis using True by (intro exI [of _ "Suc k"]) (simp add: List.map_filter_simps)
  qed (auto intro: exI [of _ 0] simp: List.map_filter_simps)
next
  case (3 ok n m items)
  show ?case
  proof (cases "ok n")
    case True
    from 3 [OF True] obtain k where "demux ok (Suc n) items =
     (List.map_filter (\<lambda>i. case i of Log_StdOut m \<Rightarrow> Some m | _ \<Rightarrow> None) (take k items),
      List.map_filter (\<lambda>i. case i of Log_StdErr m \<Rightarrow> Some m | _ \<Rightarrow> None) (take k items))" by blast
    then show ?thesis using True by (intro exI [of _ "Suc k"]) (simp add: List.map_filter_simps)
  qed (auto intro: exI [of _ 0] simp: List.map_filter_simps)
next
  case (4 ok n items)
  then obtain k where "demux ok n items =
     (List.map_filter (\<lambda>i. case i of Log_StdOut m \<Rightarrow> Some m | _ \<Rightarrow> None) (take k items),
      List.map_filter (\<lambda>i. case i of Log_StdErr m \<Rightarrow> Some m | _ \<Rightarrow> None) (take k items))" by blast
  then show ?case by (intro exI [of _ "Suc k"]) (simp add: List.map_filter_simps)
qed (auto intro: exI [of _ 0] simp: List.map_filter_simps)

lemma contains_hd: "p \<noteq> [] \<Longrightarrow> hd p \<notin> set s \<Longrightarrow> \<not> str_contains p s"
proof (induction s)
  case (Cons x s)
  then show ?case by (cases p) auto
qed simp

lemma contains_start: "take (length p) s = p \<Longrightarrow> str_contains p s"
  by (cases s) auto

lemma contains_append: "str_contains p (a @ p @ b)"
  by (induction a) (simp_all add: contains_start)

lemma after_last_append:
  assumes "p \<noteq> []" "hd p \<notin> set (tl p)" "hd p \<notin> set b"
  shows "after_last p (a @ p @ b) = b"
proof (induction a)
  case Nil
  obtain c cs where p: "p = c # cs" using assms(1) by (cases p) auto
  have "\<not> str_contains p (cs @ b)" by (rule contains_hd) (use assms p in auto)
  then show ?case using p by simp
next
  case (Cons x a)
  then show ?case using contains_append [of p a b] by simp
qed

text \<open>The exit code in the error of the Docker client is read back.\<close>

lemma exit_code_read_back:
  assumes "i64_min \<le> code" "code \<le> i64_max"
  shows "parse_exit_code_from_error (msg @ ''code: '' @ show_int code) = Some code"
proof -
  have "CHR ''c'' \<notin> set (digits_of n)" for n using digits_of_digit [of "CHR ''c''" n] by (auto simp: digit_val_def)
  then have "CHR ''c'' \<notin> set (show_int code)" by (simp add: show_int_def)
  then have "after_last ''code: '' (msg @ ''code: '' @ show_int code) = show_int code"
    by (intro after_last_append) simp_all
  then show ?thesis using parse_i64_show [OF assms] by (simp add: parse_exit_code_from_error_def)
qed
section \<open>An example\<close>

definition limit_ops :: "nat f64_ops" where
  "limit_ops = \<lparr>f64_parse = (\<lambda>s. parse_digits 0 s), f64_le_zero = (\<lambda>n. n = 0), f64_scaled = (\<lambda>n k. int n * k)\<rparr>"

definition calm_daemon :: "nat docker_env" where
  "calm_daemon =
     \<lparr>de_f64 = limit_ops, de_connect = (\<lambda>_. Inr ()), de_unit = (\<lambda>_ _. Inr ()), de_pull = (\<lambda>_ _. []),
      de_create = (\<lambda>_ _. Inr ''c1''), de_wait = (\<lambda>_ _. []), de_list = (\<lambda>_ _. Inr []), de_uuid = (\<lambda>_. ''0123456789''),
      de_sh = (\<lambda>n. Inr 0)\<rparr>"

definition limited_agent :: docker_workspace_config where
  "limited_agent =
     \<lparr>dw_image = ''agent:1'', dw_entrypoint = None, dw_volumes = [], dw_env = [], dw_memory_limit = Some ''512m'',
      dw_cpu_limit = None, dw_docker_host = None, dw_network = None, dw_pull_policy = Pull_Never, dw_working_dir = None,
      dw_extra_hosts = []\<rparr>"

definition plain_validator :: "nat validate_env" where
  "plain_validator = \<lparr>ve_is_file = (\<lambda>_. True), ve_exists = (\<lambda>_. True), ve_runs = (\<lambda>_. True), ve_f64 = limit_ops\<rparr>"

lemma memory_512m: "parse_memory_limit limit_ops ''512m'' = Some (Inr 536870912)"
  by (simp add: parse_memory_limit_def trim_graphic graphic_def limit_ops_def to_ascii_lowercase_def ascii_lower_char_def
    digit_val_def Let_def)

lemma limited_agent_valid: "validate_docker_agent plain_validator ''a'' limited_agent = Some []"
  by (simp add: validate_docker_agent_def validate_memory_def limited_agent_def plain_validator_def memory_512m)


definition docker_agent :: agent_config where
  "docker_agent = \<lparr>ac_workspace = Ws_Docker limited_agent, ac_enabled = True, ac_tools = [], ac_acp_timeout_secs = None,
     ac_backoff = None, ac_crash_tracker = None, ac_options = []\<rparr>"

end
