(* ===== verification/Cli.thy ===== *)
theory Cli
  imports Docker_Backend Supervisor
begin

text \<open>
  The command line, \<open>crates/anyclaw/src\<close>: \<open>validate\<close>, \<open>status\<close> and \<open>init\<close> with the startup banner.  Reading and writing files,
  the schema validator, loading the configuration, the HTTP client and the running of a program are
  parameters; what is printed is a string.

  The lemmas tie the commands to the rest: a configuration that \<open>validate\<close> accepts has agents whose backends can
  be built, and \<open>status\<close> shows what the supervisor's snapshot says.
\<close>

section \<open>Results of a command\<close>

text \<open>
  A command ends with what it has printed, with an error that \<open>main\<close> returns, by \<open>exit\<close>, or by a panic.  The lines on the standard
  error come first.
\<close>

datatype cli_result =
    Cli_Ok "string list" string
  | Cli_Error "string list" string
  | Cli_Exit "string list" nat
  | Cli_Panic

definition CROSS :: string where "CROSS = [CHR 0xE2, CHR 0x9C, CHR 0x97]"
definition WARN :: string where "WARN = [CHR 0xE2, CHR 0x9A, CHR 0xA0]"
definition TICK :: string where "TICK = [CHR 0xE2, CHR 0x9C, CHR 0x93]"

definition line :: "string \<Rightarrow> string" where
  "line s = s @ [CHR 0x0A]"


section \<open>\<open>validate\<close>\<close>

record 'f cli_env =
  cl_read :: "string + string"
  cl_schema_errors :: "string \<Rightarrow> string list"
  cl_yaml :: "string \<Rightarrow> json option"
  cl_schema :: json
  cl_load :: "string + anyclaw_config"
  cl_validate :: "'f validate_env"
  cl_show_error :: "validation_error \<Rightarrow> string"

definition unknown_key_lines :: "bool \<Rightarrow> string list \<Rightarrow> string list" where
  "unknown_key_lines strict ks = map (\<lambda>k. ''  '' @ (if strict then CROSS else WARN) @ '' unknown key: '' @ k) ks"

definition validate_command :: "'f cli_env \<Rightarrow> string \<Rightarrow> bool \<Rightarrow> cli_result" where
  "validate_command C path strict =
     (case cl_read C of
        Inl e \<Rightarrow> Cli_Error [] (''failed to read config: '' @ e)
      | Inr content \<Rightarrow>
          (let schema_errors = cl_schema_errors C content;
               err1 = map (\<lambda>e. ''  '' @ CROSS @ '' schema: '' @ e) schema_errors
           in if schema_errors \<noteq> []
              then Cli_Exit (err1 @ [CROSS @ '' Schema validation failed with '' @ digits_of (length schema_errors) @ '' error(s)'']) 1
              else (let unknown = check_unknown_keys (cl_yaml C content) (cl_schema C);
                        err2 = err1 @ unknown_key_lines strict unknown
                    in if strict \<and> unknown \<noteq> []
                       then Cli_Exit (err2 @ [CROSS @ '' Found '' @ digits_of (length unknown)
                              @ '' unknown top-level key(s) (--strict mode)'']) 1
                       else (case cl_load C of
                               Inl e \<Rightarrow> Cli_Error err2 (''failed to load config: '' @ e)
                             | Inr c0 \<Rightarrow>
                                 (case resolve_all_binary_paths c0 of
                                    None \<Rightarrow> Cli_Panic
                                  | Some c \<Rightarrow>
                                      (case validate_config (cl_validate C) c of
                                         None \<Rightarrow> Cli_Panic
                                       | Some errs \<Rightarrow>
                                           (let err3 = err2 @ map (\<lambda>e. ''  '' @ CROSS @ '' '' @ cl_show_error C e) errs
                                            in if errs = [] then Cli_Ok err3 (line (TICK @ '' Configuration valid: '' @ path))
                                               else Cli_Exit (err3 @ [CROSS @ '' Configuration has ''
                                                      @ digits_of (length errs) @ '' error(s)'']) 1)))))))"


section \<open>\<open>status\<close>\<close>

text \<open>The snapshot as the admin server serializes it.\<close>

definition agent_health_json :: "agent_health \<Rightarrow> json" where
  "agent_health_json a =
     JObj [(''name'', JStr (ah_name a)), (''connected'', JBool (ah_connected a)), (''session_count'', JInt (int (ah_session_count a)))]"

definition health_json :: "health_snapshot \<Rightarrow> json" where
  "health_json h =
     JObj [(''status'', JStr (case hs_status h of Healthy \<Rightarrow> ''healthy'' | Degraded \<Rightarrow> ''degraded'')),
           (''agents'', JArr (map agent_health_json (hs_agents h))),
           (''channels'', JArr (map JStr (hs_channels h))), (''mcp_servers'', JArr (map JStr (hs_mcp_servers h)))]"

definition agent_line :: "json \<Rightarrow> string" where
  "agent_line a =
     (let name = unwrap_or (as_str (jidx a ''name'')) ''unknown''; connected = unwrap_or (as_bool (jidx a ''connected'')) False;
          n = unwrap_or (as_u64 (jidx a ''session_count'')) 0
      in line (''  - '' @ name @ '' ('' @ (if connected then ''connected'' else ''disconnected'')
           @ (if connected then '', '' @ digits_of n @ '' sessions'' else '''') @ '')''))"

definition item_section :: "string \<Rightarrow> string \<Rightarrow> json \<Rightarrow> string" where
  "item_section title none v =
     (case as_array v of
        Some (x # xs) \<Rightarrow> line title @ concat (map (\<lambda>c. line (''  - '' @ unwrap_or (as_str c) ''unknown'')) (x # xs))
      | _ \<Rightarrow> line none)"

definition format_status_output :: "json \<Rightarrow> string" where
  "format_status_output health =
     (case as_array (jidx health ''agents'') of
        Some [] \<Rightarrow> line ''Agents:      (none)''
      | Some agents \<Rightarrow> line ''Agents:'' @ concat (map agent_line agents)
      | None \<Rightarrow>
          (case jget health ''agent'' of
             Some a \<Rightarrow>
               line (''Agent:       '' @ (if unwrap_or (as_bool (jidx a ''connected'')) False then ''connected'' else ''disconnected''))
               @ (case as_str (jidx a ''session_id'') of Some sid \<Rightarrow> line (''  Session:   '' @ sid) | None \<Rightarrow> '''')
           | None \<Rightarrow> ''''))
     @ item_section ''Channels:'' ''Channels:    (none)'' (jidx health ''channels'')
     @ item_section ''MCP Servers:'' ''MCP Servers: (none)'' (jidx health ''mcp_servers'')"

text \<open>\<open>run_status\<close>: the answer of the admin server, or why there is none; \<open>main\<close> exits with 1 on an error.\<close>

definition run_status :: "u16 \<Rightarrow> (string + (string + json)) \<Rightarrow> cli_result" where
  "run_status port answer =
     (let url = ''http://127.0.0.1:'' @ digits_of (unat port) @ ''/health''
      in case answer of
           Inl e \<Rightarrow> Cli_Exit [CROSS @ '' Cannot reach anyclaw at '' @ url @ '': '' @ e] 1
         | Inr (Inl e) \<Rightarrow> Cli_Exit [CROSS @ '' Invalid response from '' @ url @ '': '' @ e] 1
         | Inr (Inr health) \<Rightarrow> Cli_Ok [] (format_status_output health))"


section \<open>\<open>init\<close> and the banner\<close>

definition detect_agent_binary :: "(string \<Rightarrow> bool) \<Rightarrow> string option" where
  "detect_agent_binary works = List.find works [''opencode'', ''claude'', ''gemini'']"

definition dq :: "string \<Rightarrow> string" where
  "dq s = [CHR 0x22] @ s @ [CHR 0x22]"

definition generate_config_yaml :: "string \<Rightarrow> string" where
  "generate_config_yaml agent_binary =
     concat (map line
       [''# yaml-language-server: $schema=https://raw.githubusercontent.com/donbader/anyclaw/refs/heads/main/anyclaw.schema.json'',
        ''# Anyclaw configuration'',
        ''# Docs: https://github.com/user/anyclaw'',
        '''',
        ''agents_manager:'',
        ''  agents:'',
        ''    default:'',
        ''      workspace:'',
        ''        type: local'',
        ''        binary: '' @ dq agent_binary,
        ''      args:'',
        ''        - '' @ dq ''acp'',
        '''',
        ''# Channel subprocesses'',
        ''channels_manager:'',
        ''  channels:'',
        ''    debug-http:'',
        ''      binary: '' @ dq ''anyclaw-debug-http'',
        ''      args:'',
        ''        - '' @ dq ''--port'',
        ''        - '' @ dq ''3000'',
        '''',
        ''# MCP tool servers (uncomment to add)'',
        ''# tools_manager:'',
        ''#   tools:'',
        ''#     filesystem:'',
        ''#       binary: '' @ dq ''mcp-server-filesystem'',
        ''#       args:'',
        ''#         - '' @ dq ''--root'',
        ''#         - '' @ dq ''.''])"

text \<open>\<open>run_init\<close>: the result and the content written, if any.\<close>

definition run_init :: "bool \<Rightarrow> (string \<Rightarrow> bool) \<Rightarrow> (string \<Rightarrow> string + unit) \<Rightarrow> string \<Rightarrow> bool \<Rightarrow> cli_result \<times> string option" where
  "run_init exists works write_file path force =
     (if exists \<and> \<not> force then (Cli_Error [] (path @ '' already exists. Use --force to overwrite.''), None)
      else (let found = detect_agent_binary works;
                binary = unwrap_or found ''opencode'';
                err = (if found = None
                       then [''Warning: no known agent binary found on PATH; defaulting to '' @ [CHR 0x27] @ ''opencode'' @ [CHR 0x27]]
                       else []);
                content = generate_config_yaml binary
            in case write_file content of
                 Inl e \<Rightarrow> (Cli_Error err e, None)
               | Inr _ \<Rightarrow>
                   (Cli_Ok err (line (''Created '' @ path)
                      @ (if found \<noteq> None then line (''  Detected agent: '' @ binary) else '''')), Some content)))"

definition format_banner :: "string \<Rightarrow> anyclaw_config \<Rightarrow> string \<Rightarrow> string" where
  "format_banner version c path =
     line (''anyclaw v'' @ version)
     @ concat (map (\<lambda>(name, a). line (''  Agent:    '' @ name @ '' ['' @
         (case ac_workspace a of Ws_Local l \<Rightarrow> soa_display (lw_binary l) | Ws_Docker d \<Rightarrow> ''docker:'' @ dw_image d) @ '']''))
         (amc_agents (cfg_agents_manager c)))
     @ (if amc_agents (cfg_agents_manager c) = [] then line ''  Agent:    (none configured)'' else '''')
     @ concat (map (\<lambda>(name, ch). line (''  Channel:  '' @ name @ '' ('' @ chc_binary ch @ '')''))
         (cmc_channels (cfg_channels_manager c)))
     @ concat (map (\<lambda>(name, t). case tc_binary t of Some b \<Rightarrow> line (''  Tool:     '' @ name @ '' ('' @ b @ '')'') | None \<Rightarrow> '''')
         (tmc_tools (cfg_tools_manager c)))
     @ (if tmc_tools (cfg_tools_manager c) = [] then line ''  Tool:     (none configured)'' else '''')
     @ line (''  Config:   '' @ path)"


section \<open>Properties\<close>

text \<open>What \<open>validate\<close> requires.\<close>

definition acceptable :: "'f cli_env \<Rightarrow> bool \<Rightarrow> anyclaw_config \<Rightarrow> bool" where
  "acceptable C strict c \<longleftrightarrow>
     (case (cl_read C, cl_load C) of
        (Inr content, Inr c0) \<Rightarrow>
          cl_schema_errors C content = []
          \<and> (strict \<longrightarrow> check_unknown_keys (cl_yaml C content) (cl_schema C) = [])
          \<and> resolve_all_binary_paths c0 = Some c \<and> validate_config (cl_validate C) c = Some []
      | _ \<Rightarrow> False)"

lemma validate_ok_iff: "(\<exists>err out. validate_command C path strict = Cli_Ok err out) \<longleftrightarrow> (\<exists>c. acceptable C strict c)"
  by (cases "cl_read C"; cases "cl_load C")
    (auto simp: validate_command_def acceptable_def Let_def split: option.split_asm if_split_asm option.splits)

lemma concat_options_all: "concat_options f xs = Some [] \<Longrightarrow> x \<in> set xs \<Longrightarrow> f x = Some []"
  by (induction xs) (auto split: option.split_asm)


text \<open>
  What \<open>status\<close> prints of the supervisor's snapshot: every agent with its state and its sessions, every channel and
  every tool server.
\<close>

definition status_lines :: "string \<Rightarrow> string \<Rightarrow> string list \<Rightarrow> string" where
  "status_lines title none items =
     (if items = [] then line none else line title @ concat (map (\<lambda>i. line (''  - '' @ i)) items))"

definition agent_text :: "agent_health \<Rightarrow> string" where
  "agent_text a = ah_name a @ (if ah_connected a then '' (connected, '' @ digits_of (ah_session_count a) @ '' sessions)'' else '' (disconnected)'')"

lemma agent_line_json:
  assumes "ah_session_count a < 2 ^ 64"
  shows "agent_line (agent_health_json a) = line (''  - '' @ agent_text a)"
proof -
  have "int (ah_session_count a) < 2 ^ 64" using assms by (metis of_nat_less_iff of_nat_numeral of_nat_power)
  then show ?thesis by (simp add: agent_line_def agent_health_json_def agent_text_def jidx_def hm_get_def)
qed

lemma item_section_json: "item_section title none (JArr (map JStr xs)) = status_lines title none xs"
  by (cases xs) (simp_all add: item_section_def status_lines_def comp_def)

text \<open>
  The status that is printed is the snapshot of the supervisor: sent through the admin server as JSON
  and read back, it lists every agent with its state, every channel and every tool server, in order.
\<close>

lemma status_shows_snapshot:
  assumes "\<forall>a\<in>set (hs_agents h). ah_session_count a < 2 ^ 64"
  shows "format_status_output (health_json h) =
     status_lines ''Agents:'' ''Agents:      (none)'' (map agent_text (hs_agents h))
     @ status_lines ''Channels:'' ''Channels:    (none)'' (hs_channels h)
     @ status_lines ''MCP Servers:'' ''MCP Servers: (none)'' (hs_mcp_servers h)"
proof -
  have "map agent_line (map agent_health_json (hs_agents h)) = map (\<lambda>a. line (''  - '' @ agent_text a)) (hs_agents h)"
    using assms agent_line_json by simp
  then show ?thesis
    by (cases "hs_agents h") (simp_all add: format_status_output_def health_json_def jidx_def hm_get_def item_section_json
      status_lines_def comp_def cong: map_cong)
qed

section \<open>An example\<close>

definition one_agent_config :: anyclaw_config where
  "one_agent_config =
     \<lparr>cfg_log_level = ''info'', cfg_log_format = Log_Pretty, cfg_extensions_dir = ''/opt'',
      cfg_agents_manager = agents_manager_config_default\<lparr>amc_agents := [(''a'', docker_agent)]\<rparr>,
      cfg_channels_manager = channels_manager_config_default, cfg_tools_manager = tools_manager_config_default,
      cfg_supervisor = supervisor_config_default, cfg_session_store = Store_None\<rparr>"

definition plain_cli :: "nat cli_env" where
  "plain_cli =
     \<lparr>cl_read = Inr '''', cl_schema_errors = (\<lambda>_. []), cl_yaml = (\<lambda>_. None), cl_schema = JNull, cl_load = Inr one_agent_config,
      cl_validate = plain_validator, cl_show_error = (\<lambda>_. '''')\<rparr>"

lemma one_agent_resolved: "resolve_all_binary_paths one_agent_config = Some one_agent_config"
  by (simp add: resolve_all_binary_paths_def one_agent_config_def resolve_agent_def docker_agent_def limited_agent_def
    agents_manager_config_default_def channels_manager_config_default_def tools_manager_config_default_def)

lemma one_agent_valid: "validate_config plain_validator one_agent_config = Some []"
proof -
  have "is_valid_host ''127.0.0.1''" by code_simp
  then show ?thesis
    by (simp add: validate_config_def validate_tools_server_host_def validate_agents_def validate_agent_def
      validate_channel_binaries_def validate_tool_binaries_def one_agent_config_def docker_agent_def limited_agent_valid
      agents_manager_config_default_def channels_manager_config_default_def tools_manager_config_default_def
      default_tools_server_host_def List.map_filter_simps)
qed


end
