(* ===== verification/Channel_Child.thy ===== *)
theory Channel_Child
  imports Docker_Backend
begin

text \<open>
  The child process of a channel, the process side of \<open>ChannelConnection\<close> in
  \<open>crates/anyclaw-channels/src/connection.rs\<close>: its command line and environment, its tasks, and the two ways to end it.
  What the operating system answers is an argument.
\<close>

record channel_child =
  cc_connection :: channel_connection
  cc_exited :: bool
  cc_reader :: bool
  cc_writer :: bool
  cc_stderr :: bool

text \<open>The options of the channel become variables of its environment, after the log level; \<open>ser\<close> prints a JSON value.\<close>

definition option_value :: "(json \<Rightarrow> string) \<Rightarrow> json \<Rightarrow> string" where
  "option_value ser v = (case v of JStr s \<Rightarrow> s | other \<Rightarrow> ser other)"

definition channel_command :: "(json \<Rightarrow> string) \<Rightarrow> string option \<Rightarrow> channel_config \<Rightarrow> command" where
  "channel_command ser log_level cfg =
     (let env = (case log_level of Some level \<Rightarrow> [(''RUST_LOG'', level)] | None \<Rightarrow> [])
      in \<lparr>cmd_name = chc_binary cfg, cmd_args = chc_args cfg,
          cmd_env = fold (\<lambda>(k, v) e. hm_insert k (option_value ser v) e) (chc_options cfg) env, cmd_dir = ''.''\<rparr>)"

definition channel_spawn ::
  "(json \<Rightarrow> string) \<Rightarrow> (command \<Rightarrow> string + unit) \<Rightarrow> string option \<Rightarrow> channel_config \<Rightarrow> string \<Rightarrow> channels_error + channel_child" where
  "channel_spawn ser spawn log_level cfg channel_id =
     (case spawn (channel_command ser log_level cfg) of
        Inl e \<Rightarrow> Inl (Ch_SpawnFailed (chc_binary cfg @ '': '' @ e))
      | Inr _ \<Rightarrow> Inr \<lparr>cc_connection = channel_conn_new channel_id, cc_exited = False, cc_reader = True, cc_writer = True,
                       cc_stderr = True\<rparr>)"

definition channel_is_alive :: "channel_child \<Rightarrow> bool" where
  "channel_is_alive c = (\<not> cc_exited c)"

definition channel_kill :: "(string + unit) \<Rightarrow> channel_child \<Rightarrow> (channels_error + unit) \<times> channel_child" where
  "channel_kill os c =
     (case os of
        Inl e \<Rightarrow> (Inl (Ch_Io e), c)
      | Inr _ \<Rightarrow> (Inr (), c\<lparr>cc_exited := True, cc_reader := False, cc_writer := False, cc_stderr := False\<rparr>))"

text \<open>
  \<open>waited\<close> is the outcome of waiting for the child within the time limit: \<open>None\<close> when it has not ended by then, an
  error, or its end.  Aborting the writer closes the standard input of the child.
\<close>

definition graceful_shutdown ::
  "(string + unit) option \<Rightarrow> (string + unit) \<Rightarrow> channel_child \<Rightarrow> (channels_error + unit) \<times> channel_child" where
  "graceful_shutdown waited os c =
     (let c1 = c\<lparr>cc_writer := False\<rparr>
      in case waited of
           Some (Inr _) \<Rightarrow> (Inr (), c1\<lparr>cc_exited := True, cc_reader := False, cc_stderr := False\<rparr>)
         | _ \<Rightarrow> channel_kill os c1)"

text \<open>A shutdown that succeeds leaves neither the process nor a task of the connection behind, however the child behaves.\<close>

lemma graceful_shutdown_ends:
  assumes "graceful_shutdown waited os c = (Inr (), c')"
  shows "\<not> channel_is_alive c' \<and> \<not> cc_reader c' \<and> \<not> cc_writer c' \<and> \<not> cc_stderr c'"
  using assms
  by (cases waited; cases "the waited"; cases os) (auto simp: graceful_shutdown_def channel_kill_def channel_is_alive_def)

text \<open>It fails only when the process can neither be waited for nor killed.\<close>

lemma graceful_shutdown_fails:
  "graceful_shutdown waited os c = (Inl e, c') \<Longrightarrow> (\<forall>u. waited \<noteq> Some (Inr u)) \<and> (\<exists>m. os = Inl m)"
  by (cases waited; cases "the waited"; cases os) (auto simp: graceful_shutdown_def channel_kill_def)

text \<open>Every option of the channel reaches its environment; one named like the variable of the log level wins over it.\<close>

lemma option_in_environment:
  assumes "distinct (map fst (chc_options cfg))" "(k, v) \<in> set (chc_options cfg)"
  shows "hm_get (cmd_env (channel_command ser log_level cfg)) k = Some (option_value ser v)"
proof -
  have other: "hm_get (fold (\<lambda>(k, v) e. hm_insert k (option_value ser v) e) opts env) k = hm_get env k"
    if "k \<notin> fst ` set opts" for opts env
    using that by (induction opts arbitrary: env) (auto simp: hm_get_insert)
  have "hm_get (fold (\<lambda>(k, v) e. hm_insert k (option_value ser v) e) opts env) k = Some (option_value ser v)"
    if "distinct (map fst opts)" "(k, v) \<in> set opts" for opts env
    using that
  proof (induction opts arbitrary: env)
    case (Cons o1 opts)
    show ?case
    proof (cases "o1 = (k, v)")
      case True
      then have "k \<notin> fst ` set opts" using Cons.prems(1) by auto
      then show ?thesis using True other by (simp add: hm_get_insert)
    next
      case False
      then show ?thesis using Cons by auto
    qed
  qed simp
  then show ?thesis using assms by (simp add: channel_command_def Let_def)
qed

end
